(* ===== verification/Prelude.thy ===== *)
theory Prelude
  imports Main "HOL-Library.AList" "HOL-Library.Sublist"
begin

text \<open>
  Vocabulary shared by every component of the device worker.

  \<^item> Go errors: \<open>gerror\<close> is the text of a \<open>fmt.Errorf\<close>, possibly wrapping the error it
    reports; a returned \<open>error\<close> is a \<open>gerror option\<close> and \<open>hashicorp/go-multierror\<close> is the list
    of the errors appended so far.
  \<^item> Effects: \<open>('s, 'r) op\<close> is a call that may change a state \<open>'s\<close> and returns a result or an
    error; \<open>'s proc\<close> is a call that only returns an \<open>error\<close>.
  \<^item> Go maps that the code ranges over are association lists with distinct keys, in the order of
    the iteration (Go leaves the order open, so nothing is proved about one particular order);
    other maps are partial functions.
  \<^item> The string and path functions of Go's standard library that the code uses.
\<close>

named_theorems go_simps \<open>unfolding rules of the small Go vocabulary\<close>

subsection \<open>Errors\<close>

datatype gerror =
    Err string
  | Wrap string gerror
  | Multi "gerror list"

type_synonym merr = "gerror list"

text \<open>\<open>Error()\<close>: the text of an error, with the text of the one it wraps.\<close>

fun error_text :: "gerror \<Rightarrow> string" where
  "error_text (Err s) = s"
| "error_text (Wrap s e) = s @ '': '' @ error_text e"
| "error_text (Multi es) = concat (map (\<lambda>e. ''* '' @ error_text e) es)"

text \<open>The value of a \<open>multierror\<close> variable as an \<open>error\<close>: nil when nothing was appended.\<close>

definition merr_result :: "merr \<Rightarrow> gerror option" where
  "merr_result es = (if es = [] then None else Some (Multi es))"

lemma merr_result_simps [simp]:
  "merr_result [] = None"
  "merr_result es = None \<longleftrightarrow> es = []"
  "es \<noteq> [] \<Longrightarrow> merr_result es = Some (Multi es)"
  by (auto simp: merr_result_def)

text \<open>\<open>if err != nil { errors = multierror.Append(errors, wrap(err)) }\<close>\<close>

definition append_err :: "merr \<Rightarrow> (gerror \<Rightarrow> gerror) \<Rightarrow> gerror option \<Rightarrow> merr" where
  "append_err es w r = (case r of None \<Rightarrow> es | Some e \<Rightarrow> es @ [w e])"

lemma append_err_simps [simp]:
  "append_err es w None = es"
  "append_err es w (Some e) = es @ [w e]"
  by (simp_all add: append_err_def)

lemma append_err_Nil_iff [simp]: "append_err es w r = [] \<longleftrightarrow> es = [] \<and> r = None"
  by (cases r) auto

text \<open>
  Code that may panic (a nil pointer, an index out of range, a failed type assertion) has its
  result in \<open>'a go\<close>.
\<close>

datatype 'a go = Panic | Ret 'a

fun go_bind :: "'a go \<Rightarrow> ('a \<Rightarrow> 'b go) \<Rightarrow> 'b go" where
  "go_bind Panic f = Panic"
| "go_bind (Ret x) f = f x"

lemma go_bind_Ret_iff: "go_bind m f = Ret y \<longleftrightarrow> (\<exists>x. m = Ret x \<and> f x = Ret y)"
  by (cases m) auto

text \<open>Dereferencing a pointer.\<close>

definition deref :: "'a option \<Rightarrow> 'a go" where
  "deref p = (case p of None \<Rightarrow> Panic | Some x \<Rightarrow> Ret x)"

lemma deref_simps [simp]: "deref None = Panic" "deref (Some x) = Ret x"
  by (simp_all add: deref_def)

lemma deref_Ret_iff: "deref p = Ret x \<longleftrightarrow> p = Some x"
  by (cases p) simp_all

subsection \<open>Calls with a state\<close>

type_synonym ('s, 'r) op = "'s \<Rightarrow> (gerror + 'r) \<times> 's"
type_synonym 's proc = "'s \<Rightarrow> gerror option \<times> 's"

text \<open>\<open>if err := p(); err != nil { return err }; q\<close>\<close>

definition then_ok :: "'s proc \<Rightarrow> 's proc \<Rightarrow> 's proc" where
  "then_ok p q s = (case p s of (Some e, s') \<Rightarrow> (Some e, s') | (None, s') \<Rightarrow> q s')"

text \<open>\<open>if err := p(); err != nil { return wrap(err) }\<close>\<close>

definition wrapping :: "(gerror \<Rightarrow> gerror) \<Rightarrow> 's proc \<Rightarrow> 's proc" where
  "wrapping w p s = (case p s of (r, s') \<Rightarrow> (map_option w r, s'))"

text \<open>\<open>x, err := p(); if err != nil { return err }; q(x)\<close>\<close>

definition bind_ok :: "('s, 'r) op \<Rightarrow> ('r \<Rightarrow> 's proc) \<Rightarrow> 's proc" where
  "bind_ok p q s = (case p s of (Inl e, s') \<Rightarrow> (Some e, s') | (Inr x, s') \<Rightarrow> q x s')"

definition ok :: "'s proc" where
  "ok s = (None, s)"

lemma then_ok_None_iff:
  "then_ok p q s = (None, s'') \<longleftrightarrow> (\<exists>s'. p s = (None, s') \<and> q s' = (None, s''))"
  by (auto simp: then_ok_def split: prod.splits option.splits)

lemma then_ok_cases:
  "p s = (None, s') \<Longrightarrow> then_ok p q s = q s'"
  "p s = (Some e, s') \<Longrightarrow> then_ok p q s = (Some e, s')"
  by (simp_all add: then_ok_def)

lemma wrapping_None_iff: "wrapping w p s = (None, s') \<longleftrightarrow> p s = (None, s')"
  by (cases "p s") (auto simp: wrapping_def)

lemma bind_ok_None_iff:
  "bind_ok p q s = (None, s'') \<longleftrightarrow> (\<exists>x s'. p s = (Inr x, s') \<and> q x s' = (None, s''))"
  by (auto simp: bind_ok_def split: prod.splits sum.splits)

lemma ok_apply [simp]: "ok s = (None, s)"
  by (simp add: ok_def)

lemmas [go_simps] = then_ok_def wrapping_def bind_ok_def

text \<open>
  \<open>encoding/json\<close> on a type: a parameter of the components that store files. What they rely on is
  that decoding what was encoded gives the value back.
\<close>

record 'a codec =
  cd_marshal :: "'a \<Rightarrow> gerror + string"
  cd_unmarshal :: "string \<Rightarrow> gerror + 'a"

definition codec_inverts :: "'a codec \<Rightarrow> 'a \<Rightarrow> bool" where
  "codec_inverts J x \<longleftrightarrow> (\<exists>j. cd_marshal J x = Inr j \<and> cd_unmarshal J j = Inr x)"

subsection \<open>Association lists\<close>

text \<open>Well-formed Go maps: no key twice.\<close>

abbreviation wf_map :: "('k \<times> 'v) list \<Rightarrow> bool" where
  "wf_map m \<equiv> distinct (map fst m)"

lemma wf_map_update [simp]: "wf_map m \<Longrightarrow> wf_map (AList.update k v m)"
  by (simp add: distinct_update)

lemma wf_map_delete [simp]: "wf_map m \<Longrightarrow> wf_map (AList.delete k m)"
  by (simp add: distinct_delete)

lemma map_of_update [simp]: "map_of (AList.update k v m) = (map_of m)(k \<mapsto> v)"
  by (rule update_conv')

lemma map_of_delete [simp]: "map_of (AList.delete k m) = (map_of m)(k := None)"
  by (rule delete_conv')

lemma map_of_map_values [simp]: "map_of (map (map_prod (\<lambda>k. k) f) m) k = map_option f (map_of m k)"
  by (induction m) auto

lemma map_of_delete_other: "k' \<noteq> k \<Longrightarrow> map_of (AList.delete k m) k' = map_of m k'"
  by simp

lemma fst_set_delete: "fst ` set (AList.delete k m) = fst ` set m - {k}"
proof -
  have "dom (map_of (AList.delete k m)) = dom (map_of m) - {k}"
    by (auto split: if_splits)
  then show ?thesis by (simp only: dom_map_of_conv_image_fst)
qed

text \<open>Reading a missing key of a Go map gives the zero value of its type.\<close>

definition map_get :: "'v \<Rightarrow> ('k \<rightharpoonup> 'v) \<Rightarrow> 'k \<Rightarrow> 'v" where
  "map_get z m k = (case m k of None \<Rightarrow> z | Some v \<Rightarrow> v)"

lemma map_get_simps [simp]:
  "m k = None \<Longrightarrow> map_get z m k = z"
  "m k = Some v \<Longrightarrow> map_get z m k = v"
  by (simp_all add: map_get_def)

text \<open>Building a map from a slice: later entries overwrite earlier ones.\<close>

definition index_by :: "('a \<Rightarrow> 'k) \<Rightarrow> 'a list \<Rightarrow> ('k \<rightharpoonup> 'a)" where
  "index_by f xs = fold (\<lambda>x m. m(f x \<mapsto> x)) xs Map.empty"

lemma fold_map_upd:
  "fold (\<lambda>x m. m(f x \<mapsto> g x)) xs m0 = m0 ++ map_of (rev (map (\<lambda>x. (f x, g x)) xs))"
  by (induction xs arbitrary: m0) simp_all

lemma index_by_map_of: "index_by f xs = map_of (rev (map (\<lambda>x. (f x, x)) xs))"
  by (simp add: index_by_def fold_map_upd [where g = "\<lambda>x. x"])

lemma index_by_SomeD: "index_by f xs k = Some x \<Longrightarrow> x \<in> set xs \<and> f x = k"
  by (auto simp: index_by_map_of dest!: map_of_SomeD)

lemma dom_index_by: "dom (index_by f xs) = f ` set xs"
  by (simp add: index_by_map_of dom_map_of_conv_image_fst image_image)

lemma index_by_distinct:
  assumes "distinct (map f xs)" and "x \<in> set xs"
  shows "index_by f xs (f x) = Some x"
proof -
  have "distinct (map fst (rev (map (\<lambda>x. (f x, x)) xs)))"
    using assms(1) by (simp add: rev_map [symmetric] comp_def)
  moreover have "(f x, x) \<in> set (rev (map (\<lambda>x. (f x, x)) xs))"
    using assms(2) by auto
  ultimately show ?thesis
    by (simp add: index_by_map_of)
qed

subsection \<open>Strings\<close>

text \<open>\<open>strings.Contains(s, sub)\<close>\<close>

fun str_contains :: "string \<Rightarrow> string \<Rightarrow> bool" where
  "str_contains [] sub = (sub = [])"
| "str_contains (c # s) sub = (take (length sub) (c # s) = sub \<or> str_contains s sub)"

lemma str_contains_iff_sublist: "str_contains s sub \<longleftrightarrow> sublist sub s"
proof (induction s)
  case Nil
  then show ?case by simp
next
  case (Cons c s)
  have "take (length sub) (c # s) = sub \<longleftrightarrow> prefix sub (c # s)"
    by (metis append_eq_conv_conj append_take_drop_id prefix_def)
  with Cons show ?case by (simp add: sublist_Cons_right)
qed

text \<open>\<open>strings.ReplaceAll(s, " ", "-")\<close>\<close>

definition spaces_to_dashes :: "string \<Rightarrow> string" where
  "spaces_to_dashes s = map (\<lambda>c. if c = CHR '' '' then CHR ''-'' else c) s"

text \<open>\<open>strings.Split(s, c)\<close> and \<open>strings.Join(xs, sep)\<close> for a one-character separator.\<close>

fun split_on :: "char \<Rightarrow> string \<Rightarrow> string list" where
  "split_on c [] = [[]]"
| "split_on c (x # xs) =
     (if x = c then [] # split_on c xs
      else (case split_on c xs of [] \<Rightarrow> [[x]] | y # ys \<Rightarrow> (x # y) # ys))"

fun join_with :: "string \<Rightarrow> string list \<Rightarrow> string" where
  "join_with sep [] = []"
| "join_with sep [x] = x"
| "join_with sep (x # y # ys) = x @ sep @ join_with sep (y # ys)"

lemma split_on_nonempty [simp]: "split_on c s \<noteq> []"
  by (induction s) (auto split: list.splits)

lemma join_with_Cons: "xs \<noteq> [] \<Longrightarrow> join_with sep (x # xs) = x @ sep @ join_with sep xs"
  by (cases xs) simp_all

lemma join_split: "join_with [c] (split_on c s) = s"
proof (induction s)
  case Nil
  then show ?case by simp
next
  case (Cons x s)
  obtain y ys where ys: "split_on c s = y # ys"
    by (cases "split_on c s") auto
  show ?case
  proof (cases "x = c")
    case True
    with Cons show ?thesis by (simp add: join_with_Cons)
  next
    case False
    with Cons ys show ?thesis by (cases ys) simp_all
  qed
qed

lemma split_on_no_sep: "x \<in> set (split_on c s) \<Longrightarrow> c \<notin> set x"
proof (induction s arbitrary: x)
  case Nil
  then show ?case by simp
next
  case (Cons a s)
  then show ?case by (fastforce split: if_splits list.splits)
qed

lemma split_on_word: "c \<notin> set x \<Longrightarrow> split_on c x = [x]"
  by (induction x) auto

lemma split_on_append: "c \<notin> set x \<Longrightarrow> split_on c (x @ c # s) = x # split_on c s"
  by (induction x) auto

lemma split_join:
  "xs \<noteq> [] \<Longrightarrow> (\<And>x. x \<in> set xs \<Longrightarrow> c \<notin> set x) \<Longrightarrow> split_on c (join_with [c] xs) = xs"
proof (induction xs)
  case Nil
  then show ?case by simp
next
  case (Cons x xs)
  then show ?case
    by (cases xs) (simp_all add: split_on_append split_on_word)
qed

subsection \<open>Paths\<close>

text \<open>
  \<open>path.Join\<close>: the non-empty elements joined by a slash, then cleaned (\<open>path.Clean\<close>): empty and
  \<open>.\<close> components are dropped and \<open>..\<close> removes the component before it.
\<close>

fun clean_components :: "bool \<Rightarrow> string list \<Rightarrow> string list \<Rightarrow> string list" where
  "clean_components rooted acc [] = rev acc"
| "clean_components rooted acc (c # cs) =
     (if c = [] \<or> c = ''.'' then clean_components rooted acc cs
      else if c = ''..'' then
        (case acc of
           [] \<Rightarrow> clean_components rooted (if rooted then [] else [''..'']) cs
         | a # as \<Rightarrow> clean_components rooted (if a = ''..'' then ''..'' # acc else as) cs)
      else clean_components rooted (c # acc) cs)"

definition path_clean :: "string \<Rightarrow> string" where
  "path_clean p =
     (let rooted = (take 1 p = ''/'');
          body = join_with ''/'' (clean_components rooted [] (split_on CHR ''/'' p))
      in if rooted then ''/'' @ body else if body = [] then ''.'' else body)"

definition path_join :: "string list \<Rightarrow> string" where
  "path_join xs =
     (let es = filter (\<lambda>x. x \<noteq> []) xs
      in if es = [] then [] else path_clean (join_with ''/'' es))"

text \<open>A plain file name: what a path component has to be for \<open>path_join\<close> to keep it.\<close>

definition plain_component :: "string \<Rightarrow> bool" where
  "plain_component c \<longleftrightarrow> c \<noteq> [] \<and> c \<noteq> ''.'' \<and> c \<noteq> ''..'' \<and> CHR ''/'' \<notin> set c"

lemma clean_components_append:
  "plain_component c \<Longrightarrow>
   clean_components r acc (cs @ [c]) = clean_components r acc cs @ [c]"
  by (induction r acc cs rule: clean_components.induct)
     (auto simp: plain_component_def split: list.splits)

lemma split_on_append_word:
  "c \<notin> set x \<Longrightarrow> split_on c (s @ c # x) = split_on c s @ [x]"
  by (induction s) (auto simp: split_on_word split: list.splits)

lemma join_with_snoc: "xs \<noteq> [] \<Longrightarrow> join_with sep (xs @ [x]) = join_with sep xs @ sep @ x"
  by (induction sep xs rule: join_with.induct) auto

text \<open>Joining a rooted directory with a plain name appends that name to the cleaned directory.\<close>

lemma path_join_plain:
  assumes "d = CHR ''/'' # d'" and "plain_component c"
  shows "path_join [d, c] =
    (let cs = clean_components True [] (split_on CHR ''/'' d)
     in ''/'' @ join_with ''/'' (cs @ [c]))"
proof -
  have "split_on CHR ''/'' (d @ CHR ''/'' # c) = split_on CHR ''/'' d @ [c]"
    using assms(2) by (intro split_on_append_word) (simp add: plain_component_def)
  with assms show ?thesis
    by (simp add: path_join_def path_clean_def Let_def plain_component_def
        clean_components_append [OF assms(2)])
qed

lemma split_on_suffix:
  assumes "c \<notin> set t"
  shows "\<exists>xs y. split_on c s = xs @ [y] \<and> split_on c (s @ t) = xs @ [y @ t]"
proof (induction s)
  case Nil
  show ?case using split_on_word [OF assms] by simp
next
  case (Cons a s)
  then obtain xs y where xs: "split_on c s = xs @ [y]" "split_on c (s @ t) = xs @ [y @ t]" by blast
  show ?case
  proof (cases "a = c")
    case True
    then show ?thesis using xs by (intro exI [of _ "[] # xs"]) simp
  next
    case False
    show ?thesis
    proof (cases xs)
      case Nil
      then show ?thesis using xs False by (intro exI [of _ "[]"] exI [of _ "a # y"]) simp
    next
      case (Cons z zs)
      then show ?thesis using xs False by (intro exI [of _ "(a # z) # zs"]) simp
    qed
  qed
qed

text \<open>Joining never touches a suffix that cannot be part of \<open>.\<close> or \<open>..\<close>.\<close>

lemma path_join_suffix:
  assumes "d = CHR ''/'' # d'" and "CHR ''/'' \<notin> set t" and "2 < length t"
  shows "\<exists>q. path_join [d, u @ t] = q @ t"
proof -
  obtain xs y where xs: "split_on CHR ''/'' (d @ CHR ''/'' # u) = xs @ [y]"
      "split_on CHR ''/'' ((d @ CHR ''/'' # u) @ t) = xs @ [y @ t]"
    using split_on_suffix [OF assms(2)] by blast
  have "CHR ''/'' \<notin> set y"
    using split_on_no_sep [of y "CHR ''/''" "d @ CHR ''/'' # u"] xs(1) by simp
  then have "plain_component (y @ t)"
    using assms(2,3) by (auto simp: plain_component_def append_eq_Cons_conv)
  then have c: "clean_components True [] (xs @ [y @ t]) = clean_components True [] xs @ [y @ t]"
    by (rule clean_components_append)
  have "u @ t \<noteq> []" using assms(3) by auto
  then have "path_join [d, u @ t] = ''/'' @ join_with ''/'' (clean_components True [] xs @ [y @ t])"
    using assms(1) xs(2) c by (simp add: path_join_def path_clean_def Let_def)
  then show ?thesis
    by (cases "clean_components True [] xs = []") (auto simp: join_with_snoc)
qed

lemma clean_components_plain:
  "\<forall>c \<in> set acc. plain_component c \<Longrightarrow> \<forall>c \<in> set cs. CHR ''/'' \<notin> set c \<Longrightarrow>
   \<forall>c \<in> set (clean_components True acc cs). plain_component c"
proof (induction cs arbitrary: acc)
  case (Cons c cs)
  show ?case
  proof (cases "c = ''..''")
    case True
    have "\<forall>c \<in> set (clean_components True (tl acc) cs). plain_component c"
      using Cons.prems by (intro Cons.IH) (cases acc; simp)+
    moreover have "clean_components True acc (c # cs) = clean_components True (tl acc) cs"
      using True Cons.prems(1) by (cases acc) (auto simp: plain_component_def)
    ultimately show ?thesis by (simp only: simp_thms)
  next
    case False
    show ?thesis
    proof (cases "c = [] \<or> c = ''.''")
      case True
      then have "clean_components True acc (c # cs) = clean_components True acc cs" by auto
      moreover have "\<forall>c \<in> set (clean_components True acc cs). plain_component c"
        using Cons.prems by (intro Cons.IH) auto
      ultimately show ?thesis by (simp only: simp_thms)
    next
      case plain: False
      then have "clean_components True acc (c # cs) = clean_components True (c # acc) cs"
        using False by auto
      moreover have "\<forall>c \<in> set (clean_components True (c # acc) cs). plain_component c"
        using Cons.prems plain False by (intro Cons.IH) (auto simp: plain_component_def)
      ultimately show ?thesis by (simp only: simp_thms)
    qed
  qed
qed simp

lemma clean_components_id:
  "\<forall>c \<in> set cs. plain_component c \<Longrightarrow> clean_components r acc cs = rev acc @ cs"
  by (induction cs arbitrary: acc) (simp_all add: plain_component_def)

text \<open>Joining a plain name to a path that is a result of \<open>path_join\<close> appends it.\<close>

lemma path_join_nested:
  assumes "d = CHR ''/'' # d'" and "p = path_join (d # xs)" and "p \<noteq> ''/''" and "plain_component c"
  shows "path_join [p, c] = p @ ''/'' @ c"
proof -
  let ?s = "join_with ''/'' (filter (\<lambda>x. x \<noteq> []) (d # xs))"
  define ds where "ds = clean_components True [] (split_on CHR ''/'' ?s)"
  have "take 1 ?s = ''/''"
    using assms(1) by (cases "filter (\<lambda>x. x \<noteq> []) xs") simp_all
  then have p: "p = ''/'' @ join_with ''/'' ds"
    using assms(1,2) by (simp add: path_join_def path_clean_def ds_def Let_def)
  have pl: "\<forall>c \<in> set ds. plain_component c"
    unfolding ds_def using split_on_no_sep by (intro clean_components_plain) auto
  have "ds \<noteq> []" using p assms(3) by auto
  then have "split_on CHR ''/'' p = [] # ds"
    using p pl split_join [of ds "CHR ''/''"] by (simp add: plain_component_def)
  then have "clean_components True [] (split_on CHR ''/'' p) = ds"
    using clean_components_id [OF pl, of True "[]"] by simp
  then show ?thesis
    using path_join_plain [OF _ assms(4), of p] p \<open>ds \<noteq> []\<close> by (simp add: join_with_snoc)
qed

lemma path_join_plain_inj:
  assumes "d = CHR ''/'' # d'" and "plain_component a" and "plain_component b"
    and "path_join [d, a] = path_join [d, b]"
  shows "a = b"
proof -
  let ?cs = "clean_components True [] (split_on CHR ''/'' d)"
  have "join_with ''/'' (?cs @ [a]) = join_with ''/'' (?cs @ [b])"
    using assms(4) path_join_plain [OF assms(1,2)] path_join_plain [OF assms(1,3)]
    by (simp add: Let_def)
  then show ?thesis
    by (cases "?cs = []") (simp_all add: join_with_snoc)
qed

lemma list_all_upd: "list_all P xs \<Longrightarrow> (i < length xs \<Longrightarrow> P x) \<Longrightarrow> list_all P (xs[i := x])"
  by (induction xs arbitrary: i) (auto split: nat.splits)

subsection \<open>Interface of the stores keyed by a name\<close>

text \<open>
  Several components keep a Go map of objects that know their own key. The interface their clients
  use: put an object, look a key up, delete a key.
\<close>

locale keyed_store =
  fixes key :: "'v \<Rightarrow> 'k"
    and put :: "'v \<Rightarrow> 's \<Rightarrow> 's"
    and get :: "'s \<Rightarrow> 'k \<Rightarrow> 'v option"
    and del :: "'k \<Rightarrow> 's \<Rightarrow> 's"
  assumes get_put: "get (put v s) k = (if k = key v then Some v else get s k)"
    and get_del: "get (del k s) k' = (if k' = k then None else get s k')"
begin

lemma get_put_all:
  "get (fold put vs s) k = (case index_by key vs k of None \<Rightarrow> get s k | Some v \<Rightarrow> Some v)"
proof (induction vs rule: rev_induct)
  case Nil
  then show ?case by (simp add: index_by_def)
next
  case (snoc v vs)
  then show ?case by (auto simp: get_put index_by_def split: option.splits)
qed

lemma get_del_all: "get (fold del ks s) k = (if k \<in> set ks then None else get s k)"
  by (induction ks rule: rev_induct) (auto simp: get_del)

text \<open>Deleting the keys that are not wanted and putting the wanted objects leaves just those.\<close>

lemma sync:
  assumes "\<And>k. get s k \<noteq> None \<Longrightarrow> k \<in> key ` set vs \<or> k \<in> set ks" and "set ks \<inter> key ` set vs = {}"
  shows "get (fold put vs (fold del ks s)) k = index_by key vs k"
proof (cases "index_by key vs k")
  case None
  then have "k \<notin> key ` set vs"
    using dom_index_by [of key vs] by blast
  with None assms(1) [of k] show ?thesis
    by (auto simp: get_put_all get_del_all)
qed (simp add: get_put_all)

end

subsection \<open>Reachable states\<close>

text \<open>What a step relation leads to from a state, and the invariants of that.\<close>

inductive reach :: "('s \<Rightarrow> 's \<Rightarrow> bool) \<Rightarrow> 's \<Rightarrow> 's \<Rightarrow> bool" for step s0 where
  here: "reach step s0 s0"
| further: "reach step s0 s \<Longrightarrow> step s s' \<Longrightarrow> reach step s0 s'"

lemma reach_one: "step s s' \<Longrightarrow> reach step s s'"
  by (rule reach.further [of step, OF reach.here])

lemma reach_trans: "reach step t u \<Longrightarrow> reach step s t \<Longrightarrow> reach step s u"
  by (induction rule: reach.induct) (auto intro: reach.further)

lemma reach_keeps:
  assumes "reach step s0 s" and "I s0" and "\<And>t u. step t u \<Longrightarrow> I t \<Longrightarrow> I u"
  shows "I s"
  using assms by (induction rule: reach.induct) blast+

end
