(* ===== verification/Models.thy ===== *)
theory Models
  imports Prelude "HOL-Library.Word" "HOL-Library.AList_Mapping"
begin

text \<open>
  The message types of \<open>flotta-operator/models\<close> that the worker exchanges with its control
  plane, field by field. A pointer to a struct is an \<open>option\<close> (nil is \<open>None\<close>). Slices and maps
  inside a configuration or a workload are compared by \<open>reflect.DeepEqual\<close>, which tells nil from
  empty: they are \<open>option\<close>s of lists and of partial functions, read through \<open>elems\<close> and
  \<open>entries\<close>, and on these types HOL equality is \<open>DeepEqual\<close>. Where the code ranges over such a map,
  the model's operation takes the order of the keys as an argument. 32- and 64-bit integers keep
  their width where the code computes with them; the other counters are \<open>int\<close>.
\<close>

type_synonym 'a slice = "'a list option"
type_synonym 'v gomap = "(string \<rightharpoonup> 'v) option"

definition elems :: "'a slice \<Rightarrow> 'a list" where
  "elems s = (case s of None \<Rightarrow> [] | Some xs \<Rightarrow> xs)"

definition entries :: "'v gomap \<Rightarrow> (string \<rightharpoonup> 'v)" where
  "entries m = (case m of None \<Rightarrow> Map.empty | Some f \<Rightarrow> f)"

lemma elems_simps [simp]: "elems None = []" "elems (Some xs) = xs"
  by (simp_all add: elems_def)

lemma entries_simps [simp]: "entries None = Map.empty" "entries (Some f) = f"
  by (simp_all add: entries_def)

text \<open>Maps of labels and annotations, which are searched by key and copied as a whole.\<close>

type_synonym labels = "(string, string) mapping option"

definition label_map :: "labels \<Rightarrow> (string, string) mapping" where
  "label_map m = (case m of None \<Rightarrow> Mapping.empty | Some f \<Rightarrow> f)"

lemma label_map_simps [simp]: "label_map None = Mapping.empty" "label_map (Some f) = f"
  by (simp_all add: label_map_def)

lemma mapping_update_present: "Mapping.lookup m k = Some v \<Longrightarrow> Mapping.update k v m = m"
  by (rule mapping_eqI) (auto simp: lookup_update')

text \<open>An order in which \<open>range\<close> may enumerate a map: every key once.\<close>

definition key_order :: "(string \<rightharpoonup> 'v) \<Rightarrow> string list \<Rightarrow> bool" where
  "key_order m ks \<longleftrightarrow> distinct ks \<and> set ks = dom m"

subsection \<open>Workloads and secrets\<close>

record metrics_allow_list =
  al_names :: "string slice"

record container_metrics =
  cm_disabled :: bool
  cm_path :: string
  cm_port :: int

record workload_metrics =
  wm_allow_list :: "metrics_allow_list option"
  wm_containers :: "container_metrics gomap"
  wm_interval :: int
  wm_path :: string
  wm_port :: int

record data_path =
  dp_source :: string
  dp_target :: string

record data_configuration =
  dc_egress :: "data_path slice"
  dc_ingress :: "data_path slice"

record workload =
  wl_annotations :: labels
  wl_configmaps :: "string slice"
  wl_data :: "data_configuration option"
  wl_image_registries :: "string option"   \<comment> \<open>\<open>ImageRegistries.AuthFile\<close>\<close>
  wl_labels :: labels
  wl_log_collection :: string
  wl_metrics :: "workload_metrics option"
  wl_name :: string
  wl_namespace :: string
  wl_specification :: string

record secret =
  sec_data :: string
  sec_name :: string

record event_info =
  ev_message :: string
  ev_reason :: string
  ev_type :: string

record workload_info =
  wi_id :: string
  wi_name :: string
  wi_status :: string

subsection \<open>Device configuration\<close>

record hardware_profile =
  hp_include :: bool
  hp_scope :: string

record heartbeat_configuration =
  hc_hardware_profile :: "hardware_profile option"
  hc_period_seconds :: int

record component_metrics =
  cmp_allow_list :: "metrics_allow_list option"
  cmp_disabled :: bool
  cmp_interval :: int

record metrics_receiver =
  mr_ca_cert :: string
  mr_request_num_samples :: int
  mr_timeout_seconds :: "64 word"
  mr_url :: string

record metrics_retention =
  ret_max_hours :: "32 word"
  ret_max_mib :: "32 word"

record metrics_configuration =
  mc_data_transfer :: "component_metrics option"
  mc_receiver :: "metrics_receiver option"
  mc_retention :: "metrics_retention option"
  mc_system :: "component_metrics option"

record os_information =
  osi_automatically_upgrade :: bool
  osi_commit_id :: string
  osi_hosted_objects_url :: string

record s3_configuration =
  s3_access_key_id :: string
  s3_ca_bundle :: string
  s3_secret_access_key :: string
  s3_bucket_host :: string
  s3_bucket_name :: string
  s3_bucket_port :: int
  s3_bucket_region :: string

record syslog_configuration =
  sl_address :: string
  sl_protocol :: string

record log_collection =
  lc_buffer_size :: "32 word"
  lc_kind :: string
  lc_syslog :: "syslog_configuration option"

record mount =
  mnt_device :: string
  mnt_directory :: string
  mnt_options :: string
  mnt_type :: string

text \<open>\<open>Storage\<close> is nil, or a struct whose \<open>S3\<close> pointer may be nil.\<close>

record device_configuration =
  cfg_ansible_manager :: "int option"   \<comment> \<open>\<open>AnsibleManager.PeriodSeconds\<close>\<close>
  cfg_heartbeat :: "heartbeat_configuration option"
  cfg_log_collection :: "log_collection gomap"
  cfg_metrics :: "metrics_configuration option"
  cfg_mounts :: "mount slice"
  cfg_os :: "os_information option"
  cfg_storage :: "s3_configuration option option"

record config_message =
  msg_configuration :: "device_configuration option"
  msg_device_id :: string
  msg_secrets :: "secret list"
  msg_version :: string
  msg_workloads :: "workload list"
  msg_workloads_monitoring_interval :: int

text \<open>The zero value of \<open>models.DeviceConfigurationMessage\<close>.\<close>

definition zero_message :: config_message where
  "zero_message = \<lparr>msg_configuration = None, msg_device_id = [], msg_secrets = [],
     msg_version = [], msg_workloads = [], msg_workloads_monitoring_interval = 0\<rparr>"

text \<open>A device configuration with every optional section absent, used by the examples.\<close>

definition empty_device_configuration :: device_configuration where
  "empty_device_configuration = \<lparr>cfg_ansible_manager = None, cfg_heartbeat = None,
     cfg_log_collection = None, cfg_metrics = None, cfg_mounts = None, cfg_os = None,
     cfg_storage = None\<rparr>"

definition message_with :: "device_configuration \<Rightarrow> config_message" where
  "message_with c = zero_message\<lparr>msg_configuration := Some c\<rparr>"

subsection \<open>Hardware\<close>

record net_interface =
  if_ipv4 :: "string list"
  if_ipv6 :: "string list"
  if_flags :: "string list"

record host_device =
  hd_device_type :: string
  hd_gid :: int
  hd_major :: int
  hd_minor :: int
  hd_path :: string
  hd_uid :: int

record cpu_info =
  cpu_architecture :: string
  cpu_flags :: "string list"
  cpu_model_name :: string

record system_vendor =
  sv_manufacturer :: string
  sv_product_name :: string
  sv_serial_number :: string
  sv_virtual :: bool

text \<open>
  The fields of \<open>models.HardwareInfo\<close> and \<open>models.Interface\<close> that the worker writes; it leaves
  the others at their zero value.
\<close>

record hardware_info =
  hi_cpu :: "cpu_info option"
  hi_host_devices :: "host_device list"
  hi_hostname :: string
  hi_interfaces :: "net_interface list"
  hi_mounts :: "mount list"
  hi_system_vendor :: "system_vendor option"

definition empty_hardware_info :: hardware_info where
  "empty_hardware_info = \<lparr>hi_cpu = None, hi_host_devices = [], hi_hostname = [],
     hi_interfaces = [], hi_mounts = [], hi_system_vendor = None\<rparr>"

definition example_workload :: "string \<Rightarrow> workload" where
  "example_workload n = \<lparr>wl_annotations = None, wl_configmaps = None, wl_data = None,
     wl_image_registries = None, wl_labels = None, wl_log_collection = [], wl_metrics = None,
     wl_name = n, wl_namespace = [], wl_specification = []\<rparr>"

end
