(* ===== verification/File_System.thy ===== *)
theory File_System
  imports Prelude
begin

text \<open>
  The calls of Go's \<open>os\<close> package the worker makes, on an explicit file system: the contents of
  the files, the existing directories, and the paths on which every changing call fails
  (permissions, a full disk). A call returns its error and the file system after it.
\<close>

record fs =
  fs_files :: "string \<rightharpoonup> string"
  fs_dirs :: "string set"
  fs_denied :: "string set"

definition err_not_exist :: gerror where
  "err_not_exist = Err ''file does not exist''"

definition err_denied :: gerror where
  "err_denied = Err ''permission denied''"

text \<open>\<open>os.IsNotExist\<close>\<close>

definition is_not_exist :: "gerror \<Rightarrow> bool" where
  "is_not_exist e \<longleftrightarrow> e = err_not_exist"

definition parent_dir :: "string \<Rightarrow> string" where
  "parent_dir p = rev (tl (dropWhile (\<lambda>c. c \<noteq> CHR ''/'') (rev p)))"

text \<open>A path below a directory, or the directory itself.\<close>

definition below :: "string \<Rightarrow> string \<Rightarrow> bool" where
  "below d p \<longleftrightarrow> p = d \<or> take (length d + 1) p = d @ ''/''"

definition read_file :: "string \<Rightarrow> fs \<Rightarrow> gerror + string" where
  "read_file p f = (case fs_files f p of None \<Rightarrow> Inl err_not_exist | Some c \<Rightarrow> Inr c)"

definition stat_ok :: "string \<Rightarrow> fs \<Rightarrow> bool" where
  "stat_ok p f \<longleftrightarrow> p \<in> fs_dirs f \<or> fs_files f p \<noteq> None"

definition write_file :: "string \<Rightarrow> string \<Rightarrow> fs proc" where
  "write_file p c f =
     (if p \<in> fs_denied f then (Some err_denied, f)
      else if p \<in> fs_dirs f then (Some (Err ''is a directory''), f)
      else if parent_dir p \<notin> fs_dirs f then (Some err_not_exist, f)
      else (None, f\<lparr>fs_files := (fs_files f)(p \<mapsto> c)\<rparr>))"

definition remove_file :: "string \<Rightarrow> fs proc" where
  "remove_file p f =
     (if p \<in> fs_denied f then (Some err_denied, f)
      else if fs_files f p = None then (Some err_not_exist, f)
      else (None, f\<lparr>fs_files := (fs_files f)(p := None)\<rparr>))"

text \<open>\<open>os.RemoveAll\<close>: nothing to remove is no error.\<close>

definition remove_all :: "string \<Rightarrow> fs proc" where
  "remove_all p f =
     (if p \<in> fs_denied f then (Some err_denied, f)
      else (None, f\<lparr>fs_files := (\<lambda>q. if below p q then None else fs_files f q),
                    fs_dirs := {d \<in> fs_dirs f. \<not> below p d}\<rparr>))"

text \<open>\<open>os.MkdirAll\<close>: the directory and its missing ancestors.\<close>

fun ancestors :: "nat \<Rightarrow> string \<Rightarrow> string list" where
  "ancestors 0 p = [p]"
| "ancestors (Suc n) p = (if p = [] then [] else p # ancestors n (parent_dir p))"

definition mkdir_all :: "string \<Rightarrow> fs proc" where
  "mkdir_all p f =
     (if p \<in> fs_denied f then (Some err_denied, f)
      else if fs_files f p \<noteq> None then (Some (Err ''not a directory''), f)
      else (None, f\<lparr>fs_dirs := fs_dirs f \<union> set (ancestors (length p) p)\<rparr>))"

subsection \<open>Laws\<close>

lemma read_write: "write_file p c f = (None, f') \<Longrightarrow> read_file p f' = Inr c"
  by (auto simp: write_file_def read_file_def split: if_splits)

lemma read_write_other:
  "write_file p c f = (r, f') \<Longrightarrow> q \<noteq> p \<Longrightarrow> read_file q f' = read_file q f"
  by (auto simp: write_file_def read_file_def split: if_splits)

lemma write_file_error_unchanged: "write_file p c f = (Some e, f') \<Longrightarrow> f' = f"
  by (auto simp: write_file_def split: if_splits)

lemma remove_file_error_unchanged: "remove_file p f = (Some e, f') \<Longrightarrow> f' = f"
  by (auto simp: remove_file_def split: if_splits)

lemma read_remove: "remove_file p f = (None, f') \<Longrightarrow> read_file p f' = Inl err_not_exist"
  by (auto simp: remove_file_def read_file_def split: if_splits)

lemma read_remove_other:
  "remove_file p f = (r, f') \<Longrightarrow> q \<noteq> p \<Longrightarrow> read_file q f' = read_file q f"
  by (auto simp: remove_file_def read_file_def split: if_splits)

lemma read_remove_all:
  "remove_all p f = (None, f') \<Longrightarrow>
   read_file q f' = (if below p q then Inl err_not_exist else read_file q f)"
  by (auto simp: remove_all_def read_file_def split: if_splits)

lemma remove_all_error_unchanged: "remove_all p f = (Some e, f') \<Longrightarrow> f' = f"
  by (auto simp: remove_all_def split: if_splits)

lemma mkdir_all_files: "mkdir_all p f = (r, f') \<Longrightarrow> fs_files f' = fs_files f"
  by (auto simp: mkdir_all_def split: if_splits)

lemma mkdir_all_stat: "mkdir_all p f = (None, f') \<Longrightarrow> p \<noteq> [] \<Longrightarrow> stat_ok p f'"
  by (cases "length p") (auto simp: mkdir_all_def stat_ok_def split: if_splits)

lemma read_mkdir_all: "mkdir_all p f = (r, f') \<Longrightarrow> read_file q f' = read_file q f"
  by (simp add: read_file_def mkdir_all_files)

lemma below_refl [simp]: "below d d"
  by (simp add: below_def)

lemma stat_ok_read: "read_file p f = Inr c \<Longrightarrow> stat_ok p f"
  by (auto simp: read_file_def stat_ok_def split: option.splits)

text \<open>A file system with the given directories and no file.\<close>

definition fs_with_dirs :: "string set \<Rightarrow> fs" where
  "fs_with_dirs D = \<lparr>fs_files = Map.empty, fs_dirs = D, fs_denied = {}\<rparr>"

subsection \<open>The world outside the process\<close>

text \<open>
  What a component acts on: the file system, and the services behind the sockets and commands it
  calls, whose state \<open>'x\<close> is left open.
\<close>

record 'x world =
  w_fs :: fs
  w_ext :: 'x

definition on_fs :: "fs proc \<Rightarrow> 'x world proc" where
  "on_fs p w = (case p (w_fs w) of (r, f) \<Rightarrow> (r, w\<lparr>w_fs := f\<rparr>))"

definition on_ext :: "'x proc \<Rightarrow> 'x world proc" where
  "on_ext p w = (case p (w_ext w) of (r, x) \<Rightarrow> (r, w\<lparr>w_ext := x\<rparr>))"

definition call_ext :: "('x, 'r) op \<Rightarrow> ('x world, 'r) op" where
  "call_ext p w = (case p (w_ext w) of (r, x) \<Rightarrow> (r, w\<lparr>w_ext := x\<rparr>))"

lemma on_fs_cases: "p (w_fs w) = (r, f) \<Longrightarrow> on_fs p w = (r, w\<lparr>w_fs := f\<rparr>)"
  by (simp add: on_fs_def)

lemma on_ext_fs [simp]: "w_fs (snd (on_ext p w)) = w_fs w"
  by (simp add: on_ext_def split_beta)

lemma on_ext_fsD: "on_ext p w = (r, w') \<Longrightarrow> w_fs w' = w_fs w"
  by (auto simp: on_ext_def split_beta)

lemma call_ext_fsD: "call_ext p w = (r, w') \<Longrightarrow> w_fs w' = w_fs w"
  by (auto simp: call_ext_def split_beta)

end
