(* ===== verification/Configuration.thy ===== *)
theory Configuration
  imports Models File_System
begin

text \<open>
  \<open>internal/configuration/configuration.go\<close>: the manager of the device configuration. It keeps the
  last message of the control plane, compares a new one with it, hands a changed one to every
  registered observer and stores it in \<open>device-config.json\<close>. \<open>encoding/json\<close> is a parameter
  (\<open>json_codec\<close>); an observer is a pair of calls on the world \<open>fs \<times> 'w\<close>, where \<open>'w\<close> is whatever
  the observers act on. An observer is given a copy of the message whose slices and maps are those of the
  manager's own: the message that its call returns is the one with what it has written into them. A call that
  panics ends the process.
\<close>

subsection \<open>State\<close>

type_synonym 'w config_world = "fs \<times> 'w"

type_synonym 'w config_call =
  "config_message \<Rightarrow> 'w config_world \<Rightarrow> (gerror option \<times> config_message \<times> 'w config_world) go"

record 'w observer =
  ob_type :: string
  ob_init :: "'w config_call"
  ob_update :: "'w config_call"

record json_codec =
  js_marshal :: "config_message \<Rightarrow> gerror + string"
  js_indent :: "string \<Rightarrow> gerror + string"
  js_unmarshal :: "string \<Rightarrow> gerror + config_message"

record 'w manager =
  device_configuration :: config_message
  observers :: "'w observer list"
  device_config_file :: string
  initial_config :: bool

definition default_device_configuration_message :: config_message where
  "default_device_configuration_message =
     message_with (empty_device_configuration
       \<lparr>cfg_ansible_manager := Some 60,
        cfg_heartbeat := Some \<lparr>hc_hardware_profile = Some \<lparr>hp_include = False, hp_scope = []\<rparr>,
                              hc_period_seconds = 60\<rparr>\<rparr>)"

definition new_configuration_manager :: "json_codec \<Rightarrow> string \<Rightarrow> fs \<Rightarrow> 'w manager" where
  "new_configuration_manager J dataDir f =
     (let file = path_join [dataDir, ''device-config.json''];
          mk = (\<lambda>c i. \<lparr>device_configuration = c, observers = [], device_config_file = file,
                       initial_config = i\<rparr>)
      in case read_file file f of
           Inl e \<Rightarrow> mk default_device_configuration_message True
         | Inr content \<Rightarrow>
             (case js_unmarshal J content of
                Inl e \<Rightarrow> mk default_device_configuration_message False
              | Inr c \<Rightarrow> mk c False))"

subsection \<open>Comparing secrets and workloads as unordered lists\<close>

fun all_match :: "('a \<Rightarrow> string) \<Rightarrow> (string \<rightharpoonup> 'a) \<Rightarrow> 'a list \<Rightarrow> bool" where
  "all_match name m [] = True"
| "all_match name m (b # bs) =
     (case m (name b) of
        None \<Rightarrow> False
      | Some a \<Rightarrow> if b = a then all_match name m bs else False)"

definition is_equal_unordered_secret_lists :: "secret list \<Rightarrow> secret list \<Rightarrow> bool" where
  "is_equal_unordered_secret_lists x y =
     (if length x \<noteq> length y then False
      else all_match sec_name (index_by sec_name x) y)"

definition is_equal_unordered_workload_lists :: "workload list \<Rightarrow> workload list \<Rightarrow> bool" where
  "is_equal_unordered_workload_lists x y =
     (if length x \<noteq> length y then False
      else all_match wl_name (index_by wl_name x) y)"

lemma all_match_iff: "all_match name m bs \<longleftrightarrow> (\<forall>b \<in> set bs. m (name b) = Some b)"
  by (induction bs) (auto split: option.splits)

text \<open>
  What both comparisons share: on lists that name no item twice they decide equality of the
  contents; in general only one direction holds.
\<close>

locale unordered_comparison =
  fixes name :: "'a \<Rightarrow> string"
    and eq_lists :: "'a list \<Rightarrow> 'a list \<Rightarrow> bool"
  assumes eq_lists_iff: "eq_lists x y \<longleftrightarrow>
    length x = length y \<and> (\<forall>b \<in> set y. index_by name x (name b) = Some b)"
begin

lemma subset: "eq_lists x y \<Longrightarrow> set y \<subseteq> set x"
  by (auto simp: eq_lists_iff dest: index_by_SomeD)

lemma refl_distinct: "distinct (map name x) \<Longrightarrow> eq_lists x x"
  by (simp add: eq_lists_iff index_by_distinct)

lemma same_set_length:
  assumes "distinct (map name x)" "distinct (map name y)" "set x = set y"
  shows "length x = length y"
  using assms by (metis distinct_card distinct_map)

lemma iff_same_contents:
  assumes "distinct (map name x)" and "distinct (map name y)"
  shows "eq_lists x y \<longleftrightarrow> set x = set y"
proof
  assume eq: "eq_lists x y"
  then have "set y \<subseteq> set x" by (rule subset)
  moreover have "card (set y) = card (set x)"
    using eq assms by (simp add: eq_lists_iff distinct_card distinct_map)
  ultimately show "set x = set y"
    by (metis card_subset_eq List.finite_set)
next
  assume same: "set x = set y"
  then have "length x = length y" by (rule same_set_length [OF assms])
  moreover have "\<forall>b \<in> set y. index_by name x (name b) = Some b"
    using same index_by_distinct [OF assms(1)] by blast
  ultimately show "eq_lists x y" by (simp add: eq_lists_iff)
qed

lemma sym_distinct:
  "distinct (map name x) \<Longrightarrow> distinct (map name y) \<Longrightarrow> eq_lists x y \<longleftrightarrow> eq_lists y x"
  by (auto simp: iff_same_contents)

end

interpretation secrets_cmp: unordered_comparison sec_name is_equal_unordered_secret_lists
  by unfold_locales (auto simp: is_equal_unordered_secret_lists_def all_match_iff)

interpretation workloads_cmp: unordered_comparison wl_name is_equal_unordered_workload_lists
  by unfold_locales (auto simp: is_equal_unordered_workload_lists_def all_match_iff)

subsection \<open>Operations\<close>

definition register_observer ::
  "'w observer \<Rightarrow> 'w manager \<Rightarrow> 'w config_world \<Rightarrow> ('w manager \<times> 'w config_world) go" where
  "register_observer ob m w =
     go_bind (ob_init ob (device_configuration m) w) (\<lambda>(r, c, w').
       Ret (m\<lparr>device_configuration := c, observers := observers m @ [ob]\<rparr>, w'))"

text \<open>\<open>*m.deviceConfiguration.Configuration\<close> panics on a nil pointer: \<open>None\<close>.\<close>

definition get_device_configuration :: "'w manager \<Rightarrow> device_configuration option" where
  "get_device_configuration m = msg_configuration (device_configuration m)"

definition get_device_id :: "'w manager \<Rightarrow> string" where
  "get_device_id m = msg_device_id (device_configuration m)"

definition get_workloads :: "'w manager \<Rightarrow> workload list" where
  "get_workloads m = msg_workloads (device_configuration m)"

definition get_secrets :: "'w manager \<Rightarrow> secret list" where
  "get_secrets m = msg_secrets (device_configuration m)"

definition get_configuration_version :: "'w manager \<Rightarrow> string" where
  "get_configuration_version m = msg_version (device_configuration m)"

definition is_initial_config :: "'w manager \<Rightarrow> bool" where
  "is_initial_config m = initial_config m"

definition data_transfer_interval_seconds :: int where
  "data_transfer_interval_seconds = 15"

fun notify_observers ::
  "config_message \<Rightarrow> 'w observer list \<Rightarrow> merr \<Rightarrow> 'w config_world \<Rightarrow> (merr \<times> config_message \<times> 'w config_world) go" where
  "notify_observers msg [] es w = Ret (es, msg, w)"
| "notify_observers msg (ob # obs) es w =
     go_bind (ob_update ob msg w) (\<lambda>(r, msg', w').
       notify_observers msg' obs
         (append_err es (Wrap (''running update for observer '' @ ob_type ob @ '' failed'')) r) w')"

definition should_update :: "config_message \<Rightarrow> 'w manager \<Rightarrow> bool" where
  "should_update msg m =
     (let old = device_configuration m;
          configurationEqual = (msg_configuration msg = msg_configuration old);
          workloadsEqual = is_equal_unordered_workload_lists (msg_workloads msg) (msg_workloads old);
          secretsEqual = is_equal_unordered_secret_lists (msg_secrets msg) (msg_secrets old)
      in if is_initial_config m then True
         else \<not> (configurationEqual \<and> workloadsEqual \<and> secretsEqual))"

text \<open>The end of \<open>Update\<close>: the file gets the message as it arrived, the field the one the observers have written to.\<close>

definition store_config ::
  "json_codec \<Rightarrow> string \<Rightarrow> 'w manager \<Rightarrow> merr \<Rightarrow> config_message \<Rightarrow> 'w config_world \<Rightarrow> gerror option \<times> 'w manager \<times> 'w config_world" where
  "store_config J newJson m errs msg w =
     (case js_indent J newJson of
        Inl e \<Rightarrow> (Some (Multi (errs @ [Wrap ''cannot indent JSON message'' e])), m, w)
      | Inr file \<Rightarrow>
          (case write_file (device_config_file m) file (fst w) of
             (Some e, f2) \<Rightarrow> (Some (Multi [Wrap ''cannot write device config file'' e]), m, (f2, snd w))
           | (None, f2) \<Rightarrow>
               (merr_result errs, m\<lparr>device_configuration := msg, initial_config := False\<rparr>, (f2, snd w))))"

definition update_config ::
  "json_codec \<Rightarrow> config_message \<Rightarrow> 'w manager \<Rightarrow> 'w config_world \<Rightarrow>
   (gerror option \<times> 'w manager \<times> 'w config_world) go" where
  "update_config J msg m w =
     (if \<not> should_update msg m then Ret (None, m, w)
      else case js_marshal J msg of
        Inl e \<Rightarrow> Ret (Some (Multi [Wrap ''cannot marshal new message to JSON'' e]), m, w)
      | Inr newJson \<Rightarrow>
          (case js_marshal J (device_configuration m) of
             Inl e \<Rightarrow> Ret (Some (Multi [Wrap ''cannot marshal old configuration to JSON'' e]), m, w)
           | Inr oldJson \<Rightarrow>
               go_bind (notify_observers msg (observers m) [] w)
                 (\<lambda>(errs, msg', w1). Ret (store_config J newJson m errs msg' w1))))"

definition deregister_config :: "'w manager \<Rightarrow> 'w config_world \<Rightarrow> gerror option \<times> 'w config_world" where
  "deregister_config m w = (case remove_file (device_config_file m) (fst w) of
     (r, f) \<Rightarrow> (r, (f, snd w)))"

subsection \<open>Notifying the observers\<close>

text \<open>Every observer is called once, in order, whatever the earlier ones returned: the results and what is left.\<close>

fun call_observers ::
  "config_message \<Rightarrow> 'w observer list \<Rightarrow> 'w config_world \<Rightarrow> (gerror option list \<times> config_message \<times> 'w config_world) go" where
  "call_observers msg [] w = Ret ([], msg, w)"
| "call_observers msg (ob # obs) w =
     go_bind (ob_update ob msg w) (\<lambda>(r, msg', w').
       go_bind (call_observers msg' obs w') (\<lambda>(rs, msg'', w''). Ret (r # rs, msg'', w'')))"

text \<open>The errors of the observers that failed.\<close>

fun observer_errors :: "'w observer list \<Rightarrow> gerror option list \<Rightarrow> merr" where
  "observer_errors (ob # obs) (r # rs) =
     append_err [] (Wrap (''running update for observer '' @ ob_type ob @ '' failed'')) r @ observer_errors obs rs"
| "observer_errors _ _ = []"

lemma append_err_append: "append_err es f r = es @ append_err [] f r"
  by (cases r) (simp_all add: append_err_def)

lemma notify_observers_eq:
  "notify_observers msg obs es w =
     go_bind (call_observers msg obs w) (\<lambda>(rs, msg', w'). Ret (es @ observer_errors obs rs, msg', w'))"
proof (induction obs arbitrary: msg es w)
  case (Cons ob obs)
  show ?case
  proof (cases "ob_update ob msg w")
    case (Ret x)
    obtain r msg1 w1 where x: "x = (r, msg1, w1)" by (rule prod_cases3)
    show ?thesis
      unfolding notify_observers.simps call_observers.simps Ret x go_bind.simps prod.case Cons.IH
      by (cases "call_observers msg1 obs w1") (auto simp: append_err_append [of es])
  qed simp
qed simp

lemma call_observers_length: "call_observers msg obs w = Ret (rs, msg', w') \<Longrightarrow> length rs = length obs"
  by (induction obs arbitrary: msg w rs) (auto simp: go_bind_Ret_iff)

subsection \<open>Laws of the update\<close>

lemma update_config_skip: "\<not> should_update msg m \<Longrightarrow> update_config J msg m w = Ret (None, m, w)"
  by (simp add: update_config_def)

lemma store_config_frame [simp]:
  "observers (fst (snd (store_config J j m es msg w))) = observers m"
  "device_config_file (fst (snd (store_config J j m es msg w))) = device_config_file m"
  "snd (snd (snd (store_config J j m es msg w))) = snd w"
  by (auto simp: store_config_def split: sum.splits prod.splits option.splits)

lemma store_config_stored:
  assumes "device_configuration (fst (snd (store_config J j m es msg w))) \<noteq> device_configuration m"
  shows "store_config J j m es msg w = (merr_result es, m\<lparr>device_configuration := msg, initial_config := False\<rparr>,
    snd (snd (store_config J j m es msg w)))"
  using assms by (auto simp: store_config_def split: sum.splits prod.splits option.splits)

text \<open>An update that does not return early: the calls of the observers and the store.\<close>

lemma update_config_called:
  assumes "should_update msg m"
    and "js_marshal J msg = Inr j" and "js_marshal J (device_configuration m) = Inr j0"
  shows "update_config J msg m w = go_bind (call_observers msg (observers m) w)
    (\<lambda>(rs, msg', w1). Ret (store_config J j m (observer_errors (observers m) rs) msg' w1))"
  using assms by (cases "call_observers msg (observers m) w") (auto simp: update_config_def notify_observers_eq)

lemma update_config_calls:
  assumes "update_config J msg m w = Ret (r, m', w')" and "should_update msg m"
    and "js_marshal J msg = Inr j" and "js_marshal J (device_configuration m) = Inr j0"
  obtains rs msg' w1 where "call_observers msg (observers m) w = Ret (rs, msg', w1)"
    "store_config J j m (observer_errors (observers m) rs) msg' w1 = (r, m', w')"
  using assms(1) unfolding update_config_called [OF assms(2-4)] by (auto simp: go_bind_Ret_iff)

lemma update_config_observers:
  assumes "update_config J msg m w = Ret (r, m', w')"
  shows "observers m' = observers m \<and> device_config_file m' = device_config_file m"
  using assms store_config_frame(1,2)
  by (fastforce simp: update_config_def go_bind_Ret_iff split: if_splits sum.splits dest: arg_cong [of _ _ "fst \<circ> snd"])

text \<open>When the stored message changes, it is the one that the observers leave.\<close>

lemma update_config_stored:
  assumes "update_config J msg m w = Ret (r, m', w')" and "device_configuration m' \<noteq> device_configuration m"
  obtains rs w1 where "call_observers msg (observers m) w = Ret (rs, device_configuration m', w1)"
    "r = merr_result (observer_errors (observers m) rs)" "initial_config m' = False" "should_update msg m" "snd w' = snd w1"
proof -
  have su: "should_update msg m"
    using assms update_config_skip [of msg m J w] by fastforce
  obtain j where j: "js_marshal J msg = Inr j"
    using assms su by (cases "js_marshal J msg") (auto simp: update_config_def)
  obtain j0 where j0: "js_marshal J (device_configuration m) = Inr j0"
    using assms su j by (cases "js_marshal J (device_configuration m)") (auto simp: update_config_def)
  obtain rs msg' w1 where c: "call_observers msg (observers m) w = Ret (rs, msg', w1)"
      and st: "store_config J j m (observer_errors (observers m) rs) msg' w1 = (r, m', w')"
    using update_config_calls [OF assms(1) su j j0] .
  have "store_config J j m (observer_errors (observers m) rs) msg' w1 =
      (merr_result (observer_errors (observers m) rs), m\<lparr>device_configuration := msg', initial_config := False\<rparr>, w')"
    using store_config_stored [of J j m "observer_errors (observers m) rs" msg' w1] st assms(2) by simp
  then have "m' = m\<lparr>device_configuration := msg', initial_config := False\<rparr>" "r = merr_result (observer_errors (observers m) rs)"
    using st by simp_all
  moreover have "snd w' = snd w1" using store_config_frame(3) [of J j m _ msg' w1] st by (metis snd_conv)
  ultimately show ?thesis using that c su by simp
qed

text \<open>Observers that only read the message.\<close>

definition keeps_message :: "'w observer \<Rightarrow> bool" where
  "keeps_message ob \<longleftrightarrow> (\<forall>msg w r msg' w'. ob_update ob msg w = Ret (r, msg', w') \<longrightarrow> msg' = msg)"

lemma call_observers_keep:
  "\<forall>ob \<in> set obs. keeps_message ob \<Longrightarrow> call_observers msg obs w = Ret (rs, msg', w') \<Longrightarrow> msg' = msg"
proof (induction obs arbitrary: w rs)
  case (Cons ob obs)
  obtain r msg1 w1 rs1 where u: "ob_update ob msg w = Ret (r, msg1, w1)" "call_observers msg1 obs w1 = Ret (rs1, msg', w')"
    using Cons.prems(2) by (auto simp: go_bind_Ret_iff)
  then have "msg1 = msg" using Cons.prems(1) unfolding keeps_message_def by (metis list.set_intros(1))
  then show ?case using Cons.IH Cons.prems(1) u(2) by simp
qed simp

text \<open>Two messages with the same contents: what a repeated message looks like.\<close>

definition unique_names :: "config_message \<Rightarrow> bool" where
  "unique_names msg \<longleftrightarrow>
     distinct (map sec_name (msg_secrets msg)) \<and> distinct (map wl_name (msg_workloads msg))"

definition same_contents :: "config_message \<Rightarrow> config_message \<Rightarrow> bool" where
  "same_contents a b \<longleftrightarrow> msg_configuration a = msg_configuration b \<and>
     set (msg_secrets a) = set (msg_secrets b) \<and> set (msg_workloads a) = set (msg_workloads b)"

lemma should_update_iff:
  assumes "unique_names msg" and "unique_names (device_configuration m)"
  shows "should_update msg m \<longleftrightarrow> initial_config m \<or> \<not> same_contents msg (device_configuration m)"
  using assms
  by (auto simp: should_update_def Let_def is_initial_config_def unique_names_def same_contents_def
      secrets_cmp.iff_same_contents workloads_cmp.iff_same_contents)

subsection \<open>Properties\<close>

text \<open>
  The two comparisons that decide whether a message changes anything are equality of the
  contents, whatever the order, for lists that do not repeat a name.\<close>

theorem unordered_lists_compare_contents:
  "distinct (map sec_name sx) \<Longrightarrow> distinct (map sec_name sy) \<Longrightarrow>
   distinct (map wl_name wx) \<Longrightarrow> distinct (map wl_name wy) \<Longrightarrow>
   (is_equal_unordered_secret_lists sx sy \<longleftrightarrow> set sx = set sy) \<and>
   (is_equal_unordered_workload_lists wx wy \<longleftrightarrow> set wx = set wy)"
  by (simp add: secrets_cmp.iff_same_contents workloads_cmp.iff_same_contents)

theorem unordered_lists_compare_contents_witness:
  "is_equal_unordered_secret_lists [\<lparr>sec_data = ''1'', sec_name = ''a''\<rparr>, \<lparr>sec_data = ''2'', sec_name = ''b''\<rparr>]
     [\<lparr>sec_data = ''2'', sec_name = ''b''\<rparr>, \<lparr>sec_data = ''1'', sec_name = ''a''\<rparr>]"
  using unordered_lists_compare_contents
    [of "[\<lparr>sec_data = ''1'', sec_name = ''a''\<rparr>, \<lparr>sec_data = ''2'', sec_name = ''b''\<rparr>]"
        "[\<lparr>sec_data = ''2'', sec_name = ''b''\<rparr>, \<lparr>sec_data = ''1'', sec_name = ''a''\<rparr>]" "[]" "[]"]
  by auto

text \<open>
  With a repeated name the comparison is wrong in one direction: a list with one item twice
  counts as equal to one with two different items, so that message is taken for unchanged.\<close>

theorem unordered_secret_lists_repeated_name:
  "\<exists>x y. is_equal_unordered_secret_lists x y \<and> set x \<noteq> set y \<and>
         \<not> is_equal_unordered_secret_lists y x"
proof -
  let ?a = "\<lparr>sec_data = ''1'', sec_name = ''a''\<rparr>" and ?b = "\<lparr>sec_data = ''2'', sec_name = ''b''\<rparr>"
  have "is_equal_unordered_secret_lists [?a, ?b] [?a, ?a] \<and> set [?a, ?b] \<noteq> set [?a, ?a] \<and>
        \<not> is_equal_unordered_secret_lists [?a, ?a] [?a, ?b]"
    by (auto simp: is_equal_unordered_secret_lists_def index_by_def)
  then show ?thesis by blast
qed



text \<open>An observer that writes into the message defeats the comparison: the message that was just applied
  counts as changed when it is sent again.\<close>

lemma written_message_not_recognised:
  assumes "update_config J msg m w = Ret (r, m', w')" and "device_configuration m' \<noteq> device_configuration m"
    and "unique_names msg" and "unique_names (device_configuration m')" and "\<not> same_contents msg (device_configuration m')"
  shows "should_update msg m'"
  using assms(3-5) by (simp add: should_update_iff)

text \<open>C14. What an update stored survives a restart: the manager created from the file system it
  left holds the message it was given and is no longer in its initial state.\<close>

theorem update_survives_restart:
  fixes m :: "'w manager"
  assumes "should_update msg m"
    and "js_marshal J msg = Inr j" and "js_marshal J (device_configuration m) = Inr j0"
    and "js_indent J j = Inr file" and "js_unmarshal J file = Inr msg"
    and "device_config_file m = path_join [dataDir, ''device-config.json'']"
    and "update_config J msg m w = Ret (r, m', w')" and "device_configuration m' \<noteq> device_configuration m"
  shows "device_configuration (new_configuration_manager J dataDir (fst w') :: 'w manager) = msg \<and>
    \<not> is_initial_config (new_configuration_manager J dataDir (fst w') :: 'w manager)"
proof -
  obtain rs msg' w1 where st: "store_config J j m (observer_errors (observers m) rs) msg' w1 = (r, m', w')"
    using update_config_calls [OF assms(7,1-3)] .
  then obtain f where f: "write_file (device_config_file m) file (fst w1) = (None, f)" "fst w' = f"
    using assms(4,8) by (auto simp: store_config_def split: prod.splits option.splits)
  then have "read_file (path_join [dataDir, ''device-config.json'']) (fst w') = Inr file"
    using read_write assms(6) by simp
  then show ?thesis
    using assms(5) by (simp_all add: new_configuration_manager_def is_initial_config_def Let_def)
qed

text \<open>
  When the file cannot be written, the manager keeps its configuration and the error it
  returns is the write error alone: the errors of the observers are lost.\<close>

theorem update_write_failure_drops_observer_errors:
  assumes "should_update msg m"
    and "js_marshal J msg = Inr j" and "js_marshal J (device_configuration m) = Inr j0"
    and "js_indent J j = Inr file" and "call_observers msg (observers m) w = Ret (rs, msg', w1)"
    and "write_file (device_config_file m) file (fst w1) = (Some e, f)"
  shows "update_config J msg m w = Ret (Some (Multi [Wrap ''cannot write device config file'' e]), m, (f, snd w1))"
  using assms by (simp add: update_config_called store_config_def)

subsection \<open>Examples\<close>

definition example_codec :: "config_message \<Rightarrow> json_codec" where
  "example_codec m = \<lparr>js_marshal = (\<lambda>_. Inr ''json''), js_indent = (\<lambda>j. Inr j),
                      js_unmarshal = (\<lambda>_. Inr m)\<rparr>"

definition failing_observer :: "nat observer" where
  "failing_observer = \<lparr>ob_type = ''test'', ob_init = (\<lambda>c w. Ret (None, c, w)),
     ob_update = (\<lambda>c (f, n). Ret (Some (Err ''boom''), c, (f, Suc n)))\<rparr>"

definition example_manager :: "nat manager" where
  "example_manager = \<lparr>device_configuration = zero_message, observers = [failing_observer],
     device_config_file = ''/d/device-config.json'', initial_config = True\<rparr>"

definition example_message :: config_message where
  "example_message = message_with empty_device_configuration"

lemmas example_config_defs = example_codec_def failing_observer_def example_manager_def
  example_message_def message_with_def zero_message_def empty_device_configuration_def

lemma example_should_update: "should_update example_message example_manager"
  by (simp add: should_update_def is_initial_config_def example_manager_def)

lemma example_path: "path_join [''/d'', ''device-config.json''] = ''/d/device-config.json''"
  by (simp add: path_join_def path_clean_def)

lemma example_write:
  "write_file ''/d/device-config.json'' ''json'' (fs_with_dirs {''/d''}) =
     (None, (fs_with_dirs {''/d''})\<lparr>fs_files := [''/d/device-config.json'' \<mapsto> ''json'']\<rparr>)"
  by (simp add: write_file_def fs_with_dirs_def parent_dir_def)

definition example_config_world :: "nat config_world" where
  "example_config_world = (fs_with_dirs {''/d''}, 0)"

definition example_config_fs :: fs where
  "example_config_fs =
     (fs_with_dirs {''/d''})\<lparr>fs_files := [''/d/device-config.json'' \<mapsto> ''json'']\<rparr>"

lemma example_call_observers:
  "call_observers example_message (observers example_manager) example_config_world =
     Ret ([Some (Err ''boom'')], example_message, (fs_with_dirs {''/d''}, 1))"
  by (simp add: example_manager_def failing_observer_def example_config_world_def)

lemma example_manager_simps [simp]:
  "device_configuration example_manager = zero_message"
  "device_config_file example_manager = ''/d/device-config.json''"
  "js_marshal (example_codec m) c = Inr ''json''"
  "js_indent (example_codec m) j = Inr j"
  "js_unmarshal (example_codec m) j = Inr m"
  by (simp_all add: example_manager_def example_codec_def)

lemma example_update:
  "update_config (example_codec example_message) example_message example_manager
     example_config_world =
   Ret (Some (Multi [Wrap ''running update for observer test failed'' (Err ''boom'')]),
    example_manager\<lparr>device_configuration := example_message, initial_config := False\<rparr>,
    (example_config_fs, 1))"
proof -
  have "observer_errors (observers example_manager) [Some (Err ''boom'')] =
      [Wrap ''running update for observer test failed'' (Err ''boom'')]"
    by (simp add: example_manager_def failing_observer_def append_err_def)
  then show ?thesis
    by (subst update_config_called [OF example_should_update, where j = "''json''" and j0 = "''json''"])
       (simp_all add: example_call_observers store_config_def example_write example_config_fs_def)
qed

lemma example_messages_differ: "example_message \<noteq> zero_message"
  by (simp add: example_message_def message_with_def zero_message_def)


lemma failing_observer_keeps: "\<forall>ob \<in> set (observers example_manager). keeps_message ob"
  by (auto simp: example_manager_def failing_observer_def keeps_message_def)


theorem update_survives_restart_witness:
  "device_configuration (new_configuration_manager (example_codec example_message) ''/d''
     example_config_fs :: nat manager) = example_message"
  using update_survives_restart [OF example_should_update _ _ _ _ _ example_update,
      of "''json''" "''json''" "''json''" "''/d''"]
  by (simp add: example_path example_messages_differ)

theorem update_write_failure_witness:
  "\<exists>m w'. update_config (example_codec example_message) example_message example_manager (fs_with_dirs {}, 0) =
   Ret (Some (Multi [Wrap ''cannot write device config file'' err_not_exist]), m, w')"
proof -
  have "call_observers example_message (observers example_manager) (fs_with_dirs {}, 0) =
      Ret ([Some (Err ''boom'')], example_message, (fs_with_dirs {}, 1))"
    by (simp add: example_manager_def failing_observer_def)
  moreover have "write_file ''/d/device-config.json'' ''json'' (fs_with_dirs {}) =
      (Some err_not_exist, fs_with_dirs {})"
    by (simp add: write_file_def fs_with_dirs_def)
  ultimately show ?thesis
    using update_write_failure_drops_observer_errors [OF example_should_update,
        of "example_codec example_message" "''json''" "''json''" "''json''" "(fs_with_dirs {}, 0)"]
    by simp
qed

end
