(* ===== verification/Systemd.thy ===== *)
theory Systemd
  imports Models File_System
begin

text \<open>
  \<open>internal/service/systemd.go\<close>: a systemd service of the worker (its unit files under the user's
  unit directory, and the calls on the bus that start, stop, enable and disable it) and the
  manager that remembers the services in \<open>services.json\<close>.

  The libraries \<open>go-systemd\<close> and \<open>godbus\<close> are the record \<open>bus\<close>: their calls act on an external
  state \<open>'x\<close>. A call that waits for a job returns the result string of the job. \<open>UnitsContent\<close> is
  a Go map the code ranges over and therefore an association list.
\<close>

subsection \<open>The bus\<close>

text \<open>
  \<open>bus_new_connection\<close> is \<open>dbus.NewConnection\<close>, which is given the function that dials; the dial
  function returns whether it has a connection (False is the nil pointer). The two strings are the
  values of \<open>HOME\<close> and \<open>FLOTTA_XDG_RUNTIME_DIR\<close>.
\<close>

record 'x bus =
  bus_home :: string
  bus_runtime_dir :: string
  bus_dial :: "string \<Rightarrow> 'x proc"
  bus_auth :: "string \<Rightarrow> 'x proc"
  bus_close :: "'x proc"
  bus_new_connection :: "('x, bool) op \<Rightarrow> 'x proc"
  bus_system_connection :: "'x proc"
  bus_disconnect :: "'x \<Rightarrow> 'x"
  bus_reload :: "'x proc"
  bus_start_unit :: "string \<Rightarrow> ('x, string) op"
  bus_stop_unit :: "string \<Rightarrow> ('x, string) op"
  bus_enable_units :: "string list \<Rightarrow> 'x proc"
  bus_disable_units :: "string list \<Rightarrow> 'x proc"

text \<open>\<open>path.Base\<close>\<close>

definition path_base :: "string \<Rightarrow> string" where
  "path_base p =
     (if p = [] then ''.''
      else let q = rev (dropWhile (\<lambda>c. c = CHR ''/'') (rev p))
           in if q = [] then ''/'' else rev (takeWhile (\<lambda>c. c \<noteq> CHR ''/'') (rev q)))"

definition dial_rootless :: "'x bus \<Rightarrow> ('x, bool) op" where
  "dial_rootless B x =
     (case bus_dial B (''unix:path='' @ path_join [bus_runtime_dir B, ''systemd/private'']) x of
        (Some e, x1) \<Rightarrow> (Inl e, x1)
      | (None, x1) \<Rightarrow>
          (case bus_auth B (path_base (bus_runtime_dir B)) x1 of
             (None, x2) \<Rightarrow> (Inr True, x2)
           | (Some e, x2) \<Rightarrow>
               (case bus_close B x2 of
                  (Some e', x3) \<Rightarrow> (Inl e', x3)
                | (None, x3) \<Rightarrow> (Inr False, x3))))"

definition new_dbus_connection :: "'x bus \<Rightarrow> bool \<Rightarrow> 'x proc" where
  "new_dbus_connection B rootless =
     (if rootless then bus_new_connection B (dial_rootless B) else bus_system_connection B)"

text \<open>\<open>conn, err := newDbusConnection(...); if err != nil { return err }; defer conn.Close(); ...\<close>\<close>

definition with_connection :: "'x bus \<Rightarrow> bool \<Rightarrow> 'x proc \<Rightarrow> 'x proc" where
  "with_connection B rootless p =
     then_ok (new_dbus_connection B rootless)
       (\<lambda>x. case p x of (r, x') \<Rightarrow> (r, bus_disconnect B x'))"

subsection \<open>A service\<close>

record service =
  svc_name :: string
  svc_restart_sec :: int
  svc_units :: "string list"
  svc_units_content :: "(string \<times> string) list"
  svc_rootless :: bool

definition default_restart_timeout :: int where
  "default_restart_timeout = 15"

definition default_service_name :: "string \<Rightarrow> string" where
  "default_service_name name = name @ ''.service''"

definition default_units_path :: "'x bus \<Rightarrow> string" where
  "default_units_path B = path_join [bus_home B, ''.config/systemd/user/'']"

definition unit_path :: "'x bus \<Rightarrow> string \<Rightarrow> string" where
  "unit_path B u = path_join [default_units_path B, default_service_name u]"

definition new_systemd_rootless ::
  "'x bus \<Rightarrow> string \<Rightarrow> (string \<times> string) list \<Rightarrow> bool \<Rightarrow> ('x world, service) op" where
  "new_systemd_rootless B name us rootless w =
     (case on_ext (new_dbus_connection B rootless) w of
        (Some e, w') \<Rightarrow> (Inl e, w')
      | (None, w') \<Rightarrow>
          (Inr \<lparr>svc_name = name, svc_restart_sec = default_restart_timeout, svc_units = map fst us,
                svc_units_content = us, svc_rootless = rootless\<rparr>, w'))"

definition new_systemd :: "'x bus \<Rightarrow> string \<Rightarrow> (string \<times> string) list \<Rightarrow> ('x world, service) op" where
  "new_systemd B name us = new_systemd_rootless B name us True"

definition service_reload :: "'x bus \<Rightarrow> service \<Rightarrow> 'x world proc" where
  "service_reload B s = on_ext (with_connection B (svc_rootless s) (bus_reload B))"

fun write_units :: "'x bus \<Rightarrow> (string \<times> string) list \<Rightarrow> 'x world proc" where
  "write_units B [] = ok"
| "write_units B ((u, content) # us) =
     then_ok (on_fs (write_file (unit_path B u) content)) (write_units B us)"

definition service_add :: "'x bus \<Rightarrow> service \<Rightarrow> 'x world proc" where
  "service_add B s = then_ok (write_units B (svc_units_content s)) (service_reload B s)"

fun remove_units :: "'x bus \<Rightarrow> string list \<Rightarrow> 'x world proc" where
  "remove_units B [] = ok"
| "remove_units B (u # us) = then_ok (on_fs (remove_file (unit_path B u))) (remove_units B us)"

definition service_remove :: "'x bus \<Rightarrow> service \<Rightarrow> 'x world proc" where
  "service_remove B s = then_ok (remove_units B (svc_units s)) (service_reload B s)"

definition service_start :: "'x bus \<Rightarrow> service \<Rightarrow> 'x world proc" where
  "service_start B s = on_ext (with_connection B (svc_rootless s)
     (bind_ok (bus_start_unit B (default_service_name (svc_name s)))
       (\<lambda>result x. if result = ''done'' then (None, x)
          else (Some (Err (''Failed['' @ result @ ''] to start systemd service '' @
                           default_service_name (svc_name s))), x))))"

definition service_stop :: "'x bus \<Rightarrow> service \<Rightarrow> 'x world proc" where
  "service_stop B s = on_ext (with_connection B (svc_rootless s)
     (bind_ok (bus_stop_unit B (default_service_name (svc_name s)))
       (\<lambda>result x. if result = ''done'' then (None, x)
          else (Some (Err (''Failed['' @ result @ ''] to stop systemd service '' @
                           default_service_name (svc_name s))), x))))"

definition service_enable :: "'x bus \<Rightarrow> service \<Rightarrow> 'x world proc" where
  "service_enable B s =
     on_ext (with_connection B (svc_rootless s) (bus_enable_units B [default_service_name (svc_name s)]))"

definition service_disable :: "'x bus \<Rightarrow> service \<Rightarrow> 'x world proc" where
  "service_disable B s =
     on_ext (with_connection B (svc_rootless s) (bus_disable_units B [default_service_name (svc_name s)]))"

subsection \<open>The manager\<close>

record systemd_manager =
  sm_file :: string
  sm_services :: "(string \<times> service) list"

text \<open>The fields of a service that have a JSON name; \<open>UnitsContent\<close> has none.\<close>

definition json_fields :: "service \<Rightarrow> service" where
  "json_fields s = s\<lparr>svc_units_content := []\<rparr>"

definition new_systemd_manager ::
  "(string \<times> service) list codec \<Rightarrow> string \<Rightarrow> fs \<Rightarrow> gerror + systemd_manager" where
  "new_systemd_manager J configDir f =
     (let p = path_join [configDir, ''services.json'']
      in case read_file p f of
           Inl _ \<Rightarrow> Inr \<lparr>sm_file = p, sm_services = []\<rparr>
         | Inr content \<Rightarrow>
             (case cd_unmarshal J content of
                Inl e \<Rightarrow> Inl (Wrap (''cannot unmarshal '' @ p) e)
              | Inr ss \<Rightarrow> Inr \<lparr>sm_file = p, sm_services = ss\<rparr>))"

definition manager_write :: "(string \<times> service) list codec \<Rightarrow> systemd_manager \<Rightarrow> fs proc" where
  "manager_write J g f =
     (case cd_marshal J (map (map_prod (\<lambda>k. k) json_fields) (sm_services g)) of
        Inl e \<Rightarrow> (Some e, f)
      | Inr json \<Rightarrow> write_file (sm_file g) json f)"

definition put_service :: "service \<Rightarrow> systemd_manager \<Rightarrow> systemd_manager" where
  "put_service s g = g\<lparr>sm_services := AList.update (svc_name s) s (sm_services g)\<rparr>"

definition drop_service :: "string \<Rightarrow> systemd_manager \<Rightarrow> systemd_manager" where
  "drop_service name g = g\<lparr>sm_services := AList.delete name (sm_services g)\<rparr>"

definition manager_add ::
  "(string \<times> service) list codec \<Rightarrow> service \<Rightarrow> (systemd_manager \<times> fs) proc" where
  "manager_add J s = (\<lambda>(g, f).
     let g' = put_service s g in case manager_write J g' f of (r, f') \<Rightarrow> (r, (g', f')))"

definition manager_get :: "systemd_manager \<Rightarrow> string \<Rightarrow> service option" where
  "manager_get g name = map_of (sm_services g) name"

definition manager_remove ::
  "(string \<times> service) list codec \<Rightarrow> service \<Rightarrow> (systemd_manager \<times> fs) proc" where
  "manager_remove J s = (\<lambda>(g, f).
     let g' = drop_service (svc_name s) g in case manager_write J g' f of (r, f') \<Rightarrow> (r, (g', f')))"

definition remove_services_file :: "(systemd_manager \<times> fs) proc" where
  "remove_services_file = (\<lambda>(g, f). case remove_all (sm_file g) f of (r, f') \<Rightarrow> (r, (g, f')))"

interpretation services: keyed_store svc_name put_service manager_get drop_service
  by unfold_locales (simp_all add: put_service_def drop_service_def manager_get_def)

subsection \<open>Unit files\<close>

lemma write_units_other:
  assumes "write_units B us w = (r, w')" and "q \<notin> unit_path B ` fst ` set us"
  shows "read_file q (w_fs w') = read_file q (w_fs w)"
  using assms
proof (induction B us arbitrary: w r rule: write_units.induct)
  case (2 B u content us)
  obtain r1 f1 where 1: "write_file (unit_path B u) content (w_fs w) = (r1, f1)" by (meson surj_pair)
  have "read_file q f1 = read_file q (w_fs w)"
    using read_write_other [OF 1] 2(3) by auto
  moreover have "read_file q (w_fs w') = read_file q f1"
    using 2 1 by (cases r1) (auto simp: then_ok_def on_fs_def)
  ultimately show ?case by simp
qed simp

lemma write_units_reads:
  assumes "write_units B us w = (None, w')" and "inj_on (unit_path B) (fst ` set us)" and "wf_map us"
    and "(u, c) \<in> set us"
  shows "read_file (unit_path B u) (w_fs w') = Inr c"
  using assms
proof (induction B us arbitrary: w rule: write_units.induct)
  case (2 B v content us)
  obtain f1 where 1: "write_file (unit_path B v) content (w_fs w) = (None, f1)"
    and w': "write_units B us (w\<lparr>w_fs := f1\<rparr>) = (None, w')"
    using 2(2) by (cases "write_file (unit_path B v) content (w_fs w)")
      (auto simp: then_ok_None_iff on_fs_def)
  show ?case
  proof (cases "(u, c) = (v, content)")
    case True
    then have "unit_path B u \<notin> unit_path B ` fst ` set us"
      using 2(3,4) by (auto simp: inj_on_def)
    then show ?thesis
      using write_units_other [OF w'] read_write [OF 1] True by simp
  next
    case False
    then show ?thesis using 2 w' by (auto simp: inj_on_def)
  qed
qed simp

lemma remove_units_other:
  assumes "remove_units B us w = (r, w')"
  shows "read_file q (w_fs w') = read_file q (w_fs w) \<or>
    q \<in> unit_path B ` set us \<and> read_file q (w_fs w') = Inl err_not_exist"
  using assms
proof (induction B us arbitrary: w r rule: remove_units.induct)
  case (2 B u us)
  obtain r1 f1 where 1: "remove_file (unit_path B u) (w_fs w) = (r1, f1)" by (meson surj_pair)
  have "read_file q f1 = read_file q (w_fs w) \<or> q = unit_path B u \<and> read_file q f1 = Inl err_not_exist"
    using read_remove [of "unit_path B u" "w_fs w" f1] read_remove_other [OF 1, of q] 1
      remove_file_error_unchanged [of "unit_path B u" "w_fs w"] by (cases r1) (auto; metis)+
  then show ?case
    using 2 1 by (cases r1) (fastforce simp: then_ok_def on_fs_def)+
qed simp

lemma remove_units_gone:
  assumes "remove_units B us w = (None, w')" and "u \<in> set us"
  shows "read_file (unit_path B u) (w_fs w') = Inl err_not_exist"
  using assms
proof (induction B us arbitrary: w rule: remove_units.induct)
  case (2 B v us)
  obtain f1 where 1: "remove_file (unit_path B v) (w_fs w) = (None, f1)"
    and w': "remove_units B us (w\<lparr>w_fs := f1\<rparr>) = (None, w')"
    using 2(2) by (cases "remove_file (unit_path B v) (w_fs w)") (auto simp: then_ok_None_iff on_fs_def)
  then show ?case
    using 2 remove_units_other [OF w', of "unit_path B u"] read_remove [OF 1] by auto
qed simp

lemma remove_units_denied: "remove_units B us w = (r, w') \<Longrightarrow> fs_denied (w_fs w') = fs_denied (w_fs w)"
proof (induction B us arbitrary: w r rule: remove_units.induct)
  case (2 B u us)
  obtain r1 f1 where 1: "remove_file (unit_path B u) (w_fs w) = (r1, f1)" by (meson surj_pair)
  have "fs_denied f1 = fs_denied (w_fs w)"
    using 1 by (auto simp: remove_file_def split: if_splits)
  then show ?case
    using 2 1 by (cases r1) (fastforce simp: then_ok_def on_fs_def)+
qed simp

lemma unit_path_inj:
  assumes "default_units_path B = CHR ''/'' # d" and "plain_component (default_service_name u)"
    and "plain_component (default_service_name v)" and "unit_path B u = unit_path B v"
  shows "u = v"
  using path_join_plain_inj [OF assms(1-3)] assms(4)
  by (simp add: unit_path_def default_service_name_def)

lemma service_reload_fs: "service_reload B s w = (r, w') \<Longrightarrow> w_fs w' = w_fs w"
  unfolding service_reload_def by (rule on_ext_fsD)

lemma plain_service_name: "u \<noteq> [] \<Longrightarrow> CHR ''/'' \<notin> set u \<Longrightarrow> plain_component (default_service_name u)"
  by (auto simp: plain_component_def default_service_name_def append_eq_Cons_conv)

text \<open>A bus whose calls all succeed.\<close>

definition succeeding_bus :: "'x bus" where
  "succeeding_bus = \<lparr>bus_home = ''/home/w'', bus_runtime_dir = ''/run/user/1001'',
     bus_dial = (\<lambda>p. ok), bus_auth = (\<lambda>u. ok), bus_close = ok,
     bus_new_connection = (\<lambda>d x. case d x of (Inl e, x') \<Rightarrow> (Some e, x') | (Inr c, x') \<Rightarrow> (None, x')),
     bus_system_connection = ok, bus_disconnect = (\<lambda>x. x), bus_reload = ok,
     bus_start_unit = (\<lambda>u x. (Inr ''done'', x)), bus_stop_unit = (\<lambda>u x. (Inr ''done'', x)),
     bus_enable_units = (\<lambda>us. ok), bus_disable_units = (\<lambda>us. ok)\<rparr>"

definition quiet_bus :: "unit bus" where
  "quiet_bus = succeeding_bus"

definition example_service :: service where
  "example_service = \<lparr>svc_name = ''web'', svc_restart_sec = 15, svc_units = [''web'', ''web-c1''],
     svc_units_content = [(''web'', ''[Unit]''), (''web-c1'', ''[Service]'')], svc_rootless = True\<rparr>"

definition units_world :: "unit world" where
  "units_world = \<lparr>w_fs = fs_with_dirs {''/home/w/.config/systemd/user''}, w_ext = ()\<rparr>"

subsection \<open>Properties\<close>

text \<open>Installing and uninstalling a service: after a successful \<open>Add\<close> of a freshly made service each of
  its unit files holds the content given for it, and a successful \<open>Remove\<close> afterwards removes
  exactly these files: no other file is changed by the two calls together.\<close>

theorem service_add_remove:
  assumes "default_units_path B = CHR ''/'' # d"
    and "svc_units s = map fst (svc_units_content s)" and "wf_map (svc_units_content s)"
    and "list_all (\<lambda>u. u \<noteq> [] \<and> CHR ''/'' \<notin> set u) (svc_units s)"
    and "service_add B s w = (None, w1)" and "service_remove B s w1 = (None, w2)"
  shows "list_all (\<lambda>(u, c). read_file (unit_path B u) (w_fs w1) = Inr c) (svc_units_content s) \<and>
    (\<forall>q. read_file q (w_fs w2) =
       (if q \<in> unit_path B ` set (svc_units s) then Inl err_not_exist else read_file q (w_fs w)))"
proof -
  have names: "fst ` set (svc_units_content s) = set (svc_units s)"
    using assms(2) by simp
  have inj: "inj_on (unit_path B) (fst ` set (svc_units_content s))"
    unfolding names
  proof (rule inj_onI)
    fix u v
    assume "u \<in> set (svc_units s)" "v \<in> set (svc_units s)" "unit_path B u = unit_path B v"
    then show "u = v"
      using assms(4) unit_path_inj [OF assms(1) plain_service_name plain_service_name, of u v]
      by (simp add: list_all_iff)
  qed
  obtain wa where a: "write_units B (svc_units_content s) w = (None, wa)" "w_fs w1 = w_fs wa"
    using assms(5) service_reload_fs by (fastforce simp: service_add_def then_ok_None_iff)
  obtain wr where r: "remove_units B (svc_units s) w1 = (None, wr)" "w_fs w2 = w_fs wr"
    using assms(6) service_reload_fs by (fastforce simp: service_remove_def then_ok_None_iff)
  have "read_file q (w_fs w2) =
      (if q \<in> unit_path B ` set (svc_units s) then Inl err_not_exist else read_file q (w_fs w))" for q
    using remove_units_gone [OF r(1)] remove_units_other [OF r(1), of q]
      write_units_other [OF a(1), of q] assms(2) a(2) r(2) by auto
  moreover have "list_all (\<lambda>(u, c). read_file (unit_path B u) (w_fs w1) = Inr c) (svc_units_content s)"
    using write_units_reads [OF a(1) inj assms(3)] a(2) by (auto simp: list_all_iff)
  ultimately show ?thesis by blast
qed

theorem service_add_remove_witness:
  "list_all (\<lambda>(u, c). read_file (unit_path quiet_bus u)
      (w_fs (snd (service_add quiet_bus example_service units_world))) = Inr c)
      (svc_units_content example_service) \<and>
   (\<forall>q. read_file q (w_fs (snd (service_remove quiet_bus example_service
        (snd (service_add quiet_bus example_service units_world))))) =
       (if q \<in> unit_path quiet_bus ` set (svc_units example_service) then Inl err_not_exist
        else read_file q (w_fs units_world)))"
proof (rule service_add_remove)
  let ?a = "service_add quiet_bus example_service units_world"
  let ?r = "service_remove quiet_bus example_service (snd ?a)"
  show "default_units_path quiet_bus = CHR ''/'' # ''home/w/.config/systemd/user''" by code_simp
  show "svc_units example_service = map fst (svc_units_content example_service)" by code_simp
  show "wf_map (svc_units_content example_service)" by code_simp
  show "list_all (\<lambda>u. u \<noteq> [] \<and> CHR ''/'' \<notin> set u) (svc_units example_service)" by code_simp
  have "fst ?a = None" by code_simp
  then show "?a = (None, snd ?a)" by (metis prod.collapse)
  have "fst ?r = None" by code_simp
  then show "?r = (None, snd ?r)" by (metis prod.collapse)
qed

text \<open>
  \<open>Remove\<close> cannot be repeated: it deletes the unit files in order and gives up at the first error,
  so once it has deleted the first of them and failed later (on another file or on the reload of
  the bus), every further \<open>Remove\<close> of the service fails on the missing first file and does nothing.\<close>

theorem service_remove_not_repeatable:
  assumes "svc_units s = u # us" and "fst (remove_file (unit_path B u) (w_fs w)) = None"
    and "service_remove B s w = (Some e, w1)"
  shows "service_remove B s w1 = (Some err_not_exist, w1)"
proof -
  obtain f1 where 1: "remove_file (unit_path B u) (w_fs w) = (None, f1)"
    using assms(2) by (metis prod.collapse)
  obtain r wr where r: "remove_units B us (w\<lparr>w_fs := f1\<rparr>) = (r, wr)" by (meson surj_pair)
  have w1: "w_fs w1 = w_fs wr"
    using assms(1,3) 1 r service_reload_fs
    by (cases r) (auto simp: service_remove_def then_ok_def on_fs_def)
  then have "fs_files (w_fs w1) (unit_path B u) = None"
    using remove_units_other [OF r, of "unit_path B u"] read_remove [OF 1]
    by (auto simp: read_file_def split: option.splits)
  moreover have "unit_path B u \<notin> fs_denied (w_fs w1)"
    using remove_units_denied [OF r] w1 1 by (auto simp: remove_file_def split: if_splits)
  ultimately show ?thesis
    using assms(1) by (simp add: service_remove_def then_ok_def on_fs_def remove_file_def)
qed

definition busy_units_world :: "unit world" where
  "busy_units_world =
     (let w = snd (service_add quiet_bus example_service units_world)
      in w\<lparr>w_fs := (w_fs w)\<lparr>fs_denied := {unit_path quiet_bus ''web-c1''}\<rparr>\<rparr>)"

theorem service_remove_not_repeatable_witness:
  "service_remove quiet_bus example_service (snd (service_remove quiet_bus example_service busy_units_world)) =
     (Some err_not_exist, snd (service_remove quiet_bus example_service busy_units_world))"
proof (rule service_remove_not_repeatable)
  let ?r = "service_remove quiet_bus example_service busy_units_world"
  show "svc_units example_service = ''web'' # [''web-c1'']" by code_simp
  show "fst (remove_file (unit_path quiet_bus ''web'') (w_fs busy_units_world)) = None" by code_simp
  have "fst ?r = Some err_denied" by code_simp
  then show "?r = (Some err_denied, snd ?r)" by (metis prod.collapse)
qed

text \<open>
  After a restart the manager knows every service it knew, but no longer the contents of their unit
  files: once a service was added, a manager created on the stored file returns it with its name and
  unit names and without contents, and adding such a service to the system writes no file at all.\<close>

theorem manager_restart_forgets_units:
  assumes "sm_file g = path_join [d, ''services.json'']"
    and "codec_inverts J (map (map_prod (\<lambda>k. k) json_fields) (sm_services (put_service s g)))"
    and "manager_add J s (g, f) = (None, (g', f'))"
  shows "\<exists>l. new_systemd_manager J d f' = Inr l \<and>
    (\<forall>k. manager_get l k = map_option json_fields (if k = svc_name s then Some s else manager_get g k)) \<and>
    (\<forall>k t B (w :: 'x world). manager_get l k = Some t \<longrightarrow> w_fs (snd (service_add B t w)) = w_fs w)"
proof -
  let ?ss = "map (map_prod (\<lambda>k. k) json_fields) (sm_services (put_service s g))"
  let ?l = "\<lparr>sm_file = path_join [d, ''services.json''], sm_services = ?ss\<rparr>"
  obtain j where j: "cd_marshal J ?ss = Inr j" "cd_unmarshal J j = Inr ?ss"
    using assms(2) by (auto simp: codec_inverts_def)
  have "sm_file (put_service s g) = sm_file g" by (simp add: put_service_def)
  then have "write_file (sm_file g) j f = (None, f')"
    using assms(3) j(1) by (auto simp: manager_add_def manager_write_def split: prod.splits)
  then have "new_systemd_manager J d f' = Inr ?l"
    using read_write assms(1) j(2) by (simp add: new_systemd_manager_def)
  moreover have get: "manager_get ?l k = map_option json_fields (if k = svc_name s then Some s else manager_get g k)" for k
    using services.get_put [of s g k] by (simp add: manager_get_def)
  moreover have "w_fs (snd (service_add B t w)) = w_fs w" if "manager_get ?l k = Some t" for k t B and w :: "'x world"
  proof -
    have "svc_units_content t = []"
      using that get [of k] by (auto simp: json_fields_def split: if_splits)
    then show ?thesis
      by (simp add: service_add_def then_ok_def service_reload_def)
  qed
  ultimately show ?thesis by blast
qed

definition example_manager :: systemd_manager where
  "example_manager = \<lparr>sm_file = ''/etc/worker/services.json'', sm_services = []\<rparr>"

definition example_services_codec :: "(string \<times> service) list codec" where
  "example_services_codec =
     \<lparr>cd_marshal = (\<lambda>ss. Inr (join_with '';'' (map (\<lambda>(k, s). join_with '':'' (k # svc_name s # svc_units s)) ss))),
      cd_unmarshal = (\<lambda>j. Inr (map (\<lambda>e. case split_on CHR '':'' e of
          k # n # us \<Rightarrow> (k, \<lparr>svc_name = n, svc_restart_sec = 15, svc_units = us, svc_units_content = [], svc_rootless = True\<rparr>))
        (split_on CHR '';'' j)))\<rparr>"

theorem manager_restart_forgets_units_witness:
  "\<exists>l. new_systemd_manager example_services_codec ''/etc/worker''
      (snd (snd (manager_add example_services_codec example_service (example_manager, fs_with_dirs {''/etc/worker''})))) = Inr l \<and>
    (\<forall>k. manager_get l k =
       map_option json_fields (if k = svc_name example_service then Some example_service else manager_get example_manager k)) \<and>
    (\<forall>k t B (w :: unit world). manager_get l k = Some t \<longrightarrow> w_fs (snd (service_add B t w)) = w_fs w)"
proof (rule manager_restart_forgets_units)
  let ?s = "manager_add example_services_codec example_service (example_manager, fs_with_dirs {''/etc/worker''})"
  show "sm_file example_manager = path_join [''/etc/worker'', ''services.json'']" by code_simp
  show "codec_inverts example_services_codec
      (map (map_prod (\<lambda>k. k) json_fields) (sm_services (put_service example_service example_manager)))"
    unfolding codec_inverts_def
    by (rule exI [where x = "''web:web:web:web-c1''"]) (rule conjI; code_simp)
  have "fst ?s = None" by code_simp
  then show "?s = (None, (fst (snd ?s), snd (snd ?s)))" by (metis prod.collapse)
qed

end
