(* ===== verification/Podman.thy ===== *)
theory Podman
  imports Systemd
begin

text \<open>
  \<open>internal/workload/podman/podman.go\<close>, the types of the pods it runs and \<open>internal/volumes\<close>.
  The client library of podman is the record \<open>podman_api\<close>; its calls act on the external state \<open>'x\<close>.
\<close>

subsection \<open>Pods\<close>

text \<open>
  The parts of \<open>v1.Pod\<close> and \<open>v1.PodSpec\<close> that the worker reads or writes; the remaining fields of a
  container and of a spec are kept as one value each, as they pass through unchanged.
\<close>

datatype host_path_type = DirectoryOrCreate | BlockDevice | OtherType string

record volume =
  vol_name :: string
  vol_host_path :: "(host_path_type option \<times> string) option"   \<comment> \<open>\<open>HostPath\<close>: its type and path\<close>

record container =
  ct_name :: string
  ct_ports :: "32 word list"   \<comment> \<open>\<open>HostPort\<close> of each port\<close>
  ct_volume_mounts :: "(string \<times> string) list"
  ct_env :: "(string \<times> string) list"
  ct_rest :: string

record pod_spec =
  ps_containers :: "container list"
  ps_volumes :: "volume list"
  ps_rest :: string

record pod =
  pod_name :: string
  pod_annotations :: labels
  pod_labels :: labels
  pod_spec_of :: pod_spec

definition host_path_volume_path :: "string \<Rightarrow> string \<Rightarrow> string" where
  "host_path_volume_path volumesDir workloadName = path_join [volumesDir, workloadName]"

definition host_path_volume :: "string \<Rightarrow> string \<Rightarrow> volume" where
  "host_path_volume volumesDir workloadName =
     \<lparr>vol_name = ''export-'' @ workloadName,
      vol_host_path = Some (Some DirectoryOrCreate, host_path_volume_path volumesDir workloadName)\<rparr>"

subsection \<open>The client\<close>

record container_report =
  cr_ip_address :: string
  cr_id :: string
  cr_name :: string

record pod_report =
  pr_id :: string
  pr_name :: string
  pr_containers :: "container_report list"

definition append_container :: "pod_report \<Rightarrow> container_report \<Rightarrow> pod_report" where
  "append_container p c = p\<lparr>pr_containers := pr_containers p @ [c]\<rparr>"

text \<open>
  The calls of the library, with the parts of the results the worker reads: a listed pod is its id,
  name and status; an inspected container its name and the addresses by network; an inspected pod
  its name and containers; a played manifest the pods with their containers.
  \<open>pa_parse_version\<close> is \<open>semver\<close>, which panics on other strings in \<open>MustParse\<close>.
\<close>

record 'x podman_api =
  pa_connect :: "string \<Rightarrow> 'x proc"
  pa_version :: "('x, string) op"
  pa_parse_version :: "string \<Rightarrow> (nat \<times> nat) option"
  pa_list :: "('x, (string \<times> string \<times> string) list) op"
  pa_exists :: "string \<Rightarrow> ('x, bool) op"
  pa_remove :: "string \<Rightarrow> 'x proc"
  pa_inspect_container :: "string \<Rightarrow> ('x, string \<times> (string \<rightharpoonup> string)) op"
  pa_inspect_pod :: "string \<Rightarrow> ('x, string \<times> string list) op"
  pa_stop :: "int \<Rightarrow> string \<Rightarrow> 'x proc"
  pa_start :: "string \<Rightarrow> 'x proc"
  pa_play :: "string \<Rightarrow> string \<Rightarrow> string list \<Rightarrow> labels \<Rightarrow> bool \<Rightarrow> ('x, (string \<times> string list) list) op"
  pa_list_secrets :: "('x, string list) op"
  pa_remove_secret :: "string \<Rightarrow> 'x proc"
  pa_create_secret :: "string \<Rightarrow> string \<Rightarrow> 'x proc"
  pa_generate_systemd :: "string \<Rightarrow> nat \<Rightarrow> ('x, (string \<times> string) list) op"

definition default_network_name :: string where
  "default_network_name = ''podman''"

definition default_stop_timeout :: int where
  "default_stop_timeout = 5"

text \<open>\<open>MinVersion\<close>: podman 4.2 or later.\<close>

definition min_version :: "'x podman_api \<Rightarrow> 'x \<Rightarrow> (gerror option \<times> 'x) go" where
  "min_version P x =
     (case pa_version P x of
        (Inl e, x') \<Rightarrow> Ret (Some (Wrap ''cannot get podman version'' e), x')
      | (Inr v, x') \<Rightarrow>
          (case pa_parse_version P v of
             None \<Rightarrow> Panic
           | Some (major, minor) \<Rightarrow>
               (if major > 4 then Ret (None, x')
                else if major = 4 \<and> minor \<ge> 2 then Ret (None, x')
                else Ret (Some (Err (''podman version '' @ v @ '' is not supported, needs >= v4.2'')), x'))))"

text \<open>\<open>NewPodman\<close>: the client is its timeout for stopping pods.\<close>

definition podman_socket :: "string \<Rightarrow> string" where
  "podman_socket runtimeDir = ''unix:'' @ runtimeDir @ ''/podman/podman.sock''"

definition new_podman :: "'x podman_api \<Rightarrow> string \<Rightarrow> 'x \<Rightarrow> ((gerror + int) \<times> 'x) go" where
  "new_podman P runtimeDir x =
     (case pa_connect P (podman_socket runtimeDir) x of
        (Some e, x') \<Rightarrow> Ret (Inl e, x')
      | (None, x') \<Rightarrow> go_bind (min_version P x') (\<lambda>(r, x'').
          Ret (case r of Some e \<Rightarrow> (Inl e, x'') | None \<Rightarrow> (Inr default_stop_timeout, x''))))"

definition podman_list :: "'x podman_api \<Rightarrow> ('x, workload_info list) op" where
  "podman_list P x =
     (case pa_list P x of
        (Inl e, x') \<Rightarrow> (Inl e, x')
      | (Inr ps, x') \<Rightarrow> (Inr (map (\<lambda>(i, n, s). \<lparr>wi_id = i, wi_name = n, wi_status = s\<rparr>) ps), x'))"

definition podman_exists :: "'x podman_api \<Rightarrow> string \<Rightarrow> ('x, bool) op" where
  "podman_exists P pod = pa_exists P pod"

definition podman_remove :: "'x podman_api \<Rightarrow> string \<Rightarrow> 'x proc" where
  "podman_remove P pod = bind_ok (podman_exists P pod) (\<lambda>there. if there then pa_remove P pod else ok)"

definition podman_stop :: "'x podman_api \<Rightarrow> string \<Rightarrow> 'x proc" where
  "podman_stop P pod = bind_ok (pa_exists P pod) (\<lambda>there. if there then pa_stop P default_stop_timeout pod else ok)"

definition podman_start :: "'x podman_api \<Rightarrow> string \<Rightarrow> 'x proc" where
  "podman_start P pod = pa_start P pod"

definition get_container_details :: "'x podman_api \<Rightarrow> string \<Rightarrow> ('x, container_report) op" where
  "get_container_details P c x =
     (case pa_inspect_container P c x of
        (Inl e, x') \<Rightarrow> (Inl e, x')
      | (Inr (name, networks), x') \<Rightarrow>
          (case networks default_network_name of
             None \<Rightarrow> (Inl (Err (''cannot retrieve container '' @ c @ '' network information'')), x')
           | Some ip \<Rightarrow> (Inr \<lparr>cr_ip_address = ip, cr_id = c, cr_name = name\<rparr>, x')))"

text \<open>The loops over the containers of a pod skip those that cannot be inspected.\<close>

fun report_containers :: "'x podman_api \<Rightarrow> string list \<Rightarrow> pod_report \<times> 'x \<Rightarrow> pod_report \<times> 'x" where
  "report_containers P [] s = s"
| "report_containers P (c # cs) (r, x) =
     (case get_container_details P c x of
        (Inl _, x') \<Rightarrow> report_containers P cs (r, x')
      | (Inr d, x') \<Rightarrow> report_containers P cs (append_container r d, x'))"

definition get_pod_report :: "'x podman_api \<Rightarrow> string \<Rightarrow> ('x, pod_report) op" where
  "get_pod_report P pod x =
     (case pa_inspect_pod P pod x of
        (Inl e, x') \<Rightarrow> (Inl e, x')
      | (Inr (name, cs), x') \<Rightarrow>
          (case report_containers P cs (\<lparr>pr_id = pod, pr_name = name, pr_containers = []\<rparr>, x') of
             (r, x'') \<Rightarrow> (Inr r, x'')))"

fun report_pods :: "'x podman_api \<Rightarrow> (string \<times> string list) list \<Rightarrow> 'x \<Rightarrow> pod_report list \<times> 'x" where
  "report_pods P [] x = ([], x)"
| "report_pods P ((i, cs) # ps) x =
     (case report_containers P cs (\<lparr>pr_id = i, pr_name = [], pr_containers = []\<rparr>, x) of
        (r, x') \<Rightarrow> (case report_pods P ps x' of (rs, x'') \<Rightarrow> (r # rs, x'')))"

definition podman_run :: "'x podman_api \<Rightarrow> string \<Rightarrow> string \<Rightarrow> labels \<Rightarrow> ('x, pod_report list) op" where
  "podman_run P manifestPath authFilePath annotations x =
     (case pa_play P manifestPath authFilePath [default_network_name] annotations False x of
        (Inl e, x') \<Rightarrow> (Inl e, x')
      | (Inr ps, x') \<Rightarrow> (case report_pods P ps x' of (rs, x'') \<Rightarrow> (Inr rs, x'')))"

text \<open>The result is a set: the names without repetition.\<close>

definition list_secrets :: "'x podman_api \<Rightarrow> ('x, string list) op" where
  "list_secrets P x = (case pa_list_secrets P x of (Inl e, x') \<Rightarrow> (Inl e, x') | (Inr ns, x') \<Rightarrow> (Inr (remdups ns), x'))"

definition remove_secret :: "'x podman_api \<Rightarrow> string \<Rightarrow> 'x proc" where
  "remove_secret P name = pa_remove_secret P name"

definition create_secret :: "'x podman_api \<Rightarrow> string \<Rightarrow> string \<Rightarrow> 'x proc" where
  "create_secret P name content = pa_create_secret P name content"

definition update_secret :: "'x podman_api \<Rightarrow> string \<Rightarrow> string \<Rightarrow> 'x proc" where
  "update_secret P name content = then_ok (remove_secret P name) (create_secret P name content)"

definition has_auto_update_enabled :: "(string, string) mapping \<Rightarrow> bool" where
  "has_auto_update_enabled ls \<longleftrightarrow> (\<exists>l \<in> Mapping.keys ls. str_contains l ''io.containers.autoupdate'')"

definition newline :: string where
  "newline = [CHR 0x0A]"

definition auto_update_unit :: "string \<Rightarrow> string \<Rightarrow> string" where
  "auto_update_unit podName manifestPath = concat (map (\<lambda>l. l @ newline)
     [''[Unit]'', ''Description=Podman '' @ podName @ ''.service'', ''Wants=network-online.target'',
      ''After=network-online.target'', [], ''[Service]'', ''Restart=on-failure'', ''RestartSec=15'',
      ''ExecStart=/usr/bin/podman play kube --replace '' @ manifestPath,
      ''ExecStop=/usr/bin/podman play kube --down '' @ manifestPath, ''Type=forking'', [],
      ''[Install]'', ''WantedBy=default.target''])"

text \<open>The pod's own labels decide which of the two kinds of unit files the service has.\<close>

definition generate_systemd_service ::
  "'x podman_api \<Rightarrow> 'x bus \<Rightarrow> pod \<Rightarrow> string \<Rightarrow> nat \<Rightarrow> ('x world, service) op" where
  "generate_systemd_service P B p manifestPath monitoringInterval w =
     (if \<not> has_auto_update_enabled (label_map (pod_labels p)) then
        (case call_ext (pa_generate_systemd P (pod_name p) monitoringInterval) w of
           (Inl e, w') \<Rightarrow> (Inl e, w')
         | (Inr units, w') \<Rightarrow> new_systemd B (pod_name p) units w')
      else new_systemd B (pod_name p) [(pod_name p, auto_update_unit (pod_name p) manifestPath)] w)"

subsection \<open>Events\<close>

datatype pod_event_kind = Started_Container | Stopped_Container

record podman_event =
  pe_kind :: pod_event_kind
  pe_workload :: string
  pe_report :: "pod_report option"

text \<open>The events sent when the listener starts: one for each pod that can be inspected.\<close>

fun initial_events :: "'x podman_api \<Rightarrow> workload_info list \<Rightarrow> 'x \<Rightarrow> podman_event list \<times> 'x" where
  "initial_events P [] x = ([], x)"
| "initial_events P (w # ws) x =
     (case get_pod_report P (wi_id w) x of
        (Inl _, x') \<Rightarrow> initial_events P ws x'
      | (Inr r, x') \<Rightarrow>
          (case initial_events P ws x' of (es, x'') \<Rightarrow>
             (\<lparr>pe_kind = Started_Container, pe_workload = wi_name w, pe_report = Some r\<rparr> # es, x'')))"

text \<open>An error of the listing is only logged; every event is sent by a goroutine of its own.\<close>

definition start_events :: "'x podman_api \<Rightarrow> 'x \<Rightarrow> podman_event list \<times> 'x" where
  "start_events P x =
     (case podman_list P x of (l, x') \<Rightarrow> initial_events P (case l of Inl _ \<Rightarrow> [] | Inr ws \<Rightarrow> ws) x')"

text \<open>One message of podman's event stream: its action, the id of the pod and its name.\<close>

definition translate_event :: "'x podman_api \<Rightarrow> string \<Rightarrow> string \<Rightarrow> string \<Rightarrow> 'x \<Rightarrow> podman_event option \<times> 'x" where
  "translate_event P action pod name x =
     (if action = ''start'' then
        (case get_pod_report P pod x of
           (Inl _, x') \<Rightarrow> (None, x')
         | (Inr r, x') \<Rightarrow> (Some \<lparr>pe_kind = Started_Container, pe_workload = name, pe_report = Some r\<rparr>, x'))
      else if action = ''remove'' \<or> action = ''stop'' then
        (Some \<lparr>pe_kind = Stopped_Container, pe_workload = name, pe_report = None\<rparr>, x)
      else (None, x))"

subsection \<open>Laws\<close>

lemma update_secret_error:
  "fst (pa_remove_secret P name x) = Some e \<Longrightarrow> fst (update_secret P name content x) = Some e"
  by (auto simp: update_secret_def remove_secret_def then_ok_def split: prod.splits option.splits)

lemma report_containers_id: "pr_id (fst (report_containers P cs (r, x))) = pr_id r"
  by (induction P cs "(r, x)" arbitrary: r x rule: report_containers.induct)
    (auto simp: append_container_def split: prod.splits sum.splits)

lemma report_pods_ids: "map pr_id (fst (report_pods P ps x)) = map fst ps"
proof (induction P ps x rule: report_pods.induct)
  case (2 P i cs ps x)
  then show ?case
    using report_containers_id [of P cs "\<lparr>pr_id = i, pr_name = [], pr_containers = []\<rparr>" x]
    by (auto split: prod.splits)
qed simp

lemma podman_run_ids:
  assumes "podman_run P m a an x = (Inr rs, x'')"
  shows "\<exists>ps x'. pa_play P m a [default_network_name] an False x = (Inr ps, x') \<and> map pr_id rs = map fst ps"
proof -
  obtain ps x' where ps: "pa_play P m a [default_network_name] an False x = (Inr ps, x')" "report_pods P ps x' = (rs, x'')"
    using assms by (auto simp: podman_run_def split: prod.splits sum.splits)
  then have "map pr_id rs = map fst ps" using report_pods_ids [of P ps x'] by simp
  with ps(1) show ?thesis by blast
qed

end
