(* ===== verification/Podman_Logs.thy ===== *)
theory Podman_Logs
  imports Podman
begin

text \<open>
  The goroutines of \<open>Logs\<close> and \<open>containerLog\<close> of \<open>internal/workload/podman/podman.go\<close>: for each container of a
  pod one goroutine copies the lines podman sends into a buffer, and one goroutine of the pod reads the
  buffers in turn and writes what it reads to the writer it was given. Their steps are a step relation;
  \<open>lo_received\<close> records the lines that have been copied.
\<close>

subsection \<open>State\<close>

datatype pump = Round "string list" bool   \<comment> \<open>the containers still to read in this round, \<open>hadLines\<close>\<close>
  | Ended

record log_stream =
  lo_containers :: "string list"
  lo_buffers :: "string \<Rightarrow> string"   \<comment> \<open>what has been copied and not been read, by container\<close>
  lo_copying :: "string list"
  lo_pump :: pump
  lo_cancelled :: bool
  lo_received :: "(string \<times> string) list"
  lo_written :: "(string \<times> string) list"

text \<open>The ids of a pod's containers are distinct, so that every one has a buffer of its own.\<close>

definition start_log_stream :: "string list \<Rightarrow> log_stream" where
  "start_log_stream cs = \<lparr>lo_containers = cs, lo_buffers = (\<lambda>c. []), lo_copying = cs,
     lo_pump = Round cs False, lo_cancelled = False, lo_received = [], lo_written = []\<rparr>"

definition podman_logs :: "'x podman_api \<Rightarrow> string \<Rightarrow> ('x, log_stream) op" where
  "podman_logs P pod x =
     (case pa_inspect_pod P pod x of
        (Inl e, x') \<Rightarrow> (Inl e, x')
      | (Inr (name, cs), x') \<Rightarrow> (Inr (start_log_stream cs), x'))"

subsection \<open>Steps\<close>

text \<open>A line of the standard output or of the standard error of a container.\<close>

definition container_log_line :: "string \<Rightarrow> string \<Rightarrow> string" where
  "container_log_line buf line = buf @ line @ newline"

definition copy_line :: "string \<Rightarrow> string \<Rightarrow> log_stream \<Rightarrow> log_stream" where
  "copy_line c line s = s\<lparr>lo_buffers := (lo_buffers s)(c := container_log_line (lo_buffers s c) line),
     lo_received := lo_received s @ [(c, line)]\<rparr>"

text \<open>\<open>ReadString\<close>: a line with its end, or the rest of the buffer when no line of it has ended.\<close>

definition read_string :: "string \<Rightarrow> string \<times> string" where
  "read_string buf =
     (let l = takeWhile (\<lambda>c. c \<noteq> CHR 0x0A) buf
      in if length l < length buf then (l @ newline, drop (Suc (length l)) buf) else (buf, []))"

text \<open>One turn of the loop over the buffers; an error of the writer is only logged.\<close>

definition read_container :: "string \<Rightarrow> log_stream \<Rightarrow> bool \<times> log_stream" where
  "read_container c s =
     (case read_string (lo_buffers s c) of (line, rest) \<Rightarrow>
        let s' = s\<lparr>lo_buffers := (lo_buffers s)(c := rest)\<rparr> in
        if line = [] then (False, s') else (True, s'\<lparr>lo_written := lo_written s' @ [(c, line)]\<rparr>))"

text \<open>The text of a write.\<close>

definition log_text :: "string \<times> string \<Rightarrow> string" where
  "log_text = (\<lambda>(c, line). c @ '': '' @ line)"

text \<open>
  A \<open>select\<close> takes any of its cases that is ready: after a round without lines the timer may go on although
  the context is done, after a round with lines a context that is done always ends the goroutine.
\<close>

inductive log_step :: "log_stream \<Rightarrow> log_stream \<Rightarrow> bool" where
  copy: "c \<in> set (lo_copying s) \<Longrightarrow> log_step s (copy_line c line s)"
| copy_ends: "c \<in> set (lo_copying s) \<Longrightarrow> lo_cancelled s \<Longrightarrow> log_step s (s\<lparr>lo_copying := remove1 c (lo_copying s)\<rparr>)"
| read: "lo_pump s = Round todo had \<Longrightarrow> c \<in> set todo \<Longrightarrow> read_container c s = (had', s') \<Longrightarrow>
    log_step s (s'\<lparr>lo_pump := Round (remove1 c todo) (had \<or> had')\<rparr>)"
| next_round: "lo_pump s = Round [] had \<Longrightarrow> \<not> (had \<and> lo_cancelled s) \<Longrightarrow>
    log_step s (s\<lparr>lo_pump := Round (lo_containers s) False\<rparr>)"
| pump_ends: "lo_pump s = Round [] had \<Longrightarrow> lo_cancelled s \<Longrightarrow> log_step s (s\<lparr>lo_pump := Ended\<rparr>)"
| cancel: "log_step s (s\<lparr>lo_cancelled := True\<rparr>)"

subsection \<open>Lines arrive whole and in order\<close>

definition lines_of :: "string \<Rightarrow> (string \<times> string) list \<Rightarrow> string list" where
  "lines_of c ps = map snd (filter (\<lambda>p. fst p = c) ps)"

lemma lines_of_snoc [simp]: "lines_of c (ps @ [(d, l)]) = lines_of c ps @ (if d = c then [l] else [])"
  by (simp add: lines_of_def)

abbreviation ended :: "string list \<Rightarrow> string list" where
  "ended ls \<equiv> map (\<lambda>l. l @ newline) ls"

abbreviation one_line :: "string \<Rightarrow> bool" where
  "one_line l \<equiv> CHR 0x0A \<notin> set l"

lemma read_string_nil [simp]: "read_string [] = ([], [])"
  by (simp add: read_string_def)

lemma read_string_line: "one_line l \<Longrightarrow> read_string ((l @ newline) @ buf) = (l @ newline, buf)"
proof -
  assume l: "one_line l"
  then have "takeWhile (\<lambda>c. c \<noteq> CHR 0x0A) (l @ CHR 0x0A # buf) = l"
    by (induction l) auto
  then show ?thesis by (simp add: read_string_def newline_def)
qed

text \<open>What a container has sent is what has been written, followed by what its buffer holds.\<close>

definition stream_ok :: "string \<Rightarrow> log_stream \<Rightarrow> bool" where
  "stream_ok c s \<longleftrightarrow> (\<exists>k \<le> length (lines_of c (lo_received s)).
     lines_of c (lo_written s) = ended (take k (lines_of c (lo_received s))) \<and>
     lo_buffers s c = concat (ended (drop k (lines_of c (lo_received s)))))"

abbreviation whole_lines :: "log_stream \<Rightarrow> bool" where
  "whole_lines s \<equiv> \<forall>l \<in> snd ` set (lo_received s). one_line l"

lemma newline_nonempty [simp]: "newline \<noteq> []"
  by (simp add: newline_def)

lemma stream_okI:
  assumes "k \<le> length (lines_of c (lo_received s))"
    and "lines_of c (lo_written s) = ended (take k (lines_of c (lo_received s)))"
    and "lo_buffers s c = concat (ended (drop k (lines_of c (lo_received s))))"
  shows "stream_ok c s"
  using assms unfolding stream_ok_def by (intro exI [of _ k] conjI)

lemma stream_okE:
  assumes "stream_ok c s"
  obtains k where "k \<le> length (lines_of c (lo_received s))"
    "lines_of c (lo_written s) = ended (take k (lines_of c (lo_received s)))"
    "lo_buffers s c = concat (ended (drop k (lines_of c (lo_received s))))"
  using assms unfolding stream_ok_def by (elim exE conjE)

lemma stream_ok_copy: "stream_ok c s \<Longrightarrow> stream_ok c (copy_line d l s)"
proof (erule stream_okE)
  fix k
  assume "k \<le> length (lines_of c (lo_received s))"
    "lines_of c (lo_written s) = ended (take k (lines_of c (lo_received s)))"
    "lo_buffers s c = concat (ended (drop k (lines_of c (lo_received s))))"
  then show ?thesis
    by (intro stream_okI [of k]) (auto simp: copy_line_def container_log_line_def)
qed

lemma stream_ok_read:
  assumes "stream_ok c s" and "whole_lines s" and "read_container d s = (had, s')"
  shows "stream_ok c s'"
proof -
  let ?r = "lines_of c (lo_received s)"
  obtain k where k: "k \<le> length ?r" "lines_of c (lo_written s) = ended (take k ?r)"
    "lo_buffers s c = concat (ended (drop k ?r))"
    using assms(1) by (rule stream_okE)
  obtain line rest where r: "read_string (lo_buffers s d) = (line, rest)" by (meson surj_pair)
  have s': "s' = (if line = [] then s\<lparr>lo_buffers := (lo_buffers s)(d := rest)\<rparr>
      else s\<lparr>lo_buffers := (lo_buffers s)(d := rest), lo_written := lo_written s @ [(d, line)]\<rparr>)"
    using assms(3) r by (auto simp: read_container_def Let_def split: if_splits)
  show ?thesis
  proof (cases "d = c")
    case False
    then show ?thesis using k s' by (intro stream_okI [of k]) simp_all
  next
    case True
    show ?thesis
    proof (cases "k < length ?r")
      case False
      then have "k = length ?r" using k(1) by simp
      moreover from this have "lo_buffers s c = []" using k by simp
      then have "line = []" "rest = []" using r True by simp_all
      ultimately show ?thesis using k s' True by (intro stream_okI [of k]) simp_all
    next
      case less: True
      have "?r ! k \<in> set ?r" using less by simp
      then have "one_line (?r ! k)" using assms(2) by (auto simp: lines_of_def)
      then have "line = ?r ! k @ newline" "rest = concat (ended (drop (Suc k) ?r))"
        using read_string_line [of "?r ! k" "concat (ended (drop (Suc k) ?r))"] r k(3) True
        by (simp_all add: Cons_nth_drop_Suc [OF less, symmetric])
      moreover have "ended (take (Suc k) ?r) = ended (take k ?r) @ [?r ! k @ newline]"
        using less by (simp add: take_Suc_conv_app_nth)
      ultimately show ?thesis
        using k s' True less by (intro stream_okI [of "Suc k"]) simp_all
    qed
  qed
qed

lemma received_grows: "log_step s s' \<Longrightarrow> set (lo_received s) \<subseteq> set (lo_received s')"
  by (induction rule: log_step.induct)
    (auto simp: copy_line_def read_container_def Let_def split: prod.splits if_splits)

lemma stream_ok_step:
  assumes "log_step s s'" and "stream_ok c s" and "whole_lines s'"
  shows "stream_ok c s'"
  using assms
proof (induction rule: log_step.induct)
  case (read s todo had d had' s')
  then have "lo_received s' = lo_received s"
    by (auto simp: read_container_def Let_def split: prod.splits if_splits)
  then show ?case using stream_ok_read [of c s d had' s'] read by (simp add: stream_ok_def)
qed (auto simp: stream_ok_copy, auto simp: stream_ok_def)

lemma stream_ok_reach:
  "reach log_step s0 s \<Longrightarrow> stream_ok c s0 \<Longrightarrow> whole_lines s \<Longrightarrow> stream_ok c s"
proof (induction rule: reach.induct)
  case (further s s')
  moreover have "whole_lines s" using received_grows [OF further(2)] further.prems by blast
  ultimately show ?case using stream_ok_step by blast
qed simp

lemma stream_ok_start: "stream_ok c (start_log_stream cs)"
  by (simp add: stream_ok_def start_log_stream_def lines_of_def)

text \<open>Nothing of a container is written after the pump has ended.\<close>

lemma ended_pump_writes_nothing:
  "log_step s s' \<Longrightarrow> lo_pump s = Ended \<Longrightarrow> lo_pump s' = Ended \<and> lo_written s' = lo_written s"
  by (induction rule: log_step.induct) (auto simp: copy_line_def)

subsection \<open>Properties\<close>


text \<open>Two containers whose lines arrive in turn; one of them has been read.\<close>

definition example_logs_podman :: "unit podman_api" where
  "example_logs_podman = \<lparr>pa_connect = (\<lambda>a. ok), pa_version = (\<lambda>x. (Inr ''4.2.0'', x)), pa_parse_version = (\<lambda>v. Some (4, 2)),
     pa_list = (\<lambda>x. (Inr [], x)), pa_exists = (\<lambda>i x. (Inr True, x)), pa_remove = (\<lambda>i. ok),
     pa_inspect_container = (\<lambda>c x. (Inl (Err c), x)), pa_inspect_pod = (\<lambda>i x. (Inr (i, [''a'', ''b'']), x)),
     pa_stop = (\<lambda>t i. ok), pa_start = (\<lambda>i. ok), pa_play = (\<lambda>m a ns an st x. (Inr [], x)),
     pa_list_secrets = (\<lambda>x. (Inr [], x)), pa_remove_secret = (\<lambda>n. ok), pa_create_secret = (\<lambda>n c. ok),
     pa_generate_systemd = (\<lambda>n i x. (Inr [], x))\<rparr>"

definition example_streamed :: log_stream where
  "example_streamed = (snd (read_container ''a'' (copy_line ''a'' ''three'' (copy_line ''b'' ''two''
     (copy_line ''a'' ''one'' (start_log_stream [''a'', ''b'']))))))\<lparr>lo_pump := Round [''b''] True\<rparr>"

lemma example_streamed_reached: "reach log_step (start_log_stream [''a'', ''b'']) example_streamed"
proof -
  let ?s0 = "start_log_stream [''a'', ''b'']"
  let ?s1 = "copy_line ''a'' ''one'' ?s0"
  let ?s2 = "copy_line ''b'' ''two'' ?s1"
  let ?s3 = "copy_line ''a'' ''three'' ?s2"
  have "reach log_step ?s0 ?s1" by (rule reach_one [of log_step, OF log_step.copy]) (simp add: start_log_stream_def)
  then have "reach log_step ?s0 ?s2"
    by (rule reach.further [of log_step, OF _ log_step.copy]) (simp add: start_log_stream_def copy_line_def)
  then have 3: "reach log_step ?s0 ?s3"
    by (rule reach.further [of log_step, OF _ log_step.copy]) (simp add: start_log_stream_def copy_line_def)
  have "read_container ''a'' ?s3 = (True, snd (read_container ''a'' ?s3))"
    by (simp add: read_container_def start_log_stream_def copy_line_def container_log_line_def read_string_def newline_def)
  then have "log_step ?s3 ((snd (read_container ''a'' ?s3))\<lparr>lo_pump := Round (remove1 ''a'' [''a'', ''b'']) (False \<or> True)\<rparr>)"
    by (intro log_step.read) (simp_all add: start_log_stream_def copy_line_def)
  then show ?thesis using reach.further [OF 3] by (simp add: example_streamed_def)
qed


end
