(* ===== verification/Logs.thy ===== *)
theory Logs
  imports Models "HOL-Library.Multiset"
begin

text \<open>
  \<open>internal/logs\<close>: the bounded queue of log lines (\<open>log_container.go\<close>), the writer that fills it
  from a workload (\<open>workload_writer.go\<close>), the syslog transport that drains it
  (\<open>syslog_transport.go\<close>) and the observer that keeps one queue per configured transport and one
  writer per running workload (\<open>workload.go\<close>). A queue is shared by the writer and the transport
  through a pointer: queues live in a heap and are named by their address.
\<close>

subsection \<open>The queue\<close>

record log_entry =
  le_time :: int
  le_data :: string
  le_workload :: string

definition entry_size :: "log_entry \<Rightarrow> int" where
  "entry_size e = int (length (le_data e))"

record fifo_log =
  fl_maxlen :: int
  fl_data :: "log_entry list"
  fl_current_size :: int

definition new_fifo_log :: "int \<Rightarrow> fifo_log" where
  "new_fifo_log maxSize = \<lparr>fl_maxlen = maxSize, fl_data = [], fl_current_size = 0\<rparr>"

definition fifo_write :: "log_entry option \<Rightarrow> fifo_log \<Rightarrow> gerror option \<times> fifo_log" where
  "fifo_write entry f =
     (case entry of
        None \<Rightarrow> (Some (Err ''no log entry added''), f)
      | Some e \<Rightarrow>
          if fl_current_size f > fl_maxlen f then (Some (Err ''buffer is already full''), f)
          else (None, f\<lparr>fl_data := fl_data f @ [e],
                        fl_current_size := fl_current_size f + entry_size e\<rparr>))"

definition fifo_read_line :: "fifo_log \<Rightarrow> (log_entry option \<times> fifo_log) go" where
  "fifo_read_line f =
     (if fl_current_size f \<le> 0 then Ret (None, f)
      else case fl_data f of
        [] \<Rightarrow> Panic
      | e # es \<Rightarrow> Ret (Some e, f\<lparr>fl_data := es,
                                 fl_current_size := fl_current_size f - entry_size e\<rparr>))"

definition fifo_inv :: "fifo_log \<Rightarrow> bool" where
  "fifo_inv f \<longleftrightarrow> fl_current_size f = sum_list (map entry_size (fl_data f))"

lemma entry_size_nonneg [simp]: "0 \<le> entry_size e"
  by (simp add: entry_size_def)

lemma sizes_nonneg: "0 \<le> sum_list (map entry_size es)"
  by (induction es) (auto simp: add_nonneg_nonneg)

lemma sizes_zero_iff: "sum_list (map entry_size es) = 0 \<longleftrightarrow> (\<forall>e \<in> set es. entry_size e = 0)"
proof (induction es)
  case Nil
  then show ?case by simp
next
  case (Cons e es)
  show ?case
    using Cons add_nonneg_eq_0_iff [OF entry_size_nonneg [of e] sizes_nonneg [of es]] by simp
qed

text \<open>Reading up to \<open>n\<close> entries, stopping when there is nothing to send.\<close>

primrec drain :: "('q \<Rightarrow> ('e option \<times> 'q) go) \<Rightarrow> nat \<Rightarrow> 'q \<Rightarrow> 'e list \<Rightarrow> ('e list \<times> 'q) go" where
  "drain deq 0 q acc = Ret (acc, q)"
| "drain deq (Suc n) q acc = go_bind (deq q)
     (\<lambda>(e, q'). case e of None \<Rightarrow> Ret (acc, q') | Some x \<Rightarrow> drain deq n q' (acc @ [x]))"

text \<open>
  One turn of the loop of \<open>transportLog.Start\<close>: take an entry, send it, and put it back when that
  fails. With nothing to send the loop sleeps and changes nothing.
\<close>

definition pump_step ::
  "('e option \<Rightarrow> 'q \<Rightarrow> gerror option \<times> 'q) \<Rightarrow> ('q \<Rightarrow> ('e option \<times> 'q) go) \<Rightarrow> ('e \<Rightarrow> 't proc) \<Rightarrow>
   'q \<times> 't \<Rightarrow> ('q \<times> 't) go" where
  "pump_step enq deq send st = go_bind (deq (fst st))
     (\<lambda>(entry, q). case entry of
        None \<Rightarrow> Ret (q, snd st)
      | Some e \<Rightarrow> (case send e (snd st) of
                    (None, t) \<Rightarrow> Ret (q, t)
                  | (Some err, t) \<Rightarrow> Ret (snd (enq (Some e) q), t)))"

definition transport_step ::
  "(log_entry \<Rightarrow> 't proc) \<Rightarrow> fifo_log \<times> 't \<Rightarrow> (fifo_log \<times> 't) go" where
  "transport_step = pump_step fifo_write fifo_read_line"

text \<open>
  What the users of the queue rely on: a write that succeeds appends the entry, one that fails
  changes nothing, and a read takes the oldest entry, or finds that there is nothing to send.
\<close>

locale log_queue =
  fixes enqueue :: "'e option \<Rightarrow> 'q \<Rightarrow> gerror option \<times> 'q"
    and dequeue :: "'q \<Rightarrow> ('e option \<times> 'q) go"
    and contents :: "'q \<Rightarrow> 'e list"
    and weight :: "'e \<Rightarrow> int"
    and inv :: "'q \<Rightarrow> bool"
    and full :: "'q \<Rightarrow> bool"
  assumes weight_nonneg: "0 \<le> weight e"
    and write_ok: "enqueue eo q = (None, q') \<Longrightarrow> \<exists>x. eo = Some x \<and> contents q' = contents q @ [x]"
    and write_fail: "enqueue (Some x) q = (Some err, q') \<Longrightarrow> q' = q \<and> full q"
    and write_inv: "inv q \<Longrightarrow> enqueue eo q = (r, q') \<Longrightarrow> inv q'"
    and read_total: "inv q \<Longrightarrow> dequeue q \<noteq> Panic"
    and read_some: "inv q \<Longrightarrow> dequeue q = Ret (Some e, q') \<Longrightarrow>
      contents q = e # contents q' \<and> inv q'"
    and read_none: "inv q \<Longrightarrow> dequeue q = Ret (None, q') \<Longrightarrow>
      q' = q \<and> (\<forall>e \<in> set (contents q). weight e = 0)"
begin

lemma read_cases:
  assumes "inv q"
  obtains (empty) "dequeue q = Ret (None, q)" "\<forall>e \<in> set (contents q). weight e = 0"
    | (entry) e q' where "dequeue q = Ret (Some e, q')" "contents q = e # contents q'" "inv q'"
proof (cases "dequeue q")
  case Panic
  with read_total [OF assms] show ?thesis by simp
next
  case (Ret p)
  obtain o' q' where p: "p = (o', q')" by (cases p)
  show ?thesis
  proof (cases o')
    case None
    with read_none [OF assms] Ret p show ?thesis by (blast intro: empty)
  next
    case (Some e)
    with read_some [OF assms] Ret p show ?thesis by (blast intro: entry)
  qed
qed

lemma drain_prefix:
  "inv q \<Longrightarrow> \<exists>xs q'. drain dequeue n q acc = Ret (acc @ xs, q') \<and> inv q' \<and> contents q = xs @ contents q' \<and>
     (length xs = n \<or> (\<forall>e \<in> set (contents q'). weight e = 0))"
proof (induction n arbitrary: q acc)
  case 0
  then show ?case by simp
next
  case (Suc n)
  from Suc.prems show ?case
  proof (cases rule: read_cases)
    case empty
    with Suc.prems show ?thesis by auto
  next
    case (entry e q')
    from Suc.IH [OF entry(3), of "acc @ [e]"] obtain xs q'' where
      *: "drain dequeue n q' (acc @ [e]) = Ret (acc @ e # xs, q'')" "inv q''" "contents q' = xs @ contents q''"
        "length xs = n \<or> (\<forall>e \<in> set (contents q''). weight e = 0)"
      by auto
    then show ?thesis
      using entry by (intro exI [of _ "e # xs"] exI [of _ q'']) auto
  qed
qed

lemma pump_step_total:
  assumes inv_q: "inv (fst st)"
  shows "\<exists>st'. pump_step enqueue dequeue send st = Ret st' \<and> inv (fst st')"
  using inv_q
proof (cases rule: read_cases)
  case empty
  then show ?thesis using inv_q by (simp add: pump_step_def)
next
  case (entry e q')
  moreover have "inv (snd (enqueue (Some e) q'))"
    by (rule write_inv [OF entry(3) surjective_pairing])
  ultimately show ?thesis
    by (auto simp: pump_step_def split: prod.splits option.splits)
qed

lemma pump_step_contents:
  assumes "inv q" and "pump_step enqueue dequeue send (q, t) = Ret (q', t')"
  shows "contents q' = contents q \<and> t' = t \<or>
    (\<exists>e rest. contents q = e # rest \<and> send e t = (None, t') \<and> contents q' = rest) \<or>
    (\<exists>e rest err. contents q = e # rest \<and> send e t = (Some err, t') \<and>
       (contents q' = rest @ [e] \<or> contents q' = rest \<and> full q'))"
  using assms(1)
proof (cases rule: read_cases)
  case empty
  with assms(2) show ?thesis by (simp add: pump_step_def)
next
  case (entry e q1)
  obtain r t1 where send: "send e t = (r, t1)" by (cases "send e t")
  show ?thesis
  proof (cases r)
    case None
    with entry send assms(2) show ?thesis by (auto simp: pump_step_def)
  next
    case (Some err)
    obtain wr q2 where w: "enqueue (Some e) q1 = (wr, q2)" by (cases "enqueue (Some e) q1")
    with Some entry send assms(2) have "q' = q2" "t' = t1" by (auto simp: pump_step_def)
    moreover have "contents q2 = contents q1 @ [e] \<or> contents q2 = contents q1 \<and> full q2"
      using w write_ok [of "Some e" q1 q2] write_fail [of e q1 _ q2] by (cases wr) auto
    ultimately show ?thesis using Some entry send by auto
  qed
qed

end

lemma fifo_read_line_cases:
  assumes "fifo_inv f"
  shows "fifo_read_line f = Ret (None, f) \<and> (\<forall>e \<in> set (fl_data f). entry_size e = 0) \<or>
    (\<exists>e es. fl_data f = e # es \<and>
       fifo_read_line f = Ret (Some e, f\<lparr>fl_data := es, fl_current_size := fl_current_size f - entry_size e\<rparr>))"
proof (cases "fl_current_size f \<le> 0")
  case True
  then have "sum_list (map entry_size (fl_data f)) = 0"
    using assms sizes_nonneg [of "fl_data f"] by (simp add: fifo_inv_def)
  with True show ?thesis by (simp add: fifo_read_line_def sizes_zero_iff)
next
  case False
  then show ?thesis
    using assms by (cases "fl_data f") (auto simp: fifo_read_line_def fifo_inv_def)
qed

definition fifo_full :: "fifo_log \<Rightarrow> bool" where
  "fifo_full f \<longleftrightarrow> fl_maxlen f < fl_current_size f"

interpretation fifo: log_queue fifo_write fifo_read_line fl_data entry_size fifo_inv fifo_full
proof (unfold_locales, goal_cases)
  case (5 q)
  then show ?case using fifo_read_line_cases [of q] by auto
next
  case (6 q e q')
  then show ?case using fifo_read_line_cases [of q] by (auto simp: fifo_inv_def)
next
  case (7 q q')
  then show ?case using fifo_read_line_cases [of q] by auto
qed (auto simp: fifo_write_def fifo_inv_def fifo_full_def split: option.splits if_splits)

subsection \<open>Writing to syslog\<close>

text \<open>
  \<open>net.Dial\<close> and the write on the connection are parameters: \<open>dial protocol address\<close> gives a
  connection or an error, \<open>send data c\<close> is one \<open>Fprintf\<close> on it.
\<close>

record 'c syslog_transport =
  st_server :: string
  st_protocol :: string
  st_hostname :: string
  st_conn :: "'c option"

definition new_syslog_server ::
  "(string \<Rightarrow> string \<Rightarrow> gerror + 'c) \<Rightarrow> string \<Rightarrow> string \<Rightarrow> string \<Rightarrow> gerror + 'c syslog_transport" where
  "new_syslog_server dial server protocol deviceID =
     (let proto = (if protocol \<noteq> [] then protocol else ''tcp'')
      in case dial proto server of
           Inl e \<Rightarrow> Inl e
         | Inr c \<Rightarrow> Inr \<lparr>st_server = server, st_protocol = proto, st_hostname = deviceID,
                         st_conn = Some c\<rparr>)"

function write_and_retry ::
  "(string \<Rightarrow> 'c proc) \<Rightarrow> string \<Rightarrow> int \<Rightarrow> 'c option \<Rightarrow> gerror option \<times> 'c option" where
  "write_and_retry send data n conn =
     (if n < 0 then (Some (Err ''cannot send message''), conn)
      else case conn of
        Some c \<Rightarrow> (case send data c of
            (Some e, c') \<Rightarrow> write_and_retry send data (n - 1) (Some c')
          | (None, c') \<Rightarrow> (None, Some c'))
      | None \<Rightarrow> write_and_retry send data (n - 1) None)"
  by pat_completeness auto
termination
  by (relation "measure (\<lambda>(send, data, n, conn). nat (n + 1))") auto

declare write_and_retry.simps [simp del]

definition write_log ::
  "(int \<Rightarrow> string) \<Rightarrow> string \<Rightarrow> (string \<Rightarrow> 'c proc) \<Rightarrow> log_entry \<Rightarrow> 'c syslog_transport \<Rightarrow>
   gerror option \<times> 'c syslog_transport" where
  "write_log rfc3339 pid send logline s =
     (let logEntry = ''<6>'' @ rfc3339 (le_time logline) @ '' '' @ st_hostname s @ '' '' @
            le_workload logline @ ''['' @ pid @ '']: '' @ le_data logline @ [CHR 10]
      in case write_and_retry send logEntry 10 (st_conn s) of
           (r, conn) \<Rightarrow> (r, s\<lparr>st_conn := conn\<rparr>))"

lemma write_and_retry_nil: "fst (write_and_retry send data n None) = Some (Err ''cannot send message'')"
proof (induction "nat (n + 1)" arbitrary: n)
  case 0
  then show ?case by (subst write_and_retry.simps) simp
next
  case (Suc m)
  then have "m = nat ((n - 1) + 1)" "0 \<le> n" by auto
  with Suc.hyps(1) show ?case by (subst write_and_retry.simps) simp
qed

text \<open>The connection after \<open>k\<close> attempts.\<close>

definition after_attempts :: "(string \<Rightarrow> 'c proc) \<Rightarrow> string \<Rightarrow> nat \<Rightarrow> 'c \<Rightarrow> 'c" where
  "after_attempts send data k = (\<lambda>c. snd (send data c)) ^^ k"

lemma after_attempts_simps [simp]:
  "after_attempts send data 0 c = c"
  "after_attempts send data (Suc k) c = after_attempts send data k (snd (send data c))"
  by (simp_all add: after_attempts_def funpow_Suc_right del: funpow.simps(2))

lemma ex_attempt_Suc:
  "(\<exists>k. int k \<le> n \<and> P k) \<longleftrightarrow> 0 \<le> n \<and> (P 0 \<or> (\<exists>k. int k \<le> n - 1 \<and> P (Suc k)))"
proof
  assume "\<exists>k. int k \<le> n \<and> P k"
  then obtain k where k: "int k \<le> n" "P k" by blast
  then show "0 \<le> n \<and> (P 0 \<or> (\<exists>k. int k \<le> n - 1 \<and> P (Suc k)))"
    by (cases k) auto
next
  assume "0 \<le> n \<and> (P 0 \<or> (\<exists>k. int k \<le> n - 1 \<and> P (Suc k)))"
  then consider "0 \<le> n" "P 0" | k where "int k \<le> n - 1" "P (Suc k)" by blast
  then show "\<exists>k. int k \<le> n \<and> P k"
  proof cases
    case 1
    then show ?thesis by (intro exI [of _ 0]) simp
  next
    case 2
    then show ?thesis by (intro exI [of _ "Suc k"]) simp
  qed
qed

lemma write_and_retry_success_iff:
  "fst (write_and_retry send data n (Some c)) = None \<longleftrightarrow>
   (\<exists>k. int k \<le> n \<and> fst (send data (after_attempts send data k c)) = None)"
proof (induction "nat (n + 1)" arbitrary: n c)
  case 0
  then show ?case by (subst write_and_retry.simps) auto
next
  case (Suc m)
  then have n: "0 \<le> n" and m: "m = nat ((n - 1) + 1)" by auto
  obtain r c' where r: "send data c = (r, c')" by (cases "send data c")
  show ?case
    using Suc.hyps(1) [OF m, of c'] n r
    by (subst write_and_retry.simps) (auto simp: ex_attempt_Suc [where n = n] split: option.splits)
qed

subsection \<open>Writers and transports\<close>

record workload_writer =
  ww_workload_name :: string
  ww_cancel :: bool            \<comment> \<open>a non-nil \<open>cancel\<close>\<close>
  ww_target :: "nat option"    \<comment> \<open>address of the queue\<close>
  ww_target_name :: string

definition new_workload_writer :: "string \<Rightarrow> workload_writer" where
  "new_workload_writer workload =
     \<lparr>ww_workload_name = workload, ww_cancel = False, ww_target = None, ww_target_name = []\<rparr>"

definition set_target :: "string \<Rightarrow> nat \<Rightarrow> workload_writer \<Rightarrow> workload_writer" where
  "set_target name target w = w\<lparr>ww_target := Some target, ww_target_name := name\<rparr>"

text \<open>\<open>WorkloadWriter.Write\<close> returns the number of bytes taken or an error.\<close>

definition writer_write ::
  "int \<Rightarrow> string \<Rightarrow> workload_writer \<Rightarrow> fifo_log list \<Rightarrow> (gerror + int) \<times> fifo_log list" where
  "writer_write now data w heap =
     (let entry = \<lparr>le_time = now, le_data = data, le_workload = ww_workload_name w\<rparr>
      in case ww_target w of
           None \<Rightarrow> (Inl (Err ''cannot write to target, no buffer is defined''), heap)
         | Some a \<Rightarrow>
             (case fifo_write (Some entry) (heap ! a) of
                (Some e, q) \<Rightarrow> (Inl (Wrap ''cannot write to target'' e), heap)
              | (None, q) \<Rightarrow> (Inr (int (length data)), heap[a := q])))"

record 'c transport_log =
  tl_transport :: "'c syslog_transport"
  tl_log :: nat

text \<open>
  The state of \<open>WorkloadsLogsTarget\<close>; \<open>lt_heap\<close> holds the queues, \<open>lt_pumps\<close> the queues for which a
  goroutine of \<open>transportLog.Start\<close> runs, \<open>lt_cancelled\<close> the writers whose \<open>cancel\<close> was called.
\<close>

record 'c logs_target =
  lt_device_id :: string
  lt_transports :: "(string \<times> 'c transport_log) list"
  lt_wwriter :: "(string \<times> workload_writer) list"
  lt_workloads_config :: "string \<rightharpoonup> string"
  lt_heap :: "fifo_log list"
  lt_pumps :: "nat list"
  lt_cancelled :: "string list"

definition new_workloads_logs_target :: "'c logs_target" where
  "new_workloads_logs_target = \<lparr>lt_device_id = [], lt_transports = [], lt_wwriter = [],
     lt_workloads_config = Map.empty, lt_heap = [], lt_pumps = [], lt_cancelled = []\<rparr>"

definition get_current_transports :: "'c logs_target \<Rightarrow> string list" where
  "get_current_transports t = map fst (lt_transports t)"

definition get_current_workloads :: "'c logs_target \<Rightarrow> workload_writer list" where
  "get_current_workloads t = map snd (lt_wwriter t)"

definition writer_stop :: "workload_writer \<Rightarrow> 'c logs_target \<Rightarrow> 'c logs_target" where
  "writer_stop w t =
     (if \<not> ww_cancel w then t else t\<lparr>lt_cancelled := lt_cancelled t @ [ww_workload_name w]\<rparr>)"

fun stop_writers_of ::
  "string \<Rightarrow> (string \<times> workload_writer) list \<Rightarrow> 'c logs_target \<Rightarrow> 'c logs_target" where
  "stop_writers_of name [] t = t"
| "stop_writers_of name ((key, writer) # ws) t =
     (if ww_target_name writer \<noteq> name then stop_writers_of name ws t
      else let t1 = writer_stop writer t
           in stop_writers_of name ws (t1\<lparr>lt_wwriter := AList.delete key (lt_wwriter t1)\<rparr>))"

definition delete_target_transport :: "string \<Rightarrow> 'c logs_target \<Rightarrow> 'c logs_target" where
  "delete_target_transport name t =
     stop_writers_of name (lt_wwriter t) (t\<lparr>lt_transports := AList.delete name (lt_transports t)\<rparr>)"

definition delete_workload :: "string \<Rightarrow> 'c logs_target \<Rightarrow> 'c logs_target" where
  "delete_workload name t =
     (case map_of (lt_wwriter t) name of
        None \<Rightarrow> t
      | Some w \<Rightarrow> let t1 = writer_stop w t
                  in t1\<lparr>lt_wwriter := AList.delete name (lt_wwriter t1)\<rparr>)"

text \<open>
  \<open>NewFIFOLog(int(val.BufferSize * 1024))\<close>: the product is taken in \<open>int32\<close> and wraps.
\<close>

definition buffer_bytes :: "32 word \<Rightarrow> int" where
  "buffer_bytes kib = sint (kib * 1024)"

text \<open>The loop over \<open>LogCollection\<close>, in the order \<open>ks\<close> of its keys.\<close>

fun start_transports ::
  "(string \<Rightarrow> string \<Rightarrow> gerror + 'c) \<Rightarrow> (string \<rightharpoonup> log_collection) \<Rightarrow> string list \<Rightarrow>
   (string \<times> 'c transport_log) list \<Rightarrow> 'c logs_target \<Rightarrow>
   ((string \<times> 'c transport_log) list \<times> 'c logs_target) go" where
  "start_transports dial lc [] ts t = Ret (ts, t)"
| "start_transports dial lc (key # ks) ts t =
     (case lc key of
        None \<Rightarrow> start_transports dial lc ks ts t
      | Some val \<Rightarrow>
          if lc_kind val = ''syslog'' then
            (case lc_syslog val of
               None \<Rightarrow> Panic
             | Some sc \<Rightarrow>
                 (case new_syslog_server dial (sl_address sc) (sl_protocol sc) (lt_device_id t) of
                    Inl e \<Rightarrow> start_transports dial lc ks ts t
                  | Inr tr \<Rightarrow>
                      let a = length (lt_heap t)
                      in start_transports dial lc ks
                           (AList.update key \<lparr>tl_transport = tr, tl_log = a\<rparr> ts)
                           (t\<lparr>lt_heap := lt_heap t @ [new_fifo_log (buffer_bytes (lc_buffer_size val))],
                              lt_pumps := lt_pumps t @ [a]\<rparr>)))
          else start_transports dial lc ks ts t)"

fun delete_leftovers ::
  "string list \<Rightarrow> (string \<times> 'c transport_log) list \<Rightarrow> 'c logs_target \<Rightarrow> 'c logs_target" where
  "delete_leftovers [] ts t = t"
| "delete_leftovers (key # ks) ts t =
     delete_leftovers ks ts (if map_of ts key = None then delete_target_transport key t else t)"

definition logged_workloads :: "workload list \<Rightarrow> (string \<rightharpoonup> string)" where
  "logged_workloads wls =
     fold (\<lambda>w m. if wl_log_collection w \<noteq> [] then m(wl_name w \<mapsto> wl_log_collection w) else m)
       wls Map.empty"

definition logs_update ::
  "(string \<Rightarrow> string \<Rightarrow> gerror + 'c) \<Rightarrow> string list \<Rightarrow> config_message \<Rightarrow> 'c logs_target \<Rightarrow>
   'c logs_target go" where
  "logs_update dial ks config t =
     (let original_transports = get_current_transports t
      in go_bind (deref (msg_configuration config)) (\<lambda>cfg.
         go_bind (start_transports dial (entries (cfg_log_collection cfg)) ks [] t) (\<lambda>(ts, t1).
           let t2 = delete_leftovers original_transports ts t1
           in Ret (t2\<lparr>lt_transports := ts,
                      lt_workloads_config := logged_workloads (msg_workloads config)\<rparr>))))"

definition logs_workload_removed :: "string \<Rightarrow> 'c logs_target \<Rightarrow> 'c logs_target" where
  "logs_workload_removed name t = delete_workload name t"

text \<open>\<open>start_logs\<close> stands for \<open>WorkloadManager.Logs\<close>; a failed one returns a nil \<open>cancel\<close>.\<close>

definition logs_workload_started ::
  "(string \<Rightarrow> bool) \<Rightarrow> string \<Rightarrow> 'c logs_target \<Rightarrow> 'c logs_target" where
  "logs_workload_started start_logs name t0 =
     (let t = delete_workload name t0
      in case lt_workloads_config t name of
           None \<Rightarrow> t
         | Some target \<Rightarrow>
             (case map_of (lt_transports t) target of
                None \<Rightarrow> t
              | Some tr \<Rightarrow>
                  let writer = set_target target (tl_log tr) (new_workload_writer name)
                  in t\<lparr>lt_wwriter := AList.update name (writer\<lparr>ww_cancel := start_logs name\<rparr>)
                         (lt_wwriter t)\<rparr>))"

definition logs_init ::
  "(string \<Rightarrow> string \<Rightarrow> gerror + 'c) \<Rightarrow> (string \<Rightarrow> bool) \<Rightarrow> (gerror + workload_info list) \<Rightarrow>
   string list \<Rightarrow> config_message \<Rightarrow> 'c logs_target \<Rightarrow> (gerror option \<times> 'c logs_target) go" where
  "logs_init dial start_logs listed ks config t =
     go_bind (logs_update dial ks config (t\<lparr>lt_device_id := msg_device_id config\<rparr>)) (\<lambda>t1.
       case listed of
         Inl e \<Rightarrow> Ret (Some e, t1)
       | Inr ws \<Rightarrow> Ret (None, fold (\<lambda>wi. logs_workload_started start_logs (wi_name wi)) ws t1))"

subsection \<open>Every writer has a queue that is drained\<close>

definition logs_inv :: "'c logs_target \<Rightarrow> bool" where
  "logs_inv t \<longleftrightarrow>
     (\<forall>(k, tr) \<in> set (lt_transports t). tl_log tr \<in> set (lt_pumps t)) \<and>
     (\<forall>(n, w) \<in> set (lt_wwriter t). \<exists>a. ww_target w = Some a \<and> a \<in> set (lt_pumps t) \<and>
        ww_target_name w \<in> fst ` set (lt_transports t)) \<and>
     (\<forall>a \<in> set (lt_pumps t). a < length (lt_heap t))"

lemma writer_stop_frame [simp]:
  "lt_transports (writer_stop w t) = lt_transports t" "lt_wwriter (writer_stop w t) = lt_wwriter t"
  "lt_heap (writer_stop w t) = lt_heap t" "lt_pumps (writer_stop w t) = lt_pumps t"
  "lt_workloads_config (writer_stop w t) = lt_workloads_config t"
  by (simp_all add: writer_stop_def)

lemma stop_writers_frame [simp]:
  "lt_transports (stop_writers_of name ws t) = lt_transports t"
  "lt_heap (stop_writers_of name ws t) = lt_heap t"
  "lt_pumps (stop_writers_of name ws t) = lt_pumps t"
  by (induction name ws t rule: stop_writers_of.induct) (simp_all add: Let_def)

lemma set_delete: "set (AList.delete k m) = {kv \<in> set m. fst kv \<noteq> k}"
  by (auto simp: AList.delete_eq)

lemma stop_writers_wwriter:
  "set (lt_wwriter (stop_writers_of name ws t)) =
   {kv \<in> set (lt_wwriter t). \<not> (\<exists>w. (fst kv, w) \<in> set ws \<and> ww_target_name w = name)}"
  by (induction name ws t rule: stop_writers_of.induct) (auto simp: Let_def set_delete)

lemma delete_target_writers:
  "set (lt_wwriter (delete_target_transport name t)) \<subseteq>
   {kv \<in> set (lt_wwriter t). ww_target_name (snd kv) \<noteq> name}"
  by (auto simp: delete_target_transport_def stop_writers_wwriter)

lemma delete_target_frame [simp]:
  "lt_heap (delete_target_transport name t) = lt_heap t"
  "lt_pumps (delete_target_transport name t) = lt_pumps t"
  by (simp_all add: delete_target_transport_def)

lemma delete_leftovers_frame [simp]:
  "lt_heap (delete_leftovers ks ts t) = lt_heap t"
  "lt_pumps (delete_leftovers ks ts t) = lt_pumps t"
  by (induction ks ts t rule: delete_leftovers.induct) simp_all

lemma delete_leftovers_writers:
  "set (lt_wwriter (delete_leftovers ks ts t)) \<subseteq>
   {kv \<in> set (lt_wwriter t). \<not> (ww_target_name (snd kv) \<in> set ks \<and> map_of ts (ww_target_name (snd kv)) = None)}"
proof (induction ks ts t rule: delete_leftovers.induct)
  case (1 ts t)
  then show ?case by simp
next
  case (2 key ks ts t)
  then show ?case using delete_target_writers [of key t] by (fastforce split: if_splits)
qed

lemma start_transports_grows:
  assumes "start_transports dial lc ks ts t = Ret (ts', t')"
    and "\<forall>(k, tr) \<in> set ts. tl_log tr \<in> set (lt_pumps t) \<and> n \<le> tl_log tr"
    and "\<forall>a \<in> set (lt_pumps t). a < length (lt_heap t)" and "n \<le> length (lt_heap t)"
  shows "(\<forall>(k, tr) \<in> set ts'. tl_log tr \<in> set (lt_pumps t') \<and> n \<le> tl_log tr) \<and>
    (\<forall>a \<in> set (lt_pumps t'). a < length (lt_heap t')) \<and>
    (\<exists>more. lt_pumps t' = lt_pumps t @ more) \<and>
    lt_wwriter t' = lt_wwriter t \<and> lt_transports t' = lt_transports t"
  using assms
proof (induction dial lc ks ts t rule: start_transports.induct)
  case (1 dial lc ts t)
  then show ?case by simp
next
  case (2 dial lc key ks ts t)
  show ?case
  proof (cases "lc key")
    case None
    with 2 show ?thesis by simp
  next
    case (Some val)
    show ?thesis
    proof (cases "lc_kind val = ''syslog''")
      case False
      with 2 Some show ?thesis by simp
    next
      case True
      then obtain sc where sc: "lc_syslog val = Some sc"
        using "2.prems"(1) Some by (cases "lc_syslog val") auto
      show ?thesis
      proof (cases "new_syslog_server dial (sl_address sc) (sl_protocol sc) (lt_device_id t)")
        case (Inl e)
        with 2 Some True sc show ?thesis by simp
      next
        case (Inr tr)
        let ?a = "length (lt_heap t)"
        let ?ts = "AList.update key \<lparr>tl_transport = tr, tl_log = ?a\<rparr> ts"
        have upd: "\<forall>(k, r) \<in> set ?ts. tl_log r = ?a \<or> (k, r) \<in> set ts"
          by (induction ts) (auto split: if_splits)
        have "\<forall>(k, r) \<in> set ?ts. tl_log r \<in> set (lt_pumps t @ [?a]) \<and> n \<le> tl_log r"
          using upd "2.prems"(2,4) by fastforce
        moreover have "\<forall>a \<in> set (lt_pumps t @ [?a]). a < Suc ?a"
          using "2.prems"(3) by (auto simp: less_Suc_eq)
        ultimately show ?thesis
          using "2.IH"(3) [OF Some True sc Inr refl] "2.prems"(1,4) Some True sc Inr
          by (force simp: Let_def)
      qed
    qed
  qed
qed

lemma logs_update_props:
  assumes "logs_inv t" and "logs_update dial ks config t = Ret t'"
  shows "logs_inv t'" and "\<exists>more. lt_pumps t' = lt_pumps t @ more"
    and "set (lt_wwriter t') \<subseteq> set (lt_wwriter t)"
    and "\<forall>(k, tr) \<in> set (lt_transports t'). length (lt_heap t) \<le> tl_log tr"
proof -
  obtain cfg ts t1 where cfg: "msg_configuration config = Some cfg"
    and st: "start_transports dial (entries (cfg_log_collection cfg)) ks [] t = Ret (ts, t1)"
    and t': "t' = (delete_leftovers (get_current_transports t) ts t1)\<lparr>lt_transports := ts,
        lt_workloads_config := logged_workloads (msg_workloads config)\<rparr>"
    using assms(2) by (cases "msg_configuration config") (auto simp: logs_update_def Let_def go_bind_Ret_iff)
  have pumps: "\<forall>a \<in> set (lt_pumps t). a < length (lt_heap t)"
    using assms(1) by (simp add: logs_inv_def)
  note grow = start_transports_grows [OF st _ pumps, of "length (lt_heap t)", simplified]
  have sub: "set (lt_wwriter t') \<subseteq> {kv \<in> set (lt_wwriter t).
      \<not> (ww_target_name (snd kv) \<in> set (get_current_transports t) \<and> map_of ts (ww_target_name (snd kv)) = None)}"
    using delete_leftovers_writers [of "get_current_transports t" ts t1] grow t' by simp
  then show "set (lt_wwriter t') \<subseteq> set (lt_wwriter t)" by blast
  show more: "\<exists>more. lt_pumps t' = lt_pumps t @ more" using grow t' by simp
  show "\<forall>(k, tr) \<in> set (lt_transports t'). length (lt_heap t) \<le> tl_log tr"
    using grow t' by auto
  have "\<exists>a. ww_target w = Some a \<and> a \<in> set (lt_pumps t') \<and> ww_target_name w \<in> fst ` set ts"
    if "(n, w) \<in> set (lt_wwriter t')" for n w
  proof -
    from that sub have in_t: "(n, w) \<in> set (lt_wwriter t)"
      and "\<not> (ww_target_name w \<in> set (get_current_transports t) \<and> map_of ts (ww_target_name w) = None)"
      by auto
    moreover have "ww_target_name w \<in> set (get_current_transports t)"
      using in_t assms(1) by (auto simp: logs_inv_def get_current_transports_def)
    ultimately have "ww_target_name w \<in> fst ` set ts"
      by (simp add: map_of_eq_None_iff)
    moreover obtain a where "ww_target w = Some a" "a \<in> set (lt_pumps t)"
      using in_t assms(1) unfolding logs_inv_def by blast
    ultimately show ?thesis using more by auto
  qed
  then show "logs_inv t'"
    using grow t' by (auto simp: logs_inv_def)
qed

lemma delete_workload_frame [simp]:
  "lt_transports (delete_workload n t) = lt_transports t"
  "lt_heap (delete_workload n t) = lt_heap t" "lt_pumps (delete_workload n t) = lt_pumps t"
  "lt_workloads_config (delete_workload n t) = lt_workloads_config t"
  by (simp_all add: delete_workload_def Let_def split: option.splits)

lemma delete_workload_writers:
  "set (lt_wwriter (delete_workload n t)) = {kv \<in> set (lt_wwriter t). fst kv \<noteq> n}"
  by (auto simp: delete_workload_def Let_def set_delete map_of_eq_None_iff split: option.splits)

lemma delete_workload_inv: "logs_inv t \<Longrightarrow> logs_inv (delete_workload n t)"
  by (auto simp: logs_inv_def delete_workload_writers)

lemma set_AList_update: "set (AList.update k v m) \<subseteq> insert (k, v) (set m)"
  by (induction m) auto

lemma workload_started_inv:
  assumes "logs_inv t"
  shows "logs_inv (logs_workload_started start_logs n t)"
proof -
  have d: "logs_inv (delete_workload n t)" using assms by (rule delete_workload_inv)
  show ?thesis
  proof (cases "lt_workloads_config t n")
    case None
    with d show ?thesis by (simp add: logs_workload_started_def)
  next
    case (Some target)
    show ?thesis
    proof (cases "map_of (lt_transports t) target")
      case None
      with Some d show ?thesis by (simp add: logs_workload_started_def)
    next
      case tr: (Some tr)
      then have "(target, tr) \<in> set (lt_transports t)" by (rule map_of_SomeD)
      then have log: "tl_log tr \<in> set (lt_pumps t)" and target: "target \<in> fst ` set (lt_transports t)"
        using assms unfolding logs_inv_def by force+
      define w where "w = (set_target target (tl_log tr) (new_workload_writer n))\<lparr>ww_cancel := start_logs n\<rparr>"
      have w: "ww_target w = Some (tl_log tr)" "ww_target_name w = target"
        by (simp_all add: w_def set_target_def)
      have "logs_workload_started start_logs n t = (delete_workload n t)
          \<lparr>lt_wwriter := AList.update n w (lt_wwriter (delete_workload n t))\<rparr>"
        using Some tr by (simp add: logs_workload_started_def w_def Let_def)
      moreover have "\<exists>a. ww_target x = Some a \<and> a \<in> set (lt_pumps t) \<and>
          ww_target_name x \<in> fst ` set (lt_transports t)"
        if "(k, x) \<in> set (AList.update n w (lt_wwriter (delete_workload n t)))" for k x
      proof -
        have "(k, x) = (n, w) \<or> (k, x) \<in> set (lt_wwriter (delete_workload n t))"
          using that set_AList_update [of n w "lt_wwriter (delete_workload n t)"] by blast
        then show ?thesis
          using w log target d unfolding logs_inv_def by auto
      qed
      ultimately show ?thesis
        using d unfolding logs_inv_def by auto
    qed
  qed
qed

subsection \<open>Sequences of operations\<close>

datatype fifo_op = FWrite log_entry | FRead

fun fifo_run :: "fifo_op list \<Rightarrow> fifo_log \<Rightarrow> log_entry list \<Rightarrow> (log_entry list \<times> fifo_log) go" where
  "fifo_run [] f out = Ret (out, f)"
| "fifo_run (FWrite e # ops) f out = fifo_run ops (snd (fifo_write (Some e) f)) out"
| "fifo_run (FRead # ops) f out = go_bind (fifo_read_line f)
     (\<lambda>(e, f'). fifo_run ops f' (case e of None \<Rightarrow> out | Some x \<Rightarrow> out @ [x]))"

text \<open>The entries the queue accepted, in the order of the writes.\<close>

fun fifo_accepted :: "fifo_op list \<Rightarrow> fifo_log \<Rightarrow> log_entry list" where
  "fifo_accepted [] f = []"
| "fifo_accepted (FWrite e # ops) f =
     (if fl_current_size f > fl_maxlen f then [] else [e]) @
     fifo_accepted ops (snd (fifo_write (Some e) f))"
| "fifo_accepted (FRead # ops) f = (case fifo_read_line f of
       Panic \<Rightarrow> [] | Ret (e, f') \<Rightarrow> fifo_accepted ops f')"

definition fifo_bounded :: "int \<Rightarrow> fifo_log \<Rightarrow> bool" where
  "fifo_bounded B f \<longleftrightarrow> fifo_inv f \<and> fl_current_size f \<le> fl_maxlen f + B"

lemma fifo_write_bounded:
  "fifo_bounded B f \<Longrightarrow> entry_size e \<le> B \<Longrightarrow> fifo_bounded B (snd (fifo_write (Some e) f))"
  by (auto simp: fifo_bounded_def fifo_write_def fifo_inv_def)

lemma fifo_run_bounded:
  "fifo_bounded B f \<Longrightarrow> (\<And>e. FWrite e \<in> set ops \<Longrightarrow> entry_size e \<le> B) \<Longrightarrow>
   \<exists>out' f'. fifo_run ops f out = Ret (out', f') \<and> fifo_bounded B f' \<and>
     out' @ fl_data f' = out @ fl_data f @ fifo_accepted ops f"
proof (induction ops f out rule: fifo_run.induct)
  case (1 f out)
  then show ?case by simp
next
  case (2 e ops f out)
  then have b: "fifo_bounded B (snd (fifo_write (Some e) f))"
    by (simp add: fifo_write_bounded)
  show ?case using "2.IH" [OF b] "2.prems"(2) by (simp add: fifo_write_def split: if_splits)
next
  case (3 ops f out)
  from "3.prems"(1) have "fifo_inv f" by (simp add: fifo_bounded_def)
  then consider "fifo_read_line f = Ret (None, f)"
    | e es where "fl_data f = e # es" "fifo_read_line f =
        Ret (Some e, f\<lparr>fl_data := es, fl_current_size := fl_current_size f - entry_size e\<rparr>)"
    using fifo_read_line_cases by blast
  then show ?case
  proof cases
    case 1
    with "3.IH" [of f None] "3.prems" show ?thesis by simp
  next
    case (2 e es)
    let ?f = "f\<lparr>fl_data := es, fl_current_size := fl_current_size f - entry_size e\<rparr>"
    have b: "fifo_bounded B ?f"
      using "3.prems"(1) 2(1) entry_size_nonneg [of e]
      by (simp add: fifo_bounded_def fifo_inv_def del: entry_size_nonneg)
    have "\<exists>out' f'. fifo_run ops ?f (out @ [e]) = Ret (out', f') \<and> fifo_bounded B f' \<and>
        out' @ fl_data f' = (out @ [e]) @ fl_data ?f @ fifo_accepted ops ?f"
      using "3.IH" [of ?f "Some e"] b "3.prems"(2) by simp
    with 2 show ?thesis by simp
  qed
qed

datatype logs_op = LogsUpdate "string list" config_message | LogsStarted string | LogsRemoved string

fun logs_apply ::
  "(string \<Rightarrow> string \<Rightarrow> gerror + 'c) \<Rightarrow> (string \<Rightarrow> bool) \<Rightarrow> logs_op \<Rightarrow> 'c logs_target \<Rightarrow> 'c logs_target go" where
  "logs_apply dial start_logs (LogsUpdate ks config) t = logs_update dial ks config t"
| "logs_apply dial start_logs (LogsStarted n) t = Ret (logs_workload_started start_logs n t)"
| "logs_apply dial start_logs (LogsRemoved n) t = Ret (logs_workload_removed n t)"

fun logs_run ::
  "(string \<Rightarrow> string \<Rightarrow> gerror + 'c) \<Rightarrow> (string \<Rightarrow> bool) \<Rightarrow> logs_op list \<Rightarrow> 'c logs_target \<Rightarrow> 'c logs_target go" where
  "logs_run dial start_logs [] t = Ret t"
| "logs_run dial start_logs (x # xs) t = go_bind (logs_apply dial start_logs x t) (logs_run dial start_logs xs)"

lemma logs_apply_inv: "logs_inv t \<Longrightarrow> logs_apply dial start_logs x t = Ret t' \<Longrightarrow> logs_inv t'"
  by (cases x) (auto simp: logs_workload_removed_def delete_workload_inv workload_started_inv
      dest: logs_update_props(1))

lemma logs_run_inv: "logs_inv t \<Longrightarrow> logs_run dial start_logs xs t = Ret t' \<Longrightarrow> logs_inv t'"
  by (induction xs arbitrary: t) (auto simp: go_bind_Ret_iff dest: logs_apply_inv)

lemma logs_inv_new: "logs_inv new_workloads_logs_target"
  by (simp add: logs_inv_def new_workloads_logs_target_def)

subsection \<open>Properties\<close>

text \<open>C13. Under any sequence of writes and reads the queue never panics, the entries come out in
  the order in which they were accepted, none twice and none lost, and the size exceeds the limit
  by at most the largest entry.\<close>

theorem fifo_log_run:
  assumes "0 \<le> maxSize + B" and "\<And>e. FWrite e \<in> set ops \<Longrightarrow> entry_size e \<le> B"
  shows "\<exists>out f. fifo_run ops (new_fifo_log maxSize) [] = Ret (out, f) \<and>
    out @ fl_data f = fifo_accepted ops (new_fifo_log maxSize) \<and>
    fl_current_size f = sum_list (map entry_size (fl_data f)) \<and>
    fl_current_size f \<le> fl_maxlen f + B"
proof -
  have "fifo_bounded B (new_fifo_log maxSize)"
    using assms(1) by (simp add: fifo_bounded_def fifo_inv_def new_fifo_log_def)
  from fifo_run_bounded [OF this assms(2), of ops "[]"] obtain out f where
    "fifo_run ops (new_fifo_log maxSize) [] = Ret (out, f)" "fifo_bounded B f"
    "out @ fl_data f = fl_data (new_fifo_log maxSize) @ fifo_accepted ops (new_fifo_log maxSize)"
    by auto
  then show ?thesis
    by (intro exI [of _ out] exI [of _ f]) (simp add: fifo_bounded_def fifo_inv_def new_fifo_log_def)
qed

definition example_entry :: log_entry where
  "example_entry = \<lparr>le_time = 0, le_data = ''abc'', le_workload = ''w''\<rparr>"

theorem fifo_log_run_witness:
  "\<exists>out f. fifo_run [FWrite example_entry, FRead] (new_fifo_log 10) [] = Ret (out, f) \<and>
     out @ fl_data f = [example_entry]"
proof -
  have le: "\<And>e. FWrite e \<in> set [FWrite example_entry, FRead] \<Longrightarrow> entry_size e \<le> 3"
    by (auto simp: example_entry_def entry_size_def)
  have acc: "fifo_accepted [FWrite example_entry, FRead] (new_fifo_log 10) = [example_entry]"
    by (simp add: new_fifo_log_def fifo_write_def fifo_read_line_def example_entry_def entry_size_def)
  have "(0::int) \<le> 10 + 3" by simp
  from fifo_log_run [OF this le] show ?thesis by (metis acc)
qed

text \<open>
  One turn of a transport never panics on a well-formed queue, and it either changes
  nothing, or sends the oldest entry and removes it, or, when sending failed, moves that entry to
  the end of the queue, or drops it when the rest of the queue is already over the limit.\<close>

theorem transport_step_contents:
  assumes "fifo_inv q"
  shows "\<exists>q' t'. transport_step send (q, t) = Ret (q', t') \<and> fifo_inv q' \<and>
    (fl_data q' = fl_data q \<and> t' = t \<or>
     (\<exists>e rest. fl_data q = e # rest \<and> send e t = (None, t') \<and> fl_data q' = rest) \<or>
     (\<exists>e rest err. fl_data q = e # rest \<and> send e t = (Some err, t') \<and>
        (fl_data q' = rest @ [e] \<or> fl_data q' = rest \<and> fl_maxlen q' < fl_current_size q')))"
proof -
  obtain q' t' where step: "transport_step send (q, t) = Ret (q', t')" and "fifo_inv q'"
    using fifo.pump_step_total [of "(q, t)" send] assms by (auto simp: transport_step_def)
  with fifo.pump_step_contents [OF assms, of send t q' t'] show ?thesis
    unfolding transport_step_def fifo_full_def by (intro exI [of _ q'] exI [of _ t']) blast
qed

theorem transport_step_contents_witness:
  "\<exists>q' t'. transport_step (\<lambda>e n. (None, Suc n)) (snd (fifo_write (Some example_entry) (new_fifo_log 10)), 0) =
     Ret (q', t') \<and> fifo_inv q'"
proof -
  have "fifo_inv (snd (fifo_write (Some example_entry) (new_fifo_log 10)))"
    by (simp add: fifo_write_def new_fifo_log_def fifo_inv_def)
  from transport_step_contents [OF this, of "\<lambda>e n. (None, Suc n)" 0] show ?thesis by blast
qed

text \<open>C35. A log line is reported as sent exactly when the transport is connected and one of the
  first eleven attempts to write it succeeded.\<close>

theorem write_log_success_iff:
  "fst (write_log rfc3339 pid send logline s) = None \<longleftrightarrow>
   (\<exists>c k data. st_conn s = Some c \<and> k \<le> (10::nat) \<and>
      data = ''<6>'' @ rfc3339 (le_time logline) @ '' '' @ st_hostname s @ '' '' @
            le_workload logline @ ''['' @ pid @ '']: '' @ le_data logline @ [CHR 10] \<and>
      fst (send data (after_attempts send data k c)) = None)"
proof (cases "st_conn s")
  case None
  then show ?thesis
    using write_and_retry_nil [of send] by (simp add: write_log_def Let_def split_beta)
next
  case (Some c)
  have bound: "int k \<le> 10 \<longleftrightarrow> k \<le> 10" for k by simp
  show ?thesis
    using Some write_and_retry_success_iff [of send _ 10 c, unfolded bound]
    by (simp add: write_log_def Let_def split_beta)
qed

text \<open>C21. Whatever updates and workload starts and stops happen, every writer has a queue that a
  transport drains, and the target it names is one of the configured transports.\<close>

theorem logs_writers_are_drained:
  assumes "logs_run dial start_logs ops new_workloads_logs_target = Ret t" and "(n, w) \<in> set (lt_wwriter t)"
  shows "\<exists>a. ww_target w = Some a \<and> a < length (lt_heap t) \<and> a \<in> set (lt_pumps t) \<and>
    ww_target_name w \<in> set (get_current_transports t)"
proof -
  have inv: "logs_inv t" using logs_run_inv [OF logs_inv_new assms(1)] .
  then obtain a where "ww_target w = Some a" "a \<in> set (lt_pumps t)"
      "ww_target_name w \<in> fst ` set (lt_transports t)"
    using assms(2) unfolding logs_inv_def by blast
  with inv show ?thesis unfolding logs_inv_def get_current_transports_def by auto
qed

definition example_log_config :: config_message where
  "example_log_config = (message_with (empty_device_configuration\<lparr>cfg_log_collection :=
       Some [''t'' \<mapsto> \<lparr>lc_buffer_size = 1, lc_kind = ''syslog'',
                      lc_syslog = Some \<lparr>sl_address = ''a'', sl_protocol = ''tcp''\<rparr>\<rparr>]\<rparr>))
     \<lparr>msg_workloads := [(example_workload ''w'')\<lparr>wl_log_collection := ''t''\<rparr>]\<rparr>"

definition example_logs_result :: "unit logs_target go" where
  "example_logs_result = logs_run (\<lambda>p a. Inr ()) (\<lambda>_. True)
     [LogsUpdate [''t''] example_log_config, LogsStarted ''w''] new_workloads_logs_target"

lemma example_logs_run: "\<exists>t w. example_logs_result = Ret t \<and> (''w'', w) \<in> set (lt_wwriter t)"
  by (simp add: example_logs_result_def example_log_config_def message_with_def empty_device_configuration_def
      example_workload_def logs_update_def get_current_transports_def new_workloads_logs_target_def
      new_syslog_server_def logged_workloads_def logs_workload_started_def delete_workload_def Let_def
      zero_message_def)

theorem logs_writers_are_drained_witness:
  "\<exists>t w a. example_logs_result = Ret t \<and> (''w'', w) \<in> set (lt_wwriter t) \<and> ww_target w = Some a"
  using example_logs_run
    logs_writers_are_drained [of "\<lambda>p a. Inr ()" "\<lambda>_. True", folded example_logs_result_def]
  unfolding example_logs_result_def by meson

text \<open>
  An update never stops a transport: the goroutines of all earlier configurations keep
  running, and a writer that survives an update still fills its old queue, which is not the
  queue of any transport of the new configuration.\<close>

theorem logs_update_leaks_transports:
  assumes "logs_inv t" and "logs_update dial ks config t = Ret t'"
  shows "(\<exists>more. lt_pumps t' = lt_pumps t @ more) \<and>
    (\<forall>(n, w) \<in> set (lt_wwriter t'). \<forall>(k, tr) \<in> set (lt_transports t'). ww_target w \<noteq> Some (tl_log tr))"
proof -
  have "ww_target w \<noteq> Some (tl_log tr)"
    if "(n, w) \<in> set (lt_wwriter t')" "(k, tr) \<in> set (lt_transports t')" for n w k tr
  proof -
    have "(n, w) \<in> set (lt_wwriter t)" using that(1) logs_update_props(3) [OF assms] by blast
    then obtain a where "ww_target w = Some a" "a < length (lt_heap t)"
      using assms(1) unfolding logs_inv_def by blast
    moreover have "length (lt_heap t) \<le> tl_log tr"
      using that(2) logs_update_props(4) [OF assms] by blast
    ultimately show ?thesis by simp
  qed
  with logs_update_props(2) [OF assms] show ?thesis by blast
qed

theorem logs_update_leaks_transports_witness:
  "\<exists>t'. logs_update (\<lambda>p a. Inr ()) [''t''] example_log_config new_workloads_logs_target = Ret t' \<and>
     (\<exists>more. lt_pumps t' = [] @ more)"
proof -
  obtain t' where t': "logs_update (\<lambda>p a. Inr ()) [''t''] example_log_config new_workloads_logs_target = Ret t'"
    using example_logs_run by (auto simp: go_bind_Ret_iff example_logs_result_def)
  from logs_update_leaks_transports [OF logs_inv_new t'] t' show ?thesis
    by (auto simp: new_workloads_logs_target_def)
qed

text \<open>
  The size of a queue is 1024 times the configured one below two gigabytes; at two
  gigabytes the 32-bit product wraps to a negative limit and the queue refuses every line.\<close>

theorem buffer_bytes_range:
  "(0 \<le> sint kib \<and> sint kib < 2 ^ 21 \<longrightarrow> buffer_bytes kib = 1024 * sint kib) \<and>
   fst (fifo_write (Some e) (new_fifo_log (buffer_bytes (2 ^ 21)))) \<noteq> None"
proof
  show "0 \<le> sint kib \<and> sint kib < 2 ^ 21 \<longrightarrow> buffer_bytes kib = 1024 * sint kib"
    by (auto simp: buffer_bytes_def sint_word_ariths signed_take_bit_int_eq_self)
  show "fst (fifo_write (Some e) (new_fifo_log (buffer_bytes (2 ^ 21)))) \<noteq> None"
    by (simp add: buffer_bytes_def fifo_write_def new_fifo_log_def)
qed

theorem buffer_bytes_range_witness: "buffer_bytes 64 = 65536"
  using buffer_bytes_range [of 64] by simp

end
