(* ===== verification/Log_Pipeline.thy ===== *)
theory Log_Pipeline
  imports Podman_Logs Logs
begin

text \<open>
  The way of a workload's log lines through three components: the goroutines of \<open>podman.Logs\<close> write to the
  \<open>WorkloadWriter\<close> of \<open>internal/logs/workload_writer.go\<close>, which enters them in the queue of a transport, from
  which the goroutine of \<open>transportLog.Start\<close> (\<open>internal/logs/workload.go\<close>) sends them.
\<close>

subsection \<open>Steps\<close>

text \<open>\<open>pl_sent\<close> records the entries whose sending succeeded.\<close>

record 't pipeline =
  pl_stream :: log_stream
  pl_queue :: fifo_log
  pl_transport :: 't
  pl_sent :: "log_entry list"

definition recorded :: "(log_entry \<Rightarrow> 't proc) \<Rightarrow> log_entry \<Rightarrow> ('t \<times> log_entry list) proc" where
  "recorded send e = (\<lambda>(t, sent). case send e t of
     (None, t') \<Rightarrow> (None, t', sent @ [e]) | (Some err, t') \<Rightarrow> (Some err, t', sent))"

text \<open>
  A turn of the pump of the containers writes at most one piece, whose error is only logged; the queue is
  shared with the writers of other workloads.
\<close>

inductive pipeline_step :: "(log_entry \<Rightarrow> 't proc) \<Rightarrow> workload_writer \<Rightarrow> 't pipeline \<Rightarrow> 't pipeline \<Rightarrow> bool"
  for send w where
  quiet: "log_step (pl_stream p) s \<Longrightarrow> lo_written s = lo_written (pl_stream p) \<Longrightarrow>
    pipeline_step send w p (p\<lparr>pl_stream := s\<rparr>)"
| writes: "log_step (pl_stream p) s \<Longrightarrow> lo_written s = lo_written (pl_stream p) @ [piece] \<Longrightarrow>
    writer_write now (log_text piece) w [pl_queue p] = (r, [q]) \<Longrightarrow>
    pipeline_step send w p (p\<lparr>pl_stream := s, pl_queue := q\<rparr>)"
| others: "le_workload e \<noteq> ww_workload_name w \<Longrightarrow> fifo_write (Some e) (pl_queue p) = (r, q) \<Longrightarrow>
    pipeline_step send w p (p\<lparr>pl_queue := q\<rparr>)"
| sends: "transport_step (recorded send) (pl_queue p, pl_transport p, pl_sent p) = Ret (q, t, sent) \<Longrightarrow>
    pipeline_step send w p (p\<lparr>pl_queue := q, pl_transport := t, pl_sent := sent\<rparr>)"

definition start_pipeline :: "log_stream \<Rightarrow> int \<Rightarrow> 't \<Rightarrow> 't pipeline" where
  "start_pipeline s maxSize t = \<lparr>pl_stream = s, pl_queue = new_fifo_log maxSize, pl_transport = t, pl_sent = []\<rparr>"

subsection \<open>What is delivered\<close>

definition entries_from :: "string \<Rightarrow> log_entry list \<Rightarrow> string list" where
  "entries_from name es = map le_data (filter (\<lambda>e. le_workload e = name) es)"

lemma entries_from_simps [simp]:
  "entries_from n [] = []" "entries_from n (e # es) = (if le_workload e = n then le_data e # entries_from n es else entries_from n es)"
  "entries_from n (es @ fs) = entries_from n es @ entries_from n fs"
  by (simp_all add: entries_from_def)

text \<open>An entry that is sent or waiting has been written, and no write is there more often than it was made.\<close>

definition pipeline_inv :: "workload_writer \<Rightarrow> 't pipeline \<Rightarrow> bool" where
  "pipeline_inv w p \<longleftrightarrow> fifo_inv (pl_queue p) \<and>
     mset (entries_from (ww_workload_name w) (pl_sent p)) + mset (entries_from (ww_workload_name w) (fl_data (pl_queue p)))
       \<subseteq># mset (map log_text (lo_written (pl_stream p)))"

lemma fifo_write_cases:
  assumes "fifo_write (Some e) q = (r, q')"
  shows "q' = q \<or> fl_data q' = fl_data q @ [e]"
  using assms by (auto simp: fifo_write_def split: if_splits)

lemma recorded_iff:
  "recorded send e (t, sent) = (None, t', out) \<longleftrightarrow> send e t = (None, t') \<and> out = sent @ [e]"
  "recorded send e (t, sent) = (Some err, t', out) \<longleftrightarrow> send e t = (Some err, t') \<and> out = sent"
  by (auto simp: recorded_def split: prod.split option.split)

lemma pipeline_step_inv:
  assumes "pipeline_step send w p p'" and "pipeline_inv w p" and "ww_target w = Some 0"
  shows "pipeline_inv w p'"
  using assms(1,2)
proof (induction rule: pipeline_step.induct)
  case (quiet p s)
  then show ?case by (simp add: pipeline_inv_def)
next
  case (writes p s piece now r q)
  let ?e = "\<lparr>le_time = now, le_data = log_text piece, le_workload = ww_workload_name w\<rparr>"
  obtain r' q' where f: "fifo_write (Some ?e) (pl_queue p) = (r', q')" by (meson surj_pair)
  have q: "q = pl_queue p \<or> q = q'"
    using writes.hyps(3) f assms(3) by (auto simp: writer_write_def Let_def split: option.splits)
  have "fifo_inv q'" using fifo.write_inv f writes.prems by (auto simp: pipeline_inv_def)
  moreover have "q' = pl_queue p \<or> fl_data q' = fl_data (pl_queue p) @ [?e]" using fifo_write_cases [OF f] .
  ultimately show ?case
    using q writes.hyps(2) writes.prems by (auto simp: pipeline_inv_def intro: subset_mset.add_increasing2 subset_mset.order_trans)
next
  case (others e p r q)
  have "fifo_inv q" using fifo.write_inv [OF _ others(2)] others.prems by (simp add: pipeline_inv_def)
  moreover have "q = pl_queue p \<or> fl_data q = fl_data (pl_queue p) @ [e]" using fifo_write_cases [OF others(2)] .
  ultimately show ?case using others by (auto simp: pipeline_inv_def)
next
  case (sends p q t sent)
  let ?st = "(pl_queue p, pl_transport p, pl_sent p)" and ?n = "ww_workload_name w"
  have inv: "fifo_inv (pl_queue p)" using sends.prems by (simp add: pipeline_inv_def)
  then have "fifo_inv q"
    using fifo.pump_step_total [of ?st "recorded send"] sends.hyps by (simp add: transport_step_def)
  moreover have "mset (entries_from ?n sent) + mset (entries_from ?n (fl_data q))
      \<subseteq># mset (entries_from ?n (pl_sent p)) + mset (entries_from ?n (fl_data (pl_queue p)))"
    using fifo.pump_step_contents [OF inv sends.hyps [unfolded transport_step_def]]
    by (auto simp: recorded_iff)
  ultimately show ?case using sends.prems by (auto simp: pipeline_inv_def intro: subset_mset.order_trans)
qed

lemma pipeline_stream: "pipeline_step send w p p' \<Longrightarrow> pl_stream p' = pl_stream p \<or> log_step (pl_stream p) (pl_stream p')"
  by (induction rule: pipeline_step.induct) auto

lemma pipeline_reach_stream: "reach (pipeline_step send w) p0 p \<Longrightarrow> reach log_step (pl_stream p0) (pl_stream p)"
proof (induction rule: reach.induct)
  case (further p p')
  show ?case using pipeline_stream [OF further(2)] further.IH reach.further by metis
qed (rule reach.here)

text \<open>Comparing the lines container by container compares them all.\<close>

lemma count_lines: "count (mset ps) (c, l) = count (mset (lines_of c ps)) l"
  by (induction ps) (auto simp: lines_of_def)

lemma lines_subset: "(\<And>c. mset (lines_of c ps) \<subseteq># mset (lines_of c qs)) \<Longrightarrow> mset ps \<subseteq># mset qs"
  by (auto simp: subseteq_mset_def count_lines)

lemma lines_of_ended: "lines_of c (map (\<lambda>(d, l). (d, l @ newline)) ps) = ended (lines_of c ps)"
  by (induction ps) (auto simp: lines_of_def)

lemma written_lines:
  assumes "\<And>c. stream_ok c s"
  shows "mset (lo_written s) \<subseteq># mset (map (\<lambda>(d, l). (d, l @ newline)) (lo_received s))"
proof (rule lines_subset)
  fix c
  obtain k where "lines_of c (lo_written s) = ended (take k (lines_of c (lo_received s)))"
    using assms stream_okE by metis
  moreover have "mset (ended (take k (lines_of c (lo_received s)))) \<subseteq># mset (ended (lines_of c (lo_received s)))"
    by (metis append_take_drop_id map_append mset_append mset_subset_eq_add_left)
  ultimately show "mset (lines_of c (lo_written s)) \<subseteq># mset (lines_of c (map (\<lambda>(d, l). (d, l @ newline)) (lo_received s)))"
    by (simp add: lines_of_ended)
qed

lemma pipeline_lines:
  assumes "ww_target w = Some 0" and "reach (pipeline_step send w) (start_pipeline (start_log_stream cs) maxSize t) p"
    and "whole_lines (pl_stream p)"
  shows "mset (entries_from (ww_workload_name w) (pl_sent p)) + mset (entries_from (ww_workload_name w) (fl_data (pl_queue p)))
    \<subseteq># mset (map (\<lambda>(c, l). log_text (c, l @ newline)) (lo_received (pl_stream p)))"
proof -
  let ?s = "pl_stream p"
  have "pipeline_inv w (start_pipeline (start_log_stream cs) maxSize t)"
    by (simp add: pipeline_inv_def start_pipeline_def fifo_inv_def new_fifo_log_def)
  then have "pipeline_inv w p"
    by (rule reach_keeps [OF assms(2)]) (rule pipeline_step_inv [OF _ _ assms(1)])
  then have sub: "mset (entries_from (ww_workload_name w) (pl_sent p)) + mset (entries_from (ww_workload_name w) (fl_data (pl_queue p)))
      \<subseteq># image_mset log_text (mset (lo_written ?s))"
    by (simp add: pipeline_inv_def)
  have "reach log_step (start_log_stream cs) ?s"
    using pipeline_reach_stream [OF assms(2)] by (simp add: start_pipeline_def)
  then have "stream_ok c ?s" for c using stream_ok_reach stream_ok_start assms(3) by blast
  then have "image_mset log_text (mset (lo_written ?s)) \<subseteq># image_mset log_text (mset (map (\<lambda>(d, l). (d, l @ newline)) (lo_received ?s)))"
    by (intro image_mset_subseteq_mono written_lines)
  then show ?thesis
    using subset_mset.order_trans [OF sub] by (simp add: image_mset.compositionality comp_def case_prod_unfold)
qed

subsection \<open>Properties\<close>


definition example_writer :: workload_writer where
  "example_writer = set_target ''syslog'' 0 (new_workload_writer ''w'')"


end
