(* ===== verification/Numbers.thy ===== *)
theory Numbers
  imports Prelude
begin

text \<open>
  Decimal numbers of \<open>strconv\<close>: \<open>AppendInt\<close> and \<open>%d\<close> write them, \<open>ParseInt(s, 10, 64)\<close> reads them.
\<close>

fun show_nat :: "nat \<Rightarrow> string" where
  "show_nat n = (if n < 10 then [char_of (48 + n)] else show_nat (n div 10) @ [char_of (48 + n mod 10)])"

declare show_nat.simps [simp del]

definition show_int :: "int \<Rightarrow> string" where
  "show_int i = (if i < 0 then ''-'' @ show_nat (nat (- i)) else show_nat (nat i))"

definition is_digit :: "char \<Rightarrow> bool" where
  "is_digit c \<longleftrightarrow> 48 \<le> (of_char c :: nat) \<and> (of_char c :: nat) \<le> 57"

definition digit_value :: "char \<Rightarrow> nat" where
  "digit_value c = of_char c - 48"

definition read_nat :: "string \<Rightarrow> nat" where
  "read_nat s = fold (\<lambda>c n. 10 * n + digit_value c) s 0"

definition parse_int64 :: "string \<Rightarrow> gerror + int" where
  "parse_int64 s =
     (let (neg, digits) = (case s of
            [] \<Rightarrow> (False, [])
          | c # cs \<Rightarrow> if c = CHR ''-'' then (True, cs) else if c = CHR ''+'' then (False, cs) else (False, s)) in
      if digits = [] \<or> \<not> list_all is_digit digits then Inl (Err ''invalid syntax'')
      else
        let i = (if neg then - int (read_nat digits) else int (read_nat digits)) in
        if - (2 ^ 63) \<le> i \<and> i < 2 ^ 63 then Inr i else Inl (Err ''value out of range''))"

lemma digit_char: "n < 10 \<Longrightarrow> (of_char (char_of (48 + n) :: char) :: nat) = 48 + n"
  by (simp add: of_char_of)

lemma is_digit_char: "n < 10 \<Longrightarrow> is_digit (char_of (48 + n :: nat))"
  by (simp add: is_digit_def digit_char)

lemma show_nat_digits: "list_all is_digit (show_nat n)"
proof (induction n rule: show_nat.induct)
  case (1 n)
  show ?case
  proof (cases "n < 10")
    case True
    then show ?thesis by (subst show_nat.simps) (simp add: is_digit_char)
  next
    case False
    then show ?thesis
      using 1 is_digit_char [of "n mod 10"] by (subst show_nat.simps) simp
  qed
qed

lemma show_nat_nonempty [simp]: "show_nat n \<noteq> []"
  by (subst show_nat.simps) simp

lemma read_show_nat: "read_nat (show_nat n) = n"
proof (induction n rule: show_nat.induct)
  case (1 n)
  show ?case
  proof (cases "n < 10")
    case True
    then show ?thesis by (subst show_nat.simps) (simp add: read_nat_def digit_value_def digit_char)
  next
    case False
    then show ?thesis
      using 1 by (subst show_nat.simps) (simp add: read_nat_def digit_value_def digit_char)
  qed
qed

lemma digit_not_sign: "is_digit c \<Longrightarrow> c \<noteq> CHR ''-'' \<and> c \<noteq> CHR ''+''"
  by (auto simp: is_digit_def)

lemma parse_show_int:
  assumes "- (2 ^ 63) \<le> i" and "i < 2 ^ 63"
  shows "parse_int64 (show_int i) = Inr i"
proof (cases "i < 0")
  case True
  then show ?thesis
    using assms by (simp add: parse_int64_def show_int_def show_nat_digits read_show_nat)
next
  case False
  obtain c cs where s: "show_nat (nat i) = c # cs"
    using show_nat_nonempty by (meson list.exhaust)
  then have "c \<noteq> CHR ''-'' \<and> c \<noteq> CHR ''+''"
    using show_nat_digits [of "nat i"] by (intro digit_not_sign) simp
  moreover have "list_all is_digit (c # cs)" "read_nat (c # cs) = nat i"
    using show_nat_digits [of "nat i"] read_show_nat [of "nat i"] s by simp_all
  ultimately show ?thesis
    using False assms s by (simp add: parse_int64_def show_int_def Let_def)
qed

end
