(* ===== verification/Workload_Mapping.thy ===== *)
theory Workload_Mapping
  imports Models File_System
begin

text \<open>
  \<open>internal/workload/mapping/mapping.go\<close>: the repository that relates the name of a workload to the
  id of its pod, in both directions, and stores the relation in \<open>workload-mapping.json\<close>. The code
  ranges over \<open>idToName\<close> only. A missing key reads as the empty string.
\<close>

subsection \<open>State and operations\<close>

type_synonym mapping_entry = "string \<times> string"   \<comment> \<open>\<open>Id\<close>, \<open>Name\<close>\<close>

record mapping_repository =
  mr_file :: string
  mr_id_to_name :: "(string \<times> string) list"
  mr_name_to_id :: "string \<rightharpoonup> string"

definition load_mappings :: "string \<Rightarrow> mapping_entry list \<Rightarrow> mapping_repository" where
  "load_mappings file ms =
     \<lparr>mr_file = file,
      mr_id_to_name = fold (\<lambda>(i, n) m. AList.update i n m) ms [],
      mr_name_to_id = fold (\<lambda>(i, n) m. m(n \<mapsto> i)) ms Map.empty\<rparr>"

definition new_mapping_repository ::
  "mapping_entry list codec \<Rightarrow> string \<Rightarrow> fs \<Rightarrow> gerror + mapping_repository" where
  "new_mapping_repository J configDir f =
     (let file = path_join [configDir, ''workload-mapping.json'']
      in case read_file file f of
           Inl _ \<Rightarrow> Inr (load_mappings file [])
         | Inr content \<Rightarrow>
             (case cd_unmarshal J content of
                Inl e \<Rightarrow> Inl e
              | Inr ms \<Rightarrow> Inr (load_mappings file ms)))"

definition mapping_persist ::
  "mapping_entry list codec \<Rightarrow> mapping_repository \<Rightarrow> fs \<Rightarrow> gerror option \<times> fs" where
  "mapping_persist J m f =
     (case cd_marshal J (mr_id_to_name m) of
        Inl e \<Rightarrow> (Some e, f)
      | Inr json \<Rightarrow> write_file (mr_file m) json f)"

definition mapping_set :: "string \<Rightarrow> string \<Rightarrow> mapping_repository \<Rightarrow> mapping_repository" where
  "mapping_set name pod m = m\<lparr>mr_id_to_name := AList.update pod name (mr_id_to_name m),
                             mr_name_to_id := (mr_name_to_id m)(name \<mapsto> pod)\<rparr>"

definition mapping_unset :: "string \<Rightarrow> mapping_repository \<Rightarrow> mapping_repository" where
  "mapping_unset name m =
     (let pod = map_get [] (mr_name_to_id m) name
      in m\<lparr>mr_id_to_name := AList.delete pod (mr_id_to_name m),
           mr_name_to_id := (mr_name_to_id m)(name := None)\<rparr>)"

definition mapping_add ::
  "mapping_entry list codec \<Rightarrow> string \<Rightarrow> string \<Rightarrow> (mapping_repository \<times> fs) proc" where
  "mapping_add J name pod = (\<lambda>(m, f).
     let m' = mapping_set name pod m
     in case mapping_persist J m' f of (r, f') \<Rightarrow> (r, (m', f')))"

definition mapping_remove ::
  "mapping_entry list codec \<Rightarrow> string \<Rightarrow> (mapping_repository \<times> fs) proc" where
  "mapping_remove J name = (\<lambda>(m, f).
     let m' = mapping_unset name m
     in case mapping_persist J m' f of (r, f') \<Rightarrow> (r, (m', f')))"

definition remove_mapping_file :: "(mapping_repository \<times> fs) proc" where
  "remove_mapping_file = (\<lambda>(m, f). case remove_all (mr_file m) f of (r, f') \<Rightarrow> (r, (m, f')))"

definition mapping_get_id :: "mapping_repository \<Rightarrow> string \<Rightarrow> string" where
  "mapping_get_id m name = map_get [] (mr_name_to_id m) name"

definition mapping_get_name :: "mapping_repository \<Rightarrow> string \<Rightarrow> string" where
  "mapping_get_name m pod = map_get [] (map_of (mr_id_to_name m)) pod"

definition mapping_size :: "mapping_repository \<Rightarrow> nat" where
  "mapping_size m = card (dom (mr_name_to_id m))"

subsection \<open>Invariant: the two maps are inverse to each other\<close>

definition mapping_inv :: "mapping_repository \<Rightarrow> bool" where
  "mapping_inv m \<longleftrightarrow> wf_map (mr_id_to_name m) \<and>
     (\<forall>i n. map_of (mr_id_to_name m) i = Some n \<longleftrightarrow> mr_name_to_id m n = Some i) \<and>
     mr_name_to_id m [] = None \<and> (\<forall>n. mr_name_to_id m n \<noteq> Some [])"

text \<open>A pair that does not contradict the repository: neither side is known with another partner.\<close>

definition fresh_pair :: "mapping_repository \<Rightarrow> string \<Rightarrow> string \<Rightarrow> bool" where
  "fresh_pair m name pod \<longleftrightarrow> name \<noteq> [] \<and> pod \<noteq> [] \<and>
     mr_name_to_id m name \<in> {None, Some pod} \<and> map_of (mr_id_to_name m) pod \<in> {None, Some name}"

lemma mapping_invD:
  assumes "mapping_inv m"
  shows "mr_name_to_id m n = Some i \<longleftrightarrow> map_of (mr_id_to_name m) i = Some n"
    and "mr_name_to_id m [] = None" and "map_of (mr_id_to_name m) [] = None"
    and "wf_map (mr_id_to_name m)"
  using assms unfolding mapping_inv_def by (blast, blast, metis not_Some_eq, blast)

lemma mapping_invI:
  assumes "wf_map (mr_id_to_name m)" "mr_name_to_id m [] = None" "map_of (mr_id_to_name m) [] = None"
    and "\<And>n i. mr_name_to_id m n = Some i \<longleftrightarrow> map_of (mr_id_to_name m) i = Some n"
  shows "mapping_inv m"
  using assms unfolding mapping_inv_def by (metis option.distinct(1))

lemma mapping_set_inv:
  assumes "mapping_inv m" and "fresh_pair m name pod"
  shows "mapping_inv (mapping_set name pod m)"
proof (rule mapping_invI)
  note inv = mapping_invD [OF assms(1)]
  fix n i
  have "((mr_name_to_id m)(name \<mapsto> pod)) n = Some i \<longleftrightarrow> ((map_of (mr_id_to_name m))(pod \<mapsto> name)) i = Some n"
    using assms(2) inv(1) [of n i] inv(1) [of name i] inv(1) [of n pod]
    by (auto simp: fresh_pair_def simp del: map_of_eq_Some_iff)
  then show "mr_name_to_id (mapping_set name pod m) n = Some i \<longleftrightarrow>
      map_of (mr_id_to_name (mapping_set name pod m)) i = Some n"
    by (simp add: mapping_set_def)
qed (use assms mapping_invD [OF assms(1)] in \<open>auto simp: mapping_set_def fresh_pair_def\<close>)

lemma mapping_unset_inv:
  assumes "mapping_inv m"
  shows "mapping_inv (mapping_unset name m)"
proof (rule mapping_invI)
  note inv = mapping_invD [OF assms(1)]
  fix n i
  let ?k = "map_get [] (mr_name_to_id m) name"
  have "((mr_name_to_id m)(name := None)) n = Some i \<longleftrightarrow> ((map_of (mr_id_to_name m))(?k := None)) i = Some n"
  proof (cases "mr_name_to_id m name")
    case None
    then have "?k = []" by simp
    then show ?thesis using None inv(1) [of n i] inv(3) by (auto simp del: map_of_eq_Some_iff)
  next
    case (Some k)
    then have "?k = k" by simp
    moreover have "map_of (mr_id_to_name m) k = Some name" using Some inv(1) by blast
    ultimately show ?thesis
      using Some inv(1) [of n i] inv(1) [of name i] inv(1) [of n k] by (auto simp del: map_of_eq_Some_iff)
  qed
  then show "mr_name_to_id (mapping_unset name m) n = Some i \<longleftrightarrow>
      map_of (mr_id_to_name (mapping_unset name m)) i = Some n"
    by (simp add: mapping_unset_def Let_def)
qed (use mapping_invD [OF assms] in \<open>simp_all add: mapping_unset_def Let_def\<close>)

text \<open>
  The interface of the repository as the workload wrapper uses it. Its laws hold where the
  invariant does; a new pair may be added once the name was removed.
\<close>

locale name_index =
  fixes add :: "string \<Rightarrow> string \<Rightarrow> 'm \<Rightarrow> 'm"
    and remove :: "string \<Rightarrow> 'm \<Rightarrow> 'm"
    and get_id :: "'m \<Rightarrow> string \<Rightarrow> string"
    and get_name :: "'m \<Rightarrow> string \<Rightarrow> string"
    and inv :: "'m \<Rightarrow> bool"
  assumes get_id_add: "get_id (add n i m) k = (if k = n then i else get_id m k)"
    and get_id_remove: "get_id (remove n m) k = (if k = n then [] else get_id m k)"
    and inv_remove: "inv m \<Longrightarrow> inv (remove n m)"
    and inv_add: "inv m \<Longrightarrow> n \<noteq> [] \<Longrightarrow> i \<noteq> [] \<Longrightarrow> get_id m n = [] \<Longrightarrow> get_name m i = [] \<Longrightarrow>
      inv (add n i m)"
    and inverse: "inv m \<Longrightarrow> n \<noteq> [] \<Longrightarrow> i \<noteq> [] \<Longrightarrow> get_id m n = i \<longleftrightarrow> get_name m i = n"
begin

text \<open>Renaming a workload to a new pod keeps every other pair and both directions.\<close>

lemma readd:
  assumes "inv m" "n \<noteq> []" "i \<noteq> []" "get_name m i \<in> {[], n}"
  shows "inv (add n i (remove n m)) \<and> get_id (add n i (remove n m)) n = i \<and>
    get_name (add n i (remove n m)) i = n \<and>
    (\<forall>k. k \<noteq> n \<longrightarrow> get_id (add n i (remove n m)) k = get_id m k)"
proof -
  let ?r = "remove n m"
  have r: "inv ?r" using assms(1) by (rule inv_remove)
  have "get_name ?r i = []"
  proof (rule ccontr)
    assume ne: "get_name ?r i \<noteq> []"
    then have "get_id ?r (get_name ?r i) = i"
      using inverse [OF r ne assms(3)] by simp
    then have "get_name ?r i \<noteq> n" "get_id m (get_name ?r i) = i"
      using assms(3) by (auto simp: get_id_remove split: if_splits)
    then have "get_name m i = get_name ?r i"
      using inverse [OF assms(1) ne assms(3)] by simp
    with assms(4) ne \<open>get_name ?r i \<noteq> n\<close> show False by auto
  qed
  then have inv': "inv (add n i ?r)"
    using assms(2,3) r by (intro inv_add) (simp_all add: get_id_remove)
  have "get_id (add n i ?r) n = i" by (simp add: get_id_add)
  with inverse [OF inv' assms(2,3)] inv' show ?thesis
    by (simp add: get_id_add get_id_remove)
qed

end

interpretation workload_index: name_index mapping_set mapping_unset mapping_get_id mapping_get_name mapping_inv
proof (unfold_locales, goal_cases)
  case (3 m n)
  then show ?case by (rule mapping_unset_inv)
next
  case (4 m n i)
  have "mr_name_to_id m n = None"
    using 4(1,4) by (cases "mr_name_to_id m n") (auto simp: mapping_get_id_def mapping_inv_def)
  moreover have "map_of (mr_id_to_name m) i = None"
    using 4(1,5) by (cases "map_of (mr_id_to_name m) i") (auto simp: mapping_get_name_def mapping_inv_def)
  ultimately show ?case
    using 4 by (intro mapping_set_inv) (simp_all add: fresh_pair_def)
next
  case (5 m n i)
  have "mapping_get_id m n = i \<longleftrightarrow> mr_name_to_id m n = Some i"
    using 5 by (cases "mr_name_to_id m n") (auto simp: mapping_get_id_def)
  moreover have "mapping_get_name m i = n \<longleftrightarrow> map_of (mr_id_to_name m) i = Some n"
    using 5 by (cases "map_of (mr_id_to_name m) i") (auto simp: mapping_get_name_def simp del: map_of_eq_Some_iff)
  ultimately show ?case
    using mapping_invD(1) [OF 5(1)] by simp
qed (auto simp: mapping_set_def mapping_unset_def mapping_get_id_def map_get_def Let_def)

subsection \<open>Persisting and loading\<close>

lemma fold_update_map_of:
  "map_of (fold (\<lambda>(i, n) m. AList.update i n m) ms m0) = fold (\<lambda>(i, n) m. m(i \<mapsto> n)) ms (map_of m0)"
  by (induction ms arbitrary: m0) auto

lemma fold_update_wf: "wf_map m0 \<Longrightarrow> wf_map (fold (\<lambda>(i, n) m. AList.update i n m) ms m0)"
  by (induction ms arbitrary: m0) auto

lemma fold_pairs: "fold (\<lambda>(i, n) m. m(i \<mapsto> n)) ms m0 = m0 ++ map_of (rev ms)"
  by (induction ms arbitrary: m0) auto

lemma map_of_rev_wf:
  assumes "wf_map ms"
  shows "map_of (rev ms) = map_of ms"
proof (rule map_of_eqI)
  show "set (map fst (rev ms)) = set (map fst ms)" by simp
next
  have "distinct (map fst (rev ms))" using assms by (simp add: rev_map [symmetric])
  then show "\<forall>k\<in>set (map fst (rev ms)). map_of (rev ms) k = map_of ms k"
    using assms by (metis map_of_eq_Some_iff not_Some_eq set_rev)
qed

lemma fold_swapped_pairs:
  "fold (\<lambda>(i, n) m. m(n \<mapsto> i)) ms m0 = m0 ++ map_of (rev (map (\<lambda>(i, n). (n, i)) ms))"
  by (induction ms arbitrary: m0) auto

lemma inverse_pairs_distinct:
  assumes "mapping_inv m"
  shows "wf_map (map (\<lambda>(i, n). (n, i)) (mr_id_to_name m))"
proof -
  have "inj_on snd (set (mr_id_to_name m))"
  proof (rule inj_onI, clarify)
    fix i n j n'
    assume "(i, n) \<in> set (mr_id_to_name m)" "(j, n') \<in> set (mr_id_to_name m)" "snd (i, n) = snd (j, n')"
    then have "mr_name_to_id m n = Some i" "mr_name_to_id m n = Some j"
      using mapping_invD(1,4) [OF assms] by simp_all
    then show "i = j \<and> n = n'" using \<open>snd (i, n) = snd (j, n')\<close> by simp
  qed
  moreover have "distinct (mr_id_to_name m)"
    using assms distinct_map unfolding mapping_inv_def by blast
  ultimately show ?thesis
    by (simp add: comp_def split_beta distinct_map)
qed

lemma map_of_swapped:
  assumes "mapping_inv m"
  shows "map_of (map (\<lambda>(i, n). (n, i)) (mr_id_to_name m)) = mr_name_to_id m"
proof (rule ext)
  fix n
  let ?s = "map (\<lambda>(i, n). (n, i)) (mr_id_to_name m)"
  have "map_of ?s n = Some i \<longleftrightarrow> mr_name_to_id m n = Some i" for i
  proof -
    have "map_of ?s n = Some i \<longleftrightarrow> (n, i) \<in> set ?s"
      using inverse_pairs_distinct [OF assms] by (rule map_of_eq_Some_iff)
    also have "\<dots> \<longleftrightarrow> (i, n) \<in> set (mr_id_to_name m)" by auto
    also have "\<dots> \<longleftrightarrow> map_of (mr_id_to_name m) i = Some n"
      using mapping_invD(4) [OF assms] by simp
    also have "\<dots> \<longleftrightarrow> mr_name_to_id m n = Some i" using mapping_invD(1) [OF assms] by simp
    finally show ?thesis .
  qed
  then show "map_of ?s n = mr_name_to_id m n"
    by (metis not_Some_eq)
qed

lemma load_stored:
  assumes "mapping_inv m"
  shows "mapping_get_id (load_mappings file (mr_id_to_name m)) = mapping_get_id m"
    and "mapping_get_name (load_mappings file (mr_id_to_name m)) = mapping_get_name m"
    and "mapping_inv (load_mappings file (mr_id_to_name m))"
proof -
  let ?l = "load_mappings file (mr_id_to_name m)"
  have wf: "wf_map (mr_id_to_name m)" using assms by (simp add: mapping_inv_def)
  have i: "map_of (mr_id_to_name ?l) = map_of (mr_id_to_name m)"
    by (simp add: load_mappings_def fold_update_map_of fold_pairs map_of_rev_wf [OF wf])
  have n: "mr_name_to_id ?l = mr_name_to_id m"
    using map_of_rev_wf [OF inverse_pairs_distinct [OF assms]] map_of_swapped [OF assms]
    by (simp add: load_mappings_def fold_swapped_pairs)
  show "mapping_get_id ?l = mapping_get_id m"
    by (simp add: fun_eq_iff mapping_get_id_def n)
  show "mapping_get_name ?l = mapping_get_name m"
    by (simp add: fun_eq_iff mapping_get_name_def i)
  have "wf_map (mr_id_to_name ?l)"
    by (simp add: load_mappings_def fold_update_wf)
  with i n assms show "mapping_inv ?l" by (simp add: mapping_inv_def)
qed

subsection \<open>Properties\<close>

text \<open>The stored form of the repository survives a restart of the worker.\<close>

lemma new_mapping_repository_reads:
  assumes "mr_file m = path_join [d, ''workload-mapping.json'']"
    and "codec_inverts J (mr_id_to_name m)" and "mapping_persist J m f = (None, f')"
  shows "new_mapping_repository J d f' = Inr (load_mappings (mr_file m) (mr_id_to_name m))"
proof -
  obtain j where "cd_marshal J (mr_id_to_name m) = Inr j" "cd_unmarshal J j = Inr (mr_id_to_name m)"
    using assms(2) by (auto simp: codec_inverts_def)
  moreover from this have "read_file (mr_file m) f' = Inr j"
    using assms(3) read_write by (fastforce simp: mapping_persist_def)
  ultimately show ?thesis
    using assms(1) by (simp add: new_mapping_repository_def)
qed

text \<open>C28. A workload is re-created as the wrapper does it: its name is removed and added with the id of
  the new pod. If the last call succeeds, a worker started afterwards reads back a repository in
  which the name has the new id and the new id has the name, every other name has the id it had,
  and the two directions are inverse to each other.\<close>

theorem mapping_readd_survives_restart:
  assumes "mapping_inv m" and "name \<noteq> []" and "pod \<noteq> []" and "mapping_get_name m pod \<in> {[], name}"
    and "mr_file m = path_join [d, ''workload-mapping.json'']"
    and "codec_inverts J (mr_id_to_name (mapping_set name pod (mapping_unset name m)))"
    and "mapping_add J name pod (snd (mapping_remove J name (m, f))) = (None, (m', f'))"
  shows "\<exists>l. new_mapping_repository J d f' = Inr l \<and> mapping_inv l \<and>
    mapping_get_id l name = pod \<and> mapping_get_name l pod = name \<and>
    (\<forall>k. k \<noteq> name \<longrightarrow> mapping_get_id l k = mapping_get_id m k)"
proof -
  let ?m = "mapping_set name pod (mapping_unset name m)"
  obtain g where p: "mapping_persist J ?m g = (None, f')"
    using assms(7) by (auto simp: mapping_add_def mapping_remove_def Let_def split_beta intro!: that prod_eqI)
  have "mr_file ?m = path_join [d, ''workload-mapping.json'']"
    using assms(5) by (simp add: mapping_set_def mapping_unset_def Let_def)
  then have "new_mapping_repository J d f' = Inr (load_mappings (mr_file ?m) (mr_id_to_name ?m))"
    using assms(6) p by (intro new_mapping_repository_reads)
  moreover note workload_index.readd [OF assms(1-4)]
  ultimately show ?thesis
    using load_stored [of ?m] by simp
qed

definition example_mapping_codec :: "mapping_entry list codec" where
  "example_mapping_codec =
     \<lparr>cd_marshal = (\<lambda>ms. Inr (concat (map (\<lambda>(i, n). i @ '':'' @ n @ '';'') ms))),
      cd_unmarshal = (\<lambda>s. Inr (map (\<lambda>e. case split_on CHR '':'' e of
                                  [i, n] \<Rightarrow> (i, n) | _ \<Rightarrow> ([], []))
                                (filter (\<lambda>e. e \<noteq> []) (split_on CHR '';'' s))))\<rparr>"

definition example_mapping :: mapping_repository where
  "example_mapping = load_mappings ''/etc/worker/workload-mapping.json'' [(''p1'', ''web''), (''p2'', ''db'')]"

lemma example_mapping_facts:
  "mapping_inv example_mapping" "mapping_get_name example_mapping ''p3'' = []"
  "mr_file example_mapping = path_join [''/etc/worker'', ''workload-mapping.json'']"
proof -
  show "mapping_inv example_mapping"
    by (auto simp: example_mapping_def load_mappings_def mapping_inv_def split: if_splits)
qed code_simp+

theorem mapping_readd_survives_restart_witness:
  "\<exists>l. new_mapping_repository example_mapping_codec ''/etc/worker''
      (snd (snd (mapping_add example_mapping_codec ''web'' ''p3''
        (snd (mapping_remove example_mapping_codec ''web'' (example_mapping, fs_with_dirs {''/etc/worker''})))))) = Inr l \<and>
    mapping_inv l \<and> mapping_get_id l ''web'' = ''p3'' \<and> mapping_get_name l ''p3'' = ''web'' \<and>
    (\<forall>k. k \<noteq> ''web'' \<longrightarrow> mapping_get_id l k = mapping_get_id example_mapping k)"
proof (rule mapping_readd_survives_restart)
  let ?s = "mapping_add example_mapping_codec ''web'' ''p3''
    (snd (mapping_remove example_mapping_codec ''web'' (example_mapping, fs_with_dirs {''/etc/worker''})))"
  have "fst ?s = None" by code_simp
  then show "?s = (None, (fst (snd ?s), snd (snd ?s)))" by (metis prod.collapse)
  show "codec_inverts example_mapping_codec
      (mr_id_to_name (mapping_set ''web'' ''p3'' (mapping_unset ''web'' example_mapping)))"
    unfolding codec_inverts_def
    by (rule exI [where x = "''p2:db;p3:web;''"]) (rule conjI; code_simp)
qed (simp_all add: example_mapping_facts)

text \<open>
  Adding a name that is still present under another id, without removing it first, leaves the old
  id mapped to that name: the two directions disagree from then on.\<close>

theorem mapping_add_keeps_stale_id:
  assumes "mapping_inv m" and "mapping_get_id m name = old" and "old \<noteq> []" and "name \<noteq> []" and "pod \<noteq> old"
  shows "mapping_get_name (fst (snd (mapping_add J name pod (m, f)))) old = name \<and>
    mapping_get_id (fst (snd (mapping_add J name pod (m, f)))) name = pod \<and>
    \<not> mapping_inv (fst (snd (mapping_add J name pod (m, f))))"
proof -
  let ?m = "fst (snd (mapping_add J name pod (m, f)))"
  have m: "?m = mapping_set name pod m"
    by (simp add: mapping_add_def Let_def split_beta)
  have "mapping_get_name m old = name"
    using workload_index.inverse [OF assms(1,4,3)] assms(2) by simp
  then have "mapping_get_name ?m old = name" "mapping_get_id ?m name = pod"
    using assms(5) unfolding m by (simp_all add: mapping_get_name_def mapping_get_id_def mapping_set_def map_get_def)
  moreover have "\<not> mapping_inv ?m"
    using workload_index.inverse [of ?m name old] calculation assms(3-5) by auto
  ultimately show ?thesis by simp
qed

theorem mapping_add_keeps_stale_id_witness:
  "mapping_get_name (fst (snd (mapping_add example_mapping_codec ''web'' ''p3'' (example_mapping, fs_with_dirs {})))) ''p1'' = ''web'' \<and>
   mapping_get_id (fst (snd (mapping_add example_mapping_codec ''web'' ''p3'' (example_mapping, fs_with_dirs {})))) ''web'' = ''p3'' \<and>
   \<not> mapping_inv (fst (snd (mapping_add example_mapping_codec ''web'' ''p3'' (example_mapping, fs_with_dirs {}))))"
  by (rule mapping_add_keeps_stale_id [OF example_mapping_facts(1)]) code_simp+

end
