(* ===== verification/Netfilter.thy ===== *)
theory Netfilter
  imports File_System
begin

text \<open>
  \<open>internal/workload/network/netfilter.go\<close>: the firewall tables, chains and rules of the workloads,
  kept with the \<open>nft\<close> command. Running the command is the parameter \<open>nft_run\<close>: it is given the
  arguments and reports a failing exit status with the text the command printed, or that the command
  could not be run at all.
\<close>

datatype nft_error = Exit_Error string | Other_Error gerror

type_synonym 'x nft = "string list \<Rightarrow> 'x \<Rightarrow> nft_error option \<times> 'x"

definition nft_gerror :: "nft_error \<Rightarrow> gerror" where
  "nft_gerror e = (case e of Exit_Error msg \<Rightarrow> Wrap ''running nft'' (Err msg) | Other_Error e \<Rightarrow> e)"

definition nft_call :: "'x nft \<Rightarrow> string list \<Rightarrow> 'x proc" where
  "nft_call N args x = (case N args x of (r, x') \<Rightarrow> (map_option nft_gerror r, x'))"

definition nft_family :: string where
  "nft_family = ''inet''"

definition format_chain_name :: "string \<Rightarrow> string" where
  "format_chain_name workloadName = ''wl-'' @ workloadName"

definition add_table :: "'x nft \<Rightarrow> string \<Rightarrow> 'x proc" where
  "add_table N table = nft_call N [''add'', ''table'', nft_family, table]"

definition delete_table :: "'x nft \<Rightarrow> string \<Rightarrow> 'x proc" where
  "delete_table N table = nft_call N [''delete'', ''table'', nft_family, table]"

definition add_chain :: "'x nft \<Rightarrow> string \<Rightarrow> string \<Rightarrow> 'x proc" where
  "add_chain N table workloadName =
     nft_call N [''add'', ''chain'', nft_family, table, format_chain_name workloadName,
       ''{ type filter hook input priority 0 ; }'']"

definition delete_chain :: "'x nft \<Rightarrow> string \<Rightarrow> string \<Rightarrow> 'x proc" where
  "delete_chain N table workloadName x =
     (let chain = format_chain_name workloadName
      in case N [''list'', ''chain'', nft_family, table, chain] x of
           (Some (Exit_Error msg), x') \<Rightarrow>
             (if str_contains msg ''No such file or directory'' then (None, x')
              else (Some (nft_gerror (Exit_Error msg)), x'))
         | (Some e, x') \<Rightarrow> (Some (nft_gerror e), x')
         | (None, x') \<Rightarrow> nft_call N [''delete'', ''chain'', nft_family, table, chain] x')"

definition add_rule :: "'x nft \<Rightarrow> string \<Rightarrow> string \<Rightarrow> string \<Rightarrow> 'x proc" where
  "add_rule N table workloadName rule =
     nft_call N [''add'', ''rule'', nft_family, table, format_chain_name workloadName, rule]"

lemma format_chain_name_inj [simp]: "format_chain_name a = format_chain_name b \<longleftrightarrow> a = b"
  by (simp add: format_chain_name_def)

end
