(* ===== verification/Workload_Wrapper.thy ===== *)
theory Workload_Wrapper
  imports Numbers Workload_Mapping Netfilter Podman_Logs
begin

text \<open>
  \<open>internal/workload/wrapper.go\<close>: the operations on one workload, composed of podman, the firewall, the
  name mapping and the systemd services. The state is the file system, the two repositories, the
  events on their way to the observers, and the external state \<open>'x\<close> of podman, \<open>nft\<close> and the bus.
\<close>

subsection \<open>State\<close>

record 'x wstate =
  ws_mapping :: mapping_repository
  ws_services :: systemd_manager
  ws_events :: "podman_event list"
  ws_ext :: 'x

type_synonym 'x wworld = "'x wstate world"

record 'x backends =
  be_podman :: "'x podman_api"
  be_nft :: "'x nft"
  be_bus :: "'x bus"
  be_mapping_json :: "mapping_entry list codec"
  be_services_json :: "(string \<times> service) list codec"
  be_interval :: nat

abbreviation mapping_of :: "'x wworld \<Rightarrow> mapping_repository" where
  "mapping_of w \<equiv> ws_mapping (w_ext w)"

abbreviation services_of :: "'x wworld \<Rightarrow> systemd_manager" where
  "services_of w \<equiv> ws_services (w_ext w)"

text \<open>Calls of the parts, on the whole state.\<close>

definition at_ext :: "('x \<Rightarrow> 'r \<times> 'x) \<Rightarrow> 'x wworld \<Rightarrow> 'r \<times> 'x wworld" where
  "at_ext p w = (case p (ws_ext (w_ext w)) of (r, x) \<Rightarrow> (r, w\<lparr>w_ext := (w_ext w)\<lparr>ws_ext := x\<rparr>\<rparr>))"

definition at_world :: "('x world \<Rightarrow> 'r \<times> 'x world) \<Rightarrow> 'x wworld \<Rightarrow> 'r \<times> 'x wworld" where
  "at_world p w =
     (case p \<lparr>w_fs = w_fs w, w_ext = ws_ext (w_ext w)\<rparr> of
        (r, w') \<Rightarrow> (r, \<lparr>w_fs = w_fs w', w_ext = (w_ext w)\<lparr>ws_ext := w_ext w'\<rparr>\<rparr>))"

definition at_mapping :: "(mapping_repository \<times> fs) proc \<Rightarrow> 'x wworld proc" where
  "at_mapping p w =
     (case p (mapping_of w, w_fs w) of
        (r, (m, f)) \<Rightarrow> (r, \<lparr>w_fs = f, w_ext = (w_ext w)\<lparr>ws_mapping := m\<rparr>\<rparr>))"

definition at_services :: "(systemd_manager \<times> fs) proc \<Rightarrow> 'x wworld proc" where
  "at_services p w =
     (case p (services_of w, w_fs w) of
        (r, (g, f)) \<Rightarrow> (r, \<lparr>w_fs = f, w_ext = (w_ext w)\<lparr>ws_services := g\<rparr>\<rparr>))"

subsection \<open>Network\<close>

definition nf_table_name :: string where
  "nf_table_name = ''edge''"

definition legal_host_port :: "32 word \<Rightarrow> bool" where
  "legal_host_port p \<longleftrightarrow> sint p > 0 \<and> sint p < 65536"

fun ports_of :: "string \<Rightarrow> string \<Rightarrow> 32 word list \<Rightarrow> gerror + 32 word list" where
  "ports_of c wl [] = Inr []"
| "ports_of c wl (p # ps) =
     (if legal_host_port p then
        (case ports_of c wl ps of Inl e \<Rightarrow> Inl e | Inr qs \<Rightarrow> Inr (p # qs))
      else Inl (Err (''illegal host port number '' @ show_int (sint p) @ '' for container '' @ c @
                     '' in workload '' @ wl)))"

fun container_ports :: "string \<Rightarrow> container list \<Rightarrow> gerror + 32 word list" where
  "container_ports wl [] = Inr []"
| "container_ports wl (c # cs) =
     (case ports_of (ct_name c) wl (ct_ports c) of
        Inl e \<Rightarrow> Inl e
      | Inr ps \<Rightarrow> (case container_ports wl cs of Inl e \<Rightarrow> Inl e | Inr qs \<Rightarrow> Inr (ps @ qs)))"

definition get_host_ports :: "pod \<Rightarrow> gerror + 32 word list" where
  "get_host_ports p = container_ports (pod_name p) (ps_containers (pod_spec_of p))"

definition port_rule :: "32 word \<Rightarrow> string" where
  "port_rule p = ''tcp dport '' @ show_int (sint p) @ '' ct state new,established counter accept''"

fun add_port_rules :: "'x nft \<Rightarrow> string \<Rightarrow> 32 word list \<Rightarrow> 'x proc" where
  "add_port_rules N wl [] = ok"
| "add_port_rules N wl (p # ps) =
     then_ok (wrapping (Wrap (''failed to add rule '' @ port_rule p @ '' for workload '' @ wl))
                (add_rule N nf_table_name wl (port_rule p)))
       (add_port_rules N wl ps)"

definition apply_network_configuration :: "'x nft \<Rightarrow> pod \<Rightarrow> 'x proc" where
  "apply_network_configuration N p =
     (case get_host_ports p of
        Inl e \<Rightarrow> (\<lambda>x. (Some e, x))
      | Inr [] \<Rightarrow> ok
      | Inr ps \<Rightarrow>
          then_ok (wrapping (Wrap (''failed to create chain for workload '' @ pod_name p))
                     (add_chain N nf_table_name (pod_name p)))
            (add_port_rules N (pod_name p) ps))"

subsection \<open>Services\<close>

definition create_service :: "'x bus \<Rightarrow> service \<Rightarrow> 'x world proc" where
  "create_service B s =
     then_ok (wrapping (Wrap (''cannot add systemd service '' @ svc_name s)) (service_add B s))
       (then_ok (wrapping (Wrap (''cannot enable systemd service '' @ svc_name s)) (service_enable B s))
          (\<lambda>w. (None, snd (service_start B s w))))"

text \<open>The error of \<open>serviceManager.Remove\<close> is dropped.\<close>

definition remove_service :: "'x backends \<Rightarrow> string \<Rightarrow> 'x wworld proc" where
  "remove_service K name w =
     (case manager_get (services_of w) name of
        None \<Rightarrow> (None, w)
      | Some s \<Rightarrow>
          then_ok (wrapping (Wrap (''Cannot disable systemd service for '' @ name))
                     (at_world (service_disable (be_bus K) s)))
            (then_ok (wrapping (Wrap (''Cannot remove systemd service for '' @ name))
                       (at_world (service_remove (be_bus K) s)))
               (\<lambda>w. (None, snd (at_services (manager_remove (be_services_json K) s) w))))
            (snd (at_world (service_stop (be_bus K) s) w)))"

subsection \<open>Workloads\<close>

definition wrapper_list :: "'x backends \<Rightarrow> ('x wworld, workload_info list) op" where
  "wrapper_list K w =
     (case at_ext (podman_list (be_podman K)) w of
        (Inl e, w') \<Rightarrow> (Inl e, w')
      | (Inr is, w') \<Rightarrow>
          (Inr (map (\<lambda>i. let n = mapping_get_name (mapping_of w') (wi_id i)
                         in if n \<noteq> [] then i\<lparr>wi_name := n\<rparr> else i) is), w'))"

definition mapped_id :: "'x wworld \<Rightarrow> string \<Rightarrow> string" where
  "mapped_id w name = (let i = mapping_get_id (mapping_of w) name in if i = [] then name else i)"

text \<open>The id is looked up first; an error deleting the chain is only logged.\<close>

definition wrapper_remove :: "'x backends \<Rightarrow> string \<Rightarrow> 'x wworld proc" where
  "wrapper_remove K name w =
     (let pod = mapped_id w name in
      then_ok (remove_service K name)
        (then_ok (at_ext (podman_remove (be_podman K) pod))
           (\<lambda>w. at_mapping (mapping_remove (be_mapping_json K) name)
                  (snd (at_ext (delete_chain (be_nft K) nf_table_name name) w)))) w)"

definition wrapper_stop :: "'x backends \<Rightarrow> string \<Rightarrow> 'x wworld proc" where
  "wrapper_stop K name w = at_ext (podman_stop (be_podman K) (mapped_id w name)) w"

text \<open>The part of \<open>Run\<close> after podman has created the pod.\<close>

definition run_service :: "'x backends \<Rightarrow> pod \<Rightarrow> string \<Rightarrow> 'x wworld proc" where
  "run_service K p manifestPath w =
     (case at_world (generate_systemd_service (be_podman K) (be_bus K) p manifestPath (be_interval K)) w of
        (Inl e, w') \<Rightarrow> (Some (Wrap ''error while generating systemd service'' e), w')
      | (Inr s, w') \<Rightarrow>
          then_ok (wrapping (Wrap ''error while starting service'') (at_world (create_service (be_bus K) s)))
            (wrapping (Wrap ''error while updating service manager'')
              (at_services (manager_add (be_services_json K) s))) w')"

definition run_report :: "'x backends \<Rightarrow> pod \<Rightarrow> 'x wworld proc" where
  "run_report K p w =
     (case at_ext (get_pod_report (be_podman K) (pod_name p)) w of
        (Inl e, w') \<Rightarrow> (Some (Wrap ''error while sending started events'' e), w')
      | (Inr r, w') \<Rightarrow>
          (None, w'\<lparr>w_ext := (w_ext w')\<lparr>ws_events := ws_events (w_ext w') @
             [\<lparr>pe_kind = Started_Container, pe_workload = pod_name p, pe_report = Some r\<rparr>]\<rparr>\<rparr>))"

text \<open>Podman's report of no pod is an index out of range.\<close>

definition wrapper_run ::
  "'x backends \<Rightarrow> pod \<Rightarrow> string \<Rightarrow> string \<Rightarrow> labels \<Rightarrow> 'x wworld \<Rightarrow> (gerror option \<times> 'x wworld) go" where
  "wrapper_run K p manifestPath authFilePath annotations w =
     (case at_ext (apply_network_configuration (be_nft K) p) w of
        (Some e, w1) \<Rightarrow> Ret (Some e, w1)
      | (None, w1) \<Rightarrow>
          (case at_ext (podman_run (be_podman K) manifestPath authFilePath annotations) w1 of
             (Inl e, w2) \<Rightarrow> Ret (Some e, w2)
           | (Inr [], w2) \<Rightarrow> Panic
           | (Inr (r # _), w2) \<Rightarrow>
               Ret (then_ok (at_mapping (mapping_add (be_mapping_json K) (pod_name p) (pr_id r)))
                      (then_ok (run_service K p manifestPath) (run_report K p)) w2)))"

definition wrapper_start :: "'x backends \<Rightarrow> pod \<Rightarrow> 'x wworld proc" where
  "wrapper_start K p w =
     then_ok (at_ext (apply_network_configuration (be_nft K) p))
       (\<lambda>w. at_ext (podman_start (be_podman K) (mapping_get_id (mapping_of w) (pod_name p))) w)
       (snd (at_ext (delete_chain (be_nft K) nf_table_name (pod_name p)) w))"

definition wrapper_init :: "'x backends \<Rightarrow> 'x wworld proc" where
  "wrapper_init K =
     bind_ok (at_world (new_systemd_rootless (be_bus K) ''podman-auto-update'' [] False))
       (\<lambda>s. then_ok (at_world (service_start (be_bus K) s)) (at_ext (add_table (be_nft K) nf_table_name)))"

definition wrapper_remove_table :: "'x backends \<Rightarrow> 'x wworld proc" where
  "wrapper_remove_table K = at_ext (delete_table (be_nft K) nf_table_name)"

definition wrapper_remove_services_file :: "'x wworld proc" where
  "wrapper_remove_services_file = at_services remove_services_file"

definition wrapper_remove_mapping_file :: "'x wworld proc" where
  "wrapper_remove_mapping_file = at_mapping remove_mapping_file"

definition wrapper_persist_configuration :: "'x backends \<Rightarrow> 'x wworld proc" where
  "wrapper_persist_configuration K =
     at_mapping (\<lambda>(m, f). case mapping_persist (be_mapping_json K) m f of (r, f') \<Rightarrow> (r, (m, f')))"

definition wrapper_list_secrets :: "'x backends \<Rightarrow> ('x wworld, string list) op" where
  "wrapper_list_secrets K = at_ext (list_secrets (be_podman K))"

definition wrapper_remove_secret :: "'x backends \<Rightarrow> string \<Rightarrow> 'x wworld proc" where
  "wrapper_remove_secret K name = at_ext (remove_secret (be_podman K) name)"

definition wrapper_create_secret :: "'x backends \<Rightarrow> string \<Rightarrow> string \<Rightarrow> 'x wworld proc" where
  "wrapper_create_secret K name content = at_ext (create_secret (be_podman K) name content)"

definition wrapper_update_secret :: "'x backends \<Rightarrow> string \<Rightarrow> string \<Rightarrow> 'x wworld proc" where
  "wrapper_update_secret K name content = at_ext (update_secret (be_podman K) name content)"

definition wrapper_logs :: "'x backends \<Rightarrow> string \<Rightarrow> ('x wworld, log_stream) op" where
  "wrapper_logs K pod = at_ext (podman_logs (be_podman K) pod)"

subsection \<open>Observers\<close>

datatype observer_call = Workload_Started string "pod_report option list" | Workload_Removed string

definition event_call :: "podman_event \<Rightarrow> observer_call" where
  "event_call e =
     (case pe_kind e of
        Started_Container \<Rightarrow> Workload_Started (pe_workload e) [pe_report e]
      | Stopped_Container \<Rightarrow> Workload_Removed (pe_workload e))"

text \<open>The listener takes one event and calls the observers in the order they were registered.\<close>

definition deliver_event :: "(observer_call \<Rightarrow> 'o \<Rightarrow> 'o) list \<Rightarrow> podman_event \<Rightarrow> 'o \<Rightarrow> 'o" where
  "deliver_event observers e s = fold (\<lambda>ob. ob (event_call e)) observers s"

definition register_workload_observer ::
  "(observer_call \<Rightarrow> 'o \<Rightarrow> 'o) \<Rightarrow> (observer_call \<Rightarrow> 'o \<Rightarrow> 'o) list \<Rightarrow> (observer_call \<Rightarrow> 'o \<Rightarrow> 'o) list" where
  "register_workload_observer ob observers = observers @ [ob]"

text \<open>
  \<open>newWorkloadInstance\<close>; \<open>nft_path\<close> is the error of looking up the \<open>nft\<close> command, \<open>runtimeDir\<close> the variable
  \<open>FLOTTA_XDG_RUNTIME_DIR\<close>.
\<close>

definition new_workload_instance ::
  "'x backends \<Rightarrow> gerror option \<Rightarrow> string \<Rightarrow> string \<Rightarrow> fs \<Rightarrow> 'x \<Rightarrow> (gerror + 'x wworld) go" where
  "new_workload_instance K nft_path runtimeDir configDir f x =
     go_bind (new_podman (be_podman K) runtimeDir x) (\<lambda>(p, x1).
       case p of Inl e \<Rightarrow> Ret (Inl (Wrap ''workload cannot initialize podman manager'' e))
       | Inr _ \<Rightarrow>
         (case nft_path of Some e \<Rightarrow> Ret (Inl (Wrap ''workload cannot initialize netfilter manager'' e))
          | None \<Rightarrow>
            (case new_mapping_repository (be_mapping_json K) configDir f of
               Inl e \<Rightarrow> Ret (Inl (Wrap ''workload cannot initialize mapping repository'' e))
             | Inr m \<Rightarrow>
               (case new_systemd_manager (be_services_json K) configDir f of
                  Inl e \<Rightarrow> Ret (Inl (Wrap ''workload cannot initialize systemd manager'' e))
                | Inr g \<Rightarrow>
                   (case start_events (be_podman K) x1 of (es, x2) \<Rightarrow>
                      Ret (Inr \<lparr>w_fs = f, w_ext = \<lparr>ws_mapping = m, ws_services = g, ws_events = es, ws_ext = x2\<rparr>\<rparr>))))))"

subsection \<open>Files the wrapper may change\<close>

definition own_path :: "'x backends \<Rightarrow> 'x wworld \<Rightarrow> string \<Rightarrow> bool" where
  "own_path K w p \<longleftrightarrow> p = mr_file (mapping_of w) \<or> p = sm_file (services_of w) \<or> p \<in> range (unit_path (be_bus K))"

text \<open>Nothing but files of the wrapper changed.\<close>

definition kept :: "'x backends \<Rightarrow> 'x wworld \<Rightarrow> 'x wworld \<Rightarrow> bool" where
  "kept K w w' \<longleftrightarrow> (\<forall>p. \<not> own_path K w p \<longrightarrow> fs_files (w_fs w') p = fs_files (w_fs w) p) \<and>
     fs_dirs (w_fs w') = fs_dirs (w_fs w) \<and> fs_denied (w_fs w') = fs_denied (w_fs w) \<and>
     mr_file (mapping_of w') = mr_file (mapping_of w) \<and> sm_file (services_of w') = sm_file (services_of w)"

lemma kept_refl [intro, simp]: "kept K w w"
  by (simp add: kept_def)

lemma kept_trans: "kept K w w' \<Longrightarrow> kept K w' w'' \<Longrightarrow> kept K w w''"
  by (auto simp: kept_def own_path_def)

lemma kept_then_ok:
  assumes "kept K w (snd (p w))" and "\<And>w'. p w = (None, w') \<Longrightarrow> kept K w' (snd (q w'))"
  shows "kept K w (snd (then_ok p q w))"
  using assms kept_trans by (fastforce simp: then_ok_def split: prod.splits option.splits)

lemma kept_wrapping: "kept K w (snd (p w)) \<Longrightarrow> kept K w (snd (wrapping f p w))"
  by (auto simp: wrapping_def split: prod.splits)

lemma kept_at_ext: "kept K w (snd (at_ext p w))"
  by (auto simp: at_ext_def kept_def own_path_def split: prod.splits)

text \<open>The same for the calls that write unit files.\<close>

definition unit_files_only :: "'x bus \<Rightarrow> 'x world \<Rightarrow> 'x world \<Rightarrow> bool" where
  "unit_files_only B v v' \<longleftrightarrow> (\<forall>p. p \<notin> range (unit_path B) \<longrightarrow> fs_files (w_fs v') p = fs_files (w_fs v) p) \<and>
     fs_dirs (w_fs v') = fs_dirs (w_fs v) \<and> fs_denied (w_fs v') = fs_denied (w_fs v)"

lemma units_then_ok:
  assumes "unit_files_only B v (snd (p v))" and "\<And>v'. p v = (None, v') \<Longrightarrow> unit_files_only B v' (snd (q v'))"
  shows "unit_files_only B v (snd (then_ok p q v))"
  using assms by (fastforce simp: then_ok_def unit_files_only_def split: prod.splits option.splits)

lemma units_on_ext: "unit_files_only B v (snd (on_ext p v))"
  by (simp add: unit_files_only_def)

lemma units_wrapping: "unit_files_only B v (snd (p v)) \<Longrightarrow> unit_files_only B v (snd (wrapping f p v))"
  by (auto simp: wrapping_def split: prod.splits)

lemma units_write: "unit_files_only B v (snd (write_units B us v))"
proof (induction B us arbitrary: v rule: write_units.induct)
  case (2 B u c us)
  have "unit_files_only B v (snd (on_fs (write_file (unit_path B u) c) v))"
    by (auto simp: unit_files_only_def on_fs_def write_file_def)
  then show ?case using 2 by (simp add: units_then_ok)
qed (simp add: unit_files_only_def)

lemma units_remove: "unit_files_only B v (snd (remove_units B us v))"
proof (induction B us arbitrary: v rule: remove_units.induct)
  case (2 B u us)
  have "unit_files_only B v (snd (on_fs (remove_file (unit_path B u)) v))"
    by (auto simp: unit_files_only_def on_fs_def remove_file_def)
  then show ?case using 2 by (simp add: units_then_ok)
qed (simp add: unit_files_only_def)

lemma units_service:
  "unit_files_only B v (snd (service_add B s v))" "unit_files_only B v (snd (service_remove B s v))"
  "unit_files_only B v (snd (service_stop B s v))" "unit_files_only B v (snd (service_disable B s v))"
  "unit_files_only B v (snd (service_enable B s v))" "unit_files_only B v (snd (service_start B s v))"
  by (simp_all add: service_add_def service_remove_def service_stop_def service_disable_def service_enable_def
      service_start_def service_reload_def units_then_ok units_write units_remove units_on_ext)

lemma units_trans: "unit_files_only B v v' \<Longrightarrow> unit_files_only B v' v'' \<Longrightarrow> unit_files_only B v v''"
  by (simp add: unit_files_only_def)

lemma units_create_service: "unit_files_only B v (snd (create_service B s v))"
proof -
  have "unit_files_only B v (snd ((\<lambda>w. (None, snd (service_start B s w))) v))" for v
    by (simp add: units_service)
  then show ?thesis
    unfolding create_service_def by (intro units_then_ok units_wrapping units_service) simp_all
qed

lemma units_new_systemd: "unit_files_only B v (snd (new_systemd_rootless B name us rootless v))"
  using units_on_ext [of B v "new_dbus_connection B rootless"]
  by (auto simp: new_systemd_rootless_def split: prod.splits option.splits)

lemma units_call_ext: "unit_files_only B v (snd (call_ext p v))"
  by (auto simp: unit_files_only_def call_ext_def split: prod.splits)

lemma units_generate: "unit_files_only B v (snd (generate_systemd_service P B p m i v))"
  using units_call_ext [of B v "pa_generate_systemd P (pod_name p) i"] units_new_systemd units_trans
  by (fastforce simp: generate_systemd_service_def new_systemd_def split: prod.splits sum.splits)

lemma kept_at_world:
  assumes "\<And>v. unit_files_only (be_bus K) v (snd (p v))"
  shows "kept K w (snd (at_world p w))"
  using assms [of "\<lparr>w_fs = w_fs w, w_ext = ws_ext (w_ext w)\<rparr>"]
  by (auto simp: at_world_def kept_def own_path_def unit_files_only_def split: prod.splits)

lemma kept_at_mapping:
  "kept K w (snd (at_mapping (mapping_add J n i) w))" "kept K w (snd (at_mapping (mapping_remove J n) w))"
  by (auto simp: at_mapping_def mapping_add_def mapping_remove_def mapping_persist_def mapping_set_def mapping_unset_def
      write_file_def kept_def own_path_def Let_def split: prod.splits sum.splits if_splits)

lemma kept_at_services:
  "kept K w (snd (at_services (manager_add J s) w))" "kept K w (snd (at_services (manager_remove J s) w))"
  by (auto simp: at_services_def manager_add_def manager_remove_def manager_write_def put_service_def drop_service_def
      write_file_def kept_def own_path_def Let_def split: prod.splits sum.splits if_splits)

lemma kept_remove_service: "kept K w (snd (remove_service K name w))"
proof (cases "manager_get (services_of w) name")
  case (Some s)
  let ?w = "snd (at_world (service_stop (be_bus K) s) w)"
  let ?p = "then_ok (wrapping (Wrap (''Cannot disable systemd service for '' @ name))
                     (at_world (service_disable (be_bus K) s)))
            (then_ok (wrapping (Wrap (''Cannot remove systemd service for '' @ name))
                       (at_world (service_remove (be_bus K) s)))
               (\<lambda>w. (None :: gerror option, snd (at_services (manager_remove (be_services_json K) s) w))))"
  have "kept K ?w (snd (?p ?w))"
    by (intro kept_then_ok kept_wrapping kept_at_world units_service) (simp_all add: kept_at_services)
  moreover have "kept K w ?w" by (intro kept_at_world units_service)
  ultimately show ?thesis
    using Some kept_trans by (simp add: remove_service_def)
qed (simp add: remove_service_def)

lemma kept_wrapper_remove: "kept K w (snd (wrapper_remove K name w))"
proof -
  have "kept K v (snd ((\<lambda>w. at_mapping (mapping_remove (be_mapping_json K) name)
                  (snd (at_ext (delete_chain (be_nft K) nf_table_name name) w))) v))" for v
    by (rule kept_trans [OF kept_at_ext kept_at_mapping(2)])
  then show ?thesis
    unfolding wrapper_remove_def Let_def by (intro kept_then_ok kept_remove_service kept_at_ext) simp
qed

lemma kept_run_service: "kept K w (snd (run_service K p m w))"
proof -
  obtain r w' where g: "at_world (generate_systemd_service (be_podman K) (be_bus K) p m (be_interval K)) w = (r, w')"
    by (meson surj_pair)
  have k: "kept K w w'"
  proof -
    have "kept K w (snd (at_world (generate_systemd_service (be_podman K) (be_bus K) p m (be_interval K)) w))"
      by (intro kept_at_world units_generate)
    then show ?thesis using g by simp
  qed
  have "kept K w' (snd (then_ok (wrapping (Wrap ''error while starting service'') (at_world (create_service (be_bus K) s)))
            (wrapping (Wrap ''error while updating service manager'')
              (at_services (manager_add (be_services_json K) s))) w'))" for s
    by (intro kept_then_ok kept_wrapping kept_at_world kept_at_services units_create_service)
  then show ?thesis
    using g k by (cases r) (auto simp: run_service_def intro: kept_trans [OF k])
qed

lemma kept_run_report: "kept K w (snd (run_report K p w))"
  using kept_at_ext [of K w "get_pod_report (be_podman K) (pod_name p)"]
  by (auto simp: run_report_def kept_def own_path_def split: prod.splits sum.splits)

lemma kept_wrapper_run:
  assumes "wrapper_run K p m a an w = Ret (r, w')"
  shows "kept K w w'"
proof -
  obtain r1 w1 where 1: "at_ext (apply_network_configuration (be_nft K) p) w = (r1, w1)" by (meson surj_pair)
  obtain r2 w2 where 2: "at_ext (podman_run (be_podman K) m a an) w1 = (r2, w2)" by (meson surj_pair)
  have k: "kept K w w1" "kept K w1 w2"
    using kept_at_ext [of K w "apply_network_configuration (be_nft K) p"]
      kept_at_ext [of K w1 "podman_run (be_podman K) m a an"] 1 2 by simp_all
  have "kept K w2 (snd (then_ok (at_mapping (mapping_add J n i)) (then_ok (run_service K p m) (run_report K p)) w2))" for J n i
    by (intro kept_then_ok kept_at_mapping kept_run_service kept_run_report)
  then have "r1 = None \<Longrightarrow> r2 = Inr (x # xs) \<Longrightarrow> kept K w2 w'" for x xs
    using assms 1 2 by (simp add: wrapper_run_def) (metis snd_conv)
  moreover have "r1 \<noteq> None \<Longrightarrow> w' = w1" "r1 = None \<Longrightarrow> r2 = Inl e \<Longrightarrow> w' = w2"
      "r1 = None \<Longrightarrow> r2 \<noteq> Inr []" for e
    using assms 1 2 by (auto simp: wrapper_run_def)
  ultimately show ?thesis
    using k kept_trans by (metis old.sum.exhaust neq_Nil_conv)
qed

lemma kept_wrapper_list: "kept K w (snd (wrapper_list K w))"
  using kept_at_ext [of K w "podman_list (be_podman K)"]
  by (auto simp: wrapper_list_def split: prod.splits sum.splits)

subsection \<open>Example backends\<close>

text \<open>
  A podman that runs what it is asked to: its state is the list of the ids of the pods, and playing
  a manifest creates a pod whose id is the path of the manifest.
\<close>

definition example_podman :: "string list podman_api" where
  "example_podman = \<lparr>pa_connect = (\<lambda>a. ok), pa_version = (\<lambda>x. (Inr ''4.2.0'', x)), pa_parse_version = (\<lambda>v. Some (4, 2)),
     pa_list = (\<lambda>x. (Inr (map (\<lambda>i. (i, i, ''Running'')) x), x)),
     pa_exists = (\<lambda>i x. (Inr (i \<in> set x), x)), pa_remove = (\<lambda>i x. (None, removeAll i x)),
     pa_inspect_container = (\<lambda>c x. (Inl (Err c), x)), pa_inspect_pod = (\<lambda>i x. (Inr (i, []), x)),
     pa_stop = (\<lambda>t i. ok), pa_start = (\<lambda>i. ok),
     pa_play = (\<lambda>m a ns an st x. (Inr [(m, [])], m # removeAll m x)),
     pa_list_secrets = (\<lambda>x. (Inr [], x)), pa_remove_secret = (\<lambda>n. ok), pa_create_secret = (\<lambda>n c. ok),
     pa_generate_systemd = (\<lambda>n i x. (Inr [(n, ''[Unit]'')], x))\<rparr>"

definition example_backends :: "string list backends" where
  "example_backends = \<lparr>be_podman = example_podman, be_nft = (\<lambda>args x. (None, x)), be_bus = succeeding_bus,
     be_mapping_json = example_mapping_codec, be_services_json = example_services_codec, be_interval = 15\<rparr>"

definition example_wworld :: "string list wworld" where
  "example_wworld =
     \<lparr>w_fs = fs_with_dirs {''/etc/worker'', ''/home/w/.config/systemd/user''},
      w_ext = \<lparr>ws_mapping = example_mapping, ws_services = put_service example_service example_manager,
               ws_events = [], ws_ext = [''p1'', ''p2'']\<rparr>\<rparr>"

subsection \<open>Properties\<close>

lemma legal_host_port_range: "legal_host_port p \<Longrightarrow> 1 \<le> unat p \<and> unat p \<le> 65535"
proof -
  assume l: "legal_host_port p"
  then have "uint p = sint p"
    by (simp add: uint_sint legal_host_port_def take_bit_int_eq_self)
  with l have "0 < uint p" "uint p < 65536" by (simp_all add: legal_host_port_def)
  moreover have "int (unat p) = uint p" by simp
  ultimately have "0 < int (unat p)" "int (unat p) < 65536" by presburger+
  then show ?thesis by linarith
qed

lemma ports_of_legal: "list_all legal_host_port ps \<Longrightarrow> ports_of c wl ps = Inr ps"
  by (induction ps) auto

lemma ports_of_illegal: "\<not> list_all legal_host_port ps \<Longrightarrow> \<exists>e. ports_of c wl ps = Inl e"
  by (induction ps) auto

lemma container_ports_legal:
  "list_all (\<lambda>c. list_all legal_host_port (ct_ports c)) cs \<Longrightarrow>
   container_ports wl cs = Inr (concat (map ct_ports cs))"
  by (induction cs) (auto simp: ports_of_legal)

lemma container_ports_illegal:
  "\<not> list_all (\<lambda>c. list_all legal_host_port (ct_ports c)) cs \<Longrightarrow> \<exists>e. container_ports wl cs = Inl e"
proof (induction cs)
  case (Cons c cs)
  then show ?case
    using ports_of_legal [of "ct_ports c"] ports_of_illegal [of "ct_ports c" "ct_name c" wl]
    by (cases "list_all legal_host_port (ct_ports c)") auto
qed simp

text \<open>
  The host ports of a pod are accepted exactly when each of them lies between 1 and 65535 as a signed
  32-bit number; they are then the ports of its containers in order, and one firewall rule is made
  for each.\<close>

theorem get_host_ports_in_range:
  "case get_host_ports p of
     Inr ps \<Rightarrow> ps = concat (map ct_ports (ps_containers (pod_spec_of p))) \<and>
       list_all (\<lambda>q. 1 \<le> unat q \<and> unat q \<le> 65535) ps
   | Inl _ \<Rightarrow> \<not> list_all legal_host_port (concat (map ct_ports (ps_containers (pod_spec_of p))))"
proof (cases "list_all legal_host_port (concat (map ct_ports (ps_containers (pod_spec_of p))))")
  case True
  then have "get_host_ports p = Inr (concat (map ct_ports (ps_containers (pod_spec_of p))))"
    unfolding get_host_ports_def by (intro container_ports_legal) (simp add: list_all_iff)
  with True show ?thesis
    using legal_host_port_range by (simp add: list_all_iff)
next
  case False
  then have "\<exists>e. get_host_ports p = Inl e"
    unfolding get_host_ports_def by (intro container_ports_illegal) (simp add: list_all_iff)
  with False show ?thesis by auto
qed

lemma at_ext_frame:
  "at_ext p w = (r, w') \<Longrightarrow> w_fs w' = w_fs w \<and> mapping_of w' = mapping_of w \<and> services_of w' = services_of w"
  by (auto simp: at_ext_def split: prod.splits)

lemma at_world_frame: "at_world p w = (r, w') \<Longrightarrow> mapping_of w' = mapping_of w \<and> services_of w' = services_of w"
  by (auto simp: at_world_def split: prod.splits)

lemma at_world_fs:
  assumes "at_world p w = (r, w')" and "\<And>v. w_fs (snd (p v)) = w_fs v"
  shows "w_fs w' = w_fs w"
  using assms(1) assms(2) [of "\<lparr>w_fs = w_fs w, w_ext = ws_ext (w_ext w)\<rparr>"]
  by (auto simp: at_world_def split: prod.splits)

lemma service_bus_calls_fs:
  "w_fs (snd (service_stop B s v)) = w_fs v" "w_fs (snd (service_disable B s v)) = w_fs v"
  "w_fs (snd (service_start B s v)) = w_fs v" "w_fs (snd (service_enable B s v)) = w_fs v"
  by (simp_all add: service_stop_def service_disable_def service_start_def service_enable_def)

lemma at_services_remove:
  "at_services (manager_remove J s) w = (r, w') \<Longrightarrow>
   services_of w' = drop_service (svc_name s) (services_of w) \<and> mapping_of w' = mapping_of w"
  by (auto simp: at_services_def manager_remove_def Let_def split: prod.splits)

lemma at_mapping_remove:
  "at_mapping (mapping_remove J n) w = (r, w') \<Longrightarrow>
   mapping_of w' = mapping_unset n (mapping_of w) \<and> services_of w' = services_of w"
  by (auto simp: at_mapping_def mapping_remove_def Let_def split: prod.splits)

text \<open>The services are stored under their own names.\<close>

definition services_keyed :: "systemd_manager \<Rightarrow> bool" where
  "services_keyed g \<longleftrightarrow> list_all (\<lambda>(k, s). svc_name s = k) (sm_services g)"

lemma services_keyedD: "services_keyed g \<Longrightarrow> manager_get g k = Some s \<Longrightarrow> svc_name s = k"
  by (auto simp: services_keyed_def manager_get_def list_all_iff dest: map_of_SomeD)

lemma remove_service_ok:
  assumes "remove_service K name w = (None, w')" and "services_keyed (services_of w)"
  shows "mapping_of w' = mapping_of w \<and> manager_get (services_of w') name = None \<and>
    (\<forall>k. k \<noteq> name \<longrightarrow> manager_get (services_of w') k = manager_get (services_of w) k)"
proof (cases "manager_get (services_of w) name")
  case None
  with assms show ?thesis by (simp add: remove_service_def)
next
  case (Some s)
  obtain r0 w0 where 0: "at_world (service_stop (be_bus K) s) w = (r0, w0)" by (meson surj_pair)
  obtain w1 w2 r3 w3 where
    1: "at_world (service_disable (be_bus K) s) w0 = (None, w1)" and
    2: "at_world (service_remove (be_bus K) s) w1 = (None, w2)" and
    3: "at_services (manager_remove (be_services_json K) s) w2 = (r3, w3)" and w': "w' = w3"
    using assms(1) Some 0
    by (auto simp: remove_service_def then_ok_None_iff wrapping_None_iff) (metis surj_pair snd_conv)
  have "services_of w3 = drop_service name (services_of w)" "mapping_of w3 = mapping_of w"
    using at_services_remove [OF 3] at_world_frame [OF 2] at_world_frame [OF 1] at_world_frame [OF 0]
      services_keyedD [OF assms(2) Some] by simp_all
  then show ?thesis
    using services.get_del by (simp add: w')
qed

text \<open>C29. A successful \<open>Remove\<close> of a workload: podman agreed to remove the pod recorded for the name, the
  name is gone from the mapping and from the services, every other workload keeps its id and its
  service, and the mapping stays consistent.\<close>

theorem wrapper_remove_succeeds:
  assumes "wrapper_remove K name w = (None, w')" and "services_keyed (services_of w)"
    and "mapping_inv (mapping_of w)"
  shows "(\<exists>x x'. podman_remove (be_podman K) (mapped_id w name) x = (None, x')) \<and>
    (\<forall>k. mapping_get_id (mapping_of w') k = (if k = name then [] else mapping_get_id (mapping_of w) k)) \<and>
    (\<forall>k. manager_get (services_of w') k = (if k = name then None else manager_get (services_of w) k)) \<and>
    mapping_inv (mapping_of w')"
proof -
  obtain w1 w2 where
    1: "remove_service K name w = (None, w1)" and
    2: "at_ext (podman_remove (be_podman K) (mapped_id w name)) w1 = (None, w2)" and
    3: "at_mapping (mapping_remove (be_mapping_json K) name)
          (snd (at_ext (delete_chain (be_nft K) nf_table_name name) w2)) = (None, w')"
    using assms(1) by (auto simp: wrapper_remove_def Let_def then_ok_None_iff)
  obtain r4 w4 where 4: "at_ext (delete_chain (be_nft K) nf_table_name name) w2 = (r4, w4)" by (meson surj_pair)
  note s = remove_service_ok [OF 1 assms(2)]
  have m: "mapping_of w' = mapping_unset name (mapping_of w)" "services_of w' = services_of w1"
    using at_mapping_remove [OF 3] 4 at_ext_frame [OF 4] at_ext_frame [OF 2] s by simp_all
  have "\<exists>x x'. podman_remove (be_podman K) (mapped_id w name) x = (None, x')"
    using 2 by (auto simp: at_ext_def split: prod.splits)
  with m s show ?thesis
    using workload_index.get_id_remove [of name "mapping_of w"] workload_index.inv_remove [OF assms(3)] by simp
qed

definition installed_wworld :: "string list wworld" where
  "installed_wworld = snd (at_world (service_add succeeding_bus example_service) example_wworld)"

theorem wrapper_remove_succeeds_witness:
  "(\<exists>x x'. podman_remove (be_podman example_backends) (mapped_id installed_wworld ''web'') x = (None, x')) \<and>
   (\<forall>k. mapping_get_id (mapping_of (snd (wrapper_remove example_backends ''web'' installed_wworld))) k =
      (if k = ''web'' then [] else mapping_get_id (mapping_of installed_wworld) k)) \<and>
   (\<forall>k. manager_get (services_of (snd (wrapper_remove example_backends ''web'' installed_wworld))) k =
      (if k = ''web'' then None else manager_get (services_of installed_wworld) k)) \<and>
   mapping_inv (mapping_of (snd (wrapper_remove example_backends ''web'' installed_wworld)))"
proof (rule wrapper_remove_succeeds)
  let ?r = "wrapper_remove example_backends ''web'' installed_wworld"
  have "fst ?r = None" by code_simp
  then show "?r = (None, snd ?r)" by (metis prod.collapse)
  show "services_keyed (services_of installed_wworld)" by code_simp
  have "mapping_of installed_wworld = mapping_of example_wworld"
    unfolding installed_wworld_def using at_world_frame by (metis prod.collapse)
  then have "mapping_of installed_wworld = example_mapping" by (simp add: example_wworld_def)
  then show "mapping_inv (mapping_of installed_wworld)" by (simp only: example_mapping_facts)
qed

text \<open>
  A workload whose service is registered but whose first unit file is missing can never be removed
  again: \<open>Remove\<close> fails, and neither the files nor the mapping nor the services change.\<close>

theorem missing_unit_file_blocks_remove:
  assumes "manager_get (services_of w) name = Some s" and "svc_units s = u # us"
    and "fs_files (w_fs w) (unit_path (be_bus K) u) = None"
  shows "case wrapper_remove K name w of (r, w') \<Rightarrow>
    r \<noteq> None \<and> w_fs w' = w_fs w \<and> mapping_of w' = mapping_of w \<and> services_of w' = services_of w"
proof -
  obtain r0 w0 where 0: "at_world (service_stop (be_bus K) s) w = (r0, w0)" by (meson surj_pair)
  obtain r1 w1 where 1: "at_world (service_disable (be_bus K) s) w0 = (r1, w1)" by (meson surj_pair)
  have fs: "w_fs w0 = w_fs w" "w_fs w1 = w_fs w"
    using at_world_fs [OF 0] at_world_fs [OF 1] service_bus_calls_fs by metis+
  have un: "mapping_of w1 = mapping_of w" "services_of w1 = services_of w"
    using at_world_frame [OF 0] at_world_frame [OF 1] by simp_all
  let ?v = "\<lparr>w_fs = w_fs w1, w_ext = ws_ext (w_ext w1)\<rparr>"
  have "\<exists>e. remove_file (unit_path (be_bus K) u) (w_fs ?v) = (Some e, w_fs ?v)"
    using assms(3) fs by (simp add: remove_file_def)
  then have "\<exists>e. service_remove (be_bus K) s ?v = (Some e, ?v)"
    using assms(2) by (auto simp: service_remove_def then_ok_def on_fs_def)
  then obtain e where 2: "at_world (service_remove (be_bus K) s) w1 = (Some e, w1)"
    by (auto simp: at_world_def)
  have "case remove_service K name w of (r, w') \<Rightarrow> r \<noteq> None \<and> w' = w1"
    using assms(1) 0 1 2 by (cases r1) (simp_all add: remove_service_def then_ok_def wrapping_def)
  then obtain e' where "remove_service K name w = (Some e', w1)"
    by (cases "remove_service K name w") auto
  then show ?thesis
    using fs un by (simp add: wrapper_remove_def Let_def then_ok_def)
qed

theorem missing_unit_file_blocks_remove_witness:
  "case wrapper_remove example_backends ''web'' example_wworld of (r, w') \<Rightarrow>
    r \<noteq> None \<and> w_fs w' = w_fs example_wworld \<and> mapping_of w' = mapping_of example_wworld \<and>
    services_of w' = services_of example_wworld"
proof (rule missing_unit_file_blocks_remove)
  show "manager_get (services_of example_wworld) ''web'' = Some example_service" by code_simp
  show "svc_units example_service = ''web'' # [''web-c1'']" by code_simp
  show "fs_files (w_fs example_wworld) (unit_path (be_bus example_backends) ''web'') = None" by code_simp
qed

end
