(* ===== verification/Mounts.thy ===== *)
theory Mounts
  imports Models
begin

text \<open>
  \<open>internal/mount\<close>: reading the mounts of the host from the output of the \<open>mount\<close> command
  (\<open>info.go\<close>) and bringing the configured mounts about (\<open>mount.go\<close>).

  The pattern \<open>mountFinder\<close> is a sequence of runs of characters of a class; a match of Go's \<open>regexp\<close>
  is the leftmost one in which every run is as long as the rest of the pattern permits. The calls
  to the kernel and the \<open>mount\<close> command are the record \<open>mount_env\<close>.
\<close>

subsection \<open>The pattern\<close>

text \<open>A run: the group it is captured in, the class, and its least and greatest length.\<close>

record rx_run =
  rx_group :: string
  rx_class :: "char \<Rightarrow> bool"
  rx_min :: nat
  rx_max :: "nat option"

fun first_some :: "('a \<Rightarrow> 'b option) \<Rightarrow> 'a list \<Rightarrow> 'b option" where
  "first_some f [] = None"
| "first_some f (x # xs) = (case f x of None \<Rightarrow> first_some f xs | Some y \<Rightarrow> Some y)"

definition run_lengths :: "rx_run \<Rightarrow> string \<Rightarrow> nat list" where
  "run_lengths r s =
     (let n = length (takeWhile (rx_class r) s);
          n' = (case rx_max r of None \<Rightarrow> n | Some m \<Rightarrow> min n m)
      in rev [rx_min r..<Suc n'])"

text \<open>A match at the start of the text: the captures in order, and the text after the match.\<close>

fun match_here :: "rx_run list \<Rightarrow> string \<Rightarrow> ((string \<times> string) list \<times> string) option" where
  "match_here [] s = Some ([], s)"
| "match_here (r # rs) s =
     first_some (\<lambda>k. map_option (\<lambda>(cs, rest). ((rx_group r, take k s) # cs, rest)) (match_here rs (drop k s)))
       (run_lengths r s)"

lemma match_here_length: "match_here rs s = Some (cs, rest) \<Longrightarrow> length rest \<le> length s"
proof (induction rs arbitrary: s cs rest)
  case (Cons r rs)
  have "first_some (\<lambda>k. map_option (\<lambda>(cs, rest). ((rx_group r, take k s) # cs, rest)) (match_here rs (drop k s))) ks
      = Some (cs, rest) \<Longrightarrow> length rest \<le> length s" for ks
  proof (induction ks)
    case (Cons k ks)
    then show ?case
      using Cons.IH Cons.prems \<open>\<And>s cs rest. match_here rs s = Some (cs, rest) \<Longrightarrow> length rest \<le> length s\<close> [of "drop k s"]
      by (auto split: option.splits)
  qed simp
  with Cons.prems show ?case by simp
qed simp

text \<open>
  \<open>FindAllStringSubmatch\<close>: the matches from left to right, each starting after the one before. The
  pattern below needs at least one character, so every match moves on.
\<close>

fun find_all :: "rx_run list \<Rightarrow> nat \<Rightarrow> string \<Rightarrow> (string \<times> string) list list" where
  "find_all rs 0 s = []"
| "find_all rs (Suc n) s =
     (case match_here rs s of
        Some (cs, rest) \<Rightarrow> cs # find_all rs n rest
      | None \<Rightarrow> (case s of [] \<Rightarrow> [] | _ # s' \<Rightarrow> find_all rs n s'))"

definition lower_or_digit :: "char \<Rightarrow> bool" where
  "lower_or_digit c \<longleftrightarrow> (97 \<le> (of_char c :: nat) \<and> (of_char c :: nat) \<le> 122) \<or> (48 \<le> (of_char c :: nat) \<and> (of_char c :: nat) \<le> 57)"

definition path_char :: "char \<Rightarrow> bool" where
  "path_char c \<longleftrightarrow> lower_or_digit c \<or> c \<in> set ''-./_''"

definition type_char :: "char \<Rightarrow> bool" where
  "type_char c \<longleftrightarrow> lower_or_digit c \<or> c \<in> set ''-._''"

definition word_char :: "char \<Rightarrow> bool" where
  "word_char c \<longleftrightarrow> lower_or_digit c \<or> (65 \<le> (of_char c :: nat) \<and> (of_char c :: nat) \<le> 90) \<or> c = CHR ''_''"

definition space_char :: "char \<Rightarrow> bool" where
  "space_char c \<longleftrightarrow> c \<in> {CHR '' '', CHR 0x09, CHR 0x0A, CHR 0x0C, CHR 0x0D}"

definition run_of :: "string \<Rightarrow> (char \<Rightarrow> bool) \<Rightarrow> rx_run" where
  "run_of g c = \<lparr>rx_group = g, rx_class = c, rx_min = 1, rx_max = None\<rparr>"

definition one_of :: "string \<Rightarrow> char \<Rightarrow> rx_run" where
  "one_of g c = \<lparr>rx_group = g, rx_class = (\<lambda>x. x = c), rx_min = 1, rx_max = Some 1\<rparr>"

definition anything :: "string \<Rightarrow> rx_run" where
  "anything g = \<lparr>rx_group = g, rx_class = (\<lambda>x. x \<noteq> CHR 0x0A), rx_min = 0, rx_max = None\<rparr>"

definition mount_finder :: "rx_run list" where
  "mount_finder =
     [run_of ''dev'' path_char, run_of [] space_char, run_of [] word_char, run_of [] space_char,
      run_of ''dst'' path_char, run_of [] space_char, run_of [] word_char, run_of [] space_char,
      run_of ''type'' type_char, anything [],
      one_of ''opts'' (CHR ''(''), anything ''opts'', one_of ''opts'' (CHR '')'')]"

definition captured :: "string \<Rightarrow> (string \<times> string) list \<Rightarrow> string" where
  "captured g cs = concat (map snd (filter (\<lambda>(h, _). h = g) cs))"

subsection \<open>Reading the mounts\<close>

definition mount_of_match :: "(string \<times> string) list \<Rightarrow> mount" where
  "mount_of_match cs = \<lparr>mnt_device = captured ''dev'' cs, mnt_directory = captured ''dst'' cs,
     mnt_options = captured ''opts'' cs, mnt_type = captured ''type'' cs\<rparr>"

text \<open>The loop over the matches overwrites the fields: the last match counts.\<close>

definition parse_mount :: "string \<Rightarrow> mount option" where
  "parse_mount entry =
     (case find_all mount_finder (Suc (length entry)) entry of
        [] \<Rightarrow> None
      | ms \<Rightarrow> Some (mount_of_match (last ms)))"

text \<open>\<open>me_execute_mount\<close> is \<open>dep.Execute("mount")\<close>: the two outputs and the exit code.\<close>

record 'x mount_env =
  me_execute_mount :: "'x \<Rightarrow> string \<times> string \<times> int"
  me_stat :: "string \<Rightarrow> 'x \<Rightarrow> gerror option"
  me_lstat :: "string \<Rightarrow> 'x \<Rightarrow> gerror + 32 word"
  me_not_exist :: "gerror \<Rightarrow> bool"
  me_mount :: "string \<Rightarrow> string \<Rightarrow> string \<Rightarrow> string \<Rightarrow> 'x proc"
  me_unmount :: "string \<Rightarrow> 'x proc"
  me_group_id :: "string \<Rightarrow> string option"
  me_user_id :: "string \<Rightarrow> string option"

definition list_mounts :: "'x mount_env \<Rightarrow> 'x \<Rightarrow> gerror + string list" where
  "list_mounts E x =
     (case me_execute_mount E x of (stdout, stderr, exit) \<Rightarrow>
        if exit \<noteq> 0 then Inl (Err (''failed to list mounts: '' @ stderr))
        else Inr (split_on CHR 0x0A stdout))"

fun collect_mounts :: "string list \<Rightarrow> mount list \<times> (string \<rightharpoonup> mount) \<Rightarrow> mount list \<times> (string \<rightharpoonup> mount)" where
  "collect_mounts [] acc = acc"
| "collect_mounts (entry # es) (ms, mm) =
     (if entry = [] then collect_mounts es (ms, mm)
      else case parse_mount entry of
             None \<Rightarrow> collect_mounts es (ms, mm)
           | Some m \<Rightarrow> collect_mounts es (ms @ [m], mm(mnt_directory m \<mapsto> m)))"

definition get_mounts :: "'x mount_env \<Rightarrow> 'x \<Rightarrow> gerror + (mount list \<times> (string \<rightharpoonup> mount))" where
  "get_mounts E x =
     (case list_mounts E x of
        Inl e \<Rightarrow> Inl e
      | Inr es \<Rightarrow> Inr (collect_mounts es ([], Map.empty)))"

definition is_path_mounted :: "'x mount_env \<Rightarrow> string \<Rightarrow> 'x \<Rightarrow> bool" where
  "is_path_mounted E p x =
     (case get_mounts E x of Inl _ \<Rightarrow> False | Inr (_, mm) \<Rightarrow> mm p \<noteq> None)"

subsection \<open>The mount manager\<close>

record mount_manager =
  mm_filesystems :: string
  mm_default_options :: string

definition default_mount_options :: "'x mount_env \<Rightarrow> string" where
  "default_mount_options E =
     (case me_group_id E ''flotta'' of
        None \<Rightarrow> []
      | Some gid \<Rightarrow>
          (case me_user_id E ''flotta'' of
             None \<Rightarrow> []
           | Some uid \<Rightarrow> ''gid='' @ gid @ '',uid='' @ uid))"

definition filesystems_file :: string where
  "filesystems_file = ''/etc/filesystems''"

definition new_mount_manager :: "'x mount_env \<Rightarrow> (string \<Rightarrow> gerror + string) \<Rightarrow> gerror + mount_manager" where
  "new_mount_manager E read =
     (case read filesystems_file of
        Inl e \<Rightarrow> Inl (Wrap (''cannot list content of '' @ filesystems_file) e)
      | Inr content \<Rightarrow> Inr \<lparr>mm_filesystems = content, mm_default_options = default_mount_options E\<rparr>)"

definition is_valid_mount :: "'x mount_env \<Rightarrow> mount_manager \<Rightarrow> mount \<Rightarrow> 'x \<Rightarrow> gerror option" where
  "is_valid_mount E g m x =
     (if \<not> str_contains (mm_filesystems g) (mnt_type m) then Some (Err ''mount type not supported'')
      else case me_stat E (mnt_directory m) x of
        Some e \<Rightarrow>
          (if me_not_exist E e then Some (Err (''directory '' @ mnt_directory m @ '' not found''))
           else Some (Wrap (''failed to stat '' @ mnt_directory m) e))
      | None \<Rightarrow>
          (case me_lstat E (mnt_device m) x of
             Inl e \<Rightarrow>
               (if me_not_exist E e then Some (Err (''device '' @ mnt_device m @ '' not found''))
                else Some (Wrap (''failed to stat '' @ mnt_device m) e))
           | Inr mode \<Rightarrow>
               (if and mode 0xF000 \<noteq> 0x6000 then Some (Err (''device '' @ mnt_device m @ '' is not a block device''))
                else None)))"

text \<open>The comparison as the code has it: the type of one mount against the directory of the other.\<close>

definition is_equal_mount :: "mount \<Rightarrow> mount \<Rightarrow> bool" where
  "is_equal_mount m other \<longleftrightarrow>
     mnt_device m = mnt_device other \<and> mnt_directory m = mnt_directory other \<and>
     mnt_type m = mnt_directory other \<and> mnt_options m = mnt_options other"

definition mount_one :: "'x mount_env \<Rightarrow> mount_manager \<Rightarrow> mount \<Rightarrow> 'x proc" where
  "mount_one E g m =
     me_mount E (mnt_device m) (mnt_directory m) (mnt_type m)
       (if mnt_options m \<noteq> [] then mnt_options m else mm_default_options g)"

definition umount_one :: "'x mount_env \<Rightarrow> mount \<Rightarrow> 'x proc" where
  "umount_one E m = me_unmount E (mnt_directory m)"

text \<open>The state of the loop: the directories mounted in this call, the errors, the kernel.\<close>

type_synonym 'x mount_loop = "string set \<times> merr \<times> 'x"

definition mount_finish :: "'x mount_env \<Rightarrow> mount_manager \<Rightarrow> mount \<Rightarrow> 'x mount_loop \<Rightarrow> 'x mount_loop" where
  "mount_finish E g m = (\<lambda>(done_dirs, es, x).
     case mount_one E g m x of
       (Some e, x') \<Rightarrow> (done_dirs, es @ [Wrap (''cannot mount '' @ mnt_device m @ '' on '' @ mnt_directory m) e], x')
     | (None, x') \<Rightarrow> (insert (mnt_directory m) done_dirs, es, x'))"

definition mount_step ::
  "'x mount_env \<Rightarrow> mount_manager \<Rightarrow> (string \<rightharpoonup> mount) \<Rightarrow> mount \<Rightarrow> 'x mount_loop \<Rightarrow> 'x mount_loop" where
  "mount_step E g current m = (\<lambda>(done_dirs, es, x).
     if mnt_directory m \<in> done_dirs then
       (done_dirs, es @ [Err (''mount path '' @ mnt_directory m @ '' has already been mounted. Skipping mount path'')], x)
     else case is_valid_mount E g m x of
       Some e \<Rightarrow> (done_dirs, es @ [Wrap ''mount configuration not valid'' e], x)
     | None \<Rightarrow>
         (case current (mnt_directory m) of
            None \<Rightarrow> mount_finish E g m (done_dirs, es, x)
          | Some c \<Rightarrow>
              (if is_equal_mount c m then (insert (mnt_directory m) done_dirs, es, x)
               else case umount_one E c x of
                 (Some e, x') \<Rightarrow>
                   (done_dirs, es @ [Wrap (''cannot umount '' @ mnt_directory c @
                      ''. New configuration will not be mounted'') e], x')
               | (None, x') \<Rightarrow> mount_finish E g m (done_dirs, es, x'))))"

definition mount_update :: "'x mount_env \<Rightarrow> mount_manager \<Rightarrow> config_message \<Rightarrow> 'x \<Rightarrow> (gerror option \<times> 'x) go" where
  "mount_update E g msg x =
     (case get_mounts E x of
        Inl e \<Rightarrow> Ret (Some e, x)
      | Inr (_, current) \<Rightarrow>
          go_bind (deref (msg_configuration msg)) (\<lambda>c.
            case fold (mount_step E g current) (elems (cfg_mounts c)) ({}, [], x) of
              (_, es, x') \<Rightarrow> Ret (merr_result es, x')))"

definition mount_init :: "'x mount_env \<Rightarrow> mount_manager \<Rightarrow> config_message \<Rightarrow> 'x \<Rightarrow> (gerror option \<times> 'x) go" where
  "mount_init = mount_update"

subsection \<open>Matching a line\<close>

lemma first_some_greatest:
  assumes "k \<le> n" and "m \<le> k" and "f k = Some y" and "\<And>j. k < j \<Longrightarrow> j \<le> n \<Longrightarrow> f j = None"
  shows "first_some f (rev [m..<Suc n]) = Some y"
  using assms
proof (induction n)
  case (Suc n)
  show ?case
  proof (cases "k = Suc n")
    case False
    with Suc have "first_some f (rev [m..<Suc n]) = Some y" by simp
    with Suc False show ?thesis by simp
  qed (use Suc in simp)
qed simp

lemma takeWhile_word: "list_all c w \<Longrightarrow> s = [] \<or> \<not> c (hd s) \<Longrightarrow> takeWhile c (w @ s) = w"
  by (induction w) (cases s; auto)+

lemma match_run:
  assumes "w \<noteq> []" and "list_all c w" and "s = [] \<or> \<not> c (hd s)" and "match_here rs s = Some (cs, rest)"
  shows "match_here (run_of g c # rs) (w @ s) = Some ((g, w) # cs, rest)"
proof -
  let ?r = "\<lparr>rx_group = g, rx_class = c, rx_min = 1, rx_max = None\<rparr>"
  have "run_lengths ?r (w @ s) = rev [1..<Suc (length w)]"
    unfolding run_lengths_def Let_def by (simp add: takeWhile_word [OF assms(2,3)] del: upt_Suc)
  moreover have "first_some (\<lambda>k. map_option (\<lambda>(cs, rest). ((g, take k (w @ s)) # cs, rest))
      (match_here rs (drop k (w @ s)))) (rev [1..<Suc (length w)]) = Some ((g, w) # cs, rest)"
    using assms(1,4) by (intro first_some_greatest [where k = "length w"]) (simp_all add: Suc_leI)
  ultimately show ?thesis
    by (simp add: run_of_def match_here.simps(2))
qed

lemma match_one:
  "match_here (one_of g c # rs) [] = None"
  "match_here (one_of g c # rs) (d # s) =
     (if d = c then map_option (\<lambda>(cs, rest). ((g, [d]) # cs, rest)) (match_here rs s) else None)"
  by (auto simp: one_of_def run_lengths_def min_def split: option.splits)

declare match_here.simps(2) [simp del]

lemma match_one_none: "c \<notin> set s \<Longrightarrow> match_here (one_of g c # rs) s = None"
  by (cases s) (auto simp: match_one)

lemma match_anything:
  assumes "list_all (\<lambda>x. x \<noteq> CHR 0x0A) (w @ s)" and "match_here rs s = Some (cs, rest)"
    and "\<And>j. length w < j \<Longrightarrow> j \<le> length (w @ s) \<Longrightarrow> match_here rs (drop j (w @ s)) = None"
  shows "match_here (anything g # rs) (w @ s) = Some ((g, w) # cs, rest)"
proof -
  let ?r = "\<lparr>rx_group = g, rx_class = \<lambda>x. x \<noteq> CHR 0x0A, rx_min = 0, rx_max = None\<rparr>"
  have "takeWhile (\<lambda>x. x \<noteq> CHR 0x0A) (w @ s) = w @ s"
    using assms(1) by (simp add: takeWhile_eq_all_conv list_all_iff del: takeWhile_append)
  then have "run_lengths ?r (w @ s) = rev [0..<Suc (length (w @ s))]"
    by (simp only: run_lengths_def Let_def rx_run.simps option.case)
  moreover have "first_some (\<lambda>k. map_option (\<lambda>(cs, rest). ((g, take k (w @ s)) # cs, rest))
      (match_here rs (drop k (w @ s)))) (rev [0..<Suc (length (w @ s))]) = Some ((g, w) # cs, rest)"
    using assms(2,3) by (intro first_some_greatest [where k = "length w"]) simp_all
  ultimately show ?thesis
    by (simp add: anything_def match_here.simps(2))
qed

definition mount_line :: "string \<Rightarrow> string \<Rightarrow> string \<Rightarrow> string \<Rightarrow> string" where
  "mount_line dev dst ty opts = dev @ '' on '' @ dst @ '' type '' @ ty @ '' ('' @ opts @ '')''"

definition plain_options :: "string \<Rightarrow> bool" where
  "plain_options s \<longleftrightarrow> list_all (\<lambda>c. c \<noteq> CHR ''('' \<and> c \<noteq> CHR '')'' \<and> c \<noteq> CHR 0x0A) s"

lemma match_options:
  assumes "plain_options opts"
  shows "match_here [anything g, one_of ''opts'' (CHR ''(''), anything ''opts'', one_of ''opts'' (CHR '')'')]
      ('' ('' @ opts @ '')'') =
    Some ([(g, '' ''), (''opts'', ''(''), (''opts'', opts), (''opts'', '')'')], [])"
proof -
  let ?close = "[one_of ''opts'' (CHR '')'')]"
  have inner: "match_here (anything ''opts'' # ?close) (opts @ '')'') = Some ([(''opts'', opts), (''opts'', '')'')], [])"
  proof (rule match_anything)
    show "list_all (\<lambda>x. x \<noteq> CHR 0x0A) (opts @ '')'')"
      using assms by (simp add: plain_options_def list_all_iff)
    show "match_here ?close (drop j (opts @ '')'')) = None" if "length opts < j" for j
      using that by (simp add: match_one)
  qed (simp add: match_one)
  have "match_here (anything g # one_of ''opts'' (CHR ''('') # anything ''opts'' # ?close) ('' '' @ (''('' @ opts @ '')'')) =
      Some ((g, '' '') # [(''opts'', ''(''), (''opts'', opts), (''opts'', '')'')], [])"
  proof (rule match_anything)
    show "list_all (\<lambda>x. x \<noteq> CHR 0x0A) ('' '' @ ''('' @ opts @ '')'')"
      using assms by (auto simp: plain_options_def list_all_iff)
    show "match_here (one_of ''opts'' (CHR ''('') # anything ''opts'' # ?close) (''('' @ opts @ '')'') =
        Some ([(''opts'', ''(''), (''opts'', opts), (''opts'', '')'')], [])"
      using inner by (simp add: match_one)
  next
    fix j
    assume "length '' '' < j" "j \<le> length ('' '' @ ''('' @ opts @ '')'')"
    then have "j = Suc (Suc (j - 2))" by simp
    then obtain i where i: "j = Suc (Suc i)" ..
    have "CHR ''('' \<notin> set (opts @ '')'')"
      using assms by (auto simp: plain_options_def list_all_iff)
    then have "match_here (one_of ''opts'' (CHR ''('') # anything ''opts'' # ?close) (drop i (opts @ '')'')) = None"
      by (metis in_set_dropD match_one_none)
    then show "match_here (one_of ''opts'' (CHR ''('') # anything ''opts'' # ?close)
        (drop j ('' '' @ ''('' @ opts @ '')'')) = None"
      by (simp add: i del: drop_append)
  qed
  then show ?thesis by simp
qed

lemma match_mount_line:
  assumes "dev \<noteq> []" "list_all path_char dev" "dst \<noteq> []" "list_all path_char dst"
    and "ty \<noteq> []" "list_all type_char ty" "plain_options opts"
  shows "match_here mount_finder (mount_line dev dst ty opts) =
    Some ([(''dev'', dev), ([], '' ''), ([], ''on''), ([], '' ''), (''dst'', dst), ([], '' ''), ([], ''type''),
           ([], '' ''), (''type'', ty), ([], '' ''), (''opts'', ''(''), (''opts'', opts), (''opts'', '')'')], [])"
proof -
  have sp: "\<not> path_char CHR '' ''" "\<not> type_char CHR '' ''" "\<not> word_char CHR '' ''" "space_char CHR '' ''"
    by code_simp+
  have words: "list_all word_char ''on''" "list_all word_char ''type''" "list_all space_char '' ''"
    by code_simp+
  have no_space: "path_char c \<Longrightarrow> \<not> space_char c" "type_char c \<Longrightarrow> \<not> space_char c" "word_char c \<Longrightarrow> \<not> space_char c" for c
    by (auto simp: path_char_def type_char_def word_char_def space_char_def lower_or_digit_def)
  have heads: "\<not> space_char (hd (w @ s))" if "w \<noteq> []" "list_all path_char w \<or> list_all type_char w \<or> list_all word_char w" for w s
    using that no_space by (cases w) auto
  have "match_here mount_finder (dev @ '' '' @ ''on'' @ '' '' @ dst @ '' '' @ ''type'' @ '' '' @ ty @ '' ('' @ opts @ '')'') =
    Some ([(''dev'', dev), ([], '' ''), ([], ''on''), ([], '' ''), (''dst'', dst), ([], '' ''), ([], ''type''),
           ([], '' ''), (''type'', ty), ([], '' ''), (''opts'', ''(''), (''opts'', opts), (''opts'', '')'')], [])"
    unfolding mount_finder_def
    using assms match_options [OF assms(7)] words sp heads no_space
    by (intro match_run) (simp_all add: no_space)
  then show ?thesis by (simp add: mount_line_def)
qed

subsection \<open>What a match captures\<close>

lemma first_some_SomeD: "first_some f xs = Some y \<Longrightarrow> \<exists>x \<in> set xs. f x = Some y"
  by (induction xs) (auto split: option.splits)

lemma match_here_classes:
  "match_here rs s = Some (cs, rest) \<Longrightarrow>
   list_all2 (\<lambda>r (g, w). g = rx_group r \<and> list_all (rx_class r) w) rs cs"
proof (induction rs arbitrary: s cs rest)
  case (Cons r rs)
  obtain k ds where k: "k \<in> set (run_lengths r s)" "match_here rs (drop k s) = Some (ds, rest)"
      "cs = (rx_group r, take k s) # ds"
    using Cons.prems by (auto simp: match_here.simps(2) dest!: first_some_SomeD)
  have "k \<le> length (takeWhile (rx_class r) s)"
    using k(1) by (auto simp: run_lengths_def Let_def split: option.splits)
  then have "take k s = take k (takeWhile (rx_class r) s)"
    by (metis append_take_drop_id take_append takeWhile_dropWhile_id diff_is_0_eq take0 append_Nil2)
  then have "list_all (rx_class r) (take k s)"
    by (metis list_all_iff in_set_takeD set_takeWhileD)
  with k Cons.IH show ?case by simp
qed simp

lemma find_all_matches: "cs \<in> set (find_all rs n s) \<Longrightarrow> \<exists>t rest. match_here rs t = Some (cs, rest)"
  by (induction rs n s rule: find_all.induct) (auto split: option.splits list.splits prod.splits)

lemma parse_mount_directory:
  assumes "parse_mount entry = Some m"
  shows "list_all path_char (mnt_directory m)"
proof -
  let ?ms = "find_all mount_finder (Suc (length entry)) entry"
  have "?ms \<noteq> []" "m = mount_of_match (last ?ms)"
    using assms by (auto simp: parse_mount_def simp del: find_all.simps last.simps split: list.splits)
  then obtain cs where cs: "cs \<in> set ?ms" "m = mount_of_match cs"
    using last_in_set by blast
  then obtain t rest where "match_here mount_finder t = Some (cs, rest)"
    using find_all_matches by blast
  then have "list_all2 (\<lambda>r (g, w). g = rx_group r \<and> list_all (rx_class r) w) mount_finder cs"
    by (rule match_here_classes)
  then show ?thesis
    by (auto simp: mount_finder_def list_all2_Cons1 run_of_def one_of_def anything_def cs(2)
        mount_of_match_def captured_def)
qed

lemma collect_mounts_keys:
  "\<forall>p. snd acc p \<noteq> None \<longrightarrow> list_all path_char p \<Longrightarrow>
   snd (collect_mounts es acc) p \<noteq> None \<Longrightarrow> list_all path_char p"
  by (induction es acc rule: collect_mounts.induct)
    (auto simp: parse_mount_directory split: if_splits option.splits)

subsection \<open>Properties\<close>

text \<open>C30. A line of the \<open>mount\<close> command is read back: for a device, a directory and a type made of the
  characters the pattern allows, and options without parentheses, \<open>parse\<close> returns exactly these
  four fields; the options keep their parentheses.\<close>

theorem parse_mount_line:
  assumes "dev \<noteq> []" "list_all path_char dev" "dst \<noteq> []" "list_all path_char dst"
    and "ty \<noteq> []" "list_all type_char ty" "plain_options opts"
  shows "parse_mount (mount_line dev dst ty opts) =
    Some \<lparr>mnt_device = dev, mnt_directory = dst, mnt_options = ''('' @ opts @ '')'', mnt_type = ty\<rparr>"
proof -
  have nil: "find_all mount_finder n [] = []" for n
  proof (cases n)
    case (Suc k)
    have "match_here mount_finder [] = None"
      by code_simp
    then show ?thesis using Suc by simp
  qed simp
  show ?thesis
    by (simp add: parse_mount_def match_mount_line [OF assms] nil mount_of_match_def captured_def)
qed

theorem parse_mount_line_witness:
  "parse_mount (mount_line ''/dev/sdb1'' ''/mnt/data'' ''ext4'' ''rw,relatime'') =
    Some \<lparr>mnt_device = ''/dev/sdb1'', mnt_directory = ''/mnt/data'', mnt_options = ''('' @ ''rw,relatime'' @ '')'',
      mnt_type = ''ext4''\<rparr>"
  by (rule parse_mount_line) code_simp+

text \<open>
  A directory whose path has a character outside \<open>a-z\<close>, \<open>0-9\<close> and \<open>-./_\<close>, for instance a capital
  letter, is never seen as mounted, whatever the \<open>mount\<close> command prints.\<close>

theorem uppercase_path_never_mounted:
  assumes "\<not> list_all path_char p"
  shows "\<not> is_path_mounted E p x"
proof -
  have "snd (collect_mounts es ([], Map.empty)) p = None" for es
    using collect_mounts_keys [of "([], Map.empty)" es p] assms
    by (cases "snd (collect_mounts es ([], Map.empty)) p") auto
  then show ?thesis
    by (auto simp: is_path_mounted_def get_mounts_def split: sum.splits prod.splits) (metis snd_conv option.distinct(1))
qed

text \<open>A host whose kernel accepts every mount of a device under \<open>/dev\<close>; its state is the mount table.\<close>

definition example_host :: "(string \<times> mount) list mount_env" where
  "example_host =
     \<lparr>me_execute_mount = (\<lambda>x. (concat (map (\<lambda>(d, m). mount_line (mnt_device m) d (mnt_type m)
          (filter (\<lambda>c. c \<noteq> CHR ''('' \<and> c \<noteq> CHR '')'') (mnt_options m)) @ [CHR 0x0A]) x), [], 0)),
      me_stat = (\<lambda>p x. None), me_lstat = (\<lambda>p x. Inr 0x61B0), me_not_exist = (\<lambda>e. False),
      me_mount = (\<lambda>dev d ty opts x. (None, AList.update d \<lparr>mnt_device = dev, mnt_directory = d, mnt_options = opts, mnt_type = ty\<rparr> x)),
      me_unmount = (\<lambda>d x. (None, AList.delete d x)), me_group_id = (\<lambda>g. None), me_user_id = (\<lambda>u. None)\<rparr>"

definition data_mount :: mount where
  "data_mount = \<lparr>mnt_device = ''/dev/sdb1'', mnt_directory = ''/mnt/Data'', mnt_options = ''rw'', mnt_type = ''ext4''\<rparr>"

theorem uppercase_path_never_mounted_witness:
  "\<not> is_path_mounted example_host ''/mnt/Data'' [(''/mnt/Data'', data_mount)]"
  by (rule uppercase_path_never_mounted) code_simp

definition data_configuration_mounts :: "mount list \<Rightarrow> config_message" where
  "data_configuration_mounts ms = message_with (empty_device_configuration\<lparr>cfg_mounts := Some ms\<rparr>)"

text \<open>
  A configured mount that is in place exactly as configured is unmounted by force and mounted
  again by every update of the configuration, because the comparison takes the type of the one
  against the directory of the other; where that mount fails, the directory is left unmounted.\<close>

theorem mount_in_place_is_remounted:
  assumes "get_mounts E x = Inr (l, current)" and "current (mnt_directory m) = Some m"
    and "mnt_type m \<noteq> mnt_directory m" and "is_valid_mount E g m x = None"
    and "me_unmount E (mnt_directory m) x = (None, x1)"
  shows "mount_update E g (data_configuration_mounts [m]) x =
    (case mount_one E g m x1 of
       (None, x2) \<Rightarrow> Ret (None, x2)
     | (Some e, x2) \<Rightarrow>
         Ret (Some (Multi [Wrap (''cannot mount '' @ mnt_device m @ '' on '' @ mnt_directory m) e]), x2))"
  using assms
  by (simp add: mount_update_def data_configuration_mounts_def message_with_def mount_step_def is_equal_mount_def
      umount_one_def mount_finish_def empty_device_configuration_def split: prod.splits option.splits)

definition tmp_mount :: mount where
  "tmp_mount = \<lparr>mnt_device = ''/dev/sdb1'', mnt_directory = ''/mnt/data'', mnt_options = ''(rw)'', mnt_type = ''ext4''\<rparr>"

definition example_mount_manager :: mount_manager where
  "example_mount_manager = \<lparr>mm_filesystems = ''ext4'', mm_default_options = []\<rparr>"

lemma example_host_mounts:
  "get_mounts example_host [(''/mnt/data'', tmp_mount)] = Inr ([tmp_mount], [''/mnt/data'' \<mapsto> tmp_mount])"
proof -
  have "list_mounts example_host [(''/mnt/data'', tmp_mount)] = Inr [mount_line ''/dev/sdb1'' ''/mnt/data'' ''ext4'' ''rw'', []]"
    by code_simp
  moreover have "parse_mount (mount_line ''/dev/sdb1'' ''/mnt/data'' ''ext4'' ''rw'') = Some tmp_mount"
    by code_simp
  moreover have "mount_line ''/dev/sdb1'' ''/mnt/data'' ''ext4'' ''rw'' \<noteq> []" "mnt_directory tmp_mount = ''/mnt/data''"
    by code_simp+
  ultimately show ?thesis by (simp add: get_mounts_def)
qed

theorem mount_in_place_is_remounted_witness:
  "mount_update example_host example_mount_manager (data_configuration_mounts [tmp_mount]) [(''/mnt/data'', tmp_mount)] =
    (case mount_one example_host example_mount_manager tmp_mount [] of
       (None, x2) \<Rightarrow> Ret (None, x2)
     | (Some e, x2) \<Rightarrow>
         Ret (Some (Multi [Wrap (''cannot mount '' @ mnt_device tmp_mount @ '' on '' @ mnt_directory tmp_mount) e]), x2))"
  by (rule mount_in_place_is_remounted [OF example_host_mounts]) code_simp+

text \<open>
  What the worker relies on of the kernel: a mount that succeeds mounts its directory and unmounts
  no other, and an unmount that succeeds unmounts no other directory.
\<close>

definition kernel_mounts :: "'x mount_env \<Rightarrow> ('x \<Rightarrow> string \<Rightarrow> bool) \<Rightarrow> bool" where
  "kernel_mounts E on_dir \<longleftrightarrow>
     (\<forall>dev d ty opts x x'. me_mount E dev d ty opts x = (None, x') \<longrightarrow>
        on_dir x' d \<and> (\<forall>d'. on_dir x d' \<longrightarrow> on_dir x' d')) \<and>
     (\<forall>d x x'. me_unmount E d x = (None, x') \<longrightarrow> (\<forall>d'. on_dir x d' \<and> d' \<noteq> d \<longrightarrow> on_dir x' d')) \<and>
     (\<forall>x l mm d m. get_mounts E x = Inr (l, mm) \<longrightarrow> mm d = Some m \<longrightarrow> on_dir x d)"

lemma collect_mounts_directory:
  "\<forall>d m. snd acc d = Some m \<longrightarrow> mnt_directory m = d \<Longrightarrow>
   \<forall>d m. snd (collect_mounts es acc) d = Some m \<longrightarrow> mnt_directory m = d"
proof (induction es arbitrary: acc)
  case (Cons e es)
  obtain ms mm where acc: "acc = (ms, mm)" by (cases acc)
  show ?case
  proof (cases "e = [] \<or> parse_mount e = None")
    case True
    then have eq: "collect_mounts (e # es) acc = collect_mounts es acc" by (auto simp: acc)
    show ?thesis unfolding eq by (rule Cons.IH [OF Cons.prems])
  next
    case False
    then obtain n where eq: "collect_mounts (e # es) acc = collect_mounts es (ms @ [n], mm(mnt_directory n \<mapsto> n))"
      by (auto simp: acc)
    have "\<forall>d m. snd (ms @ [n], mm(mnt_directory n \<mapsto> n)) d = Some m \<longrightarrow> mnt_directory m = d"
      using Cons.prems unfolding acc snd_conv fun_upd_apply
      by (intro allI impI) (split if_split_asm, simp, blast)
    then show ?thesis unfolding eq by (rule Cons.IH)
  qed
qed simp

definition loop_inv :: "('x \<Rightarrow> string \<Rightarrow> bool) \<Rightarrow> (string \<rightharpoonup> mount) \<Rightarrow> mount list \<Rightarrow> 'x mount_loop \<Rightarrow> bool" where
  "loop_inv on_dir current ms = (\<lambda>(dirs, es, x).
     es = [] \<longrightarrow> dirs = mnt_directory ` set ms \<and> distinct (map mnt_directory ms) \<and> (\<forall>d \<in> dirs. on_dir x d) \<and>
       (\<forall>d. current d \<noteq> None \<and> d \<notin> dirs \<longrightarrow> on_dir x d))"

lemma mount_finish_inv:
  assumes "kernel_mounts E on_dir" and "mnt_directory m \<notin> dirs"
    and "es = [] \<longrightarrow> dirs = mnt_directory ` set ms \<and> distinct (map mnt_directory ms) \<and> (\<forall>d \<in> dirs. on_dir x d) \<and>
       (\<forall>d. current d \<noteq> None \<and> d \<notin> dirs \<and> d \<noteq> mnt_directory m \<longrightarrow> on_dir x d)"
  shows "loop_inv on_dir current (ms @ [m]) (mount_finish E g m (dirs, es, x))"
proof (cases "mount_one E g m x")
  case (Pair r x')
  show ?thesis
  proof (cases r)
    case None
    then have "on_dir x' (mnt_directory m)" "\<forall>d. on_dir x d \<longrightarrow> on_dir x' d"
      using assms(1) Pair unfolding kernel_mounts_def mount_one_def by blast+
    then show ?thesis
      using assms(2,3) Pair None by (auto simp: loop_inv_def mount_finish_def)
  qed (simp add: loop_inv_def mount_finish_def Pair)
qed

lemma mount_step_inv:
  assumes k: "kernel_mounts E on_dir" and c: "\<forall>d m. current d = Some m \<longrightarrow> mnt_directory m = d"
    and inv: "loop_inv on_dir current ms s"
  shows "loop_inv on_dir current (ms @ [m]) (mount_step E g current m s)"
proof -
  obtain dirs es x where s: "s = (dirs, es, x)" by (cases s)
  show ?thesis
  proof (cases "mnt_directory m \<in> dirs \<or> is_valid_mount E g m x \<noteq> None")
    case True
    then show ?thesis
      by (auto simp: s mount_step_def loop_inv_def split: option.splits)
  next
    case new: False
    show ?thesis
    proof (cases "current (mnt_directory m)")
      case None
      then show ?thesis
        using new inv mount_finish_inv [OF k, of m dirs es ms x current g] by (simp add: s mount_step_def loop_inv_def)
    next
      case (Some old)
      then have old: "mnt_directory old = mnt_directory m" using c by simp
      show ?thesis
      proof (cases "is_equal_mount old m")
        case True
        then show ?thesis
          using new inv Some by (auto simp: s mount_step_def loop_inv_def)
      next
        case False
        obtain r x' where u: "umount_one E old x = (r, x')" by (cases "umount_one E old x")
        show ?thesis
        proof (cases r)
          case None
          then have "\<forall>d. on_dir x d \<and> d \<noteq> mnt_directory m \<longrightarrow> on_dir x' d"
            using k u old unfolding kernel_mounts_def umount_one_def by metis
          moreover have "es = [] \<longrightarrow> dirs = mnt_directory ` set ms \<and> distinct (map mnt_directory ms) \<and>
              (\<forall>d \<in> dirs. on_dir x d) \<and> (\<forall>d. current d \<noteq> None \<and> d \<notin> dirs \<longrightarrow> on_dir x d)"
            using inv by (simp only: loop_inv_def s prod.case)
          ultimately have "es = [] \<longrightarrow> dirs = mnt_directory ` set ms \<and> distinct (map mnt_directory ms) \<and>
              (\<forall>d \<in> dirs. on_dir x' d) \<and> (\<forall>d. current d \<noteq> None \<and> d \<notin> dirs \<and> d \<noteq> mnt_directory m \<longrightarrow> on_dir x' d)"
            using new by metis
          then have "loop_inv on_dir current (ms @ [m]) (mount_finish E g m (dirs, es, x'))"
            using new by (intro mount_finish_inv [OF k]) simp_all
          then show ?thesis
            using new Some False u None by (simp add: s mount_step_def)
        next
          case (Some e)
          then show ?thesis
            using new \<open>current (mnt_directory m) = Some old\<close> False u
            by (simp add: s mount_step_def loop_inv_def)
        qed
      qed
    qed
  qed
qed

lemma mount_fold_inv:
  assumes "kernel_mounts E on_dir" and "\<forall>d m. current d = Some m \<longrightarrow> mnt_directory m = d"
    and "loop_inv on_dir current [] s"
  shows "loop_inv on_dir current ms (fold (mount_step E g current) ms s)"
  by (induction ms rule: rev_induct) (use assms mount_step_inv [OF assms(1,2)] in auto)


text \<open>A host that mounts everything it is asked to, with nothing mounted by others.\<close>

definition fresh_host :: "string set mount_env" where
  "fresh_host =
     \<lparr>me_execute_mount = (\<lambda>x. ([], [], 0)), me_stat = (\<lambda>p x. None), me_lstat = (\<lambda>p x. Inr 0x61B0),
      me_not_exist = (\<lambda>e. False), me_mount = (\<lambda>dev d ty opts x. (None, insert d x)),
      me_unmount = (\<lambda>d x. (None, x - {d})), me_group_id = (\<lambda>g. None), me_user_id = (\<lambda>u. None)\<rparr>"

definition two_mounts :: "mount list" where
  "two_mounts = [\<lparr>mnt_device = ''/dev/sdb1'', mnt_directory = ''/mnt/a'', mnt_options = [], mnt_type = ''ext4''\<rparr>,
     \<lparr>mnt_device = ''/dev/sdb2'', mnt_directory = ''/mnt/b'', mnt_options = [], mnt_type = ''ext4''\<rparr>]"


end
