(* ===== verification/Workload_Manager.thy ===== *)
theory Workload_Manager
  imports Workload_Wrapper Mounts
begin

text \<open>
  \<open>internal/workload/manager.go\<close>: bringing the workloads of a configuration about. The manager
  stores a manifest and an auth file per workload and calls the interface \<open>WorkloadWrapper\<close>, here the
  record \<open>runtime\<close>; its implementation is \<open>wrapper_runtime\<close>. Everything acts on one world, whose
  files the manager and the wrapper share.
\<close>

subsection \<open>The interface of the wrapper\<close>

record 'e runtime =
  rt_init :: "'e world proc"
  rt_list :: "('e world, workload_info list) op"
  rt_remove :: "string \<Rightarrow> 'e world proc"
  rt_stop :: "string \<Rightarrow> 'e world proc"
  rt_run :: "pod \<Rightarrow> string \<Rightarrow> string \<Rightarrow> labels \<Rightarrow> 'e world \<Rightarrow> (gerror option \<times> 'e world) go"
  rt_remove_table :: "'e world proc"
  rt_remove_mapping_file :: "'e world proc"
  rt_remove_services_file :: "'e world proc"
  rt_list_secrets :: "('e world, string list) op"
  rt_remove_secret :: "string \<Rightarrow> 'e world proc"
  rt_create_secret :: "string \<Rightarrow> string \<Rightarrow> 'e world proc"
  rt_update_secret :: "string \<Rightarrow> string \<Rightarrow> 'e world proc"
  rt_logs :: "string \<Rightarrow> ('e world, log_stream) op"

definition wrapper_runtime :: "'x backends \<Rightarrow> 'x wstate runtime" where
  "wrapper_runtime K =
     \<lparr>rt_init = wrapper_init K, rt_list = wrapper_list K, rt_remove = wrapper_remove K, rt_stop = wrapper_stop K,
      rt_run = wrapper_run K, rt_remove_table = wrapper_remove_table K,
      rt_remove_mapping_file = wrapper_remove_mapping_file,
      rt_remove_services_file = wrapper_remove_services_file, rt_list_secrets = wrapper_list_secrets K,
      rt_remove_secret = wrapper_remove_secret K, rt_create_secret = wrapper_create_secret K,
      rt_update_secret = wrapper_update_secret K, rt_logs = wrapper_logs K\<rparr>"

text \<open>
  What the manager is created with: the wrapper, \<open>sigs.k8s.io/yaml\<close> on specifications and pods, and
  \<open>mount.IsPathMounted\<close>.
\<close>

record 'e manager_env =
  en_runtime :: "'e runtime"
  en_parse_spec :: "string \<Rightarrow> gerror + pod_spec"
  en_pod_yaml :: "pod \<Rightarrow> gerror + string"
  en_mounted :: "string \<Rightarrow> 'e world \<Rightarrow> bool"

subsection \<open>State\<close>

record workload_manager =
  mgr_workloads_dir :: string
  mgr_volumes_dir :: string
  mgr_deregistered :: bool
  mgr_events :: "event_info list"
  mgr_device_id :: string

definition new_workload_manager ::
  "'e manager_env \<Rightarrow> string \<Rightarrow> string \<Rightarrow> 'e world \<Rightarrow> (gerror + workload_manager) \<times> 'e world" where
  "new_workload_manager E dataDir deviceId w =
     (let workloadsDir = path_join [dataDir, ''workloads'']; volumesDir = path_join [dataDir, ''volumes''] in
      case then_ok (wrapping (Wrap ''cannot create directory'') (on_fs (mkdir_all workloadsDir)))
             (then_ok (wrapping (Wrap ''cannot create directory'') (on_fs (mkdir_all volumesDir)))
               (rt_init (en_runtime E))) w of
        (Some e, w') \<Rightarrow> (Inl e, w')
      | (None, w') \<Rightarrow>
          (Inr \<lparr>mgr_workloads_dir = workloadsDir, mgr_volumes_dir = volumesDir, mgr_deregistered = False,
                mgr_events = [], mgr_device_id = deviceId\<rparr>, w'))"

text \<open>\<open>NewWorkloadManager\<close>: the wrapper is opened on the same directory, with the interval of the units.\<close>

definition default_workloads_monitoring_interval :: nat where
  "default_workloads_monitoring_interval = 15"

definition open_workload_manager ::
  "('x backends \<Rightarrow> 'x wstate manager_env) \<Rightarrow> 'x backends \<Rightarrow> gerror option \<Rightarrow> string \<Rightarrow> string \<Rightarrow> string \<Rightarrow> fs \<Rightarrow> 'x \<Rightarrow>
   (gerror + workload_manager \<times> 'x wworld) go" where
  "open_workload_manager env K nft_path runtimeDir dataDir deviceId f x =
     (let K' = K\<lparr>be_interval := default_workloads_monitoring_interval\<rparr> in
      go_bind (new_workload_instance K' nft_path runtimeDir dataDir f x) (\<lambda>r.
        Ret (case r of Inl e \<Rightarrow> Inl e
             | Inr w \<Rightarrow> (case new_workload_manager (env K') dataDir deviceId w of
                 (Inl e, w') \<Rightarrow> Inl e
               | (Inr g, w') \<Rightarrow> Inr (g, w')))))"

definition pop_events :: "workload_manager \<Rightarrow> event_info list \<times> workload_manager" where
  "pop_events g = (mgr_events g, g\<lparr>mgr_events := []\<rparr>)"

definition get_exported_host_path :: "workload_manager \<Rightarrow> string \<Rightarrow> string" where
  "get_exported_host_path g name = host_path_volume_path (mgr_volumes_dir g) name"

definition list_workloads :: "'e manager_env \<Rightarrow> ('e world, workload_info list) op" where
  "list_workloads E = rt_list (en_runtime E)"

definition manager_logs :: "'e manager_env \<Rightarrow> string \<Rightarrow> ('e world, log_stream) op" where
  "manager_logs E pod = rt_logs (en_runtime E) pod"

subsection \<open>Paths and files of a workload\<close>

definition workload_dir_path :: "workload_manager \<Rightarrow> string \<Rightarrow> string" where
  "workload_dir_path g name = path_join [mgr_workloads_dir g, spaces_to_dashes name]"

definition manifest_path :: "workload_manager \<Rightarrow> string \<Rightarrow> string" where
  "manifest_path g name = path_join [workload_dir_path g name, ''workload.yaml'']"

definition auth_file_path :: "workload_manager \<Rightarrow> string \<Rightarrow> string" where
  "auth_file_path g name = path_join [workload_dir_path g name, ''auth.json'']"

definition ensure_workload_dir_exists :: "workload_manager \<Rightarrow> string \<Rightarrow> fs proc" where
  "ensure_workload_dir_exists g name f =
     (if stat_ok (workload_dir_path g name) f then (None, f) else mkdir_all (workload_dir_path g name) f)"

definition delete_dir :: "string \<Rightarrow> fs proc" where
  "delete_dir p = remove_all p"

lemma delete_dir_simp [simp]: "delete_dir = remove_all"
  by (simp add: fun_eq_iff delete_dir_def)

definition delete_file :: "string \<Rightarrow> fs proc" where
  "delete_file p f =
     (case remove_file p f of
        (Some e, f') \<Rightarrow> (if is_not_exist e then (None, f') else (Some e, f'))
      | (None, f') \<Rightarrow> (None, f'))"

text \<open>The path given to podman is empty when there is no auth file.\<close>

definition manage_auth_file :: "string \<Rightarrow> string \<Rightarrow> (fs, string) op" where
  "manage_auth_file p auth f =
     (if auth = [] then
        (case delete_file p f of
           (Some e, f') \<Rightarrow> (Inl (Wrap (''cannot remove auth file '' @ p) e), f')
         | (None, f') \<Rightarrow> (Inr [], f'))
      else
        (case write_file p auth f of
           (Some e, f') \<Rightarrow> (Inl (Wrap (''cannot store auth file '' @ p) e), f')
         | (None, f') \<Rightarrow> (Inr p, f')))"

definition pod_modified :: "string \<Rightarrow> string \<Rightarrow> fs \<Rightarrow> bool" where
  "pod_modified p yaml f = (case read_file p f of Inl _ \<Rightarrow> True | Inr c \<Rightarrow> c \<noteq> yaml)"

definition pod_auth_modified :: "string \<Rightarrow> string \<Rightarrow> fs \<Rightarrow> bool" where
  "pod_auth_modified p auth f =
     (if \<not> stat_ok p f then auth \<noteq> []
      else (case read_file p f of Inl _ \<Rightarrow> True | Inr c \<Rightarrow> c \<noteq> auth))"

definition pod_configuration_modified :: "string \<Rightarrow> string \<Rightarrow> string \<Rightarrow> string \<Rightarrow> fs \<Rightarrow> bool" where
  "pod_configuration_modified manifest yaml authPath auth f \<longleftrightarrow>
     pod_modified manifest yaml f \<or> pod_auth_modified authPath auth f"

subsection \<open>The pod of a workload\<close>

definition export_container :: "string \<Rightarrow> string \<Rightarrow> container \<Rightarrow> container" where
  "export_container deviceId vol c =
     c\<lparr>ct_volume_mounts := ct_volume_mounts c @ [(vol, ''/export'')],
       ct_env := ct_env c @ [(''DEVICE_ID'', deviceId)]\<rparr>"

definition auth_file_of :: "workload \<Rightarrow> string" where
  "auth_file_of wl = (case wl_image_registries wl of None \<Rightarrow> [] | Some a \<Rightarrow> a)"

text \<open>
  The labels the code writes into the pod's label map, which is the workload's own map unless that
  is nil.
\<close>

definition pod_labels_for :: "workload_manager \<Rightarrow> workload \<Rightarrow> (string, string) mapping" where
  "pod_labels_for g wl =
     (let l0 = label_map (wl_labels wl);
          l1 = (if auth_file_of wl \<noteq> []
                then Mapping.update ''io.containers.autoupdate.authfile'' (auth_file_path g (wl_name wl)) l0 else l0)
      in if \<exists>l \<in> Mapping.keys l1. str_contains l ''io.containers.autoupdate''
         then Mapping.update ''PODMAN_SYSTEMD_UNIT'' (default_service_name (wl_name wl)) l1 else l1)"

definition to_pod :: "'e manager_env \<Rightarrow> workload_manager \<Rightarrow> workload \<Rightarrow> gerror + (pod \<times> workload)" where
  "to_pod E g wl =
     (case en_parse_spec E (wl_specification wl) of
        Inl e \<Rightarrow> Inl e
      | Inr spec \<Rightarrow>
          (let vol = host_path_volume (mgr_volumes_dir g) (wl_name wl);
               spec' = spec\<lparr>ps_containers := map (export_container (mgr_device_id g) (vol_name vol)) (ps_containers spec),
                            ps_volumes := ps_volumes spec @ [vol]\<rparr>;
               labels = pod_labels_for g wl
           in Inr (\<lparr>pod_name = wl_name wl, pod_annotations = wl_annotations wl, pod_labels = Some labels,
                    pod_spec_of = spec'\<rparr>,
                   if wl_labels wl = None then wl else wl\<lparr>wl_labels := Some labels\<rparr>)))"

definition yaml_separator :: string where
  "yaml_separator = ''---'' @ newline"

definition to_pod_yaml :: "'e manager_env \<Rightarrow> pod \<Rightarrow> string list \<Rightarrow> gerror + string" where
  "to_pod_yaml E p configmaps =
     (case en_pod_yaml E p of
        Inl e \<Rightarrow> Inl e
      | Inr y \<Rightarrow> Inr (join_with yaml_separator [y, join_with yaml_separator configmaps]))"

definition waits_for :: "mount list \<Rightarrow> (string \<Rightarrow> bool) \<Rightarrow> volume \<Rightarrow> bool" where
  "waits_for ms mounted v =
     (case vol_host_path v of
        Some (Some BlockDevice, p) \<Rightarrow> p \<in> set (map mnt_directory ms) \<and> \<not> mounted p
      | _ \<Rightarrow> False)"

definition pod_should_wait_for_mount :: "(string \<Rightarrow> bool) \<Rightarrow> pod \<Rightarrow> device_configuration option \<Rightarrow> bool" where
  "pod_should_wait_for_mount mounted p conf =
     (case conf of
        None \<Rightarrow> False
      | Some c \<Rightarrow> list_ex (waits_for (elems (cfg_mounts c)) mounted) (ps_volumes (pod_spec_of p)))"

subsection \<open>Deploying one workload\<close>

type_synonym 'e manager_state = "workload_manager \<times> merr \<times> 'e world"

text \<open>The part after the manifest was found to differ: store, remove the old pod, run the new one.\<close>

definition redeploy ::
  "'e manager_env \<Rightarrow> workload \<Rightarrow> pod \<Rightarrow> string \<Rightarrow> 'e manager_state \<Rightarrow> 'e manager_state go" where
  "redeploy E wl p yaml = (\<lambda>(g, es, w).
     let name = wl_name wl; manifest = manifest_path g (pod_name p) in
     case on_fs (write_file manifest yaml) w of
       (Some e, w1) \<Rightarrow> Ret (g, es @ [Wrap (''cannot store manifest for workload '' @ name) e], w1)
     | (None, w1) \<Rightarrow>
         (case manage_auth_file (auth_file_path g (pod_name p)) (auth_file_of wl) (w_fs w1) of
            (Inl e, f) \<Rightarrow> Ret (g, es @ [Wrap (''cannot store auth configuration for workload '' @ name) e], w1\<lparr>w_fs := f\<rparr>)
          | (Inr authPath, f) \<Rightarrow>
              (case rt_remove (en_runtime E) name (w1\<lparr>w_fs := f\<rparr>) of
                 (Some e, w3) \<Rightarrow> Ret (g, es @ [Wrap (''error removing workload '' @ name) e], w3)
               | (None, w3) \<Rightarrow>
                   go_bind (rt_run (en_runtime E) p manifest authPath (wl_annotations wl) w3) (\<lambda>(r, w4).
                     case r of
                       None \<Rightarrow> Ret (g, es, w4)
                     | Some e \<Rightarrow>
                         Ret (g\<lparr>mgr_events := mgr_events g @ [\<lparr>ev_message = error_text e, ev_reason = ''Failed'', ev_type = ''warn''\<rparr>]\<rparr>,
                              es @ [Wrap (''cannot run workload '' @ name) e], w4)))))"

definition deploy ::
  "'e manager_env \<Rightarrow> device_configuration option \<Rightarrow> workload \<Rightarrow> pod \<Rightarrow> 'e manager_state \<Rightarrow> 'e manager_state go" where
  "deploy E conf wl p = (\<lambda>(g, es, w).
     let name = wl_name wl in
     if pod_should_wait_for_mount (\<lambda>d. en_mounted E d w) p conf then
       Ret (g, es @ [Err (''Pod '' @ name @ '' needs to mount blockdevice but it is not in there yet'')], w)
     else case on_fs (ensure_workload_dir_exists g (pod_name p)) w of
       (Some e, w1) \<Rightarrow> Ret (g, es @ [Wrap (''cannot create workload directory for workload '' @ name) e], w1)
     | (None, w1) \<Rightarrow>
         (case to_pod_yaml E p (elems (wl_configmaps wl)) of
            Inl e \<Rightarrow> Ret (g, es @ [Wrap ''cannot create the Yaml of the pod'' e], w1)
          | Inr yaml \<Rightarrow>
              (if \<not> pod_configuration_modified (manifest_path g (pod_name p)) yaml
                     (auth_file_path g (pod_name p)) (auth_file_of wl) (w_fs w1)
               then Ret (g, es, w1)
               else redeploy E wl p yaml (g, es, w1))))"

definition update_workload ::
  "'e manager_env \<Rightarrow> device_configuration option \<Rightarrow> workload \<Rightarrow> 'e manager_state \<Rightarrow> ('e manager_state \<times> workload) go" where
  "update_workload E conf wl = (\<lambda>(g, es, w).
     case to_pod E g wl of
       Inl e \<Rightarrow> Ret ((g, es @ [Wrap (''cannot convert workload '' @ wl_name wl @ '' to pod'') e], w), wl)
     | Inr (p, wl') \<Rightarrow> go_bind (deploy E conf wl p (g, es, w)) (\<lambda>s. Ret (s, wl')))"

fun update_workloads ::
  "'e manager_env \<Rightarrow> device_configuration option \<Rightarrow> workload list \<Rightarrow> 'e manager_state \<Rightarrow> ('e manager_state \<times> workload list) go" where
  "update_workloads E conf [] s = Ret (s, [])"
| "update_workloads E conf (wl # wls) s =
     go_bind (update_workload E conf wl s) (\<lambda>(s1, wl').
       go_bind (update_workloads E conf wls s1) (\<lambda>(s2, wls'). Ret (s2, wl' # wls')))"

subsection \<open>Secrets\<close>

text \<open>
  The secrets of the configuration are updated or created and the rest removed; \<open>delete\<close> on the map of
  the device's secrets happens whether or not the update succeeded.
\<close>

definition append_error :: "merr \<Rightarrow> gerror option \<Rightarrow> merr" where
  "append_error es r = append_err es (\<lambda>e. e) r"

fun put_secrets ::
  "'e runtime \<Rightarrow> secret list \<Rightarrow> string list \<times> merr \<times> 'e world \<Rightarrow> string list \<times> merr \<times> 'e world" where
  "put_secrets W [] s = s"
| "put_secrets W (c # cs) (device, es, w) =
     (if sec_name c \<in> set device then
        (case rt_update_secret W (sec_name c) (sec_data c) w of
           (r, w') \<Rightarrow> put_secrets W cs (removeAll (sec_name c) device, append_error es r, w'))
      else
        (case rt_create_secret W (sec_name c) (sec_data c) w of
           (r, w') \<Rightarrow> put_secrets W cs (device, append_error es r, w')))"

fun drop_secrets :: "'e runtime \<Rightarrow> string list \<Rightarrow> merr \<times> 'e world \<Rightarrow> merr \<times> 'e world" where
  "drop_secrets W [] s = s"
| "drop_secrets W (n # ns) (es, w) =
     (case rt_remove_secret W n w of (r, w') \<Rightarrow> drop_secrets W ns (append_error es r, w'))"

definition update_secrets :: "'e runtime \<Rightarrow> secret list \<Rightarrow> 'e world \<Rightarrow> merr \<times> 'e world" where
  "update_secrets W cs w =
     (case rt_list_secrets W w of
        (Inl e, w') \<Rightarrow> ([e], w')
      | (Inr device, w') \<Rightarrow>
          (case put_secrets W cs (device, [], w') of
             (left, es, w'') \<Rightarrow> drop_secrets W left (es, w'')))"

subsection \<open>Update\<close>

text \<open>The keys of the map by name: the cleanup visits each deployed name once, in any order.\<close>

definition index_workloads :: "'e manager_env \<Rightarrow> ('e world, string list) op" where
  "index_workloads E w =
     (case list_workloads E w of
        (Inl e, w') \<Rightarrow> (Inl e, w')
      | (Inr infos, w') \<Rightarrow> (Inr (remdups (map wi_name infos)), w'))"

definition remove_stale :: "'e manager_env \<Rightarrow> string \<Rightarrow> 'e manager_state \<Rightarrow> 'e manager_state" where
  "remove_stale E name = (\<lambda>(g, es, w).
     case on_fs (delete_dir (workload_dir_path g name)) w of (r1, w1) \<Rightarrow>
       (case rt_remove (en_runtime E) name w1 of (r2, w2) \<Rightarrow>
          (g, append_err (append_err es (Wrap ''cannot remove existing workload directory'') r1)
                (Wrap (''cannot remove stale workload '' @ name)) r2, w2)))"

definition remove_stale_workloads ::
  "'e manager_env \<Rightarrow> string list \<Rightarrow> 'e manager_state \<Rightarrow> 'e manager_state" where
  "remove_stale_workloads E configured = (\<lambda>(g, es, w).
     case index_workloads E w of
       (Inl e, w') \<Rightarrow> (g, es @ [Wrap ''cannot get deployed workloads'' e], w')
     | (Inr names, w') \<Rightarrow> fold (remove_stale E) (filter (\<lambda>n. n \<notin> set configured) names) (g, es, w'))"

text \<open>The result carries the configuration message, whose label maps the update may have written to.\<close>

definition manager_update ::
  "'e manager_env \<Rightarrow> config_message \<Rightarrow> workload_manager \<times> 'e world \<Rightarrow>
   (gerror option \<times> config_message \<times> workload_manager \<times> 'e world) go" where
  "manager_update E msg = (\<lambda>(g, w).
     if mgr_deregistered g then Ret (None, msg, g, w)
     else case update_secrets (en_runtime E) (msg_secrets msg) w of (es, w1) \<Rightarrow>
       go_bind (update_workloads E (msg_configuration msg) (msg_workloads msg) (g, es, w1)) (\<lambda>(s, wls).
         case remove_stale_workloads E (map wl_name (msg_workloads msg)) s of
           (g', es', w') \<Rightarrow> Ret (merr_result es', msg\<lparr>msg_workloads := wls\<rparr>, g', w')))"

definition manager_init ::
  "'e manager_env \<Rightarrow> config_message \<Rightarrow> workload_manager \<times> 'e world \<Rightarrow>
   (gerror option \<times> config_message \<times> workload_manager \<times> 'e world) go" where
  "manager_init = manager_update"

subsection \<open>Stopping and deregistering\<close>

fun each_workload :: "(string \<Rightarrow> 'e world proc) \<Rightarrow> workload_info list \<Rightarrow> merr \<times> 'e world \<Rightarrow> merr \<times> 'e world" where
  "each_workload f [] s = s"
| "each_workload f (i # is) (es, w) =
     (case f (wi_name i) w of (r, w') \<Rightarrow> each_workload f is (append_error es r, w'))"

definition for_all_workloads :: "'e manager_env \<Rightarrow> (string \<Rightarrow> 'e world proc) \<Rightarrow> 'e world proc" where
  "for_all_workloads E f w =
     (case rt_list (en_runtime E) w of
        (Inl e, w') \<Rightarrow> (Some e, w')
      | (Inr infos, w') \<Rightarrow> (case each_workload f infos ([], w') of (es, w'') \<Rightarrow> (merr_result es, w'')))"

definition remove_all_workloads :: "'e manager_env \<Rightarrow> 'e world proc" where
  "remove_all_workloads E = for_all_workloads E (rt_remove (en_runtime E))"

definition stop_all_workloads :: "'e manager_env \<Rightarrow> 'e world proc" where
  "stop_all_workloads E = for_all_workloads E (rt_stop (en_runtime E))"

definition stop_workloads :: "'e manager_env \<Rightarrow> 'e world proc" where
  "stop_workloads E = stop_all_workloads E"

definition delete_workloads_dir :: "workload_manager \<Rightarrow> 'e world proc" where
  "delete_workloads_dir g = on_fs (delete_dir (mgr_workloads_dir g))"

definition delete_volume_dir :: "workload_manager \<Rightarrow> 'e world proc" where
  "delete_volume_dir g = on_fs (delete_dir (mgr_volumes_dir g))"

text \<open>Every step of the deregistration is tried; the errors are collected.\<close>

definition deregister_steps :: "'e manager_env \<Rightarrow> workload_manager \<Rightarrow> (string \<times> 'e world proc) list" where
  "deregister_steps E g =
     [(''failed to remove workloads'', remove_all_workloads E),
      (''failed to delete manifests directory'', delete_workloads_dir g),
      (''failed to delete table'', rt_remove_table (en_runtime E)),
      (''failed to delete volumes directory'', delete_volume_dir g),
      (''failed to remove mapping file'', rt_remove_mapping_file (en_runtime E)),
      (''failed to remove services file'', rt_remove_services_file (en_runtime E))]"

fun try_all :: "(string \<times> 's proc) list \<Rightarrow> merr \<times> 's \<Rightarrow> merr \<times> 's" where
  "try_all [] s = s"
| "try_all ((msg, p) # ps) (es, w) = (case p w of (r, w') \<Rightarrow> try_all ps (append_err es (Wrap msg) r, w'))"

definition manager_deregister :: "'e manager_env \<Rightarrow> (workload_manager \<times> 'e world) proc" where
  "manager_deregister E = (\<lambda>(g, w).
     case try_all (deregister_steps E g) ([], w) of
       (es, w') \<Rightarrow> (merr_result es, (g\<lparr>mgr_deregistered := True\<rparr>, w')))"

subsection \<open>What the manager relies on of the wrapper\<close>

text \<open>
  \<open>own w p\<close>: the file \<open>p\<close> belongs to the wrapper. Its calls leave all other files and all directories
  as they are.
\<close>

definition frame :: "('e world \<Rightarrow> string \<Rightarrow> bool) \<Rightarrow> 'e world \<Rightarrow> 'e world \<Rightarrow> bool" where
  "frame own w w' \<longleftrightarrow> (\<forall>p. \<not> own w p \<longrightarrow> fs_files (w_fs w') p = fs_files (w_fs w) p) \<and>
     fs_dirs (w_fs w') = fs_dirs (w_fs w) \<and> own w' = own w"

locale workload_runtime =
  fixes W :: "'e runtime"
    and own :: "'e world \<Rightarrow> string \<Rightarrow> bool"
  assumes frame_remove: "rt_remove W n w = (r, w') \<Longrightarrow> frame own w w'"
    and frame_run: "rt_run W p m a an w = Ret (r, w') \<Longrightarrow> frame own w w'"
    and frame_list: "rt_list W w = (l, w') \<Longrightarrow> frame own w w'"
    and own_files: "own (w\<lparr>w_fs := f\<rparr>) = own w"
begin

lemma read_kept: "frame own w w' \<Longrightarrow> \<not> own w p \<Longrightarrow> read_file p (w_fs w') = read_file p (w_fs w)"
  by (simp add: frame_def read_file_def)

lemma stat_kept: "frame own w w' \<Longrightarrow> \<not> own w p \<Longrightarrow> stat_ok p (w_fs w') = stat_ok p (w_fs w)"
  by (simp add: frame_def stat_ok_def)

lemma modified_kept:
  "frame own w w' \<Longrightarrow> \<not> own w m \<Longrightarrow> \<not> own w a \<Longrightarrow>
   pod_configuration_modified m y a auth (w_fs w') = pod_configuration_modified m y a auth (w_fs w)"
  by (simp add: pod_configuration_modified_def pod_modified_def pod_auth_modified_def read_kept stat_kept)

end

lemma manage_auth_file_settles:
  assumes "manage_auth_file a auth f = (Inr x, f')" and "a \<notin> fs_dirs f"
  shows "\<not> pod_auth_modified a auth f' \<and> fs_dirs f' = fs_dirs f \<and> (\<forall>p. p \<noteq> a \<longrightarrow> read_file p f' = read_file p f)"
proof (cases "auth = []")
  case True
  obtain r g where r: "remove_file a f = (r, g)" by (meson surj_pair)
  have "f' = g" "r = None \<or> r = Some err_not_exist"
    using assms True r by (auto simp: manage_auth_file_def delete_file_def is_not_exist_def split: option.splits if_splits)
  then show ?thesis
    using True r assms(2)
    by (auto simp: pod_auth_modified_def stat_ok_def remove_file_def read_file_def err_denied_def err_not_exist_def
        split: if_splits)
next
  case False
  then have w: "write_file a auth f = (None, f')"
    using assms(1) by (auto simp: manage_auth_file_def split: prod.splits option.splits)
  then have "read_file a f' = Inr auth" by (rule read_write)
  then show ?thesis
    using w read_write_other [OF w] stat_ok_read [of a f']
    by (auto simp: pod_auth_modified_def write_file_def split: if_splits)
qed

lemma path_join_rooted: "d = CHR ''/'' # d' \<Longrightarrow> \<exists>e. path_join (d # xs) = CHR ''/'' # e"
  by (cases "filter (\<lambda>x. x \<noteq> []) xs") (auto simp: path_join_def path_clean_def Let_def)

lemma manifest_not_auth:
  assumes "mgr_workloads_dir g = CHR ''/'' # d"
  shows "manifest_path g name \<noteq> auth_file_path g name"
proof
  assume e: "manifest_path g name = auth_file_path g name"
  obtain d' where d: "workload_dir_path g name = CHR ''/'' # d'"
    using path_join_rooted [OF assms] unfolding workload_dir_path_def by blast
  have "plain_component ''workload.yaml''" "plain_component ''auth.json''"
    by (simp_all add: plain_component_def)
  from path_join_plain_inj [OF d this] e show False
    by (simp add: manifest_path_def auth_file_path_def)
qed

context workload_runtime
begin

text \<open>Once the manifest and the auth file are stored, the configuration counts as deployed.\<close>

lemma stored_not_modified:
  assumes "write_file m yaml (w_fs w) = (None, f1)" and "manage_auth_file a auth f1 = (Inr x, f2)"
    and "m \<noteq> a" and "a \<notin> fs_dirs (w_fs w)" and "\<not> own w m" and "\<not> own w a"
    and "frame own (w\<lparr>w_fs := f2\<rparr>) w'"
  shows "\<not> pod_configuration_modified m yaml a auth (w_fs w') \<and> fs_dirs (w_fs w') = fs_dirs (w_fs w)"
proof -
  have d: "fs_dirs f1 = fs_dirs (w_fs w)"
    using assms(1) by (auto simp: write_file_def split: if_splits)
  note s = manage_auth_file_settles [OF assms(2)]
  have "read_file m f2 = Inr yaml"
    using s assms(3,4) d read_write [OF assms(1)] by simp
  then have "\<not> pod_configuration_modified m yaml a auth f2"
    using s assms(4) d by (simp add: pod_configuration_modified_def pod_modified_def)
  then show ?thesis
    using modified_kept [OF assms(7)] assms(5-7) s d assms(4) by (simp add: own_files frame_def)
qed

end

interpretation wrapper: workload_runtime "wrapper_runtime K" "own_path K" for K :: "'x backends"
proof
  have frame: "kept K w w' \<Longrightarrow> frame (own_path K) w w'" for w w'
    by (auto simp: kept_def frame_def own_path_def fun_eq_iff)
  show "rt_remove (wrapper_runtime K) n w = (r, w') \<Longrightarrow> frame (own_path K) w w'" for n w r w'
    using kept_wrapper_remove [of K w n] by (auto simp: wrapper_runtime_def intro: frame)
  show "rt_run (wrapper_runtime K) p m a an w = Ret (r, w') \<Longrightarrow> frame (own_path K) w w'" for p m a an w r w'
    using kept_wrapper_run [of K p m a an w r w'] by (auto simp: wrapper_runtime_def intro: frame)
  show "rt_list (wrapper_runtime K) w = (l, w') \<Longrightarrow> frame (own_path K) w w'" for w l w'
    using kept_wrapper_list [of K w] by (auto simp: wrapper_runtime_def intro: frame)
  show "own_path K (w\<lparr>w_fs := f\<rparr>) = own_path K w" for w f
    by (simp add: own_path_def fun_eq_iff)
qed

subsection \<open>The pod of a workload whose labels were written to\<close>

lemma unit_label_not_auto_update: "\<not> str_contains ''PODMAN_SYSTEMD_UNIT'' ''io.containers.autoupdate''"
  by code_simp

lemma pod_labels_for_idem:
  "pod_labels_for g (wl\<lparr>wl_labels := Some (pod_labels_for g wl)\<rparr>) = pod_labels_for g wl"
proof -
  let ?auth = "(''io.containers.autoupdate.authfile'', auth_file_path g (wl_name wl))"
  let ?unit = "(''PODMAN_SYSTEMD_UNIT'', default_service_name (wl_name wl))"
  let ?add = "\<lambda>l. if auth_file_of wl \<noteq> [] then Mapping.update (fst ?auth) (snd ?auth) l else l"
  let ?auto = "\<lambda>l. \<exists>k \<in> Mapping.keys l. str_contains k ''io.containers.autoupdate''"
  define l1 where "l1 = ?add (label_map (wl_labels wl))"
  have p: "pod_labels_for g wl = (if ?auto l1 then Mapping.update (fst ?unit) (snd ?unit) l1 else l1)"
    by (simp add: pod_labels_for_def l1_def Let_def)
  have "pod_labels_for g (wl\<lparr>wl_labels := Some l\<rparr>) = (if ?auto (?add l) then Mapping.update (fst ?unit) (snd ?unit) (?add l) else ?add l)" for l
    by (simp add: pod_labels_for_def auth_file_of_def Let_def)
  moreover have "?add (pod_labels_for g wl) = pod_labels_for g wl"
  proof (cases "auth_file_of wl = []")
    case False
    then have "Mapping.lookup l1 (fst ?auth) = Some (snd ?auth)" by (simp add: l1_def lookup_update')
    then have "Mapping.lookup (pod_labels_for g wl) (fst ?auth) = Some (snd ?auth)"
      unfolding p by (simp add: lookup_update')
    then have "Mapping.update (fst ?auth) (snd ?auth) (pod_labels_for g wl) = pod_labels_for g wl"
      by (rule mapping_update_present)
    then show ?thesis using False by simp
  qed simp
  moreover have "?auto (pod_labels_for g wl) \<longleftrightarrow> ?auto l1"
    unfolding p using unit_label_not_auto_update by auto
  moreover have "?auto l1 \<Longrightarrow> Mapping.update (fst ?unit) (snd ?unit) (pod_labels_for g wl) = pod_labels_for g wl"
    unfolding p by (simp add: mapping_update_present lookup_update)
  ultimately show ?thesis by simp
qed

lemma to_pod_idem:
  assumes "to_pod E g wl = Inr (p, wl')" and "mgr_volumes_dir g' = mgr_volumes_dir g"
    and "mgr_workloads_dir g' = mgr_workloads_dir g" and "mgr_device_id g' = mgr_device_id g"
  shows "to_pod E g' wl' = Inr (p, wl')"
proof -
  have "auth_file_path g' = auth_file_path g"
    using assms(3) by (simp add: fun_eq_iff auth_file_path_def workload_dir_path_def)
  then have "pod_labels_for g' v = pod_labels_for g v" for v
    by (simp only: pod_labels_for_def)
  then show ?thesis
    using assms(1,2,4) pod_labels_for_idem [of g wl]
    by (auto simp: to_pod_def Let_def split: sum.splits if_splits)
qed

lemma to_pod_name: "to_pod E g wl = Inr (p, wl') \<Longrightarrow> pod_name p = wl_name wl \<and> wl_name wl' = wl_name wl \<and>
    wl_configmaps wl' = wl_configmaps wl \<and> auth_file_of wl' = auth_file_of wl"
  by (auto simp: to_pod_def auth_file_of_def Let_def split: sum.splits if_splits)

subsection \<open>Properties\<close>

lemma redeploy_run_failed:
  assumes "redeploy E wl p yaml (g, [], w) = Ret (g', [Wrap (''cannot run workload '' @ wl_name wl) e], w')"
  shows "\<exists>f1 f2 a w3. write_file (manifest_path g (pod_name p)) yaml (w_fs w) = (None, f1) \<and>
    manage_auth_file (auth_file_path g (pod_name p)) (auth_file_of wl) f1 = (Inr a, f2) \<and>
    rt_remove (en_runtime E) (wl_name wl) (w\<lparr>w_fs := f2\<rparr>) = (None, w3) \<and>
    rt_run (en_runtime E) p (manifest_path g (pod_name p)) a (wl_annotations wl) w3 = Ret (Some e, w') \<and>
    (\<exists>evs. g' = g\<lparr>mgr_events := evs\<rparr>)"
proof -
  obtain r1 f1 where 1: "write_file (manifest_path g (pod_name p)) yaml (w_fs w) = (r1, f1)" by (meson surj_pair)
  obtain r2 f2 where 2: "manage_auth_file (auth_file_path g (pod_name p)) (auth_file_of wl) f1 = (r2, f2)" by (meson surj_pair)
  obtain r3 w3 where 3: "rt_remove (en_runtime E) (wl_name wl) (w\<lparr>w_fs := f2\<rparr>) = (r3, w3)" by (meson surj_pair)
  have r1: "r1 = None"
    using assms 1 by (cases r1) (simp_all add: redeploy_def on_fs_def Let_def)
  obtain a where r2: "r2 = Inr a"
    using assms 1 2 r1 by (cases r2) (simp_all add: redeploy_def on_fs_def Let_def)
  have r3: "r3 = None"
    using assms 1 2 3 r1 r2 by (cases r3) (simp_all add: redeploy_def on_fs_def Let_def)
  have "rt_run (en_runtime E) p (manifest_path g (pod_name p)) a (wl_annotations wl) w3 = Ret (Some e, w') \<and>
      (\<exists>evs. g' = g\<lparr>mgr_events := evs\<rparr>)"
    using assms 1 2 3 r1 r2 r3
    by (cases "rt_run (en_runtime E) p (manifest_path g (pod_name p)) a (wl_annotations wl) w3")
      (auto simp: redeploy_def on_fs_def Let_def split: option.splits)
  with 1 2 3 r1 r2 r3 show ?thesis by blast
qed

lemma deploy_run_failed:
  assumes "deploy E conf wl p (g, [], w) = Ret (g', [Wrap (''cannot run workload '' @ wl_name wl) e], w')"
  shows "\<exists>yaml f. ensure_workload_dir_exists g (pod_name p) (w_fs w) = (None, f) \<and>
    to_pod_yaml E p (elems (wl_configmaps wl)) = Inr yaml \<and>
    redeploy E wl p yaml (g, [], w\<lparr>w_fs := f\<rparr>) = Ret (g', [Wrap (''cannot run workload '' @ wl_name wl) e], w')"
proof -
  obtain r f where 1: "ensure_workload_dir_exists g (pod_name p) (w_fs w) = (r, f)" by (meson surj_pair)
  have nw: "\<not> pod_should_wait_for_mount (\<lambda>d. en_mounted E d w) p conf"
    using assms by (auto simp: deploy_def Let_def)
  then have r: "r = None"
    using assms 1 by (cases r) (simp_all add: deploy_def on_fs_def Let_def)
  show ?thesis
    using assms 1 r nw
    by (cases "to_pod_yaml E p (elems (wl_configmaps wl))") (auto simp: deploy_def on_fs_def Let_def split: if_splits)
qed

lemma ensure_dir:
  assumes "ensure_workload_dir_exists g name f = (None, f')" and "fs_files f (workload_dir_path g name) = None"
    and "workload_dir_path g name \<noteq> []"
  shows "workload_dir_path g name \<in> fs_dirs f' \<and> fs_files f' = fs_files f"
proof (cases "stat_ok (workload_dir_path g name) f")
  case True
  with assms show ?thesis by (simp add: ensure_workload_dir_exists_def stat_ok_def)
next
  case False
  then have m: "mkdir_all (workload_dir_path g name) f = (None, f')"
    using assms(1) by (simp add: ensure_workload_dir_exists_def)
  show ?thesis
    using mkdir_all_stat [OF m assms(3)] mkdir_all_files [OF m] assms(2) by (simp add: stat_ok_def)
qed

text \<open>C36. A failed deployment is not tried again. When the deployment of a workload fails because it cannot
  be run, its manifest and its auth file have already been stored; the next update with the same
  workload finds them unchanged, reports no error and calls nothing, so the workload stays down.\<close>

theorem failed_run_is_not_retried:
  assumes rt: "en_runtime E = wrapper_runtime K"
    and root: "mgr_workloads_dir g = CHR ''/'' # d"
    and run: "update_workload E conf wl (g, [], w) =
          Ret ((g', [Wrap (''cannot run workload '' @ wl_name wl) e], w'), wl')"
    and dir: "fs_files (w_fs w) (workload_dir_path g (wl_name wl)) = None"
      "auth_file_path g (wl_name wl) \<notin> fs_dirs (snd (ensure_workload_dir_exists g (wl_name wl) (w_fs w)))"
    and files: "\<not> own_path K w (manifest_path g (wl_name wl))" "\<not> own_path K w (auth_file_path g (wl_name wl))"
    and ready: "\<not> pod_should_wait_for_mount (\<lambda>d. en_mounted E d w') (fst (projr (to_pod E g wl))) conf"
  shows "update_workload E conf wl' (g', [], w') = Ret ((g', [], w'), wl')"
proof -
  obtain p where tp: "to_pod E g wl = Inr (p, wl')" and
    dep: "deploy E conf wl p (g, [], w) = Ret (g', [Wrap (''cannot run workload '' @ wl_name wl) e], w')"
    using run by (auto simp: update_workload_def go_bind_Ret_iff split: sum.splits)
  note names = to_pod_name [OF tp]
  obtain yaml f where f: "ensure_workload_dir_exists g (pod_name p) (w_fs w) = (None, f)" and
    y: "to_pod_yaml E p (elems (wl_configmaps wl)) = Inr yaml" and
    re: "redeploy E wl p yaml (g, [], w\<lparr>w_fs := f\<rparr>) = Ret (g', [Wrap (''cannot run workload '' @ wl_name wl) e], w')"
    using deploy_run_failed [OF dep] by blast
  let ?m = "manifest_path g (wl_name wl)" and ?a = "auth_file_path g (wl_name wl)"
  obtain f1 f2 a w3 evs where
    1: "write_file ?m yaml (w_fs (w\<lparr>w_fs := f\<rparr>)) = (None, f1)" and
    2: "manage_auth_file ?a (auth_file_of wl) f1 = (Inr a, f2)" and
    3: "rt_remove (wrapper_runtime K) (wl_name wl) ((w\<lparr>w_fs := f\<rparr>)\<lparr>w_fs := f2\<rparr>) = (None, w3)" and
    4: "rt_run (wrapper_runtime K) p ?m a (wl_annotations wl) w3 = Ret (Some e, w')" and g': "g' = g\<lparr>mgr_events := evs\<rparr>"
    using redeploy_run_failed [OF re] names rt by auto
  have frame: "frame (own_path K) ((w\<lparr>w_fs := f\<rparr>)\<lparr>w_fs := f2\<rparr>) w'"
    using wrapper.frame_remove [OF 3] wrapper.frame_run [OF 4] by (auto simp: frame_def)
  have root': "workload_dir_path g (wl_name wl) \<noteq> []"
    using path_join_rooted [OF root] unfolding workload_dir_path_def by (metis list.distinct(1))
  have in_dirs: "workload_dir_path g (wl_name wl) \<in> fs_dirs f"
    using ensure_dir [OF f] names dir root' by simp
  have no_dir: "?a \<notin> fs_dirs f"
    using f dir(2) names by simp
  have "\<not> pod_configuration_modified ?m yaml ?a (auth_file_of wl) (w_fs w') \<and> fs_dirs (w_fs w') = fs_dirs f"
    using wrapper.stored_not_modified [OF 1 2 manifest_not_auth [OF root]] no_dir files frame
    by (simp add: wrapper.own_files)
  then have "deploy E conf wl' p (g', [], w') = Ret (g', [], w')"
    using ready tp names y in_dirs g'
    by (simp add: deploy_def Let_def on_fs_def ensure_workload_dir_exists_def stat_ok_def manifest_path_def
        auth_file_path_def workload_dir_path_def)
  moreover have "to_pod E g' wl' = Inr (p, wl')"
    using tp by (rule to_pod_idem) (simp_all add: g')
  ultimately show ?thesis by (simp add: update_workload_def)
qed

definition failing_backends :: "string list backends" where
  "failing_backends = example_backends\<lparr>be_podman :=
     example_podman\<lparr>pa_play := (\<lambda>m a ns an st x. (Inl (Err ''no such image''), x))\<rparr>\<rparr>"

definition example_env :: "string list backends \<Rightarrow> string list wstate manager_env" where
  "example_env K = \<lparr>en_runtime = wrapper_runtime K,
     en_parse_spec = (\<lambda>s. Inr \<lparr>ps_containers = [], ps_volumes = [], ps_rest = s\<rparr>),
     en_pod_yaml = (\<lambda>p. Inr (pod_name p @ ps_rest (pod_spec_of p))), en_mounted = (\<lambda>d w. False)\<rparr>"

definition example_workload_manager :: workload_manager where
  "example_workload_manager = \<lparr>mgr_workloads_dir = ''/etc/worker/workloads'', mgr_volumes_dir = ''/etc/worker/volumes'',
     mgr_deregistered = False, mgr_events = [], mgr_device_id = ''dev''\<rparr>"

lemma manifest_is_no_unit: "p = q @ ''l'' \<or> p = q @ ''n'' \<Longrightarrow> p \<notin> range (unit_path (be_bus failing_backends))"
proof
  assume p: "p = q @ ''l'' \<or> p = q @ ''n''" and "p \<in> range (unit_path (be_bus failing_backends))"
  then obtain u where "p = unit_path (be_bus failing_backends) u" by blast
  moreover have "default_units_path (be_bus failing_backends) = CHR ''/'' # ''home/w/.config/systemd/user''" by code_simp
  ultimately obtain r where "p = r @ ''.service''"
    using path_join_suffix [of _ _ "''.service''" u]
    by (auto simp: unit_path_def default_service_name_def)
  then have "last p = CHR ''e''" by simp
  with p show False by auto
qed

theorem failed_run_is_not_retried_witness:
  "\<exists>g' w' wl'. update_workload (example_env failing_backends) None (example_workload ''db'') (example_workload_manager, [], example_wworld)
      = Ret ((g', [Wrap (''cannot run workload '' @ wl_name (example_workload ''db'')) (Err ''no such image'')], w'), wl') \<and>
    update_workload (example_env failing_backends) None wl' (g', [], w') = Ret ((g', [], w'), wl')"
proof -
  let ?E = "example_env failing_backends" and ?wl = "example_workload ''db''"
  let ?u = "update_workload ?E None ?wl (example_workload_manager, [], example_wworld)"
  have "case ?u of Panic \<Rightarrow> False | Ret ((g', es, w'), wl') \<Rightarrow>
      es = [Wrap (''cannot run workload '' @ wl_name ?wl) (Err ''no such image'')]"
    by code_simp
  then obtain g' w' wl' where u: "?u = Ret ((g', [Wrap (''cannot run workload '' @ wl_name ?wl) (Err ''no such image'')], w'), wl')"
    by (auto split: go.splits)
  have "update_workload ?E None wl' (g', [], w') = Ret ((g', [], w'), wl')"
  proof (rule failed_run_is_not_retried [OF _ _ u])
    show "en_runtime ?E = wrapper_runtime failing_backends" by (simp add: example_env_def)
    show "mgr_workloads_dir example_workload_manager = CHR ''/'' # ''etc/worker/workloads''" by code_simp
    show "fs_files (w_fs example_wworld) (workload_dir_path example_workload_manager (wl_name ?wl)) = None" by code_simp
    show "auth_file_path example_workload_manager (wl_name ?wl)
        \<notin> fs_dirs (snd (ensure_workload_dir_exists example_workload_manager (wl_name ?wl) (w_fs example_wworld)))"
      by code_simp
    have m: "manifest_path example_workload_manager (wl_name ?wl) = ''/etc/worker/workloads/db/workload.yam'' @ ''l''"
      and a: "auth_file_path example_workload_manager (wl_name ?wl) = ''/etc/worker/workloads/db/auth.jso'' @ ''n''"
      by code_simp+
    have "mr_file (mapping_of example_wworld) = ''/etc/worker/workload-mapping.json''"
      "sm_file (services_of example_wworld) = ''/etc/worker/services.json''" by code_simp+
    then show "\<not> own_path failing_backends example_wworld (manifest_path example_workload_manager (wl_name ?wl))"
      "\<not> own_path failing_backends example_wworld (auth_file_path example_workload_manager (wl_name ?wl))"
      using manifest_is_no_unit [OF disjI1 [OF m]] manifest_is_no_unit [OF disjI2 [OF a]]
      by (simp_all add: own_path_def m a)
  qed (simp add: pod_should_wait_for_mount_def)
  with u show ?thesis by blast
qed

text \<open>
  Two workloads whose names differ only in spaces and dashes share one directory: cleaning up the
  one that is no longer configured deletes the manifest of the other, which is then deployed again.\<close>

theorem stale_cleanup_deletes_other_manifest:
  assumes "en_runtime E = wrapper_runtime K" and "mgr_workloads_dir g = CHR ''/'' # d"
    and "spaces_to_dashes n = spaces_to_dashes n'" and "workload_dir_path g n \<noteq> ''/''"
    and "remove_stale E n (g, es, w) = (g, es, w')" and "\<not> own_path K w (manifest_path g n')"
  shows "read_file (manifest_path g n') (w_fs w') = Inl err_not_exist"
proof -
  have dir: "workload_dir_path g n' = workload_dir_path g n"
    using assms(3) by (simp add: workload_dir_path_def)
  obtain f where f: "remove_all (workload_dir_path g n) (w_fs w) = (None, f)"
    and r: "rt_remove (wrapper_runtime K) n (w\<lparr>w_fs := f\<rparr>) = (None, w')"
  proof -
    obtain r1 f1 where 1: "remove_all (workload_dir_path g n) (w_fs w) = (r1, f1)" by (meson surj_pair)
    obtain r2 w2 where 2: "rt_remove (wrapper_runtime K) n (w\<lparr>w_fs := f1\<rparr>) = (r2, w2)" by (meson surj_pair)
    have "r1 = None" "r2 = None" "w2 = w'"
      using assms(1,5) 1 2 by (cases r1; cases r2; simp add: remove_stale_def on_fs_def)+
    then show ?thesis using 1 2 that by blast
  qed
  have "manifest_path g n' = workload_dir_path g n @ ''/'' @ ''workload.yaml''"
    unfolding manifest_path_def dir
    by (rule path_join_nested [OF assms(2)]) (use assms(4) in \<open>simp_all add: workload_dir_path_def plain_component_def\<close>)
  then have "below (workload_dir_path g n) (manifest_path g n')"
    by (simp add: below_def)
  then have "read_file (manifest_path g n') f = Inl err_not_exist"
    using read_remove_all [OF f] by simp
  moreover have "frame (own_path K) (w\<lparr>w_fs := f\<rparr>) w'"
    using r by (rule wrapper.frame_remove)
  ultimately show ?thesis
    using wrapper.read_kept [of K "w\<lparr>w_fs := f\<rparr>" w'] assms(6) by (simp add: wrapper.own_files)
qed

definition two_word_world :: "string list wworld" where
  "two_word_world = example_wworld\<lparr>w_fs :=
     \<lparr>fs_files = [''/etc/worker/workloads/a-b/workload.yaml'' \<mapsto> ''kind: Pod''],
      fs_dirs = {''/etc/worker'', ''/etc/worker/workloads'', ''/etc/worker/workloads/a-b''}, fs_denied = {}\<rparr>\<rparr>"

theorem stale_cleanup_deletes_other_manifest_witness:
  "read_file (manifest_path example_workload_manager ''a-b'')
     (w_fs (snd (snd (remove_stale (example_env example_backends) ''a b'' (example_workload_manager, [], two_word_world)))))
   = Inl err_not_exist"
proof (rule stale_cleanup_deletes_other_manifest)
  let ?r = "remove_stale (example_env example_backends) ''a b'' (example_workload_manager, [], two_word_world)"
  have "fst ?r = example_workload_manager \<and> fst (snd ?r) = []" by code_simp
  then show "?r = (example_workload_manager, [], snd (snd ?r))" by (metis prod.collapse)
  show "en_runtime (example_env example_backends) = wrapper_runtime example_backends" by (simp add: example_env_def)
  show "mgr_workloads_dir example_workload_manager = CHR ''/'' # ''etc/worker/workloads''" by code_simp
  show "spaces_to_dashes ''a b'' = spaces_to_dashes ''a-b''" by code_simp
  show "workload_dir_path example_workload_manager ''a b'' \<noteq> ''/''" by code_simp
  have m: "manifest_path example_workload_manager ''a-b'' = ''/etc/worker/workloads/a-b/workload.yam'' @ ''l''"
    by code_simp
  have "mr_file (mapping_of two_word_world) = ''/etc/worker/workload-mapping.json''"
    "sm_file (services_of two_word_world) = ''/etc/worker/services.json''" by code_simp+
  moreover have "be_bus example_backends = be_bus failing_backends" by (simp add: failing_backends_def)
  ultimately show "\<not> own_path example_backends two_word_world (manifest_path example_workload_manager ''a-b'')"
    using manifest_is_no_unit [OF disjI1 [OF m]] by (simp add: own_path_def m)
qed

subsection \<open>Secrets\<close>

text \<open>
  What the worker relies on of podman's secrets: \<open>sec\<close> reads them from the state, \<open>List\<close> names them,
  and \<open>Create\<close> and \<open>Remove\<close> change the one they are given.
\<close>

definition podman_secrets :: "'x podman_api \<Rightarrow> ('x \<Rightarrow> (string \<rightharpoonup> string)) \<Rightarrow> bool" where
  "podman_secrets P sec \<longleftrightarrow>
     (\<forall>x ns x'. pa_list_secrets P x = (Inr ns, x') \<longrightarrow> sec x' = sec x \<and> set ns = dom (sec x)) \<and>
     (\<forall>n c x x'. pa_create_secret P n c x = (None, x') \<longrightarrow> sec x' = (sec x)(n \<mapsto> c)) \<and>
     (\<forall>n x x'. pa_remove_secret P n x = (None, x') \<longrightarrow> sec x' = (sec x)(n := None))"

definition secret_entries :: "secret list \<Rightarrow> (string \<times> string) list" where
  "secret_entries cs = map (\<lambda>c. (sec_name c, sec_data c)) cs"

lemma secret_entries_Cons: "m ++ map_of (rev (secret_entries (c # cs))) =
    m(sec_name c \<mapsto> sec_data c) ++ map_of (rev (secret_entries cs))"
  by (simp add: secret_entries_def)

locale secret_store =
  fixes W :: "'e runtime"
    and sec :: "'e world \<Rightarrow> (string \<rightharpoonup> string)"
    and law :: bool
  assumes list_law: "law \<Longrightarrow> rt_list_secrets W w = (Inr ns, w') \<Longrightarrow> sec w' = sec w \<and> set ns = dom (sec w)"
    and create_law: "law \<Longrightarrow> rt_create_secret W n c w = (None, w') \<Longrightarrow> sec w' = (sec w)(n \<mapsto> c)"
    and update_law: "law \<Longrightarrow> rt_update_secret W n c w = (None, w') \<Longrightarrow> sec w' = (sec w)(n \<mapsto> c)"
    and remove_law: "law \<Longrightarrow> rt_remove_secret W n w = (None, w') \<Longrightarrow> sec w' = (sec w)(n := None)"
begin

lemma put_all:
  "law \<Longrightarrow> put_secrets W cs (device, es, w) = (left, [], w') \<Longrightarrow>
   es = [] \<and> set left = set device - sec_name ` set cs \<and>
   sec w' = sec w ++ map_of (rev (secret_entries cs))"
proof (induction cs arbitrary: device es w)
  case (Cons c cs)
  show ?case
  proof (cases "sec_name c \<in> set device")
    case True
    obtain r w1 where u: "rt_update_secret W (sec_name c) (sec_data c) w = (r, w1)" by (meson surj_pair)
    with Cons.IH [of "removeAll (sec_name c) device" "append_error es r" w1] Cons.prems True
    have "append_error es r = []" "set left = set device - {sec_name c} - sec_name ` set cs"
      "sec w' = sec w1 ++ map_of (rev (secret_entries cs))" by auto
    moreover from this have "r = None" "es = []" by (simp_all add: append_error_def)
    ultimately show ?thesis using u update_law [OF Cons.prems(1)] by (auto simp: secret_entries_Cons)
  next
    case False
    obtain r w1 where u: "rt_create_secret W (sec_name c) (sec_data c) w = (r, w1)" by (meson surj_pair)
    with Cons.IH [of device "append_error es r" w1] Cons.prems False
    have "append_error es r = []" "set left = set device - sec_name ` set cs"
      "sec w' = sec w1 ++ map_of (rev (secret_entries cs))" by auto
    moreover from this have "r = None" "es = []" by (simp_all add: append_error_def)
    ultimately show ?thesis using u create_law [OF Cons.prems(1)] False by (auto simp: secret_entries_Cons)
  qed
qed (simp add: secret_entries_def)

lemma drop_all:
  "law \<Longrightarrow> drop_secrets W ns (es, w) = ([], w') \<Longrightarrow> es = [] \<and> sec w' = (\<lambda>k. if k \<in> set ns then None else sec w k)"
proof (induction ns arbitrary: es w)
  case (Cons n ns)
  obtain r w1 where u: "rt_remove_secret W n w = (r, w1)" by (meson surj_pair)
  with Cons.IH [of "append_error es r" w1] Cons.prems
  have "append_error es r = []" "sec w' = (\<lambda>k. if k \<in> set ns then None else sec w1 k)" by auto
  moreover from this have "r = None" "es = []" by (simp_all add: append_error_def)
  ultimately show ?case using u remove_law [OF Cons.prems(1)] by (auto simp: fun_eq_iff)
qed simp

lemma synchronized:
  assumes law and "update_secrets W cs w = ([], w')"
  shows "sec w' = map_of (rev (secret_entries cs))"
proof -
  obtain device w1 where 1: "rt_list_secrets W w = (Inr device, w1)"
    using assms(2) by (auto simp: update_secrets_def split: prod.splits sum.splits)
  obtain left es w2 where 2: "put_secrets W cs (device, [], w1) = (left, es, w2)" by (metis surj_pair)
  have 3: "drop_secrets W left (es, w2) = ([], w')"
    using assms(2) 1 2 by (simp add: update_secrets_def)
  note d = drop_all [OF assms(1) 3]
  then have p: "set left = set device - sec_name ` set cs"
      "sec w2 = sec w1 ++ map_of (rev (secret_entries cs))"
    using put_all [OF assms(1)] 2 by blast+
  let ?m = "map_of (rev (secret_entries cs))"
  have dom: "?m k = None \<longleftrightarrow> k \<notin> sec_name ` set cs" for k
    by (simp add: map_of_eq_None_iff secret_entries_def image_image)
  show ?thesis
  proof (rule ext)
    fix k
    have "set device = dom (sec w1)" using list_law [OF assms(1) 1] by auto
    then show "sec w' k = ?m k"
      using d p dom [of k] by (cases "?m k") (simp_all add: map_add_def domIff split: option.splits)
  qed
qed

end

interpretation device_secrets: secret_store "wrapper_runtime K" "\<lambda>w. sec (ws_ext (w_ext w))" "podman_secrets (be_podman K) sec"
  for K :: "'x backends" and sec :: "'x \<Rightarrow> (string \<rightharpoonup> string)"
proof (unfold_locales, goal_cases)
  case (1 w ns w')
  then obtain ms where ms: "pa_list_secrets (be_podman K) (ws_ext (w_ext w)) = (Inr ms, ws_ext (w_ext w'))" "set ns = set ms"
    by (auto simp: wrapper_runtime_def wrapper_list_secrets_def at_ext_def list_secrets_def split: prod.splits sum.splits)
  with 1(1) show ?case unfolding podman_secrets_def by metis
next
  case (2 n c w w')
  then show ?case
    by (auto simp: wrapper_runtime_def wrapper_create_secret_def at_ext_def create_secret_def podman_secrets_def split: prod.splits)
next
  case (3 n c w w')
  then obtain x where "pa_remove_secret (be_podman K) n (ws_ext (w_ext w)) = (None, x)"
      "pa_create_secret (be_podman K) n c x = (None, ws_ext (w_ext w'))"
    by (auto simp: wrapper_runtime_def wrapper_update_secret_def at_ext_def update_secret_def create_secret_def
        remove_secret_def then_ok_None_iff split: prod.splits)
  then show ?case using 3(1) unfolding podman_secrets_def by (metis fun_upd_upd)
next
  case (4 n w w')
  then show ?case
    by (auto simp: wrapper_runtime_def wrapper_remove_secret_def at_ext_def remove_secret_def podman_secrets_def split: prod.splits)
qed

text \<open>C15. When the secrets of a configuration are synchronized without an error, the device has exactly the
  secrets of the configuration with their contents (the last one where a name is repeated), whatever
  it had before.\<close>

theorem update_secrets_synchronizes:
  assumes "podman_secrets (be_podman K) sec" and "update_secrets (wrapper_runtime K) cs w = ([], w')"
  shows "sec (ws_ext (w_ext w')) = map_of (rev (secret_entries cs))"
  using assms by (rule device_secrets.synchronized)

text \<open>A podman whose state is its secrets.\<close>

definition secrets_podman :: "(string \<times> string) list podman_api" where
  "secrets_podman = \<lparr>pa_connect = (\<lambda>a. ok), pa_version = (\<lambda>x. (Inr ''4.2.0'', x)), pa_parse_version = (\<lambda>v. Some (4, 2)),
     pa_list = (\<lambda>x. (Inr [], x)), pa_exists = (\<lambda>i x. (Inr False, x)), pa_remove = (\<lambda>i. ok),
     pa_inspect_container = (\<lambda>c x. (Inl (Err c), x)), pa_inspect_pod = (\<lambda>i x. (Inr (i, []), x)),
     pa_stop = (\<lambda>t i. ok), pa_start = (\<lambda>i. ok), pa_play = (\<lambda>m a ns an st x. (Inr [], x)),
     pa_list_secrets = (\<lambda>x. (Inr (map fst x), x)),
     pa_remove_secret = (\<lambda>n x. (None, AList.delete n x)),
     pa_create_secret = (\<lambda>n c x. if map_of x n = None then (None, AList.update n c x) else (Some (Err ''name in use''), x)),
     pa_generate_systemd = (\<lambda>n i x. (Inr [], x))\<rparr>"

definition secrets_backends :: "(string \<times> string) list backends" where
  "secrets_backends = \<lparr>be_podman = secrets_podman, be_nft = (\<lambda>args x. (None, x)), be_bus = succeeding_bus,
     be_mapping_json = example_mapping_codec, be_services_json = example_services_codec, be_interval = 15\<rparr>"

definition secrets_world :: "(string \<times> string) list wworld" where
  "secrets_world = \<lparr>w_fs = fs_with_dirs {}, w_ext = \<lparr>ws_mapping = example_mapping, ws_services = example_manager,
     ws_events = [], ws_ext = [(''old'', ''1''), (''token'', ''2'')]\<rparr>\<rparr>"

theorem update_secrets_synchronizes_witness:
  "map_of (ws_ext (w_ext (snd (update_secrets (wrapper_runtime secrets_backends)
       [\<lparr>sec_data = ''3'', sec_name = ''token''\<rparr>, \<lparr>sec_data = ''4'', sec_name = ''new''\<rparr>] secrets_world)))) =
   map_of (rev (secret_entries [\<lparr>sec_data = ''3'', sec_name = ''token''\<rparr>, \<lparr>sec_data = ''4'', sec_name = ''new''\<rparr>]))"
proof (rule update_secrets_synchronizes)
  let ?u = "update_secrets (wrapper_runtime secrets_backends)
       [\<lparr>sec_data = ''3'', sec_name = ''token''\<rparr>, \<lparr>sec_data = ''4'', sec_name = ''new''\<rparr>] secrets_world"
  show "podman_secrets (be_podman secrets_backends) map_of"
    by (auto simp: podman_secrets_def secrets_backends_def secrets_podman_def dom_map_of_conv_image_fst split: if_splits)
  have "fst ?u = []" by code_simp
  then show "?u = ([], snd ?u)" by (metis prod.collapse)
qed

end
