(* ===== verification/Metrics_Store.thy ===== *)
theory Metrics_Store
  imports Models File_System
begin

text \<open>
  \<open>internal/metrics/metrics.go\<close>: the time series database of the worker. The library
  \<open>prometheus/tsdb\<close> is the record \<open>tsdb_lib\<close> on an external state. A \<open>time.Time\<close> is its number of
  nanoseconds since 1970; a \<open>float64\<close> is kept as its 64 bits; a label set is an association list.
\<close>

subsection \<open>Times\<close>

type_synonym gotime = int

definition int64 :: "int \<Rightarrow> int" where
  "int64 i = sint (word_of_int i :: 64 word)"

text \<open>Division and remainder of Go: towards zero.\<close>

definition go_quot :: "int \<Rightarrow> int \<Rightarrow> int" where
  "go_quot a b = sgn a * sgn b * (\<bar>a\<bar> div \<bar>b\<bar>)"

definition go_rem :: "int \<Rightarrow> int \<Rightarrow> int" where
  "go_rem a b = a - go_quot a b * b"

text \<open>\<open>time.Time{}\<close>: the first of January of the year 1.\<close>

definition zero_time :: gotime where
  "zero_time = - 62135596800000000000"

definition nanos_per_milli :: int where
  "nanos_per_milli = 1000000"

definition to_db_time :: "gotime \<Rightarrow> int" where
  "to_db_time t = go_quot (int64 t) nanos_per_milli"

definition min_int64 :: int where
  "min_int64 = - (2 ^ 63)"

definition max_int64 :: int where
  "max_int64 = 2 ^ 63 - 1"

definition from_db_time :: "int \<Rightarrow> gotime" where
  "from_db_time t =
     (if t = 0 \<or> t = min_int64 \<or> t = max_int64 then zero_time
      else go_quot t 1000 * 1000000000 + go_rem t 1000 * nanos_per_milli)"

lemma int64_id: "min_int64 \<le> i \<Longrightarrow> i \<le> max_int64 \<Longrightarrow> int64 i = i"
  by (simp add: int64_def min_int64_def max_int64_def signed_of_int signed_take_bit_int_eq_self)

lemma go_quot_mult: "b \<noteq> 0 \<Longrightarrow> go_quot (a * b) b = a"
proof -
  assume b: "b \<noteq> 0"
  have "go_quot (a * b) b = sgn a * (sgn b * sgn b) * \<bar>a\<bar>"
    using b by (simp add: go_quot_def abs_mult sgn_mult)
  also have "sgn b * sgn b = 1" using b by (simp add: sgn_if)
  also have "sgn a * 1 * \<bar>a\<bar> = a" by (simp add: sgn_mult_abs)
  finally show ?thesis .
qed

lemma from_db_time_nanos:
  "t \<notin> {0, min_int64, max_int64} \<Longrightarrow> from_db_time t = t * nanos_per_milli"
  by (simp add: from_db_time_def go_rem_def nanos_per_milli_def algebra_simps)

subsection \<open>Series\<close>

type_synonym label_set = "(string \<times> string) list"

record data_point =
  dp_time :: int
  dp_value :: "64 word"

record series =
  se_labels :: label_set
  se_points :: "data_point list"

record sample =
  sm_metric :: label_set
  sm_value :: "64 word"

text \<open>The labels of a metric are written over the given ones.\<close>

definition merge_labels :: "label_set \<Rightarrow> label_set \<Rightarrow> label_set" where
  "merge_labels metric ls =
     fold (\<lambda>(k, v) m. AList.update k v m) metric (fold (\<lambda>(k, v) m. AList.update k v m) ls [])"

text \<open>What an iterated series set of the library gives: the labels and the points of each series.\<close>

definition to_series :: "(label_set \<times> (int \<times> 64 word) list) list \<Rightarrow> series list" where
  "to_series = map (\<lambda>(ls, ps).
     \<lparr>se_labels = fold (\<lambda>(k, v) m. AList.update k v m) ls [],
      se_points = map (\<lambda>(t, v). \<lparr>dp_time = t, dp_value = v\<rparr>) ps\<rparr>)"

subsection \<open>The store\<close>

record 'x tsdb_lib =
  tl_open :: "string \<Rightarrow> int \<Rightarrow> int \<Rightarrow> 'x proc"   \<comment> \<open>directory, retention and size limit\<close>
  tl_close :: "'x proc"
  tl_append :: "label_set \<Rightarrow> int \<Rightarrow> 64 word \<Rightarrow> 'x proc"
  tl_rollback :: "'x proc"
  tl_commit :: "'x proc"
  tl_querier :: "int \<Rightarrow> int \<Rightarrow> 'x proc"
  tl_close_querier :: "'x \<Rightarrow> 'x"
  tl_label_names :: "('x, string list) op"
  tl_select :: "bool \<Rightarrow> (string \<times> string) list \<Rightarrow> ('x, (label_set \<times> (int \<times> 64 word) list) list) op"
  tl_start_time :: "('x, int) op"
  tl_head_min :: "'x \<Rightarrow> int"
  tl_head_max :: "'x \<Rightarrow> int"
  tl_blocks :: "'x \<Rightarrow> (int \<times> int) list"
  tl_now :: "'x \<Rightarrow> gotime"

record tsdb =
  td_dir :: string
  td_retention :: int
  td_max_bytes :: int

definition millis_in_hour :: int where
  "millis_in_hour = 60 * 60 * 1000"

definition default_retention_duration :: int where
  "default_retention_duration = 7 * 24 * millis_in_hour"

definition default_max_bytes :: int where
  "default_max_bytes = 0"

definition new_tsdb :: "'x tsdb_lib \<Rightarrow> string \<Rightarrow> ('x world, tsdb) op" where
  "new_tsdb L dataDir w =
     (let dir = path_join [dataDir, ''metrics''] in
      case on_fs (mkdir_all dir) w of
        (Some e, w1) \<Rightarrow> (Inl (Wrap ''cannot create directory'' e), w1)
      | (None, w1) \<Rightarrow>
          (case on_ext (tl_open L dir default_retention_duration default_max_bytes) w1 of
             (Some e, w2) \<Rightarrow> (Inl e, w2)
           | (None, w2) \<Rightarrow>
               (Inr \<lparr>td_dir = dir, td_retention = default_retention_duration, td_max_bytes = default_max_bytes\<rparr>, w2)))"

definition tsdb_close :: "'x tsdb_lib \<Rightarrow> 'x world proc" where
  "tsdb_close L = on_ext (tl_close L)"

definition tsdb_deregister :: "'x tsdb_lib \<Rightarrow> tsdb \<Rightarrow> 'x world proc" where
  "tsdb_deregister L t = then_ok (tsdb_close L) (on_fs (remove_all (td_dir t)))"

text \<open>A matcher of a label's value, a regular expression, for every label the store knows.\<close>

definition get_all_labels_matchers :: "'x tsdb_lib \<Rightarrow> ('x, (string \<times> string) list) op" where
  "get_all_labels_matchers L x =
     (case tl_label_names L x of
        (Inl e, x') \<Rightarrow> (Inl e, x')
      | (Inr names, x') \<Rightarrow> (Inr (map (\<lambda>n. (n, ''.*'')) names), x'))"

definition get_metrics_for_time_range ::
  "'x tsdb_lib \<Rightarrow> gotime \<Rightarrow> gotime \<Rightarrow> bool \<Rightarrow> ('x, series list) op" where
  "get_metrics_for_time_range L tMin tMax ordered x =
     (case tl_querier L (to_db_time tMin) (to_db_time tMax) x of
        (Some e, x1) \<Rightarrow> (Inl e, x1)
      | (None, x1) \<Rightarrow>
          (case get_all_labels_matchers L x1 of
             (Inl e, x2) \<Rightarrow> (Inl e, tl_close_querier L x2)
           | (Inr matchers, x2) \<Rightarrow>
               (case tl_select L ordered matchers x2 of
                  (Inl e, x3) \<Rightarrow> (Inl e, tl_close_querier L x3)
                | (Inr ss, x3) \<Rightarrow> (Inr (to_series ss), tl_close_querier L x3))))"

text \<open>A failed append is rolled back; the error of the rollback is only logged.\<close>

definition add_metric :: "'x tsdb_lib \<Rightarrow> 64 word \<Rightarrow> label_set \<Rightarrow> 'x proc" where
  "add_metric L v ls x =
     (case tl_append L ls (to_db_time (tl_now L x)) v x of
        (Some e, x1) \<Rightarrow> (Some e, snd (tl_rollback L x1))
      | (None, x1) \<Rightarrow> tl_commit L x1)"

fun add_samples :: "'x tsdb_lib \<Rightarrow> sample list \<Rightarrow> label_set \<Rightarrow> merr \<times> 'x \<Rightarrow> merr \<times> 'x" where
  "add_samples L [] ls s = s"
| "add_samples L (m # ms) ls (es, x) =
     (case add_metric L (sm_value m) (merge_labels (sm_metric m) ls) x of
        (r, x') \<Rightarrow> add_samples L ms ls (append_err es (\<lambda>e. e) r, x'))"

definition add_vector :: "'x tsdb_lib \<Rightarrow> sample list \<Rightarrow> label_set \<Rightarrow> 'x proc" where
  "add_vector L ms ls x = (case add_samples L ms ls ([], x) of (es, x') \<Rightarrow> (merr_result es, x'))"

text \<open>The products are of type \<open>int64\<close>.\<close>

definition max_bytes_of :: "metrics_retention \<Rightarrow> int" where
  "max_bytes_of r = int64 (int64 (sint (ret_max_mib r) * 1024) * 1024)"

definition retention_of :: "metrics_retention \<Rightarrow> int" where
  "retention_of r = int64 (sint (ret_max_hours r) * millis_in_hour)"

definition expected_limits :: "metrics_configuration option \<Rightarrow> int \<times> int" where
  "expected_limits mc =
     (case mc of
        None \<Rightarrow> (default_max_bytes, default_retention_duration)
      | Some m \<Rightarrow>
          (case mc_retention m of
             None \<Rightarrow> (default_max_bytes, default_retention_duration)
           | Some r \<Rightarrow> (max_bytes_of r, retention_of r)))"

text \<open>The options are written before the database is opened again.\<close>

definition tsdb_update :: "'x tsdb_lib \<Rightarrow> config_message \<Rightarrow> tsdb \<times> 'x \<Rightarrow> (gerror option \<times> tsdb \<times> 'x) go" where
  "tsdb_update L msg = (\<lambda>(t, x).
     go_bind (deref (msg_configuration msg)) (\<lambda>c.
       case expected_limits (cfg_metrics c) of (bytes, duration) \<Rightarrow>
         if duration = td_retention t \<and> bytes = td_max_bytes t then Ret (None, t, x)
         else case tl_close L x of
           (Some e, x1) \<Rightarrow> Ret (Some e, t, x1)
         | (None, x1) \<Rightarrow>
             (let t' = t\<lparr>td_max_bytes := bytes, td_retention := duration\<rparr> in
              case tl_open L (td_dir t) duration bytes x1 of (r, x2) \<Rightarrow> Ret (r, t', x2))))"

definition tsdb_init :: "'x tsdb_lib \<Rightarrow> config_message \<Rightarrow> tsdb \<times> 'x \<Rightarrow> (gerror option \<times> tsdb \<times> 'x) go" where
  "tsdb_init = tsdb_update"

definition min_time :: "'x tsdb_lib \<Rightarrow> ('x, gotime) op" where
  "min_time L x = (case tl_start_time L x of (Inl e, x') \<Rightarrow> (Inl e, x') | (Inr t, x') \<Rightarrow> (Inr (from_db_time t), x'))"

definition max_time :: "'x tsdb_lib \<Rightarrow> 'x \<Rightarrow> gotime" where
  "max_time L x = from_db_time (tl_head_max L x)"

definition head_min_time :: "'x tsdb_lib \<Rightarrow> 'x \<Rightarrow> gotime" where
  "head_min_time L x = from_db_time (tl_head_min L x)"

definition tsdb_blocks :: "'x tsdb_lib \<Rightarrow> 'x \<Rightarrow> (gotime \<times> gotime) list" where
  "tsdb_blocks L x = map (map_prod from_db_time from_db_time) (tl_blocks L x)"

subsection \<open>Properties\<close>

lemma map_of_merge_labels: "map_of (merge_labels metric ls) = map_of (rev ls) ++ map_of (rev metric)"
proof -
  have "map_of (fold (\<lambda>(k, v) m. AList.update k v m) xs m0) = map_of m0 ++ map_of (rev xs)" for xs :: label_set and m0
    by (induction xs arbitrary: m0) auto
  then show ?thesis by (simp add: merge_labels_def)
qed

text \<open>
  Converting a time of the database and back gives the same millisecond, for every time whose
  nanoseconds fit into 64 bits and which is not one of the three values that stand for no time.\<close>

theorem db_time_roundtrip:
  assumes "t \<notin> {0, min_int64, max_int64}" and "min_int64 \<le> t * nanos_per_milli" and "t * nanos_per_milli \<le> max_int64"
  shows "to_db_time (from_db_time t) = t"
proof -
  have "int64 (from_db_time t) = t * nanos_per_milli"
    using assms by (simp add: from_db_time_nanos int64_id)
  then show ?thesis by (simp add: to_db_time_def go_quot_mult nanos_per_milli_def)
qed

theorem db_time_roundtrip_witness: "to_db_time (from_db_time (- 1500)) = - 1500"
  by (rule db_time_roundtrip) (simp_all add: min_int64_def max_int64_def nanos_per_milli_def)

text \<open>C37. The limits are computed without overflow: whatever the 32-bit values of a configuration, they are
  the exact number of bytes and of milliseconds.\<close>

theorem retention_limits_exact:
  "max_bytes_of r = sint (ret_max_mib r) * 1048576 \<and> retention_of r = sint (ret_max_hours r) * 3600000"
proof -
  have "- (2 ^ 31) \<le> sint w \<and> sint w < 2 ^ 31" for w :: "32 word"
    using sint_greater_eq [of w] sint_lt [of w] by simp
  from this [of "ret_max_mib r"] this [of "ret_max_hours r"] show ?thesis
    by (simp add: max_bytes_of_def retention_of_def millis_in_hour_def int64_id min_int64_def max_int64_def)
qed

text \<open>
  When the database was closed for new limits and cannot be opened again, the new limits are already
  recorded: a further update with the same configuration succeeds without opening it, so the store
  stays closed.\<close>

theorem failed_reopen_is_not_retried:
  assumes "tsdb_update L msg (t, x) = Ret (Some e, t', x')" and "t' \<noteq> t"
  shows "tsdb_update L msg (t', y) = Ret (None, t', y)"
proof -
  obtain c where c: "msg_configuration msg = Some c"
    using assms(1) by (cases "msg_configuration msg") (auto simp: tsdb_update_def)
  obtain b d where l: "expected_limits (cfg_metrics c) = (b, d)" by (meson surj_pair)
  have "t' = t\<lparr>td_max_bytes := b, td_retention := d\<rparr>"
    using assms c l by (auto simp: tsdb_update_def Let_def split: if_splits prod.splits option.splits)
  then show ?thesis using c l by (simp add: tsdb_update_def)
qed

definition broken_tsdb :: "unit tsdb_lib" where
  "broken_tsdb =
     \<lparr>tl_open = (\<lambda>d r b x. (Some (Err ''lock held''), x)), tl_close = ok, tl_append = (\<lambda>ls t v. ok),
      tl_rollback = ok, tl_commit = ok, tl_querier = (\<lambda>a b. ok), tl_close_querier = (\<lambda>x. x),
      tl_label_names = (\<lambda>x. (Inr [], x)), tl_select = (\<lambda>s ns x. (Inr [], x)), tl_start_time = (\<lambda>x. (Inr 0, x)),
      tl_head_min = (\<lambda>x. 0), tl_head_max = (\<lambda>x. 0), tl_blocks = (\<lambda>x. []), tl_now = (\<lambda>x. 0)\<rparr>"

definition retention_message :: config_message where
  "retention_message = message_with (empty_device_configuration\<lparr>cfg_metrics :=
     Some \<lparr>mc_data_transfer = None, mc_receiver = None, mc_retention = Some \<lparr>ret_max_hours = 1, ret_max_mib = 2\<rparr>,
           mc_system = None\<rparr>\<rparr>)"

definition example_tsdb :: tsdb where
  "example_tsdb = \<lparr>td_dir = ''/data/metrics'', td_retention = default_retention_duration, td_max_bytes = 0\<rparr>"

theorem failed_reopen_is_not_retried_witness:
  "tsdb_update broken_tsdb retention_message (example_tsdb\<lparr>td_max_bytes := 2097152, td_retention := 3600000\<rparr>, ()) =
     Ret (None, example_tsdb\<lparr>td_max_bytes := 2097152, td_retention := 3600000\<rparr>, ())"
proof (rule failed_reopen_is_not_retried)
  show "tsdb_update broken_tsdb retention_message (example_tsdb, ()) =
      Ret (Some (Err ''lock held''), example_tsdb\<lparr>td_max_bytes := 2097152, td_retention := 3600000\<rparr>, ())"
    by code_simp
  show "example_tsdb\<lparr>td_max_bytes := 2097152, td_retention := 3600000\<rparr> \<noteq> example_tsdb"
    by (simp add: example_tsdb_def)
qed

end
