(* ===== verification/Remote_Write.thy ===== *)
theory Remote_Write
  imports Metrics_Store
begin

text \<open>
  \<open>internal/metrics/remote_write.go\<close>: sending the stored metrics to a remote receiver. The store
  (interface \<open>API\<close>) is the record \<open>metrics_api\<close>, the HTTP client of \<open>prometheus/storage/remote\<close>
  with \<open>prompb\<close> and \<open>snappy\<close> the record \<open>remote_lib\<close>; both act on an external state \<open>'x\<close>.

  Two loops need not end: filling requests with a limit of zero samples, and writing while new samples
  keep arriving. They have a fuel argument and return \<open>None\<close> when it is used up.
\<close>

subsection \<open>Filling the requests\<close>

text \<open>A request is a list of series; \<open>range_state\<close> holds the variables of the loop of \<open>writeRange\<close>.\<close>

record range_state =
  rs_index :: nat            \<comment> \<open>\<open>i\<close>\<close>
  rs_sample :: int           \<comment> \<open>\<open>sampleIndex\<close>\<close>
  rs_count :: int            \<comment> \<open>\<open>numSamples\<close>\<close>
  rs_request :: "series list"

definition go_slice :: "'a list \<Rightarrow> int \<Rightarrow> int \<Rightarrow> 'a list go" where
  "go_slice xs a b =
     (if 0 \<le> a \<and> a \<le> b \<and> b \<le> int (length xs) then Ret (take (nat (b - a)) (drop (nat a) xs)) else Panic)"

text \<open>\<open>currReqSeries.DataPoints = append(currReqSeries.DataPoints, samples...)\<close> on the last series.\<close>

definition append_to_last :: "data_point list \<Rightarrow> series list \<Rightarrow> series list" where
  "append_to_last ps ss =
     (case rev ss of
        [] \<Rightarrow> []
      | s # rest \<Rightarrow> rev rest @ [s\<lparr>se_points := se_points s @ ps\<rparr>])"

text \<open>The part of an iteration that copies samples of the current series into the request.\<close>

definition take_samples :: "series \<Rightarrow> int \<Rightarrow> range_state \<Rightarrow> range_state go" where
  "take_samples cur limit s =
     (let len = int (length (se_points cur)) in
      if len = 0 then Ret s
      else
        let request = (if rs_sample s = 0 \<or> rs_request s = []
                       then rs_request s @ [\<lparr>se_labels = se_labels cur, se_points = []\<rparr>] else rs_request s);
            missing = limit - rs_count s;
            remainder = len - rs_sample s;
            use = (if missing > remainder then remainder else missing)
        in go_bind (go_slice (se_points cur) (rs_sample s) (rs_sample s + use)) (\<lambda>ps.
             Ret (s\<lparr>rs_sample := rs_sample s + use, rs_count := rs_count s + use,
                    rs_request := append_to_last ps request\<rparr>)))"

definition next_series :: "series \<Rightarrow> range_state \<Rightarrow> range_state" where
  "next_series cur s =
     (if rs_sample s = int (length (se_points cur)) then s\<lparr>rs_index := Suc (rs_index s), rs_sample := 0\<rparr> else s)"

text \<open>The loop; \<open>send\<close> is \<open>writeRequest\<close>. The result is False when a request could not be sent.\<close>

fun range_loop ::
  "nat \<Rightarrow> series list \<Rightarrow> int \<Rightarrow> (series list \<Rightarrow> 'x \<Rightarrow> bool \<times> 'x) \<Rightarrow> range_state \<Rightarrow> 'x \<Rightarrow> (bool \<times> 'x) option go" where
  "range_loop 0 ss limit send s x = Ret None"
| "range_loop (Suc n) ss limit send s x =
     (if rs_index s < length ss then
        let cur = ss ! rs_index s in
        go_bind (take_samples cur limit s) (\<lambda>s1.
          let s2 = next_series cur s1 in
          if rs_count s2 \<noteq> limit \<and> rs_index s2 < length ss then range_loop n ss limit send s2 x
          else case send (rs_request s2) x of
            (False, x') \<Rightarrow> Ret (Some (False, x'))
          | (True, x') \<Rightarrow> range_loop n ss limit send (s2\<lparr>rs_count := 0, rs_request := []\<rparr>) x')
      else Ret (Some (True, x)))"

definition range_start :: range_state where
  "range_start = \<lparr>rs_index = 0, rs_sample = 0, rs_count = 0, rs_request = []\<rparr>"

definition write_range ::
  "nat \<Rightarrow> series list \<Rightarrow> int \<Rightarrow> (series list \<Rightarrow> 'x \<Rightarrow> bool \<times> 'x) \<Rightarrow> 'x \<Rightarrow> (bool \<times> 'x) option go" where
  "write_range fuel ss limit send x = range_loop fuel ss limit send range_start x"

subsection \<open>Sending one request\<close>

text \<open>
  \<open>toTimeSeries\<close> copies the series and finds the lowest and highest time, the latter starting from
  zero. \<open>prompb\<close>'s types have the fields of ours.
\<close>

fun time_bounds :: "data_point list \<Rightarrow> int \<times> int \<Rightarrow> int \<times> int" where
  "time_bounds [] b = b"
| "time_bounds (p # ps) (lo, hi) =
     time_bounds ps (if dp_time p < lo then dp_time p else lo, if dp_time p > hi then dp_time p else hi)"

definition to_time_series :: "series list \<Rightarrow> series list \<times> gotime \<times> gotime" where
  "to_time_series ss =
     (case time_bounds (concat (map se_points ss)) (max_int64, 0) of
        (lo, hi) \<Rightarrow> (ss, from_db_time lo, from_db_time hi))"

datatype write_error = Recoverable gerror | Unrecoverable gerror

record 'x remote_lib =
  rl_marshal :: "series list \<Rightarrow> gerror + string"   \<comment> \<open>\<open>prompb\<close> and \<open>snappy\<close>\<close>
  rl_write :: "string \<Rightarrow> 'x \<Rightarrow> write_error option \<times> 'x"
  rl_sleep :: "'x \<Rightarrow> 'x"

definition num_tries :: nat where
  "num_tries = 3"

text \<open>The loop over the tries, from the current one on.\<close>

function try_write :: "'x remote_lib \<Rightarrow> string \<Rightarrow> nat \<Rightarrow> 'x \<Rightarrow> bool \<times> 'x" where
  "try_write L req try x =
     (if try \<le> num_tries then
        (case rl_write L req x of
           (None, x') \<Rightarrow> (True, x')
         | (Some (Recoverable e), x') \<Rightarrow>
             (if try = num_tries then (False, x') else try_write L req (Suc try) (rl_sleep L x'))
         | (Some (Unrecoverable e), x') \<Rightarrow> (True, x'))
      else (True, x))"
  by pat_completeness auto
termination
  by (relation "measure (\<lambda>(L, req, try, x). Suc num_tries - try)") auto

declare try_write.simps [simp del]

definition write_request :: "'x remote_lib \<Rightarrow> series list \<Rightarrow> 'x \<Rightarrow> bool \<times> 'x" where
  "write_request L ss x =
     (case rl_marshal L (fst (to_time_series ss)) of
        Inl e \<Rightarrow> (False, x)
      | Inr req \<Rightarrow> try_write L req 1 x)"

subsection \<open>Writing the ranges\<close>

record 'x metrics_api =
  ma_max_time :: "'x \<Rightarrow> gotime"
  ma_min_time :: "'x \<Rightarrow> gerror + gotime"
  ma_head_min_time :: "'x \<Rightarrow> gotime"
  ma_blocks :: "'x \<Rightarrow> (gotime \<times> gotime) list"
  ma_read :: "gotime \<Rightarrow> gotime \<Rightarrow> bool \<Rightarrow> 'x \<Rightarrow> gerror + series list"

record remote_write =
  rw_device_id :: string
  rw_config :: "metrics_receiver option"
  rw_last_write :: gotime
  rw_last_write_file :: string
  rw_range_duration :: int
  rw_enabled :: bool           \<comment> \<open>\<open>client\<close> is not nil\<close>
  rw_running :: bool
  rw_data_dir :: string
  rw_ca_file :: string

definition millisecond :: int where
  "millisecond = nanos_per_milli"

definition default_range_duration :: int where
  "default_range_duration = 3600000 * millisecond"

definition device_label :: string where
  "device_label = ''edgedeviceid''"

text \<open>\<open>skipEmptyRanges\<close>: the first block that does not end before the time.\<close>

fun skip_blocks :: "gotime \<Rightarrow> (gotime \<times> gotime) list \<Rightarrow> gotime" where
  "skip_blocks t [] = zero_time"
| "skip_blocks t ((lo, hi) # bs) =
     (if t - hi > 0 then skip_blocks t bs
      else if t - lo < 0 then lo else t)"

definition skip_empty_ranges :: "'x metrics_api \<Rightarrow> gotime \<Rightarrow> 'x \<Rightarrow> gotime" where
  "skip_empty_ranges A t x =
     (let result = skip_blocks t (ma_blocks A x) in
      if result = zero_time then
        (let head = ma_head_min_time A x in if t - head > 0 then t else head)
      else result)"

definition range_of ::
  "'x metrics_api \<Rightarrow> remote_write \<Rightarrow> bool \<Rightarrow> gotime \<Rightarrow> gotime \<Rightarrow> 'x \<Rightarrow> gotime \<times> gotime" where
  "range_of A r hadEmptyRange minT maxT x =
     (let start0 = rw_last_write r + millisecond;
          start = (if hadEmptyRange then skip_empty_ranges A start0 x
                   else if start0 - minT < 0 then minT else start0);
          stop = start + rw_range_duration r
      in (start, if stop - maxT > 0 then maxT else stop))"

definition add_device_label :: "string \<Rightarrow> series \<Rightarrow> series" where
  "add_device_label device s = s\<lparr>se_labels := AList.update device_label device (se_labels s)\<rparr>"

text \<open>The outcome of one iteration of \<open>Write\<close>: it ends the call, or the loop goes on.\<close>

datatype 's turn = Stop 's | Go_On bool 's

text \<open>\<open>show_time\<close> is \<open>strconv.AppendInt\<close> of \<open>UnixNano\<close>; an error writing the file is only logged.\<close>

definition write_turn ::
  "'x metrics_api \<Rightarrow> 'x remote_lib \<Rightarrow> (int \<Rightarrow> string) \<Rightarrow> nat \<Rightarrow> int \<Rightarrow> bool \<Rightarrow> remote_write \<times> 'x world \<Rightarrow>
   (remote_write \<times> 'x world) turn option go" where
  "write_turn A L show_time fuel limit hadEmptyRange = (\<lambda>(r, w).
     case ma_min_time A (w_ext w) of
       Inl e \<Rightarrow> Ret (Some (Stop (r, w)))
     | Inr minT \<Rightarrow>
         (case range_of A r hadEmptyRange minT (ma_max_time A (w_ext w)) (w_ext w) of (start, stop) \<Rightarrow>
           (case ma_read A start stop True (w_ext w) of
              Inl e \<Rightarrow> Ret (Some (Stop (r, w)))
            | Inr ss \<Rightarrow>
                (let advance = (\<lambda>w1. (r\<lparr>rw_last_write := stop\<rparr>,
                       snd (on_fs (write_file (rw_last_write_file r) (show_time stop)) w1))) in
                 if ss = [] then Ret (Some (Go_On True (advance w)))
                 else go_bind (write_range fuel (map (add_device_label (rw_device_id r)) ss) limit
                                 (write_request L) (w_ext w)) (\<lambda>res.
                   case res of
                     None \<Rightarrow> Ret None
                   | Some (False, x) \<Rightarrow> Ret (Some (Stop (r, w\<lparr>w_ext := x\<rparr>)))
                   | Some (True, x) \<Rightarrow> Ret (Some (Go_On False (advance (w\<lparr>w_ext := x\<rparr>)))))))))"

fun write_loop ::
  "nat \<Rightarrow> 'x metrics_api \<Rightarrow> 'x remote_lib \<Rightarrow> (int \<Rightarrow> string) \<Rightarrow> nat \<Rightarrow> int \<Rightarrow> bool \<Rightarrow> remote_write \<times> 'x world \<Rightarrow>
   (remote_write \<times> 'x world) option go" where
  "write_loop 0 A L sh fuel limit e s = Ret None"
| "write_loop (Suc n) A L sh fuel limit e (r, w) =
     (if ma_max_time A (w_ext w) - rw_last_write r > 0 then
        go_bind (write_turn A L sh fuel limit e (r, w)) (\<lambda>t.
          case t of
            None \<Rightarrow> Ret None
          | Some (Stop s) \<Rightarrow> Ret (Some s)
          | Some (Go_On e' s) \<Rightarrow> write_loop n A L sh fuel limit e' s)
      else Ret (Some (r, w)))"

definition remote_write_all ::
  "nat \<Rightarrow> 'x metrics_api \<Rightarrow> 'x remote_lib \<Rightarrow> (int \<Rightarrow> string) \<Rightarrow> nat \<Rightarrow> int \<Rightarrow> remote_write \<times> 'x world \<Rightarrow>
   (remote_write \<times> 'x world) option go" where
  "remote_write_all n A L sh fuel limit s = write_loop n A L sh fuel limit False s"

subsection \<open>The requests of a range\<close>

text \<open>The samples of a list of series, each with its labels, in order.\<close>

definition flat :: "series list \<Rightarrow> (label_set \<times> data_point) list" where
  "flat ss = concat (map (\<lambda>s. map (Pair (se_labels s)) (se_points s)) ss)"

lemma flat_simps [simp]: "flat [] = []" "flat (ss @ ts) = flat ss @ flat ts"
    "flat (s # ss) = map (Pair (se_labels s)) (se_points s) @ flat ss"
  by (simp_all add: flat_def)

text \<open>Sending a list of requests until one fails.\<close>

fun send_all :: "('r \<Rightarrow> 'x \<Rightarrow> bool \<times> 'x) \<Rightarrow> 'r list \<Rightarrow> 'x \<Rightarrow> bool \<times> 'x" where
  "send_all send [] x = (True, x)"
| "send_all send (r # rs) x = (case send r x of (False, x') \<Rightarrow> (False, x') | (True, x') \<Rightarrow> send_all send rs x')"

text \<open>The samples not yet put into a request.\<close>

definition rest_of :: "series list \<Rightarrow> range_state \<Rightarrow> (label_set \<times> data_point) list" where
  "rest_of ss s = drop (nat (rs_sample s)) (flat (drop (rs_index s) ss))"

definition range_inv :: "series list \<Rightarrow> int \<Rightarrow> range_state \<Rightarrow> bool" where
  "range_inv ss limit s \<longleftrightarrow>
     0 \<le> rs_sample s \<and> 0 \<le> rs_count s \<and> rs_count s < limit \<and> rs_count s = int (length (flat (rs_request s))) \<and>
     (rs_index s < length ss \<or> rs_sample s = 0 \<and> rs_request s = []) \<and>
     (rs_sample s = 0 \<or> rs_request s = [] \<and> rs_sample s < int (length (se_points (ss ! rs_index s))))"

lemma append_to_last_snoc:
  "append_to_last ps (ss @ [s]) = ss @ [s\<lparr>se_points := se_points s @ ps\<rparr>]"
  by (simp add: append_to_last_def)

text \<open>One iteration under the invariant: \<open>k\<close> samples of the current series are moved.\<close>

lemma take_samples_moves:
  assumes "range_inv ss limit s" and "rs_index s < length ss" and "cur = ss ! rs_index s"
    and "k = min (limit - rs_count s) (int (length (se_points cur)) - rs_sample s)" and "se_points cur \<noteq> []"
  shows "take_samples cur limit s =
    Ret (s\<lparr>rs_sample := rs_sample s + k, rs_count := rs_count s + k,
           rs_request := rs_request s @ [\<lparr>se_labels = se_labels cur,
             se_points = take (nat k) (drop (nat (rs_sample s)) (se_points cur))\<rparr>]\<rparr>)" and "0 < k"
proof -
  have b: "0 \<le> rs_sample s" "rs_sample s < int (length (se_points cur))" "rs_count s < limit"
      "rs_sample s = 0 \<or> rs_request s = []"
    using assms(1,3,5) by (auto simp: range_inv_def)
  then show "0 < k" using assms(4) by simp
  have use: "(if limit - rs_count s > int (length (se_points cur)) - rs_sample s
      then int (length (se_points cur)) - rs_sample s else limit - rs_count s) = k"
    using assms(4) by (simp add: min_def)
  have "go_slice (se_points cur) (rs_sample s) (rs_sample s + k) =
      Ret (take (nat k) (drop (nat (rs_sample s)) (se_points cur)))"
    using b \<open>0 < k\<close> assms(4) by (simp add: go_slice_def)
  then show "take_samples cur limit s =
    Ret (s\<lparr>rs_sample := rs_sample s + k, rs_count := rs_count s + k,
           rs_request := rs_request s @ [\<lparr>se_labels = se_labels cur,
             se_points = take (nat k) (drop (nat (rs_sample s)) (se_points cur))\<rparr>]\<rparr>)"
    using b(4) assms(5) use by (auto simp: take_samples_def Let_def append_to_last_def)
qed

text \<open>After an iteration: the invariant up to a full request, and where the samples are.\<close>

lemma iteration:
  assumes "range_inv ss limit s" and "rs_index s < length ss" and "cur = ss ! rs_index s"
  obtains s1 where "take_samples cur limit s = Ret s1"
    and "flat (rs_request (next_series cur s1)) @ rest_of ss (next_series cur s1) = flat (rs_request s) @ rest_of ss s"
    and "rs_count (next_series cur s1) = int (length (flat (rs_request (next_series cur s1))))"
    and "rs_count (next_series cur s1) \<le> limit"
    and "length (rest_of ss (next_series cur s1)) + (length ss - rs_index (next_series cur s1))
          < length (rest_of ss s) + (length ss - rs_index s)"
    and "rs_index (next_series cur s1) \<le> length ss"
    and "rs_sample (next_series cur s1) = 0 \<or>
      0 \<le> rs_sample (next_series cur s1) \<and> rs_count (next_series cur s1) = limit \<and> rs_index (next_series cur s1) = rs_index s \<and>
      rs_sample (next_series cur s1) < int (length (se_points cur))"
proof -
  have split: "drop (rs_index s) ss = cur # drop (Suc (rs_index s)) ss"
    using assms(2,3) by (simp add: Cons_nth_drop_Suc)
  show ?thesis
  proof (cases "se_points cur = []")
    case True
    have "rs_sample s = 0" using assms(1,3) True by (auto simp: range_inv_def)
    moreover have "take_samples cur limit s = Ret s" using True by (simp add: take_samples_def)
    ultimately show ?thesis
      using True split assms(1,2) by (intro that) (auto simp: next_series_def rest_of_def range_inv_def)
  next
    case False
    define k where "k = min (limit - rs_count s) (int (length (se_points cur)) - rs_sample s)"
    let ?ps = "take (nat k) (drop (nat (rs_sample s)) (se_points cur))"
    let ?s1 = "s\<lparr>rs_sample := rs_sample s + k, rs_count := rs_count s + k,
           rs_request := rs_request s @ [\<lparr>se_labels = se_labels cur, se_points = ?ps\<rparr>]\<rparr>"
    note m = take_samples_moves [OF assms k_def False]
    have b: "0 \<le> rs_sample s" "rs_sample s < int (length (se_points cur))" "0 \<le> rs_count s"
        "rs_count s = int (length (flat (rs_request s)))" "rs_count s < limit"
      using assms(1,3) False by (auto simp: range_inv_def)
    have k: "k \<le> int (length (se_points cur)) - rs_sample s" "k \<le> limit - rs_count s"
      by (simp_all add: k_def)
    have len: "length ?ps = nat k" using b k m(2) by simp
    have rest: "rest_of ss s = map (Pair (se_labels cur)) (drop (nat (rs_sample s)) (se_points cur)) @
        flat (drop (Suc (rs_index s)) ss)"
      using b by (simp add: rest_of_def split drop_map)
    have whole: "?ps @ drop (nat k) (drop (nat (rs_sample s)) (se_points cur)) = drop (nat (rs_sample s)) (se_points cur)"
      by (rule append_take_drop_id)
    show ?thesis
    proof (cases "rs_sample s + k = int (length (se_points cur))")
      case True
      then have "?ps = drop (nat (rs_sample s)) (se_points cur)"
        using b m(2) by simp
      then show ?thesis
        using m True b k len rest assms(2) by (intro that [of ?s1]) (auto simp: next_series_def rest_of_def)
    next
      case part: False
      have kk: "nat (rs_sample s + k) = nat k + nat (rs_sample s)" using b m(2) by simp
      have rest': "rest_of ss ?s1 = map (Pair (se_labels cur)) (drop (nat k) (drop (nat (rs_sample s)) (se_points cur))) @
          flat (drop (Suc (rs_index s)) ss)"
        using b k part by (simp add: rest_of_def split drop_map kk)
      have full: "k = limit - rs_count s" using part k by (auto simp: k_def min_def split: if_splits)
      have same: "next_series cur ?s1 = ?s1" using part by (simp add: next_series_def)
      have parts: "map (Pair (se_labels cur)) ?ps @ rest_of ss ?s1 = rest_of ss s"
        unfolding rest rest' by (metis append_assoc map_append whole)
      then have "length (rest_of ss s) = nat k + length (rest_of ss ?s1)"
        using len by (metis length_append length_map)
      then have "length (rest_of ss ?s1) + (length ss - rs_index ?s1) < length (rest_of ss s) + (length ss - rs_index s)"
        using m(2) by simp
      note dec = this
      show ?thesis
      proof (rule that [of ?s1], unfold same)
        show "take_samples cur limit s = Ret ?s1" by (rule m(1))
        show "flat (rs_request ?s1) @ rest_of ss ?s1 = flat (rs_request s) @ rest_of ss s"
          unfolding parts [symmetric] by simp
        show "rs_count ?s1 = int (length (flat (rs_request ?s1)))"
          using b(4) len m(2) by simp
        show "rs_count ?s1 \<le> limit" using k by simp
        show "length (rest_of ss ?s1) + (length ss - rs_index ?s1) < length (rest_of ss s) + (length ss - rs_index s)"
          by (rule dec)
        show "rs_index ?s1 \<le> length ss" using assms(2) by simp
        have "rs_count ?s1 = limit" "rs_sample ?s1 < int (length (se_points cur))" "0 \<le> rs_sample ?s1"
          using full part k b m(2) by simp_all
        then show "rs_sample ?s1 = 0 \<or> 0 \<le> rs_sample ?s1 \<and> rs_count ?s1 = limit \<and> rs_index ?s1 = rs_index s \<and>
            rs_sample ?s1 < int (length (se_points cur))"
          by (intro disjI2 conjI) simp_all
      qed
    qed
  qed
qed

definition request_sizes_ok :: "int \<Rightarrow> series list list \<Rightarrow> bool" where
  "request_sizes_ok limit reqs \<longleftrightarrow>
     list_all (\<lambda>r. int (length (flat r)) \<le> limit) reqs \<and> list_all (\<lambda>r. int (length (flat r)) = limit) (butlast reqs)"

lemma request_sizes_ok_Cons:
  "int (length (flat r)) \<le> limit \<Longrightarrow> int (length (flat r)) = limit \<or> reqs = [] \<Longrightarrow>
   request_sizes_ok limit reqs \<Longrightarrow> request_sizes_ok limit (r # reqs)"
  by (auto simp: request_sizes_ok_def)

lemma range_loop_requests:
  assumes "range_inv ss limit s" and "0 < limit"
    and "length (rest_of ss s) + (length ss - rs_index s) < n"
  shows "\<exists>reqs. (\<forall>(send :: series list \<Rightarrow> 'x \<Rightarrow> bool \<times> 'x) x.
       range_loop n ss limit send s x = Ret (Some (send_all send reqs x))) \<and>
     concat (map flat reqs) = flat (rs_request s) @ rest_of ss s \<and> request_sizes_ok limit reqs \<and>
     (rs_index s \<ge> length ss \<longrightarrow> reqs = [])"
  using assms(1,3)
proof (induction n arbitrary: s)
  case (Suc n)
  show ?case
  proof (cases "rs_index s < length ss")
    case False
    then have "rs_request s = []" "rest_of ss s = []"
      using Suc.prems(1) by (simp_all add: range_inv_def rest_of_def)
    with False show ?thesis
      by (intro exI [where x = "[]"]) (simp add: request_sizes_ok_def)
  next
    case True
    define cur where "cur = ss ! rs_index s"
    obtain s1 where t: "take_samples cur limit s = Ret s1" by (rule iteration [OF Suc.prems(1) True cur_def])
    define s2 where "s2 = next_series cur s1"
    have i: "flat (rs_request s2) @ rest_of ss s2 = flat (rs_request s) @ rest_of ss s"
      "rs_count s2 = int (length (flat (rs_request s2)))" "rs_count s2 \<le> limit"
      "length (rest_of ss s2) + (length ss - rs_index s2) < length (rest_of ss s) + (length ss - rs_index s)"
      "rs_index s2 \<le> length ss"
      "rs_sample s2 = 0 \<or> 0 \<le> rs_sample s2 \<and> rs_count s2 = limit \<and> rs_index s2 = rs_index s \<and>
        rs_sample s2 < int (length (se_points cur))"
      using iteration [OF Suc.prems(1) True cur_def] t by (metis go.inject s2_def)+
    have loop: "range_loop (Suc n) ss limit send s x =
        (if rs_count s2 \<noteq> limit \<and> rs_index s2 < length ss then range_loop n ss limit send s2 x
         else case send (rs_request s2) x of (False, x') \<Rightarrow> Ret (Some (False, x'))
            | (True, x') \<Rightarrow> range_loop n ss limit send (s2\<lparr>rs_count := 0, rs_request := []\<rparr>) x')"
      for send :: "series list \<Rightarrow> 'x \<Rightarrow> bool \<times> 'x" and x
      using True t unfolding s2_def cur_def by (simp add: Let_def)
    show ?thesis
    proof (cases "rs_count s2 \<noteq> limit \<and> rs_index s2 < length ss")
      case go_on: True
      have "range_inv ss limit s2"
        using i go_on by (auto simp: range_inv_def)
      from Suc.IH [OF this] show ?thesis
        using i(1,4) Suc.prems(2) loop go_on True by force
    next
      case False
      let ?r = "s2\<lparr>rs_count := 0, rs_request := []\<rparr>"
      have "range_inv ss limit ?r"
        using i False assms(2) True by (auto simp: range_inv_def cur_def)
      moreover have "length (rest_of ss ?r) + (length ss - rs_index ?r) < n"
        using i(4) Suc.prems(2) by (simp add: rest_of_def)
      ultimately obtain reqs where r:
        "\<And>(send :: series list \<Rightarrow> 'x \<Rightarrow> bool \<times> 'x) x. range_loop n ss limit send ?r x = Ret (Some (send_all send reqs x))"
        "concat (map flat reqs) = rest_of ss s2" "request_sizes_ok limit reqs" "rs_index s2 \<ge> length ss \<longrightarrow> reqs = []"
        using Suc.IH [of ?r] by (auto simp: rest_of_def)
      have "range_loop (Suc n) ss limit send s x = Ret (Some (send_all send (rs_request s2 # reqs) x))"
        for send :: "series list \<Rightarrow> 'x \<Rightarrow> bool \<times> 'x" and x
        using loop False r(1) by (auto split: prod.splits bool.splits)
      moreover have "request_sizes_ok limit (rs_request s2 # reqs)"
        using i(2,3) r(3,4) False by (intro request_sizes_ok_Cons) auto
      ultimately show ?thesis
        using i(1) r(2) True by (intro exI [where x = "rs_request s2 # reqs"]) simp
    qed
  qed
qed simp

subsection \<open>Progress\<close>

lemma skip_blocks_ge: "skip_blocks t bs = zero_time \<or> t \<le> skip_blocks t bs"
  by (induction t bs rule: skip_blocks.induct) auto

lemma skip_empty_ranges_ge: "t \<le> skip_empty_ranges A t x"
  using skip_blocks_ge [of t "ma_blocks A x"] by (auto simp: skip_empty_ranges_def Let_def)

lemma range_of_bounds:
  assumes "range_of A r e minT maxT x = (start, stop)" and "rw_last_write r < maxT" and "0 < rw_range_duration r"
  shows "rw_last_write r < stop" and "stop \<le> maxT"
proof -
  have "rw_last_write r + millisecond \<le> start"
    using assms(1) skip_empty_ranges_ge [of "rw_last_write r + millisecond" A x]
    by (auto simp: range_of_def Let_def split: if_splits)
  then show "rw_last_write r < stop" "stop \<le> maxT"
    using assms by (auto simp: range_of_def Let_def millisecond_def nanos_per_milli_def split: if_splits)
qed

lemma write_turn_go_on:
  assumes "write_turn A L sh fuel limit e (r, w) = Ret (Some (Go_On e' (r', w')))"
    and "rw_last_write r < ma_max_time A (w_ext w)" and "0 < rw_range_duration r"
  shows "rw_last_write r < rw_last_write r' \<and> rw_last_write r' \<le> ma_max_time A (w_ext w) \<and>
    rw_range_duration r' = rw_range_duration r"
proof -
  obtain minT where m: "ma_min_time A (w_ext w) = Inr minT"
    using assms(1) by (auto simp: write_turn_def split: sum.splits)
  obtain start stop where rg: "range_of A r e minT (ma_max_time A (w_ext w)) (w_ext w) = (start, stop)" by (meson surj_pair)
  have "r' = r\<lparr>rw_last_write := stop\<rparr>"
    using assms(1) m rg
    by (auto simp: write_turn_def Let_def go_bind_Ret_iff split: sum.splits if_splits option.splits prod.splits bool.splits)
  then show ?thesis
    using range_of_bounds [OF rg assms(2,3)] by simp
qed

lemma flat_add_device_label: "length (flat (map (add_device_label d) ss)) = length (flat ss)"
  by (induction ss) (simp_all add: add_device_label_def)

text \<open>Enough fuel for the requests of a range.\<close>

lemma write_range_partition:
  assumes "0 < limit" and "length (flat ss) + length ss < fuel"
  shows "\<exists>reqs. (\<forall>(send :: series list \<Rightarrow> 'x \<Rightarrow> bool \<times> 'x) x.
       write_range fuel ss limit send x = Ret (Some (send_all send reqs x))) \<and>
     concat (map flat reqs) = flat ss \<and> request_sizes_ok limit reqs"
proof -
  have "range_inv ss limit range_start"
    using assms(1) by (cases ss) (auto simp: range_inv_def range_start_def)
  moreover have "rest_of ss range_start = flat ss" "rs_index range_start = 0" "rs_request range_start = []"
    by (simp_all add: rest_of_def range_start_def)
  ultimately show ?thesis
    using range_loop_requests [of ss limit range_start fuel] assms by (auto simp: write_range_def)
qed

definition fuel_for_reads :: "'x metrics_api \<Rightarrow> nat \<Rightarrow> bool" where
  "fuel_for_reads A fuel \<longleftrightarrow>
     (\<forall>a b x ss. ma_read A a b True x = Inr ss \<longrightarrow> length (flat ss) + length ss < fuel)"

lemma write_turn_returns:
  assumes "0 < limit" and "fuel_for_reads A fuel"
  shows "\<exists>t. write_turn A L sh fuel limit e (r, w) = Ret (Some t)"
proof (cases "ma_min_time A (w_ext w)")
  case (Inl err)
  then show ?thesis by (simp add: write_turn_def)
next
  case (Inr minT)
  obtain start stop where rg: "range_of A r e minT (ma_max_time A (w_ext w)) (w_ext w) = (start, stop)" by (meson surj_pair)
  show ?thesis
  proof (cases "ma_read A start stop True (w_ext w)")
    case (Inl err)
    then show ?thesis using Inr rg by (simp add: write_turn_def)
  next
    case read: (Inr ss)
    have "length (flat (map (add_device_label (rw_device_id r)) ss)) + length (map (add_device_label (rw_device_id r)) ss) < fuel"
      using assms(2) read by (auto simp: fuel_for_reads_def flat_add_device_label)
    then obtain ok x where
      "write_range fuel (map (add_device_label (rw_device_id r)) ss) limit (write_request L) (w_ext w) = Ret (Some (ok, x))"
      using write_range_partition [OF assms(1), of "map (add_device_label (rw_device_id r)) ss" fuel]
      by (metis surj_pair)
    then show ?thesis
      using Inr rg read by (cases ok) (simp_all add: write_turn_def Let_def)
  qed
qed

subsection \<open>Properties\<close>

text \<open>C5. With a positive limit and enough fuel, \<open>writeRange\<close> ends, and what it sends does not depend on how
  the sending goes: it is the beginning, up to the first failure, of one list of requests that
  together hold every sample of the range exactly once and in order, each under the labels of its
  series; no request exceeds the limit and all but the last are full.\<close>

theorem write_range_sends_every_sample_once:
  assumes "0 < limit" and "length (flat ss) + length ss < fuel"
  shows "\<exists>reqs. (\<forall>(send :: series list \<Rightarrow> 'x \<Rightarrow> bool \<times> 'x) x.
       write_range fuel ss limit send x = Ret (Some (send_all send reqs x))) \<and>
     concat (map flat reqs) = flat ss \<and> request_sizes_ok limit reqs"
  using assms by (rule write_range_partition)

definition example_series :: "series list" where
  "example_series =
     [\<lparr>se_labels = [(''a'', ''1'')], se_points = map (\<lambda>t. \<lparr>dp_time = t, dp_value = 0\<rparr>) [1, 2, 3]\<rparr>,
      \<lparr>se_labels = [(''b'', ''2'')], se_points = []\<rparr>,
      \<lparr>se_labels = [(''c'', ''3'')], se_points = map (\<lambda>t. \<lparr>dp_time = t, dp_value = 1\<rparr>) [1, 2]\<rparr>]"

theorem write_range_sends_every_sample_once_witness:
  "\<exists>reqs. (\<forall>(send :: series list \<Rightarrow> nat \<Rightarrow> bool \<times> nat) x.
       write_range 20 example_series 2 send x = Ret (Some (send_all send reqs x))) \<and>
     concat (map flat reqs) = flat example_series \<and> request_sizes_ok 2 reqs"
  by (rule write_range_sends_every_sample_once) code_simp+

text \<open>
  A negative limit is not refused by the configuration check, which only compares it with zero: the
  first range with a sample ends in a slice out of range.
\<close>

theorem negative_sample_limit_panics:
  assumes "limit < 0" and "se_points s \<noteq> []"
  shows "write_range (Suc n) (s # ss) limit send x = Panic"
  using assms by (simp add: write_range_def range_start_def take_samples_def go_slice_def Let_def)

theorem negative_sample_limit_panics_witness:
  "write_range (Suc 5) (hd example_series # tl example_series) (- 1) (\<lambda>ss (x :: nat). (True, x)) 0 = Panic"
  by (rule negative_sample_limit_panics) code_simp+



text \<open>A store with two samples, and a writer that has written nothing.\<close>

definition example_api :: "nat metrics_api" where
  "example_api = \<lparr>ma_max_time = \<lambda>_. 5000000, ma_min_time = \<lambda>_. Inr 1000000, ma_head_min_time = \<lambda>_. 1000000,
     ma_blocks = \<lambda>_. [],
     ma_read = \<lambda>a b s _. Inr [\<lparr>se_labels = [(''a'', ''1'')], se_points =
       filter (\<lambda>p. a \<le> dp_time p * 1000000 \<and> dp_time p * 1000000 \<le> b) [\<lparr>dp_time = 1, dp_value = 0\<rparr>, \<lparr>dp_time = 5, dp_value = 0\<rparr>]\<rparr>]\<rparr>"

definition example_writer :: remote_write where
  "example_writer = \<lparr>rw_device_id = ''dev'', rw_config = None, rw_last_write = 0, rw_last_write_file = ''/d/last'',
     rw_range_duration = default_range_duration, rw_enabled = True, rw_running = True, rw_data_dir = ''/d'', rw_ca_file = []\<rparr>"

definition example_remote :: "nat remote_lib" where
  "example_remote = \<lparr>rl_marshal = \<lambda>_. Inr ''req'', rl_write = \<lambda>_ n. (None, Suc n), rl_sleep = \<lambda>n. n\<rparr>"


text \<open>The tries of a request: \<open>k\<close> attempts that all fail with a recoverable error.\<close>

fun all_recoverable :: "nat \<Rightarrow> 'x remote_lib \<Rightarrow> string \<Rightarrow> 'x \<Rightarrow> bool" where
  "all_recoverable 0 L req x = True"
| "all_recoverable (Suc k) L req x =
     (case rl_write L req x of
        (Some (Recoverable e), x') \<Rightarrow> all_recoverable k L req (if k = 0 then x' else rl_sleep L x')
      | _ \<Rightarrow> False)"

lemma try_write_from:
  "i = Suc num_tries - k \<Longrightarrow> 0 < k \<Longrightarrow> k \<le> num_tries \<Longrightarrow>
   fst (try_write L req i x) = (\<not> all_recoverable k L req x)"
proof (induction k arbitrary: i x)
  case (Suc k)
  obtain r x' where w: "rl_write L req x = (r, x')" by (meson surj_pair)
  show ?case
  proof (cases "k = 0")
    case True
    then show ?thesis
      using Suc.prems w by (subst try_write.simps) (auto split: option.splits write_error.splits)
  next
    case False
    have t: "i \<le> num_tries" "i \<noteq> num_tries" "Suc i = Suc num_tries - k"
      using Suc.prems False by auto
    have ih: "fst (try_write L req (Suc i) (rl_sleep L x')) = (\<not> all_recoverable k L req (rl_sleep L x'))"
      by (rule Suc.IH) (use t False Suc.prems in auto)
    show ?thesis
      using t w False ih by (subst try_write.simps) (simp split: option.splits write_error.splits)
  qed
qed simp

text \<open>
  A request is given up for this round, so that its range is written again later, only when the
  third attempt in a row fails with a recoverable error (or the request cannot be encoded); an
  unrecoverable error drops the request and the writer goes on.
\<close>

theorem write_request_gives_up_after_three:
  "fst (write_request L ss x) =
     (case rl_marshal L ss of Inl e \<Rightarrow> False | Inr req \<Rightarrow> \<not> all_recoverable 3 L req x)"
proof (cases "rl_marshal L ss")
  case (Inr req)
  then show ?thesis
    using try_write_from [of 1 3 L req x]
    by (simp add: write_request_def to_time_series_def num_tries_def split: prod.splits)
qed (simp add: write_request_def to_time_series_def split: prod.splits)

end
