(* ===== verification/Remote_Config.thy ===== *)
theory Remote_Config
  imports Remote_Write Numbers
begin

text \<open>
  \<open>internal/metrics/remote_write.go\<close>, the life of the remote writer: creation, configuration and
  the goroutine that writes. The state is the writer and the file system with its CA files; the
  record \<open>client_lib\<close> stands for \<open>url.Parse\<close>, the random names and the flushing of temporary files,
  \<open>remote.NewWriteClient\<close> and the listing of a directory.
\<close>

record client_lib =
  rc_parse_url :: "string \<Rightarrow> gerror option"
  rc_temp_name :: "fs \<Rightarrow> string"
  rc_flush :: "string \<Rightarrow> gerror option"
  rc_new_client :: "string \<Rightarrow> 64 word \<Rightarrow> string \<Rightarrow> string \<Rightarrow> gerror option"
  rc_read_dir :: "string \<Rightarrow> fs \<Rightarrow> gerror + string list"

definition last_write_file_name :: string where
  "last_write_file_name = ''metrics-lastwrite''"

text \<open>\<open>path.Match\<close> with \<open>remote-write-ca-*.pem\<close>.\<close>

definition ca_file_name :: "string \<Rightarrow> bool" where
  "ca_file_name n \<longleftrightarrow>
     prefix ''remote-write-ca-'' n \<and> suffix ''.pem'' n \<and> CHR ''/'' \<notin> set n \<and> 20 \<le> length n"

text \<open>\<open>time.Unix(i/1000000000, i%1000000000)\<close>\<close>

definition unix_time :: "int \<Rightarrow> int \<Rightarrow> gotime" where
  "unix_time sec nsec = sec * 1000000000 + nsec"

definition stored_last_write :: "string \<Rightarrow> fs \<Rightarrow> gotime" where
  "stored_last_write p f =
     (case read_file p f of
        Inl e \<Rightarrow> zero_time
      | Inr s \<Rightarrow>
          if s = [] then zero_time
          else (case parse_int64 s of
                  Inl e \<Rightarrow> zero_time
                | Inr i \<Rightarrow> unix_time (go_quot i 1000000000) (go_rem i 1000000000)))"

definition new_remote_write :: "string \<Rightarrow> string \<Rightarrow> fs \<Rightarrow> remote_write" where
  "new_remote_write dir device f =
     \<lparr>rw_device_id = device, rw_config = None,
      rw_last_write = stored_last_write (path_join [dir, last_write_file_name]) f,
      rw_last_write_file = path_join [dir, last_write_file_name],
      rw_range_duration = default_range_duration, rw_enabled = False, rw_running = False,
      rw_data_dir = dir, rw_ca_file = []\<rparr>"

subsection \<open>Configuration\<close>

definition receiver_of :: "config_message \<Rightarrow> metrics_receiver option" where
  "receiver_of m =
     (case msg_configuration m of
        None \<Rightarrow> None
      | Some c \<Rightarrow> (case cfg_metrics c of None \<Rightarrow> None | Some mc \<Rightarrow> mc_receiver mc))"

text \<open>\<open>removeServerCaFiles\<close>\<close>

definition remove_ca_files :: "client_lib \<Rightarrow> string \<Rightarrow> fs \<Rightarrow> fs" where
  "remove_ca_files C dir f =
     (case rc_read_dir C dir f of
        Inl e \<Rightarrow> f
      | Inr names \<Rightarrow>
          fold (\<lambda>n f. if ca_file_name n then snd (remove_file (path_join [dir, n]) f) else f) names f)"

text \<open>The temporary file with the server's certificate; the result is its path.\<close>

definition create_ca_file :: "client_lib \<Rightarrow> string \<Rightarrow> (fs, string) op" where
  "create_ca_file C cert f =
     (let p = rc_temp_name C f in
      case write_file p [] f of
        (Some e, f1) \<Rightarrow> (Inl e, f1)
      | (None, f1) \<Rightarrow>
          (case write_file p cert f1 of
             (Some e, f2) \<Rightarrow> (Inl e, f2)
           | (None, f2) \<Rightarrow> (case rc_flush C p of Some e \<Rightarrow> (Inl e, f2) | None \<Rightarrow> (Inr p, f2))))"

definition apply_config :: "client_lib \<Rightarrow> metrics_receiver \<Rightarrow> (remote_write \<times> fs) proc" where
  "apply_config C c = (\<lambda>(r, f).
     case rc_parse_url C (mr_url c) of
       Some e \<Rightarrow> (Some e, r, f)
     | None \<Rightarrow>
         if mr_timeout_seconds c = 0 then
           (Some (Err ''metrics remote write configuration is invalid. TimeoutSeconds has to greater than 0''), r, f)
         else if mr_request_num_samples c = 0 then
           (Some (Err ''metrics remote write configuration is invalid. RequestNumSamples has to greater than 0''), r, f)
         else
           (case (if mr_ca_cert c \<noteq> [] then create_ca_file C (mr_ca_cert c) f else (Inr [], f)) of
              (Inl e, f1) \<Rightarrow> (Some e, r, f1)
            | (Inr ca, f1) \<Rightarrow>
                (case rc_new_client C (rw_device_id r) (mr_timeout_seconds c * 1000000000) (mr_url c) ca of
                   Some e \<Rightarrow> (Some e, r, snd (remove_file ca f1))
                 | None \<Rightarrow>
                     (None, r\<lparr>rw_enabled := True, rw_ca_file := ca\<rparr>,
                      (if rw_ca_file r \<noteq> [] then snd (remove_file (rw_ca_file r) f1) else f1)))))"

definition feature_disabled :: "metrics_receiver option \<Rightarrow> bool" where
  "feature_disabled c = (case c of None \<Rightarrow> True | Some c \<Rightarrow> mr_url c = [])"

text \<open>\<open>Update\<close>; the second result tells that the writing goroutine is started.\<close>

definition update_remote ::
  "client_lib \<Rightarrow> config_message \<Rightarrow> remote_write \<times> fs \<Rightarrow> (gerror option \<times> bool) \<times> remote_write \<times> fs" where
  "update_remote C m = (\<lambda>(r, f).
     let new = receiver_of m in
     if rw_config r = new then ((None, False), r, f)
     else if feature_disabled new then
       ((None, False), r\<lparr>rw_enabled := False, rw_ca_file := [], rw_config := new\<rparr>,
        remove_ca_files C (rw_data_dir r) f)
     else
       (case apply_config C (the new) (r, f) of
          (Some e, r1, f1) \<Rightarrow> ((Some e, False), r1, f1)
        | (None, r1, f1) \<Rightarrow>
            ((None, \<not> rw_running r1), r1\<lparr>rw_running := True, rw_config := new\<rparr>, f1)))"

definition init_remote ::
  "client_lib \<Rightarrow> config_message \<Rightarrow> remote_write \<times> fs \<Rightarrow> (gerror option \<times> bool) \<times> remote_write \<times> fs" where
  "init_remote C m = (\<lambda>(r, f). update_remote C m (r, remove_ca_files C (rw_data_dir r) f))"

text \<open>
  \<open>getConfig\<close> of \<open>writeRoutine\<close>: the number of samples per request, or \<open>None\<close> when the routine has to
  end.
\<close>

definition get_write_config :: "remote_write \<Rightarrow> (int option \<times> remote_write) go" where
  "get_write_config r =
     (if rw_enabled r then go_bind (deref (rw_config r)) (\<lambda>c. Ret (Some (mr_request_num_samples c), r))
      else Ret (None, r\<lparr>rw_running := False\<rparr>))"

subsection \<open>The writer and its goroutine\<close>

text \<open>
  The calls of the configuration manager and of the goroutine as they may follow one another; the
  number counts the goroutines. A round of writing changes the time of the last write only.
\<close>

type_synonym writer_state = "remote_write \<times> fs \<times> nat"

inductive writer_step :: "client_lib \<Rightarrow> writer_state \<Rightarrow> writer_state \<Rightarrow> bool" for C where
  step_update:
    "update_remote C m (r, f) = ((res, started), r', f') \<Longrightarrow>
     writer_step C (r, f, n) (r', f', if started then Suc n else n)"
| step_init:
    "init_remote C m (r, f) = ((res, started), r', f') \<Longrightarrow>
     writer_step C (r, f, n) (r', f', if started then Suc n else n)"
| step_continue:
    "get_write_config r = Ret (Some k, r') \<Longrightarrow> writer_step C (r, f, Suc n) (r', f, Suc n)"
| step_end:
    "get_write_config r = Ret (None, r') \<Longrightarrow> writer_step C (r, f, Suc n) (r', f, n)"
| step_write:
    "writer_step C (r, f, Suc n) (r\<lparr>rw_last_write := t\<rparr>, f', Suc n)"

inductive writer_reachable :: "client_lib \<Rightarrow> writer_state \<Rightarrow> bool" for C where
  start: "writer_reachable C (new_remote_write dir device f, f, 0)"
| step: "writer_reachable C s \<Longrightarrow> writer_step C s s' \<Longrightarrow> writer_reachable C s'"

text \<open>What holds between the calls.\<close>

definition writer_ok :: "remote_write \<Rightarrow> nat \<Rightarrow> bool" where
  "writer_ok r n \<longleftrightarrow>
     n = (if rw_running r then 1 else 0) \<and>
     (rw_enabled r = (\<not> feature_disabled (rw_config r))) \<and>
     (rw_enabled r \<longrightarrow> rw_running r \<and> mr_request_num_samples (the (rw_config r)) \<noteq> 0)"

lemma apply_config_error: "apply_config C c (r, f) = (Some e, r', f') \<Longrightarrow> r' = r"
  by (auto simp: apply_config_def Let_def split: option.splits if_splits sum.splits prod.splits)

lemma apply_config_ok:
  "apply_config C c (r, f) = (None, r', f') \<Longrightarrow>
   mr_request_num_samples c \<noteq> 0 \<and> mr_timeout_seconds c \<noteq> 0 \<and> (\<exists>ca. r' = r\<lparr>rw_enabled := True, rw_ca_file := ca\<rparr>)"
  by (auto simp: apply_config_def Let_def split: option.splits if_splits sum.splits prod.splits)

lemma writer_ok_update:
  assumes "update_remote C m (r, f) = ((res, started), r', f')" and "writer_ok r n"
  shows "writer_ok r' (if started then Suc n else n)"
proof (cases "rw_config r = receiver_of m \<or> feature_disabled (receiver_of m)")
  case True
  then show ?thesis
    using assms by (auto simp: update_remote_def writer_ok_def Let_def split: if_splits)
next
  case False
  obtain c where c: "receiver_of m = Some c"
    using False by (auto simp: feature_disabled_def split: option.splits)
  obtain res1 r1 f1 where a: "apply_config C c (r, f) = (res1, r1, f1)" by (rule prod_cases3)
  show ?thesis
  proof (cases res1)
    case None
    then show ?thesis
      using assms False c a apply_config_ok [of C c r f r1 f1]
      by (auto simp: update_remote_def writer_ok_def Let_def)
  next
    case (Some e)
    then show ?thesis
      using assms False c a apply_config_error [of C c r f e r1 f1]
      by (auto simp: update_remote_def Let_def)
  qed
qed

lemma writer_ok_step: "writer_step C s s' \<Longrightarrow> writer_ok (fst s) (snd (snd s)) \<Longrightarrow> writer_ok (fst s') (snd (snd s'))"
proof (induction rule: writer_step.induct)
  case (step_update m r f res started r' f' n)
  then show ?case using writer_ok_update by fastforce
next
  case (step_init m r f res started r' f' n)
  then show ?case using writer_ok_update by (fastforce simp: init_remote_def)
qed (auto simp: writer_ok_def get_write_config_def go_bind_Ret_iff split: if_splits)

lemma writer_reachable_ok: "writer_reachable C s \<Longrightarrow> writer_ok (fst s) (snd (snd s))"
proof (induction rule: writer_reachable.induct)
  case (start dir device f)
  then show ?case by (simp add: writer_ok_def new_remote_write_def feature_disabled_def)
next
  case (step s s')
  from this(2,3) show ?case by (rule writer_ok_step)
qed

lemma create_ca_file_frame:
  "create_ca_file C cert f = (res, f') \<Longrightarrow> p \<noteq> rc_temp_name C f \<Longrightarrow> read_file p f' = read_file p f"
  by (auto simp: create_ca_file_def Let_def read_write_other split: prod.splits option.splits)

lemma create_ca_file_path: "create_ca_file C cert f = (Inr ca, f') \<Longrightarrow> ca = rc_temp_name C f"
  by (auto simp: create_ca_file_def Let_def split: prod.splits option.splits)

lemma apply_config_error_files:
  assumes "apply_config C c (r, f) = (Some e, r', f')" and "p \<noteq> rc_temp_name C f" and "p \<noteq> []"
  shows "read_file p f' = read_file p f"
proof -
  let ?mk = "if mr_ca_cert c \<noteq> [] then create_ca_file C (mr_ca_cert c) f else (Inr [], f)"
  obtain made f1 where m: "?mk = (made, f1)" by (meson surj_pair)
  have f1: "read_file p f1 = read_file p f"
    using m assms(2) create_ca_file_frame by (cases "mr_ca_cert c \<noteq> []") fastforce+
  have ca: "made = Inr ca \<Longrightarrow> ca \<noteq> p" for ca
    using m assms(2,3) create_ca_file_path by (cases "mr_ca_cert c \<noteq> []") fastforce+
  have "f' = f \<or> f' = f1 \<or> (\<exists>ca. made = Inr ca \<and> f' = snd (remove_file ca f1))"
    using assms(1) m by (auto simp: apply_config_def split: option.splits if_splits sum.splits)
  then show ?thesis
    using f1 ca read_remove_other by (metis prod.collapse)
qed

subsection \<open>Properties\<close>

text \<open>C7. However calls of the configuration manager and rounds of writing follow one another, there is
  exactly one writing goroutine while the running flag is set and none otherwise, an enabled writer
  is running, and reading its configuration dereferences no nil pointer and gives no zero limit.\<close>

theorem one_writing_goroutine:
  assumes "writer_reachable C (r, f, n)"
  shows "n = (if rw_running r then 1 else 0) \<and> (rw_enabled r \<longrightarrow> rw_running r) \<and>
    (\<exists>k. k \<noteq> 0 \<and> get_write_config r =
       Ret (if rw_enabled r then (Some k, r) else (None, r\<lparr>rw_running := False\<rparr>)))"
proof -
  have i: "writer_ok r n" using writer_reachable_ok [OF assms] by simp
  show ?thesis
  proof (cases "rw_enabled r")
    case True
    then obtain c where "rw_config r = Some c"
      using i by (auto simp: writer_ok_def feature_disabled_def split: option.splits)
    with True i show ?thesis by (auto simp: writer_ok_def get_write_config_def)
  next
    case False
    with i show ?thesis by (auto simp: writer_ok_def get_write_config_def intro: exI [where x = 1])
  qed
qed

definition example_receiver :: metrics_receiver where
  "example_receiver = \<lparr>mr_ca_cert = ''pem'', mr_request_num_samples = 1000, mr_timeout_seconds = 10, mr_url = ''http://r''\<rparr>"

definition example_receiver_message :: config_message where
  "example_receiver_message = message_with (empty_device_configuration\<lparr>cfg_metrics :=
     Some \<lparr>mc_data_transfer = None, mc_receiver = Some example_receiver, mc_retention = None, mc_system = None\<rparr>\<rparr>)"

definition example_client :: client_lib where
  "example_client = \<lparr>rc_parse_url = \<lambda>_. None, rc_temp_name = \<lambda>_. ''/d/remote-write-ca-1.pem'', rc_flush = \<lambda>_. None,
     rc_new_client = \<lambda>_ _ _ _. None, rc_read_dir = \<lambda>_ _. Inr []\<rparr>"

abbreviation example_writer_fs :: fs where
  "example_writer_fs \<equiv> fs_with_dirs {''/d''}"

theorem one_writing_goroutine_witness:
  "\<exists>r f. writer_reachable example_client (r, f, 1) \<and> rw_enabled r \<and>
     ((1 :: nat) = (if rw_running r then 1 else 0) \<and> (rw_enabled r \<longrightarrow> rw_running r) \<and>
      (\<exists>k. k \<noteq> 0 \<and> get_write_config r =
        Ret (if rw_enabled r then (Some k, r) else (None, r\<lparr>rw_running := False\<rparr>))))"
proof -
  let ?s = "(new_remote_write ''/d'' ''dev'' example_writer_fs, example_writer_fs)"
  obtain res st r f where u: "update_remote example_client example_receiver_message ?s = ((res, st), r, f)"
    by (metis surj_pair)
  have st: "st \<and> rw_enabled r"
    using u by (auto simp: update_remote_def new_remote_write_def example_receiver_message_def example_receiver_def
        example_client_def receiver_of_def message_with_def empty_device_configuration_def zero_message_def
        feature_disabled_def apply_config_def create_ca_file_def write_file_def fs_with_dirs_def parent_dir_def
        last_write_file_name_def stored_last_write_def Let_def)
  have reach: "writer_reachable example_client (r, f, 1)"
    using writer_reachable.step [OF writer_reachable.start step_update [OF u]] st by simp
  then show ?thesis
    using st one_writing_goroutine [OF reach] by blast
qed

text \<open>
  A configuration that cannot be applied (an invalid URL or limit, a CA file that cannot be written,
  a client that cannot be created) leaves the writer exactly as it was, starts no goroutine, and
  touches no file but the temporary CA file.
\<close>

theorem failed_update_keeps_writer:
  assumes "update_remote C m (r, f) = ((Some e, started), r', f')"
  shows "r' = r \<and> \<not> started \<and>
    (\<forall>p. p \<noteq> rc_temp_name C f \<and> p \<noteq> [] \<longrightarrow> read_file p f' = read_file p f)"
proof -
  obtain c where c: "receiver_of m = Some c" "rw_config r \<noteq> receiver_of m" "\<not> feature_disabled (receiver_of m)"
    using assms by (auto simp: update_remote_def Let_def feature_disabled_def split: if_splits option.splits)
  obtain res1 r1 f1 where a: "apply_config C c (r, f) = (res1, r1, f1)" by (rule prod_cases3)
  then have "res1 = Some e \<and> r' = r1 \<and> f' = f1 \<and> \<not> started"
    using assms c by (cases res1) (simp_all add: update_remote_def)
  then show ?thesis
    using a apply_config_error apply_config_error_files by blast
qed

definition example_bad_message :: config_message where
  "example_bad_message = message_with (empty_device_configuration\<lparr>cfg_metrics :=
     Some \<lparr>mc_data_transfer = None, mc_receiver = Some (example_receiver\<lparr>mr_timeout_seconds := 0\<rparr>), mc_retention = None,
           mc_system = None\<rparr>\<rparr>)"

theorem failed_update_keeps_writer_witness:
  "\<exists>e st r' f'. update_remote example_client example_bad_message (new_remote_write ''/d'' ''dev'' example_writer_fs, example_writer_fs)
       = ((Some e, st), r', f') \<and>
     (r' = new_remote_write ''/d'' ''dev'' example_writer_fs \<and> \<not> st \<and>
      (\<forall>p. p \<noteq> rc_temp_name example_client example_writer_fs \<and> p \<noteq> [] \<longrightarrow> read_file p f' = read_file p example_writer_fs))"
proof -
  have "\<exists>e r' f'. update_remote example_client example_bad_message (new_remote_write ''/d'' ''dev'' example_writer_fs, example_writer_fs)
       = ((Some e, False), r', f')"
    by (simp add: update_remote_def new_remote_write_def example_bad_message_def example_receiver_def example_client_def
        receiver_of_def message_with_def empty_device_configuration_def zero_message_def feature_disabled_def apply_config_def)
  then obtain e st r' f' where u: "update_remote example_client example_bad_message
      (new_remote_write ''/d'' ''dev'' example_writer_fs, example_writer_fs) = ((Some e, st), r', f')"
    by blast
  from failed_update_keeps_writer [OF u] u show ?thesis by blast
qed

lemma write_turn_stores:
  assumes "write_turn A L sh fuel limit e (r, w) = Ret (Some (Go_On e' (r', w')))"
  shows "\<exists>stop x. r' = r\<lparr>rw_last_write := stop\<rparr> \<and>
    w' = snd (on_fs (write_file (rw_last_write_file r) (sh stop)) (w\<lparr>w_ext := x\<rparr>))"
proof -
  obtain minT where m: "ma_min_time A (w_ext w) = Inr minT"
    using assms by (auto simp: write_turn_def split: sum.splits)
  obtain start stop where rg: "range_of A r e minT (ma_max_time A (w_ext w)) (w_ext w) = (start, stop)" by (meson surj_pair)
  obtain ss where rd: "ma_read A start stop True (w_ext w) = Inr ss"
    using assms m rg by (auto simp: write_turn_def split: sum.splits)
  show ?thesis
  proof (cases "ss = []")
    case True
    then show ?thesis
      using assms m rg rd by (intro exI [of _ stop] exI [of _ "w_ext w"]) (simp add: write_turn_def)
  next
    case False
    then obtain res where "write_range fuel (map (add_device_label (rw_device_id r)) ss) limit (write_request L) (w_ext w) = Ret res"
      using assms m rg rd by (auto simp: write_turn_def go_bind_Ret_iff)
    then show ?thesis
      using assms m rg rd False
      by (intro exI [of _ stop] exI [of _ "snd (the res)"])
        (auto simp: write_turn_def Let_def split: option.splits prod.splits bool.splits)
  qed
qed

lemma quot_rem: "unix_time (go_quot i 1000000000) (go_rem i 1000000000) = i"
  by (simp add: unix_time_def go_rem_def)



definition example_last_writer :: remote_write where
  "example_last_writer = new_remote_write ''/d'' ''dev'' example_writer_fs"

lemma example_range_written:
  "write_range 10 [\<lparr>se_labels = [(''a'', ''1''), (''edgedeviceid'', ''dev'')], se_points = [\<lparr>dp_time = 1, dp_value = 0\<rparr>, \<lparr>dp_time = 5, dp_value = 0\<rparr>]\<rparr>]
     1000 (write_request example_remote) 0 = Ret (Some (True, 1))"
  by code_simp


end
