(* ===== verification/Metrics_Daemon.thy ===== *)
theory Metrics_Daemon
  imports Metrics_Store
begin

text \<open>
  \<open>internal/metrics/allow-list.go\<close>, \<open>scraper.go\<close> and \<open>daemon.go\<close>: what is scraped, how a target
  collects and stores its samples, and the daemon that keeps one goroutine per target. The HTTP
  client, gzip, \<open>expfmt\<close> and the prometheus registry are the record \<open>scrape_lib\<close>.
\<close>

subsection \<open>Allow lists\<close>

datatype sample_filter = Permissive_Allow_List | Restrictive_Allow_List "string list"

definition metric_name_label :: string where
  "metric_name_label = ''__name__''"

text \<open>\<open>sample.Metric["__name__"]\<close>, the empty string when it is absent.\<close>

definition metric_name :: "label_set \<Rightarrow> string" where
  "metric_name m = (case map_of m metric_name_label of None \<Rightarrow> [] | Some n \<Rightarrow> n)"

fun filter_samples :: "sample_filter \<Rightarrow> sample list \<Rightarrow> sample list" where
  "filter_samples Permissive_Allow_List ss = ss"
| "filter_samples (Restrictive_Allow_List names) ss = filter (\<lambda>s. metric_name (sm_metric s) \<in> set names) ss"

definition default_system_allow_list :: sample_filter where
  "default_system_allow_list = Restrictive_Allow_List
     [''node_cpu_frequency_hertz'', ''node_cpu_scaling_frequency_min_hertz'', ''node_cpu_scaling_frequency_hertz'',
      ''node_cpu_scaling_frequency_max_hertz'', ''node_disk_read_bytes_total'', ''node_disk_written_bytes_total'',
      ''node_memory_MemAvailable_bytes'', ''node_memory_MemFree_bytes'', ''node_memory_MemTotal_bytes'',
      ''node_network_info'', ''node_network_receive_bytes_total'', ''node_network_transmit_bytes_total'']"

definition default_data_transfer_allow_list :: sample_filter where
  "default_data_transfer_allow_list = Restrictive_Allow_List
     [''flotta_agent_datasync_files_transferred_counter'', ''flotta_agent_datasync_bytes_transferred_counter'',
      ''flotta_agent_datasync_time_transferred_counter'', ''flotta_agent_datasync_deleted_files_transferred_counter'']"

definition new_restrictive_allow_list :: "metrics_allow_list option \<Rightarrow> sample_filter" where
  "new_restrictive_allow_list l =
     Restrictive_Allow_List (case l of None \<Rightarrow> [] | Some al \<Rightarrow> elems (al_names al))"

text \<open>
  The interface \<open>SampleFilter\<close>: a filter keeps some of the samples, in order, and decides each of
  them by its name.
\<close>

locale sample_filtering =
  fixes keep :: "'f \<Rightarrow> sample list \<Rightarrow> sample list"
    and admits :: "'f \<Rightarrow> string \<Rightarrow> bool"
  assumes keep_filter: "keep f ss = filter (\<lambda>s. admits f (metric_name (sm_metric s))) ss"
begin

lemma keep_append: "keep f (ss @ ts) = keep f ss @ keep f ts"
  by (simp add: keep_filter)

lemma keep_twice: "keep f (keep f ss) = keep f ss"
  by (simp add: keep_filter)

lemma keep_names: "s \<in> set (keep f ss) \<longleftrightarrow> s \<in> set ss \<and> admits f (metric_name (sm_metric s))"
  by (auto simp: keep_filter)

lemma keep_concat: "keep f (concat sss) = concat (map (keep f) sss)"
  by (induction sss) (simp_all add: keep_filter)

end

definition allows :: "sample_filter \<Rightarrow> string \<Rightarrow> bool" where
  "allows f n = (case f of Permissive_Allow_List \<Rightarrow> True | Restrictive_Allow_List names \<Rightarrow> n \<in> set names)"

interpretation allow_list: sample_filtering filter_samples allows
proof
  show "filter_samples f ss = filter (\<lambda>s. allows f (metric_name (sm_metric s))) ss" for f ss
    by (cases f) (simp_all add: allows_def)
qed

subsection \<open>Scrapers\<close>

text \<open>A metric of a family: its labels and, when it is a counter, its value.\<close>

record gathered =
  ga_labels :: label_set
  ga_counter :: "64 word option"

record http_response =
  hr_status_code :: int
  hr_status :: string
  hr_encoding :: string
  hr_content_type :: string
  hr_body :: string

record 'x scrape_lib =
  sc_new_request :: "string \<Rightarrow> gerror option"
  sc_get :: "string \<Rightarrow> ('x, http_response) op"
  sc_gunzip :: "string \<Rightarrow> gerror + string"
  sc_decode :: "string \<Rightarrow> string \<Rightarrow> (gerror + sample list) list"
    \<comment> \<open>what the calls of \<open>Decode\<close> give before \<open>io.EOF\<close>, from the body and its content type\<close>
  sc_gather :: "('x, (string \<times> gathered list) list) op"

text \<open>A \<open>Scraper\<close> is an interface value, which may be nil.\<close>

datatype scraper = HTTP_Scraper string | Object_Scraper

definition new_http_scraper :: "'x scrape_lib \<Rightarrow> string \<Rightarrow> gerror + scraper" where
  "new_http_scraper S url = (case sc_new_request S url of Some e \<Rightarrow> Inl e | None \<Rightarrow> Inr (HTTP_Scraper url))"

fun decode_samples :: "(gerror + sample list) list \<Rightarrow> sample list \<Rightarrow> gerror + sample list" where
  "decode_samples [] all = Inr all"
| "decode_samples (Inl e # rs) all = Inl e"
| "decode_samples (Inr ss # rs) all = decode_samples rs (all @ ss)"

definition scrape_http :: "'x scrape_lib \<Rightarrow> string \<Rightarrow> ('x, sample list) op" where
  "scrape_http S url x =
     (case sc_get S url x of
        (Inl e, x') \<Rightarrow> (Inl e, x')
      | (Inr resp, x') \<Rightarrow>
          if hr_status_code resp \<noteq> 200 then (Inl (Err (''server returned HTTP status '' @ hr_status resp)), x')
          else if hr_encoding resp = ''gzip'' then
            (case sc_gunzip S (hr_body resp) of
               Inl e \<Rightarrow> (Inl e, x')
             | Inr body \<Rightarrow> (decode_samples (sc_decode S body (hr_content_type resp)) [], x'))
          else (decode_samples (sc_decode S (hr_body resp) (hr_content_type resp)) [], x'))"

text \<open>
  The metrics of a family. There is one map \<open>metric\<close> for the family and every sample points to it:
  the loop collects the values, and the samples are read when the map has its final contents.
\<close>

fun family_values :: "gathered list \<Rightarrow> label_set \<Rightarrow> 64 word list \<Rightarrow> (label_set \<times> 64 word list) go" where
  "family_values [] metric vs = Ret (metric, vs)"
| "family_values (g # gs) metric vs =
     (let metric' = fold (\<lambda>(k, v) m. AList.update k v m) (ga_labels g) metric in
      go_bind (deref (ga_counter g)) (\<lambda>v. family_values gs metric' (vs @ [v])))"

definition family_samples :: "string \<times> gathered list \<Rightarrow> sample list go" where
  "family_samples = (\<lambda>(name, gs).
     go_bind (family_values gs [(metric_name_label, name)] []) (\<lambda>(metric, vs).
       Ret (map (\<lambda>v. \<lparr>sm_metric = metric, sm_value = v\<rparr>) vs)))"

fun families_samples :: "(string \<times> gathered list) list \<Rightarrow> sample list \<Rightarrow> sample list go" where
  "families_samples [] v = Ret v"
| "families_samples (m # ms) v = go_bind (family_samples m) (\<lambda>ss. families_samples ms (v @ ss))"

definition scrape_objects :: "'x scrape_lib \<Rightarrow> 'x \<Rightarrow> ((gerror + sample list) \<times> 'x) go" where
  "scrape_objects S x =
     (case sc_gather S x of
        (Inl e, x') \<Rightarrow> Ret (Inl e, x')
      | (Inr ms, x') \<Rightarrow> go_bind (families_samples ms []) (\<lambda>v. Ret (Inr v, x')))"

definition scrape :: "'x scrape_lib \<Rightarrow> scraper option \<Rightarrow> 'x \<Rightarrow> ((gerror + sample list) \<times> 'x) go" where
  "scrape S s x =
     go_bind (deref s) (\<lambda>s. case s of HTTP_Scraper url \<Rightarrow> Ret (scrape_http S url x) | Object_Scraper \<Rightarrow> scrape_objects S x)"

text \<open>\<open>CreateHTTPScraper\<close>: after an error the nil scraper is appended all the same.\<close>

definition create_http_scraper :: "'x scrape_lib \<Rightarrow> string list \<Rightarrow> scraper option list" where
  "create_http_scraper S urls =
     map (\<lambda>url. case new_http_scraper S url of Inl e \<Rightarrow> None | Inr s \<Rightarrow> Some s) urls"

definition create_object_scraper :: "scraper option list" where
  "create_object_scraper = [Some Object_Scraper]"

subsection \<open>A target\<close>

record target_metric =
  tg_name :: string
  tg_interval :: int
  tg_scrapers :: "scraper option list"
  tg_allow_list :: sample_filter

text \<open>\<open>Run\<close>: a scraper that fails is skipped.\<close>

fun run_scrapers ::
  "'x scrape_lib \<Rightarrow> sample_filter \<Rightarrow> scraper option list \<Rightarrow> sample list \<Rightarrow> 'x \<Rightarrow> (sample list \<times> 'x) go" where
  "run_scrapers S f [] res x = Ret (res, x)"
| "run_scrapers S f (s # ss) res x =
     go_bind (scrape S s x) (\<lambda>(r, x').
       case r of
         Inl e \<Rightarrow> run_scrapers S f ss res x'
       | Inr data \<Rightarrow> run_scrapers S f ss (res @ filter_samples f data) x')"

definition run_target :: "'x scrape_lib \<Rightarrow> target_metric \<Rightarrow> 'x \<Rightarrow> (sample list \<times> 'x) go" where
  "run_target S t x = run_scrapers S (tg_allow_list t) (tg_scrapers t) [] x"

definition metric_source :: string where
  "metric_source = ''metric-source''"

text \<open>\<open>Store\<close>; the store is \<open>AddVector\<close> of the interface \<open>API\<close>, or nil. \<open>latest\<close> is \<open>latestSuccessRun\<close>.\<close>

definition store_target ::
  "(sample list \<Rightarrow> label_set \<Rightarrow> 'x proc) option \<Rightarrow> ('x \<Rightarrow> gotime) \<Rightarrow> sample list \<Rightarrow> label_set \<Rightarrow> gotime \<times> 'x \<Rightarrow>
   gerror option \<times> gotime \<times> 'x" where
  "store_target api now data ls = (\<lambda>(latest, x).
     case api of
       None \<Rightarrow> (Some (Err ''store interface is not set''), latest, x)
     | Some add \<Rightarrow>
         (case add data ls x of
            (Some e, x') \<Rightarrow> (Some e, latest, x')
          | (None, x') \<Rightarrow> (None, now x', x')))"

text \<open>\<open>getdata\<close>: one round of a target; the error of the store is only logged.\<close>

definition get_data ::
  "'x scrape_lib \<Rightarrow> (sample list \<Rightarrow> label_set \<Rightarrow> 'x proc) option \<Rightarrow> ('x \<Rightarrow> gotime) \<Rightarrow> target_metric \<Rightarrow> gotime \<times> 'x \<Rightarrow>
   (gotime \<times> 'x) go" where
  "get_data S api now t = (\<lambda>(latest, x).
     go_bind (run_target S t x) (\<lambda>(data, x').
       Ret (snd (store_target api now data [(metric_source, tg_name t)] (latest, x')))))"

subsection \<open>The goroutine of a target\<close>

text \<open>
  A goroutine waits in its \<open>select\<close> on the context it saw last, or collects data. Contexts are
  numbered; \<open>ts_starting\<close> counts the goroutines that were launched and have not run yet.
\<close>

datatype collector = Waiting nat | Collecting

record target_state =
  ts_target :: target_metric
  ts_cancel :: "nat option"     \<comment> \<open>the context \<open>cancel\<close> ends, or nil\<close>
  ts_ctx :: nat                 \<comment> \<open>\<open>tg.ctx\<close>\<close>
  ts_next :: nat
  ts_cancelled :: "nat list"
  ts_starting :: nat
  ts_collectors :: "collector list"

definition new_target_metric :: "target_metric \<Rightarrow> target_state" where
  "new_target_metric t = \<lparr>ts_target = t, ts_cancel = None, ts_ctx = 0, ts_next = 1, ts_cancelled = [],
     ts_starting = 0, ts_collectors = []\<rparr>"

definition is_stopped :: "target_state \<Rightarrow> bool" where
  "is_stopped s \<longleftrightarrow> ts_cancel s = None"

definition cancel_current :: "target_state \<Rightarrow> target_state" where
  "cancel_current s = (case ts_cancel s of None \<Rightarrow> s | Some c \<Rightarrow> s\<lparr>ts_cancelled := c # ts_cancelled s\<rparr>)"

text \<open>The first part of \<open>Start\<close>, up to its loop: \<open>time.NewTicker\<close> panics unless the interval is positive.\<close>

definition start_target :: "target_state \<Rightarrow> target_state go" where
  "start_target s =
     (let s1 = cancel_current s in
      let s2 = s1\<lparr>ts_ctx := ts_next s1, ts_cancel := Some (ts_next s1), ts_next := Suc (ts_next s1)\<rparr> in
      if tg_interval (ts_target s) \<le> 0 then Panic
      else Ret (s2\<lparr>ts_starting := ts_starting s2 - 1, ts_collectors := Waiting (ts_ctx s2) # ts_collectors s2\<rparr>))"

definition stop_target :: "target_state \<Rightarrow> target_state" where
  "stop_target s = (cancel_current s)\<lparr>ts_cancel := None\<rparr>"

definition launch_target :: "target_state \<Rightarrow> target_state" where
  "launch_target s = s\<lparr>ts_starting := Suc (ts_starting s)\<rparr>"

inductive collector_step :: "target_state \<Rightarrow> target_state \<Rightarrow> bool" where
  begins: "ts_starting s \<noteq> 0 \<Longrightarrow> start_target s = Ret s' \<Longrightarrow> collector_step s s'"
| ticks: "ts_collectors s = cs @ Waiting c # ds \<Longrightarrow> collector_step s (s\<lparr>ts_collectors := cs @ Collecting # ds\<rparr>)"
| collected:
    "ts_collectors s = cs @ Collecting # ds \<Longrightarrow>
     collector_step s (s\<lparr>ts_collectors := cs @ Waiting (ts_ctx s) # ds\<rparr>)"
| exits:
    "ts_collectors s = cs @ Waiting c # ds \<Longrightarrow> c \<in> set (ts_cancelled s) \<Longrightarrow>
     collector_step s (s\<lparr>ts_collectors := cs @ ds\<rparr>)"

subsection \<open>The daemon\<close>

text \<open>
  The map holds the targets with the number of their object; \<open>md_objects\<close> are all target objects ever
  made, also those the map has forgotten but whose goroutines may still run.
\<close>

record metrics_daemon =
  md_targets :: "(string \<times> target_metric \<times> nat) list"
  md_objects :: "target_state list"

definition new_metrics_daemon :: metrics_daemon where
  "new_metrics_daemon = \<lparr>md_targets = [], md_objects = []\<rparr>"

definition on_object :: "nat \<Rightarrow> (target_state \<Rightarrow> target_state) \<Rightarrow> metrics_daemon \<Rightarrow> metrics_daemon" where
  "on_object i f d = d\<lparr>md_objects := (md_objects d)[i := f (md_objects d ! i)]\<rparr>"

definition get_targets :: "metrics_daemon \<Rightarrow> string list" where
  "get_targets d = map fst (md_targets d)"

definition delete_target :: "string \<Rightarrow> metrics_daemon \<Rightarrow> metrics_daemon" where
  "delete_target name d =
     (case map_of (md_targets d) name of
        None \<Rightarrow> d
      | Some (t, i) \<Rightarrow> on_object i stop_target (d\<lparr>md_targets := AList.delete name (md_targets d)\<rparr>))"

definition add_target :: "target_metric \<Rightarrow> metrics_daemon \<Rightarrow> metrics_daemon" where
  "add_target t d =
     (let d1 = delete_target (tg_name t) d in
      d1\<lparr>md_targets := AList.update (tg_name t) (t, length (md_objects d1)) (md_targets d1),
         md_objects := md_objects d1 @ [launch_target (new_target_metric t)]\<rparr>)"

definition start_daemon :: "metrics_daemon \<Rightarrow> metrics_daemon" where
  "start_daemon d = fold (\<lambda>(name, t, i). on_object i launch_target) (md_targets d) d"

definition find_target :: "metrics_daemon \<Rightarrow> string \<Rightarrow> target_metric option" where
  "find_target d name = map_option fst (map_of (md_targets d) name)"

lemma find_delete: "find_target (delete_target k d) k' = (if k' = k then None else find_target d k')"
  by (auto simp: find_target_def delete_target_def on_object_def split: option.splits)

lemma find_add: "find_target (add_target t d) k = (if k = tg_name t then Some t else find_target d k)"
  using find_delete [of "tg_name t" d k] by (auto simp: find_target_def add_target_def Let_def)

interpretation targets: keyed_store tg_name add_target find_target delete_target
  by unfold_locales (rule find_add find_delete)+

inductive daemon_step :: "metrics_daemon \<Rightarrow> metrics_daemon \<Rightarrow> bool" where
  adds: "daemon_step d (add_target t d)"
| deletes: "daemon_step d (delete_target name d)"
| starts: "daemon_step d (start_daemon d)"
| collects:
    "i < length (md_objects d) \<Longrightarrow> collector_step (md_objects d ! i) s \<Longrightarrow> daemon_step d (on_object i (\<lambda>_. s) d)"

inductive daemon_reachable :: "metrics_daemon \<Rightarrow> bool" where
  initially: "daemon_reachable new_metrics_daemon"
| step: "daemon_reachable d \<Longrightarrow> daemon_step d d' \<Longrightarrow> daemon_reachable d'"

subsection \<open>The contexts of a target\<close>

text \<open>
  A live target has one context that is not cancelled, the current one; every goroutine waits on
  it or on a cancelled one.
\<close>

fun collector_ok :: "nat \<Rightarrow> nat list \<Rightarrow> collector \<Rightarrow> bool" where
  "collector_ok ctx cancelled (Waiting c) = (c = ctx \<or> c \<in> set cancelled)"
| "collector_ok ctx cancelled Collecting = True"

lemma collectors_ok_mono:
  "list_all (collector_ok ctx cs) ks \<Longrightarrow> set cs \<subseteq> set cs' \<Longrightarrow> ctx \<in> set cs' \<or> ctx = ctx' \<Longrightarrow>
   list_all (collector_ok ctx' cs') ks"
proof (induction ks)
  case (Cons k ks)
  then show ?case by (cases k) auto
qed simp

definition contexts_ok :: "target_state \<Rightarrow> bool" where
  "contexts_ok s \<longleftrightarrow>
     ts_ctx s < ts_next s \<and> list_all (\<lambda>c. c < ts_next s) (ts_cancelled s) \<and>
     (\<forall>c. ts_cancel s = Some c \<longrightarrow> c = ts_ctx s \<and> c \<notin> set (ts_cancelled s)) \<and>
     (ts_cancel s = None \<and> ts_collectors s \<noteq> [] \<longrightarrow> ts_ctx s \<in> set (ts_cancelled s)) \<and>
     list_all (collector_ok (ts_ctx s) (ts_cancelled s)) (ts_collectors s)"

lemma contexts_ok_new: "contexts_ok (launch_target (new_target_metric t))"
  by (simp add: contexts_ok_def launch_target_def new_target_metric_def)

lemma contexts_ok_launch: "contexts_ok s \<Longrightarrow> contexts_ok (launch_target s)"
  by (simp add: contexts_ok_def launch_target_def)

lemma contexts_ok_stop: "contexts_ok s \<Longrightarrow> contexts_ok (stop_target s)"
  by (auto simp: contexts_ok_def stop_target_def cancel_current_def elim: collectors_ok_mono split: option.splits)

lemma cancelled_before_start:
  assumes "contexts_ok s" and "ts_collectors s \<noteq> []"
  shows "ts_ctx s \<in> set (ts_cancelled (cancel_current s))"
  using assms by (cases "ts_cancel s") (auto simp: contexts_ok_def cancel_current_def)

lemma contexts_ok_start:
  assumes "contexts_ok s" and "start_target s = Ret s'"
  shows "contexts_ok s'"
proof -
  have s': "s' = (cancel_current s)\<lparr>ts_ctx := ts_next s, ts_cancel := Some (ts_next s), ts_next := Suc (ts_next s),
      ts_starting := ts_starting s - 1, ts_collectors := Waiting (ts_next s) # ts_collectors s\<rparr>"
    using assms(2) by (auto simp: start_target_def cancel_current_def Let_def split: if_splits option.splits)
  have c: "list_all (\<lambda>c. c < ts_next s) (ts_cancelled (cancel_current s))"
      "set (ts_cancelled s) \<subseteq> set (ts_cancelled (cancel_current s))"
    using assms(1) by (auto simp: contexts_ok_def cancel_current_def split: option.splits)
  have "list_all (collector_ok (ts_next s) (ts_cancelled (cancel_current s))) (ts_collectors s)"
  proof (cases "ts_collectors s = []")
    case False
    with assms(1) c(2) cancelled_before_start [OF assms(1)] show ?thesis
      by (auto simp: contexts_ok_def elim!: collectors_ok_mono)
  qed simp
  then show ?thesis
    using c(1) by (auto simp: s' contexts_ok_def list_all_iff)
qed

lemma contexts_ok_step: "collector_step s s' \<Longrightarrow> contexts_ok s \<Longrightarrow> contexts_ok s'"
proof (induction rule: collector_step.induct)
  case (begins s s')
  then show ?case using contexts_ok_start by blast
qed (auto simp: contexts_ok_def)

definition daemon_ok :: "metrics_daemon \<Rightarrow> bool" where
  "daemon_ok d \<longleftrightarrow>
     list_all contexts_ok (md_objects d) \<and> list_all (\<lambda>(n, t, i). i < length (md_objects d)) (md_targets d)"

lemma daemon_ok_object:
  "daemon_ok d \<Longrightarrow> (i < length (md_objects d) \<Longrightarrow> contexts_ok (f (md_objects d ! i))) \<Longrightarrow> daemon_ok (on_object i f d)"
  by (simp add: daemon_ok_def on_object_def list_all_upd)

lemma daemon_ok_nth: "daemon_ok d \<Longrightarrow> i < length (md_objects d) \<Longrightarrow> contexts_ok (md_objects d ! i)"
  by (simp add: daemon_ok_def list_all_length)

lemma set_delete_subset: "set (AList.delete k m) \<subseteq> set m"
  by (induction m) auto

lemma set_update_subset_alist: "set (AList.update k v m) \<subseteq> insert (k, v) (set m)"
  by (induction m) auto

lemma daemon_ok_delete: "daemon_ok d \<Longrightarrow> daemon_ok (delete_target name d)"
proof (cases "map_of (md_targets d) name")
  case (Some p)
  assume ok: "daemon_ok d"
  obtain t i where p: "p = (t, i)" by (cases p)
  have "daemon_ok (d\<lparr>md_targets := AList.delete name (md_targets d)\<rparr>)"
    using ok set_delete_subset [of name "md_targets d"] by (auto simp: daemon_ok_def list_all_iff)
  then show ?thesis
    using Some p by (auto simp: delete_target_def intro!: daemon_ok_object contexts_ok_stop daemon_ok_nth)
qed (simp add: delete_target_def)

lemma daemon_ok_add:
  assumes "daemon_ok d"
  shows "daemon_ok (add_target t d)"
proof -
  let ?d = "delete_target (tg_name t) d"
  have d: "list_all contexts_ok (md_objects ?d)" "list_all (\<lambda>(n, t, i). i < length (md_objects ?d)) (md_targets ?d)"
    using daemon_ok_delete [OF assms] by (simp_all add: daemon_ok_def)
  have "list_all (\<lambda>(n, t, i). i < Suc (length (md_objects ?d)))
      (AList.update (tg_name t) (t, length (md_objects ?d)) (md_targets ?d))"
    using d(2) set_update_subset_alist [of "tg_name t" "(t, length (md_objects ?d))" "md_targets ?d"]
    by (force simp: list_all_iff)
  then show ?thesis
    using d(1) by (simp add: daemon_ok_def add_target_def Let_def contexts_ok_new)
qed

lemma daemon_ok_launch: "daemon_ok d \<Longrightarrow> daemon_ok (on_object i launch_target d)"
  by (rule daemon_ok_object) (simp_all add: contexts_ok_launch daemon_ok_nth)

lemma daemon_ok_start: "daemon_ok d \<Longrightarrow> daemon_ok (start_daemon d)"
proof -
  have "daemon_ok d \<Longrightarrow> daemon_ok (fold (\<lambda>(name, t, i). on_object i launch_target) ts d)" for ts d
  proof (induction ts arbitrary: d)
    case (Cons x ts)
    obtain n t i where x: "x = (n, t, i)" by (cases x)
    show ?case
      using Cons.IH [OF daemon_ok_launch [OF Cons.prems, of i]] by (simp add: x)
  qed simp
  then show "daemon_ok d \<Longrightarrow> daemon_ok (start_daemon d)" by (simp add: start_daemon_def)
qed

lemma daemon_ok_step: "daemon_step d d' \<Longrightarrow> daemon_ok d \<Longrightarrow> daemon_ok d'"
proof (induction rule: daemon_step.induct)
  case (collects i d s)
  show ?case
  proof (rule daemon_ok_object [OF collects(3)])
    show "contexts_ok s"
      using collects(1,2) daemon_ok_nth [OF collects(3)] contexts_ok_step by blast
  qed
qed (simp_all add: daemon_ok_add daemon_ok_delete daemon_ok_start)

lemma daemon_reachable_ok: "daemon_reachable d \<Longrightarrow> daemon_ok d"
proof (induction rule: daemon_reachable.induct)
  case initially
  show ?case by (simp add: daemon_ok_def new_metrics_daemon_def)
next
  case (step d d')
  from step(2,3) show ?case by (rule daemon_ok_step)
qed


subsection \<open>Goroutines the daemon has lost\<close>

definition used_objects :: "metrics_daemon \<Rightarrow> nat set" where
  "used_objects d = (snd \<circ> snd) ` set (md_targets d)"

fun live_collector :: "nat \<Rightarrow> collector \<Rightarrow> bool" where
  "live_collector ctx (Waiting c) = (c = ctx)"
| "live_collector ctx Collecting = True"

text \<open>
  An object the map has forgotten, all of whose launched goroutines run, with a goroutine that
  no cancelled context will end.
\<close>

definition lost_collector :: "metrics_daemon \<Rightarrow> nat \<Rightarrow> bool" where
  "lost_collector d i \<longleftrightarrow>
     i < length (md_objects d) \<and> i \<notin> used_objects d \<and>
     ts_starting (md_objects d ! i) = 0 \<and> ts_ctx (md_objects d ! i) \<notin> set (ts_cancelled (md_objects d ! i)) \<and>
     list_ex (live_collector (ts_ctx (md_objects d ! i))) (ts_collectors (md_objects d ! i))"

lemma used_delete: "used_objects (delete_target n d) \<subseteq> used_objects d"
  using set_delete_subset [of n "md_targets d"]
  by (auto simp: used_objects_def delete_target_def on_object_def split: option.splits)

lemma used_add: "used_objects (add_target t d) \<subseteq> insert (length (md_objects d)) (used_objects d)"
proof -
  let ?d = "delete_target (tg_name t) d"
  have "length (md_objects ?d) = length (md_objects d)"
    by (auto simp: delete_target_def on_object_def split: option.splits)
  then have "md_targets (add_target t d) = AList.update (tg_name t) (t, length (md_objects d)) (md_targets ?d)"
    by (simp add: add_target_def Let_def)
  then have "used_objects (add_target t d) \<subseteq> insert (length (md_objects d)) (used_objects ?d)"
    unfolding used_objects_def
    using image_mono [OF set_update_subset_alist, of "snd \<circ> snd" "tg_name t" "(t, length (md_objects d))" "md_targets ?d"] by simp
  with used_delete [of "tg_name t" d] show ?thesis by blast
qed

lemma object_delete:
  assumes "i \<notin> used_objects d"
  shows "md_objects (delete_target n d) ! i = md_objects d ! i"
    and "length (md_objects (delete_target n d)) = length (md_objects d)"
proof -
  show "md_objects (delete_target n d) ! i = md_objects d ! i"
  proof (cases "map_of (md_targets d) n")
    case (Some p)
    then have "snd p \<in> used_objects d"
      by (force simp: used_objects_def dest: map_of_SomeD)
    then have "snd p \<noteq> i" using assms by auto
    then show ?thesis using Some by (auto simp: delete_target_def on_object_def split: prod.splits)
  qed (simp add: delete_target_def)
  show "length (md_objects (delete_target n d)) = length (md_objects d)"
    by (auto simp: delete_target_def on_object_def split: option.splits)
qed

lemma object_add:
  assumes "i \<notin> used_objects d" and "i < length (md_objects d)"
  shows "md_objects (add_target t d) ! i = md_objects d ! i"
  using object_delete [OF assms(1), of "tg_name t"] assms(2) by (simp add: add_target_def Let_def nth_append)

lemma object_start:
  assumes "i \<notin> used_objects d"
  shows "md_objects (start_daemon d) ! i = md_objects d ! i" and "md_targets (start_daemon d) = md_targets d"
    and "length (md_objects (start_daemon d)) = length (md_objects d)"
proof -
  have "i \<notin> (snd \<circ> snd) ` set ts \<Longrightarrow>
      md_objects (fold (\<lambda>(name, t, i). on_object i launch_target) ts d) ! i = md_objects d ! i \<and>
      md_targets (fold (\<lambda>(name, t, i). on_object i launch_target) ts d) = md_targets d \<and>
      length (md_objects (fold (\<lambda>(name, t, i). on_object i launch_target) ts d)) = length (md_objects d)" for ts d
    by (induction ts arbitrary: d) (auto simp: on_object_def)
  from this [of "md_targets d" d] assms
  show "md_objects (start_daemon d) ! i = md_objects d ! i" "md_targets (start_daemon d) = md_targets d"
    "length (md_objects (start_daemon d)) = length (md_objects d)"
    by (simp_all add: start_daemon_def used_objects_def)
qed

lemma live_step:
  assumes "collector_step s s'" and "ts_starting s = 0" and "ts_ctx s \<notin> set (ts_cancelled s)"
    and "list_ex (live_collector (ts_ctx s)) (ts_collectors s)"
  shows "ts_starting s' = 0 \<and> ts_ctx s' \<notin> set (ts_cancelled s') \<and> list_ex (live_collector (ts_ctx s')) (ts_collectors s')"
  using assms by (induction rule: collector_step.induct) auto

lemma lost_step: "daemon_step d d' \<Longrightarrow> lost_collector d i \<Longrightarrow> lost_collector d' i"
proof (induction rule: daemon_step.induct)
  case (adds d t)
  then show ?case
    using used_add [of t d] object_add [of i d t] object_delete(2) [of i d "tg_name t"]
    by (auto simp: lost_collector_def add_target_def Let_def)
next
  case (deletes d name)
  then show ?case
    using used_delete [of name d] object_delete [of i d name] by (auto simp: lost_collector_def)
next
  case (starts d)
  then show ?case
    using object_start [of i d] by (auto simp: lost_collector_def used_objects_def)
next
  case (collects j d s)
  show ?case
  proof (cases "j = i")
    case True
    then show ?thesis
      using collects live_step [OF collects(2)] by (simp add: lost_collector_def on_object_def used_objects_def)
  qed (use collects in \<open>simp add: lost_collector_def on_object_def used_objects_def\<close>)
qed

lemma lost_forever: "daemon_step\<^sup>*\<^sup>* d d' \<Longrightarrow> lost_collector d i \<Longrightarrow> lost_collector d' i"
  by (induction rule: rtranclp_induct) (auto intro: lost_step)

subsection \<open>What a target collects\<close>

lemma scrape_failure_free:
  "s \<noteq> None \<Longrightarrow> s \<noteq> Some Object_Scraper \<Longrightarrow> \<exists>r. scrape S s x = Ret r"
  by (cases s) (auto simp: scrape_def split: scraper.splits)

lemma run_scrapers_allowed:
  "run_scrapers S f ss res x = Ret (res', x') \<Longrightarrow> \<exists>data. res' = res @ filter_samples f data"
proof (induction ss arbitrary: res x)
  case Nil
  then show ?case by (intro exI [of _ "[]"]) (cases f; simp)
next
  case (Cons s ss)
  obtain r x1 where r: "scrape S s x = Ret (r, x1)"
    using Cons.prems by (auto simp: go_bind_Ret_iff)
  show ?case
  proof (cases r)
    case (Inl e)
    then show ?thesis using Cons r by simp
  next
    case (Inr data)
    then have "run_scrapers S f ss (res @ filter_samples f data) x1 = Ret (res', x')"
      using Cons.prems r by simp
    from Cons.IH [OF this] obtain more where "res' = res @ filter_samples f data @ filter_samples f more"
      by auto
    then show ?thesis by (intro exI [of _ "data @ more"]) (simp add: allow_list.keep_append)
  qed
qed

lemma run_scrapers_nil: "None \<in> set ss \<Longrightarrow> Some Object_Scraper \<notin> set ss \<Longrightarrow> run_scrapers S f ss res x = Panic"
proof (induction ss arbitrary: res x)
  case (Cons s ss)
  show ?case
  proof (cases s)
    case None
    then show ?thesis by (simp add: scrape_def)
  next
    case (Some sc)
    then obtain r x1 where "scrape S s x = Ret (r, x1)"
      using scrape_failure_free [of s S x] Cons.prems by auto
    then show ?thesis
      using Cons Some by (cases r) auto
  qed
qed simp

lemma family_values_metric: "family_values gs m vs = Ret (m', vs') \<Longrightarrow>
    m' = fold (\<lambda>(k, v) m. AList.update k v m) (concat (map ga_labels gs)) m \<and> length vs' = length vs + length gs"
  by (induction gs arbitrary: m vs) (auto simp: go_bind_Ret_iff Let_def)


subsection \<open>Properties\<close>


definition example_target :: target_metric where
  "example_target = \<lparr>tg_name = ''system'', tg_interval = 60, tg_scrapers = [], tg_allow_list = Permissive_Allow_List\<rparr>"

text \<open>The target is added, its goroutine begins, and it is deleted.\<close>

definition example_running :: target_state where
  "example_running = (launch_target (new_target_metric example_target))\<lparr>ts_ctx := 1, ts_cancel := Some 1, ts_next := 2,
     ts_starting := 0, ts_collectors := [Waiting 1]\<rparr>"

lemma example_begins: "collector_step (launch_target (new_target_metric example_target)) example_running"
  by (rule begins)
    (simp_all add: launch_target_def new_target_metric_def start_target_def cancel_current_def example_running_def example_target_def)

definition example_stopped_daemon :: metrics_daemon where
  "example_stopped_daemon = delete_target ''system'' (on_object 0 (\<lambda>_. example_running) (add_target example_target new_metrics_daemon))"

lemma example_add_objects: "md_objects (add_target example_target new_metrics_daemon) = [launch_target (new_target_metric example_target)]"
  by (simp add: add_target_def delete_target_def new_metrics_daemon_def)

lemma example_stopped_reachable: "daemon_reachable example_stopped_daemon"
proof -
  have "daemon_step (add_target example_target new_metrics_daemon)
      (on_object 0 (\<lambda>_. example_running) (add_target example_target new_metrics_daemon))"
    by (rule collects) (simp_all add: example_add_objects example_begins)
  with daemon_reachable.step [OF initially adds] have
    "daemon_reachable (on_object 0 (\<lambda>_. example_running) (add_target example_target new_metrics_daemon))"
    using daemon_reachable.step by blast
  then show ?thesis
    unfolding example_stopped_daemon_def by (rule daemon_reachable.step) (rule deletes)
qed

lemma example_stopped_objects: "md_objects example_stopped_daemon = [stop_target example_running]"
  by (simp add: example_stopped_daemon_def delete_target_def on_object_def add_target_def new_metrics_daemon_def example_target_def)


text \<open>C38. A target that is deleted before its goroutine has begun is never stopped: there is a reachable
  state in which the daemon has no target, and in which and after which, whatever is called, a goroutine
  keeps collecting for the deleted target.\<close>

theorem deleted_target_runs_forever:
  "\<exists>d. daemon_reachable d \<and> get_targets d = [] \<and> {d'. daemon_step\<^sup>*\<^sup>* d d'} \<subseteq> {d'. lost_collector d' 0}"
proof -
  let ?a = "delete_target ''system'' (add_target example_target new_metrics_daemon)"
  let ?d = "on_object 0 (\<lambda>_. example_running) ?a"
  have objects: "md_objects ?a = [launch_target (new_target_metric example_target)]" and targets: "md_targets ?a = []"
    by (simp_all add: add_target_def delete_target_def new_metrics_daemon_def on_object_def example_target_def
        stop_target_def cancel_current_def launch_target_def new_target_metric_def)
  have "daemon_reachable ?a"
    using daemon_reachable.step [OF daemon_reachable.step [OF initially adds] deletes] .
  moreover have "daemon_step ?a ?d"
    by (rule collects) (simp_all add: objects example_begins)
  ultimately have "daemon_reachable ?d"
    by (rule daemon_reachable.step)
  moreover have "lost_collector ?d 0"
    by (simp add: lost_collector_def on_object_def objects targets used_objects_def example_running_def
        launch_target_def new_target_metric_def)
  moreover have "get_targets ?d = []"
    by (simp add: get_targets_def on_object_def targets)
  ultimately show ?thesis
    using lost_forever by (intro exI [of _ ?d]) blast
qed

text \<open>
  All samples of a metric family get the same labels, those that the loop over the family has written
  last, also when the metrics of the family differ in their labels.\<close>

theorem family_samples_share_labels:
  assumes "family_samples (name, gs) = Ret ss"
  shows "length ss = length gs \<and> list_all (\<lambda>s. sm_metric s =
    fold (\<lambda>(k, v) m. AList.update k v m) (concat (map ga_labels gs)) [(metric_name_label, name)]) ss"
proof -
  obtain metric vs where f: "family_values gs [(metric_name_label, name)] [] = Ret (metric, vs)"
    using assms by (auto simp: family_samples_def go_bind_Ret_iff)
  with assms have "ss = map (\<lambda>v. \<lparr>sm_metric = metric, sm_value = v\<rparr>) vs"
    by (simp add: family_samples_def)
  with family_values_metric [OF f] show ?thesis by (simp add: list_all_iff)
qed

definition example_family :: "gathered list" where
  "example_family = [\<lparr>ga_labels = [(''workload'', ''a'')], ga_counter = Some 3\<rparr>, \<lparr>ga_labels = [(''workload'', ''b'')], ga_counter = Some 5\<rparr>]"

theorem family_samples_share_labels_witness:
  "\<exists>ss. family_samples (''files'', example_family) = Ret ss \<and>
    ss = [\<lparr>sm_metric = [(''__name__'', ''files''), (''workload'', ''b'')], sm_value = 3\<rparr>,
          \<lparr>sm_metric = [(''__name__'', ''files''), (''workload'', ''b'')], sm_value = 5\<rparr>] \<and>
    length ss = length example_family \<and> list_all (\<lambda>s. sm_metric s =
      fold (\<lambda>(k, v) m. AList.update k v m) (concat (map ga_labels example_family)) [(metric_name_label, ''files'')]) ss"
proof -
  have f: "family_samples (''files'', example_family) = Ret
      [\<lparr>sm_metric = [(''__name__'', ''files''), (''workload'', ''b'')], sm_value = 3\<rparr>,
       \<lparr>sm_metric = [(''__name__'', ''files''), (''workload'', ''b'')], sm_value = 5\<rparr>]"
    by (simp add: family_samples_def example_family_def metric_name_label_def)
  show ?thesis
    using f family_samples_share_labels [OF f] by blast
qed

text \<open>
  Only samples the allow list admits reach the store, from every scraper that answers; a URL that is
  not valid leaves a nil scraper behind, and the first round of the target panics.
\<close>

theorem target_samples_allowed:
  assumes "run_target S t x = Ret (res, x')"
  shows "list_all (\<lambda>s. allows (tg_allow_list t) (metric_name (sm_metric s))) res \<and>
    filter_samples (tg_allow_list t) res = res"
proof -
  obtain data where "res = filter_samples (tg_allow_list t) data"
    using run_scrapers_allowed assms by (fastforce simp: run_target_def)
  then show ?thesis
    by (simp add: list_all_iff allow_list.keep_names allow_list.keep_twice)
qed

definition example_scrapes :: "nat scrape_lib" where
  "example_scrapes = \<lparr>sc_new_request = \<lambda>u. if u = ''bad'' then Some (Err ''parse'') else None,
     sc_get = \<lambda>u n. (Inr \<lparr>hr_status_code = 200, hr_status = ''OK'', hr_encoding = '''', hr_content_type = '''', hr_body = ''''\<rparr>, Suc n),
     sc_gunzip = Inr, sc_decode = \<lambda>b c. [Inr [\<lparr>sm_metric = [(''__name__'', ''up'')], sm_value = 1\<rparr>],
       Inr [\<lparr>sm_metric = [(''__name__'', ''down'')], sm_value = 2\<rparr>]],
     sc_gather = \<lambda>n. (Inr [], n)\<rparr>"

theorem target_samples_allowed_witness:
  "\<exists>res x'. run_target example_scrapes (example_target\<lparr>tg_scrapers := [Some (HTTP_Scraper ''u'')],
       tg_allow_list := Restrictive_Allow_List [''up'']\<rparr>) 0 = Ret (res, x') \<and>
     res = [\<lparr>sm_metric = [(''__name__'', ''up'')], sm_value = 1\<rparr>] \<and>
     (list_all (\<lambda>s. allows (Restrictive_Allow_List [''up'']) (metric_name (sm_metric s))) res \<and>
      filter_samples (Restrictive_Allow_List [''up'']) res = res)"
proof -
  let ?t = "example_target\<lparr>tg_scrapers := [Some (HTTP_Scraper ''u'')], tg_allow_list := Restrictive_Allow_List [''up'']\<rparr>"
  have r: "run_target example_scrapes ?t 0 = Ret ([\<lparr>sm_metric = [(''__name__'', ''up'')], sm_value = 1\<rparr>], 1)"
    by (simp add: run_target_def scrape_def scrape_http_def example_scrapes_def metric_name_def metric_name_label_def)
  show ?thesis
    using r target_samples_allowed [OF r] by simp
qed

theorem invalid_url_panics:
  assumes "sc_new_request S url = Some e" and "url \<in> set urls" and "tg_scrapers t = create_http_scraper S urls"
  shows "run_target S t x = Panic"
proof -
  have "None \<in> set (create_http_scraper S urls)"
    using assms(1,2) by (force simp: create_http_scraper_def new_http_scraper_def)
  moreover have "Some Object_Scraper \<notin> set (create_http_scraper S urls)"
    by (auto simp: create_http_scraper_def new_http_scraper_def split: option.splits sum.splits)
  ultimately show ?thesis
    using assms(3) by (simp add: run_target_def run_scrapers_nil)
qed

theorem invalid_url_panics_witness:
  "run_target example_scrapes (example_target\<lparr>tg_scrapers := create_http_scraper example_scrapes [''ok'', ''bad'']\<rparr>) 0 = Panic"
  by (rule invalid_url_panics [of example_scrapes "''bad''" "Err ''parse''" "[''ok'', ''bad'']"])
    (simp_all add: example_scrapes_def)

end
