(* ===== verification/Metrics_Targets.thy ===== *)
theory Metrics_Targets
  imports Metrics_Daemon Podman Numbers
begin

text \<open>
  \<open>internal/metrics/workload.go\<close>, \<open>system.go\<close> and \<open>data_transfer.go\<close>: the three observers of the
  configuration that add and delete targets of the metrics daemon.
\<close>

definition seconds :: "int \<Rightarrow> int" where
  "seconds n = n * 1000000000"

subsection \<open>Workloads\<close>

definition default_interval :: int where
  "default_interval = 60"

text \<open>The state of \<open>WorkloadMetrics\<close>: the configured workloads by name, nil before the first update.\<close>

type_synonym workload_metrics_state = "string \<rightharpoonup> workload"

definition workload_metrics_update :: "config_message \<Rightarrow> workload_metrics_state" where
  "workload_metrics_update m = fold (\<lambda>w cfg. cfg(wl_name w \<mapsto> w)) (msg_workloads m) Map.empty"

definition workload_metrics_removed :: "string \<Rightarrow> metrics_daemon \<Rightarrow> metrics_daemon" where
  "workload_metrics_removed name d = delete_target name d"

definition get_path_or_default :: "string \<Rightarrow> string" where
  "get_path_or_default p = (if p = [] then ''/'' else p)"

definition metrics_url :: "string \<Rightarrow> int \<Rightarrow> string \<Rightarrow> string" where
  "metrics_url ip port p = ''http://'' @ ip @ '':'' @ show_int port @ get_path_or_default p"

definition container_url :: "workload_metrics \<Rightarrow> container_report \<Rightarrow> string list" where
  "container_url wm c =
     (case entries (wm_containers wm) (cr_name c) of
        Some custom \<Rightarrow> if cm_disabled custom then [] else [metrics_url (cr_ip_address c) (cm_port custom) (cm_path custom)]
      | None \<Rightarrow> [metrics_url (cr_ip_address c) (wm_port wm) (wm_path wm)])"

definition get_workload_urls :: "pod_report \<Rightarrow> workload_metrics \<Rightarrow> string list" where
  "get_workload_urls r wm = concat (map (container_url wm) (pr_containers r))"

definition workload_target :: "'x scrape_lib \<Rightarrow> workload_metrics \<Rightarrow> pod_report list \<Rightarrow> pod_report \<Rightarrow> target_metric" where
  "workload_target S wm reports r =
     (let filt = (case wm_allow_list wm of
            None \<Rightarrow> Permissive_Allow_List
          | Some al \<Rightarrow> new_restrictive_allow_list (Some al));
          urls = concat (map (\<lambda>r. get_workload_urls r wm) reports);
          interval = (if wm_interval wm > 0 then wm_interval wm else default_interval)
      in \<lparr>tg_name = pr_name r, tg_interval = seconds interval, tg_scrapers = create_http_scraper S urls,
          tg_allow_list = filt\<rparr>)"

text \<open>\<open>WorkloadStarted\<close>: the loop over the reports.\<close>

definition workload_metrics_started ::
  "'x scrape_lib \<Rightarrow> workload_metrics_state \<Rightarrow> string \<Rightarrow> pod_report list \<Rightarrow> metrics_daemon \<Rightarrow> metrics_daemon" where
  "workload_metrics_started S cfg name reports =
     fold (\<lambda>r d. case cfg name of
              None \<Rightarrow> d
            | Some w \<Rightarrow> (case wl_metrics w of None \<Rightarrow> d | Some wm \<Rightarrow> add_target (workload_target S wm reports r) d))
       reports"

subsection \<open>Components of the device\<close>

text \<open>
  The interface of an observer that owns one target: the target made from its configuration has the
  name it is deleted by.
\<close>

locale component_target = keyed_store key put get del
  for key :: "'v \<Rightarrow> 'k" and put :: "'v \<Rightarrow> 's \<Rightarrow> 's" and get :: "'s \<Rightarrow> 'k \<Rightarrow> 'v option" and del :: "'k \<Rightarrow> 's \<Rightarrow> 's" +
  fixes target_of :: "component_metrics \<Rightarrow> 'v"
    and target_name :: 'k
  assumes key_target: "key (target_of c) = target_name"
begin

lemma get_applied:
  "get (if cmp_disabled c then del target_name s else put (target_of c) s) k =
     (if k = target_name then if cmp_disabled c then None else Some (target_of c) else get s k)"
  by (simp add: get_put get_del key_target)

end

definition default_scraping_interval :: int where
  "default_scraping_interval = 60"

definition or_default_interval :: "component_metrics \<Rightarrow> component_metrics" where
  "or_default_interval c = (if cmp_interval c = 0 then c\<lparr>cmp_interval := default_scraping_interval\<rparr> else c)"

definition default_component_metrics :: component_metrics where
  "default_component_metrics = \<lparr>cmp_allow_list = None, cmp_disabled = False, cmp_interval = default_scraping_interval\<rparr>"

subsection \<open>The system\<close>

definition system_target_name :: string where
  "system_target_name = ''system''"

definition node_exporter_endpoint :: string where
  "node_exporter_endpoint = ''http://localhost:9100/metrics''"

text \<open>\<open>expectedConfiguration\<close>; \<open>config.Metrics\<close> of a nil configuration panics.\<close>

definition expected_configuration :: "device_configuration option \<Rightarrow> component_metrics go" where
  "expected_configuration config =
     go_bind (deref config) (\<lambda>c.
       Ret (case cfg_metrics c of
              None \<Rightarrow> default_component_metrics
            | Some m \<Rightarrow> (case mc_system m of None \<Rightarrow> default_component_metrics | Some s \<Rightarrow> or_default_interval s)))"

definition get_sample_filter :: "metrics_allow_list option \<Rightarrow> sample_filter" where
  "get_sample_filter al = (case al of None \<Rightarrow> default_system_allow_list | Some l \<Rightarrow> new_restrictive_allow_list (Some l))"

definition system_target :: "'y scrape_lib \<Rightarrow> component_metrics \<Rightarrow> target_metric" where
  "system_target S c = \<lparr>tg_name = system_target_name, tg_interval = seconds (cmp_interval c),
     tg_scrapers = create_http_scraper S [node_exporter_endpoint], tg_allow_list = get_sample_filter (cmp_allow_list c)\<rparr>"

record system_metrics =
  sys_latest :: "component_metrics option"
  sys_exporter :: service

definition new_system_metrics :: "'x bus \<Rightarrow> ('x world, system_metrics) op" where
  "new_system_metrics B w =
     (case new_systemd_rootless B ''node_exporter'' [] False w of
        (Inl e, w') \<Rightarrow> (Inl e, w')
      | (Inr s, w') \<Rightarrow> (Inr \<lparr>sys_latest = None, sys_exporter = s\<rparr>, w'))"

definition ensure_node_exporter_disabled :: "'x bus \<Rightarrow> service \<Rightarrow> 'x world proc" where
  "ensure_node_exporter_disabled B s = then_ok (service_stop B s) (service_disable B s)"

definition ensure_node_exporter_enabled :: "'x bus \<Rightarrow> service \<Rightarrow> 'x world proc" where
  "ensure_node_exporter_enabled B s = then_ok (service_enable B s) (service_start B s)"

definition ensure_node_exporter_state :: "'x bus \<Rightarrow> service \<Rightarrow> component_metrics \<Rightarrow> 'x world proc" where
  "ensure_node_exporter_state B s c =
     (if cmp_disabled c then ensure_node_exporter_disabled B s else ensure_node_exporter_enabled B s)"

type_synonym 'x system_world = "system_metrics \<times> metrics_daemon \<times> 'x world"

definition system_update ::
  "'x bus \<Rightarrow> 'y scrape_lib \<Rightarrow> config_message \<Rightarrow> 'x system_world \<Rightarrow> (gerror option \<times> 'x system_world) go" where
  "system_update B S m = (\<lambda>(sm, d, w).
     go_bind (expected_configuration (msg_configuration m)) (\<lambda>new.
       Ret (if sys_latest sm = Some new then (None, sm, d, w)
            else
              (case ensure_node_exporter_state B (sys_exporter sm) new w of
                 (Some e, w') \<Rightarrow> (Some e, sm, d, w')
               | (None, w') \<Rightarrow>
                   (None, sm\<lparr>sys_latest := Some new\<rparr>,
                    (if cmp_disabled new then delete_target system_target_name d else add_target (system_target S new) d),
                    w')))))"

definition system_deregister :: "metrics_daemon \<Rightarrow> metrics_daemon" where
  "system_deregister d = delete_target ''system'' d"

interpretation system_component: component_target tg_name add_target find_target delete_target
    "system_target S" system_target_name for S
  by unfold_locales (simp add: system_target_def)

subsection \<open>Data transfer\<close>

definition data_transfer_target_name :: string where
  "data_transfer_target_name = ''data transfer''"

definition retrieve_configuration_or_default :: "device_configuration option \<Rightarrow> component_metrics go" where
  "retrieve_configuration_or_default config =
     go_bind (deref config) (\<lambda>c.
       Ret (case cfg_metrics c of
              None \<Rightarrow> default_component_metrics
            | Some m \<Rightarrow> (case mc_data_transfer m of None \<Rightarrow> default_component_metrics | Some s \<Rightarrow> or_default_interval s)))"

definition get_data_transfer_sample_filter :: "metrics_allow_list option \<Rightarrow> sample_filter" where
  "get_data_transfer_sample_filter al =
     (case al of None \<Rightarrow> default_data_transfer_allow_list | Some l \<Rightarrow> new_restrictive_allow_list (Some l))"

definition data_transfer_target :: "component_metrics \<Rightarrow> target_metric" where
  "data_transfer_target c = \<lparr>tg_name = data_transfer_target_name, tg_interval = seconds (cmp_interval c),
     tg_scrapers = create_object_scraper, tg_allow_list = get_data_transfer_sample_filter (cmp_allow_list c)\<rparr>"

definition check_for_updates :: "component_metrics \<Rightarrow> component_metrics option \<Rightarrow> bool" where
  "check_for_updates new latest = (case latest of None \<Rightarrow> True | Some old \<Rightarrow> new \<noteq> old)"

type_synonym data_transfer_state = "component_metrics option \<times> metrics_daemon"

definition update_target :: "component_metrics \<Rightarrow> data_transfer_state \<Rightarrow> data_transfer_state" where
  "update_target new = (\<lambda>(latest, d).
     (Some new,
      if cmp_disabled new then delete_target data_transfer_target_name d else add_target (data_transfer_target new) d))"

definition data_transfer_update :: "config_message \<Rightarrow> data_transfer_state \<Rightarrow> data_transfer_state go" where
  "data_transfer_update m s =
     go_bind (retrieve_configuration_or_default (msg_configuration m)) (\<lambda>new.
       Ret (if check_for_updates new (fst s) then update_target new s else s))"

definition data_transfer_deregister :: "metrics_daemon \<Rightarrow> metrics_daemon" where
  "data_transfer_deregister d = delete_target data_transfer_target_name d"

interpretation data_transfer_component: component_target tg_name add_target find_target delete_target
    data_transfer_target data_transfer_target_name
  by unfold_locales (simp add: data_transfer_target_def)

subsection \<open>Properties\<close>

lemma started_is_adding:
  assumes "cfg name = Some w" and "wl_metrics w = Some wm"
  shows "workload_metrics_started S cfg name reports d = fold add_target (map (workload_target S wm reports) reports) d"
proof -
  have "fold (\<lambda>r d. case cfg name of
              None \<Rightarrow> d
            | Some w \<Rightarrow> (case wl_metrics w of None \<Rightarrow> d | Some wm \<Rightarrow> add_target (workload_target S wm reports r) d)) rs d
      = fold add_target (map (workload_target S wm reports) rs) d" for rs d
    using assms by (induction rs arbitrary: d) simp_all
  then show ?thesis by (simp add: workload_metrics_started_def)
qed

lemma workload_target_name: "tg_name (workload_target S wm reports r) = pr_name r"
  by (simp add: workload_target_def Let_def)

lemma workload_target_interval: "0 < tg_interval (workload_target S wm reports r)"
  by (simp add: workload_target_def seconds_def default_interval_def Let_def)

lemma index_by_image: "index_by f (map g xs) k \<noteq> None \<longleftrightarrow> (\<exists>x \<in> set xs. f (g x) = k)"
proof -
  have "index_by f (map g xs) k \<noteq> None \<longleftrightarrow> k \<in> dom (index_by f (map g xs))" by auto
  then show ?thesis by (auto simp: dom_index_by)
qed

text \<open>
  When a configured workload with metrics starts, the daemon scrapes, for each of its pods and under
  the name of the pod, the addresses of all its containers with a positive interval, and the other
  targets stay; a workload without a metrics section changes nothing.\<close>

theorem started_workload_is_scraped:
  assumes "cfg name = Some w"
  shows "case wl_metrics w of
      None \<Rightarrow> workload_metrics_started S cfg name reports d = d
    | Some wm \<Rightarrow>
        (\<forall>k. case find_target (workload_metrics_started S cfg name reports d) k of
            None \<Rightarrow> k \<notin> pr_name ` set reports \<and> find_target d k = None
          | Some t \<Rightarrow> if k \<in> pr_name ` set reports
              then tg_name t = k \<and> 0 < tg_interval t \<and>
                tg_scrapers t = create_http_scraper S (concat (map (\<lambda>r. get_workload_urls r wm) reports))
              else find_target d k = Some t)"
proof (cases "wl_metrics w")
  case None
  have "fold (\<lambda>r d. d) rs d = d" for rs :: "pod_report list"
    by (induction rs) simp_all
  then show ?thesis using None assms by (simp add: workload_metrics_started_def)
next
  case (Some wm)
  let ?ts = "map (workload_target S wm reports) reports"
  have get: "find_target (workload_metrics_started S cfg name reports d) k =
      (case index_by tg_name ?ts k of None \<Rightarrow> find_target d k | Some v \<Rightarrow> Some v)" for k
    unfolding started_is_adding [of cfg name w, OF assms Some] by (rule targets.get_put_all)
  have "case find_target (workload_metrics_started S cfg name reports d) k of
            None \<Rightarrow> k \<notin> pr_name ` set reports \<and> find_target d k = None
          | Some t \<Rightarrow> if k \<in> pr_name ` set reports
              then tg_name t = k \<and> 0 < tg_interval t \<and>
                tg_scrapers t = create_http_scraper S (concat (map (\<lambda>r. get_workload_urls r wm) reports))
              else find_target d k = Some t" for k
  proof (cases "index_by tg_name ?ts k")
    case None
    then have "k \<notin> pr_name ` set reports"
      using index_by_image [of tg_name "workload_target S wm reports" reports k] by (auto simp: workload_target_name)
    with None show ?thesis by (simp add: get split: option.splits)
  next
    case found: (Some t)
    then have "t \<in> set ?ts \<and> tg_name t = k"
      using index_by_SomeD by fast
    moreover from this have "k \<in> pr_name ` set reports" by (auto simp: workload_target_name)
    ultimately show ?thesis
      using found by (auto simp: get workload_target_name workload_target_def Let_def seconds_def default_interval_def)
  qed
  then show ?thesis using Some by simp
qed

definition example_metrics :: workload_metrics where
  "example_metrics = \<lparr>wm_allow_list = None, wm_containers = Some [''db'' \<mapsto> \<lparr>cm_disabled = True, cm_path = [], cm_port = 1\<rparr>],
     wm_interval = 0, wm_path = [], wm_port = 8\<rparr>"

definition example_report :: pod_report where
  "example_report = \<lparr>pr_id = ''1'', pr_name = ''w'', pr_containers =
     [\<lparr>cr_ip_address = ''10.0.0.1'', cr_id = ''a'', cr_name = ''web''\<rparr>, \<lparr>cr_ip_address = ''10.0.0.1'', cr_id = ''b'', cr_name = ''db''\<rparr>]\<rparr>"

definition example_metered :: workload where
  "example_metered = (example_workload ''w'')\<lparr>wl_metrics := Some example_metrics\<rparr>"

theorem started_workload_is_scraped_witness:
  "get_workload_urls example_report example_metrics = [''http://10.0.0.1:8/''] \<and>
   (case find_target (workload_metrics_started example_scrapes [''w'' \<mapsto> example_metered] ''w'' [example_report] new_metrics_daemon) ''w'' of
      None \<Rightarrow> False
    | Some t \<Rightarrow> tg_name t = ''w'' \<and> 0 < tg_interval t \<and>
        tg_scrapers t = create_http_scraper example_scrapes (concat (map (\<lambda>r. get_workload_urls r example_metrics) [example_report])))"
proof -
  have m: "wl_metrics example_metered = Some example_metrics" by (simp add: example_metered_def)
  have "show_int 8 = ''8''"
    by (simp add: show_int_def show_nat.simps [of 8] char_of_def bit_0)
  then have "get_workload_urls example_report example_metrics = [''http://10.0.0.1:8/'']"
    by (simp add: get_workload_urls_def example_report_def container_url_def example_metrics_def metrics_url_def get_path_or_default_def)
  moreover have "case find_target (workload_metrics_started example_scrapes [''w'' \<mapsto> example_metered] ''w'' [example_report] new_metrics_daemon) ''w'' of
            None \<Rightarrow> ''w'' \<notin> pr_name ` set [example_report] \<and> find_target new_metrics_daemon ''w'' = None
          | Some t \<Rightarrow> if ''w'' \<in> pr_name ` set [example_report]
              then tg_name t = ''w'' \<and> 0 < tg_interval t \<and>
                tg_scrapers t = create_http_scraper example_scrapes (concat (map (\<lambda>r. get_workload_urls r example_metrics) [example_report]))
              else find_target new_metrics_daemon ''w'' = Some t"
  proof -
    have "[''w'' \<mapsto> example_metered] ''w'' = Some example_metered" by simp
    from started_workload_is_scraped [of "[''w'' \<mapsto> example_metered]" "''w''", OF this, of example_scrapes "[example_report]" new_metrics_daemon]
    show ?thesis unfolding m option.case by (rule spec)
  qed
  ultimately show ?thesis
    by (simp add: example_report_def split: option.splits)
qed

text \<open>The system's target is the one of the last configuration applied.\<close>

definition system_ok :: "'y scrape_lib \<Rightarrow> system_metrics \<Rightarrow> metrics_daemon \<Rightarrow> bool" where
  "system_ok S sm d \<longleftrightarrow>
     (case sys_latest sm of
        None \<Rightarrow> True
      | Some c \<Rightarrow> find_target d system_target_name = (if cmp_disabled c then None else Some (system_target S c)))"


definition example_system :: system_metrics where
  "example_system = \<lparr>sys_latest = None, sys_exporter = \<lparr>svc_name = ''node_exporter'', svc_restart_sec = 15, svc_units = [],
     svc_units_content = [], svc_rootless = False\<rparr>\<rparr>"


text \<open>
  The interval of the system and data transfer metrics is only replaced when it is zero: with a
  negative one the goroutine of the target panics as soon as it begins, whereas workloads fall back to
  the default.
\<close>

theorem negative_interval_panics:
  assumes "cfg_metrics c = Some mc" and "mc_system mc = Some cm" and "cmp_interval cm < 0" and "\<not> cmp_disabled cm"
    and "msg_configuration m = Some c"
    and "system_update B S m (sm, d, w) = Ret (None, sm', d', w')" and "sys_latest sm \<noteq> Some cm"
  shows "case find_target d' system_target_name of None \<Rightarrow> False | Some t \<Rightarrow> start_target (launch_target (new_target_metric t)) = Panic"
proof -
  have e: "expected_configuration (msg_configuration m) = Ret cm"
    using assms(1-5) by (simp add: expected_configuration_def or_default_interval_def)
  have "d' = add_target (system_target S cm) d"
    using assms(4,6,7) e by (auto simp: system_update_def split: prod.splits option.splits)
  then show ?thesis
    using assms(3) by (simp add: find_add system_target_def seconds_def start_target_def launch_target_def
        new_target_metric_def cancel_current_def Let_def)
qed


definition example_negative :: config_message where
  "example_negative = message_with (empty_device_configuration\<lparr>cfg_metrics := Some \<lparr>mc_data_transfer = None, mc_receiver = None,
     mc_retention = None, mc_system = Some (default_component_metrics\<lparr>cmp_interval := - 1\<rparr>)\<rparr>\<rparr>)"

lemma example_exporter: "fst (ensure_node_exporter_state succeeding_bus (sys_exporter example_system) c w) = None"
  by (simp add: ensure_node_exporter_state_def ensure_node_exporter_enabled_def ensure_node_exporter_disabled_def then_ok_def
      service_enable_def service_start_def service_stop_def service_disable_def on_ext_def with_connection_def new_dbus_connection_def bind_ok_def
      succeeding_bus_def example_system_def)

theorem negative_interval_panics_witness:
  "\<exists>sm' d' w'. system_update succeeding_bus example_scrapes example_negative (example_system, new_metrics_daemon, \<lparr>w_fs = fs_with_dirs {}, w_ext = ()\<rparr>)
       = Ret (None, sm', d', w') \<and>
     (case find_target d' system_target_name of None \<Rightarrow> False | Some t \<Rightarrow> start_target (launch_target (new_target_metric t)) = Panic)"
proof -
  let ?c = "empty_device_configuration\<lparr>cfg_metrics := Some \<lparr>mc_data_transfer = None, mc_receiver = None,
     mc_retention = None, mc_system = Some (default_component_metrics\<lparr>cmp_interval := - 1\<rparr>)\<rparr>\<rparr>"
  let ?cm = "default_component_metrics\<lparr>cmp_interval := - 1\<rparr>"
  let ?w = "\<lparr>w_fs = fs_with_dirs {}, w_ext = ()\<rparr>"
  have e: "expected_configuration (msg_configuration example_negative) = Ret ?cm"
    by (simp add: expected_configuration_def example_negative_def message_with_def or_default_interval_def)
  obtain w1 where "ensure_node_exporter_state succeeding_bus (sys_exporter example_system) ?cm ?w = (None, w1)"
    using example_exporter by (metis prod.collapse)
  then obtain sm' d' w' where u: "system_update succeeding_bus example_scrapes example_negative (example_system, new_metrics_daemon, ?w)
       = Ret (None, sm', d', w')"
    using e by (auto simp: system_update_def example_system_def)
  have "case find_target d' system_target_name of None \<Rightarrow> False | Some t \<Rightarrow> start_target (launch_target (new_target_metric t)) = Panic"
    by (rule negative_interval_panics [OF _ _ _ _ _ u, where c = ?c and mc = "\<lparr>mc_data_transfer = None, mc_receiver = None, mc_retention = None, mc_system = Some ?cm\<rparr>" and cm = ?cm])
      (simp_all add: example_negative_def message_with_def example_system_def default_component_metrics_def)
  with u show ?thesis by blast
qed

end
