(* ===== verification/Data_Transfer.thy ===== *)
theory Data_Transfer
  imports Configuration Workload_Manager Metrics_Store
begin

text \<open>
  \<open>internal/datatransfer\<close>: the monitor that copies the data of workloads to and from S3
  (\<open>monitor.go\<close>), the connection (\<open>s3/sync.go\<close>, \<open>model/filesync.go\<close>) and the counters
  (\<open>metrics.go\<close>). The AWS session, \<open>s3sync\<close> and base64 are the record \<open>s3_lib\<close> on the external state.
  The monitor holds a pointer to its current \<open>Sync\<close>: the model numbers the \<open>Sync\<close> objects, and
  \<open>mo_fs\<close> is the number of the current one, so that a job may still hold a replaced one.
\<close>

subsection \<open>The connection\<close>

record data_sync_statistics =
  st_files :: int
  st_bytes :: int
  st_deleted :: int

record s3_sync =
  sy_connected :: bool          \<comment> \<open>\<open>s3SyncManager\<close> is not nil\<close>
  sy_bucket :: string
  sy_region :: string
  sy_endpoint :: string
  sy_access_key :: string
  sy_secret_key :: string
  sy_ca_bundle :: string

record 'e s3_lib =
  s3_decode :: "string \<Rightarrow> gerror + string"
  s3_session :: "string \<Rightarrow> string \<Rightarrow> string \<Rightarrow> string \<Rightarrow> string \<Rightarrow> 'e proc"
    \<comment> \<open>region, endpoint, keys and CA bundle\<close>
  s3_copy :: "string \<Rightarrow> string \<Rightarrow> 'e proc"
  s3_statistics :: "'e \<Rightarrow> data_sync_statistics"
  s3_now :: "'e \<Rightarrow> gotime"

definition new_sync :: "'e s3_lib \<Rightarrow> s3_configuration \<Rightarrow> gerror + s3_sync" where
  "new_sync L c =
     (case s3_decode L (s3_access_key_id c) of
        Inl e \<Rightarrow> Inl e
      | Inr access \<Rightarrow>
          (case s3_decode L (s3_secret_access_key c) of
             Inl e \<Rightarrow> Inl e
           | Inr secret \<Rightarrow>
               (case s3_decode L (s3_ca_bundle c) of
                  Inl e \<Rightarrow> Inl e
                | Inr ca \<Rightarrow> Inr \<lparr>sy_connected = False, sy_bucket = s3_bucket_name c, sy_region = s3_bucket_region c,
                    sy_endpoint = ''https://'' @ s3_bucket_host c @ '':'' @ show_int (s3_bucket_port c),
                    sy_access_key = access, sy_secret_key = secret, sy_ca_bundle = ca\<rparr>)))"

definition sync_connect :: "'e s3_lib \<Rightarrow> s3_sync \<Rightarrow> 'e \<Rightarrow> gerror option \<times> s3_sync \<times> 'e" where
  "sync_connect L s x =
     (if sy_connected s then (None, s, x)
      else (case s3_session L (sy_region s) (sy_endpoint s) (sy_access_key s) (sy_secret_key s) (sy_ca_bundle s) x of
              (Some e, x') \<Rightarrow> (Some e, s, x')
            | (None, x') \<Rightarrow> (None, s\<lparr>sy_connected := True\<rparr>, x')))"

definition sync_disconnect :: "s3_sync \<Rightarrow> s3_sync" where
  "sync_disconnect s = s\<lparr>sy_connected := False\<rparr>"

text \<open>The methods of a nil manager dereference it.\<close>

definition get_statistics :: "'e s3_lib \<Rightarrow> s3_sync \<Rightarrow> 'e \<Rightarrow> data_sync_statistics go" where
  "get_statistics L s x = (if sy_connected s then Ret (s3_statistics L x) else Panic)"

definition s3_sync_path :: "'e s3_lib \<Rightarrow> s3_sync \<Rightarrow> string \<Rightarrow> string \<Rightarrow> 'e \<Rightarrow> (gerror option \<times> 'e) go" where
  "s3_sync_path L s src tgt x =
     (if sy_connected s then Ret (s3_copy L src (''s3://'' @ sy_bucket s @ ''/'' @ tgt) x) else Panic)"

subsection \<open>The monitor\<close>

datatype direction = Egress | Ingress

record monitor =
  mo_last_sync :: "string \<rightharpoonup> gotime"
  mo_fs :: "nat option"
  mo_syncs :: "s3_sync list"
  mo_reports :: "(string \<times> direction \<times> data_sync_statistics \<times> int) list"
    \<comment> \<open>what \<open>reportMetrics\<close> added to the counters\<close>

definition new_monitor :: monitor where
  "new_monitor = \<lparr>mo_last_sync = Map.empty, mo_fs = None, mo_syncs = [], mo_reports = []\<rparr>"

definition report_metrics :: "string \<Rightarrow> direction \<Rightarrow> data_sync_statistics \<Rightarrow> int \<Rightarrow> monitor \<Rightarrow> monitor" where
  "report_metrics name dir stats t mo = mo\<lparr>mo_reports := mo_reports mo @ [(name, dir, stats, t)]\<rparr>"

definition has_storage_defined :: "'w manager \<Rightarrow> bool go" where
  "has_storage_defined c =
     go_bind (deref (get_device_configuration c)) (\<lambda>d.
       Ret (case cfg_storage d of None \<Rightarrow> False | Some s3 \<Rightarrow> s3 \<noteq> None))"

definition contains_data_paths :: "data_configuration option \<Rightarrow> bool" where
  "contains_data_paths dc =
     (case dc of None \<Rightarrow> False | Some d \<Rightarrow> elems (dc_egress d) \<noteq> [] \<or> elems (dc_ingress d) \<noteq> [])"

definition get_data_config_of_workload :: "string \<Rightarrow> 'w manager \<Rightarrow> data_configuration option" where
  "get_data_config_of_workload name c =
     (case find (\<lambda>w. wl_name w = name) (get_workloads c) of None \<Rightarrow> None | Some w \<Rightarrow> wl_data w)"

definition set_storage :: "s3_sync \<Rightarrow> monitor \<Rightarrow> monitor" where
  "set_storage s mo = mo\<lparr>mo_syncs := mo_syncs mo @ [s], mo_fs := Some (length (mo_syncs mo))\<rparr>"

definition get_fs_sync :: "monitor \<Rightarrow> gerror + nat" where
  "get_fs_sync mo = (case mo_fs mo of None \<Rightarrow> Inl (Err ''cannot get filesync'') | Some i \<Rightarrow> Inr i)"

definition monitor_update :: "'e s3_lib \<Rightarrow> config_message \<Rightarrow> monitor \<Rightarrow> gerror option \<times> monitor" where
  "monitor_update L m mo =
     (case msg_configuration m of
        None \<Rightarrow> (None, mo)
      | Some c \<Rightarrow>
          (case cfg_storage c of
             None \<Rightarrow> (None, mo)
           | Some None \<Rightarrow> (None, mo)
           | Some (Some s3) \<Rightarrow>
               (case new_sync L s3 of
                  Inl e \<Rightarrow> (Some (Wrap ''observer update failed'' e), mo)
                | Inr s \<Rightarrow> (None, set_storage s mo))))"

definition get_last_successful_sync_time :: "monitor \<Rightarrow> string \<Rightarrow> gotime option" where
  "get_last_successful_sync_time mo name = mo_last_sync mo name"

subsection \<open>Copying\<close>

definition resolve_paths :: "string \<Rightarrow> string \<Rightarrow> string \<Rightarrow> direction \<Rightarrow> string \<times> string" where
  "resolve_paths source target hostPath dir =
     (if dir = Egress then (path_join [hostPath, source], target) else (source, path_join [hostPath, target]))"

text \<open>\<open>syncPath\<close> goes through \<open>m.fsSync\<close>, not through the connection its caller has opened.\<close>

definition sync_path :: "'e s3_lib \<Rightarrow> monitor \<Rightarrow> string \<times> string \<Rightarrow> 'e \<Rightarrow> (gerror option \<times> 'e) go" where
  "sync_path L mo = (\<lambda>(source, target) x.
     go_bind (deref (mo_fs mo)) (\<lambda>i.
       go_bind (s3_sync_path L (mo_syncs mo ! i) source target x) (\<lambda>(r, x').
         Ret (map_option (Wrap ''error while synchronizing'') r, x'))))"

fun sync_each_path ::
  "'e s3_lib \<Rightarrow> monitor \<Rightarrow> string \<Rightarrow> direction \<Rightarrow> data_path list \<Rightarrow> merr \<times> 'e \<Rightarrow> (merr \<times> 'e) go" where
  "sync_each_path L mo hostPath dir [] s = Ret s"
| "sync_each_path L mo hostPath dir (p # ps) (es, x) =
     go_bind (sync_path L mo (resolve_paths (dp_source p) (dp_target p) hostPath dir) x) (\<lambda>(r, x').
       sync_each_path L mo hostPath dir ps (append_err es (\<lambda>e. e) r, x'))"

definition unix_milli :: "gotime \<Rightarrow> int" where
  "unix_milli t = go_quot (int64 t) 1000000"

definition put_sync :: "nat \<Rightarrow> s3_sync \<Rightarrow> monitor \<Rightarrow> monitor" where
  "put_sync i s mo = mo\<lparr>mo_syncs := (mo_syncs mo)[i := s]\<rparr>"

definition sync_data_paths ::
  "'e s3_lib \<Rightarrow> data_path slice \<Rightarrow> string \<Rightarrow> string \<Rightarrow> direction \<Rightarrow> monitor \<times> 'e \<Rightarrow>
   (gerror option \<times> monitor \<times> 'e) go" where
  "sync_data_paths L paths hostPath name dir = (\<lambda>(mo, x).
     case get_fs_sync mo of
       Inl e \<Rightarrow> Ret (Some e, mo, x)
     | Inr i \<Rightarrow>
         (case sync_connect L (mo_syncs mo ! i) x of
            (Some e, s, x1) \<Rightarrow> Ret (Some e, put_sync i s mo, x1)
          | (None, s, x1) \<Rightarrow>
              (let mo1 = put_sync i s mo in
               go_bind
                 (case paths of
                    None \<Rightarrow> Ret (None, mo1, x1)
                  | Some ps \<Rightarrow>
                      (let begin = unix_milli (s3_now L x1) in
                       go_bind (sync_each_path L mo1 hostPath dir ps ([], x1)) (\<lambda>(es, x2).
                         go_bind (get_statistics L (mo_syncs mo1 ! i) x2) (\<lambda>stats.
                           Ret (merr_result es, report_metrics name dir stats (unix_milli (s3_now L x2) - begin) mo1, x2)))))
                 (\<lambda>(r, mo2, x2). Ret (r, put_sync i (sync_disconnect (mo_syncs mo2 ! i)) mo2, x2)))))"

definition store_last_update_time :: "'e s3_lib \<Rightarrow> string \<Rightarrow> monitor \<times> 'e \<Rightarrow> monitor \<times> 'e" where
  "store_last_update_time L name = (\<lambda>(mo, x). (mo\<lparr>mo_last_sync := (mo_last_sync mo)(name \<mapsto> s3_now L x)\<rparr>, x))"

definition process_sync_data_paths ::
  "'e s3_lib \<Rightarrow> workload_manager \<Rightarrow> string \<Rightarrow> data_configuration \<Rightarrow> monitor \<times> 'e \<Rightarrow>
   (gerror option \<times> monitor \<times> 'e) go" where
  "process_sync_data_paths L g name dc s =
     (let hostPath = get_exported_host_path g name in
      go_bind (sync_data_paths L (dc_egress dc) hostPath name Egress s) (\<lambda>(r, s1).
        if r \<noteq> None then Ret (r, s1)
        else go_bind (sync_data_paths L (dc_ingress dc) hostPath name Ingress s1) (\<lambda>(r, s2).
          if r \<noteq> None then Ret (r, s2) else Ret (None, store_last_update_time L name s2))))"

text \<open>\<open>syncPathsWorkload\<close>: a last copy when a workload is removed; both directions are tried.\<close>

definition sync_paths_workload ::
  "'e s3_lib \<Rightarrow> 'w manager \<Rightarrow> workload_manager \<Rightarrow> string \<Rightarrow> monitor \<times> 'e \<Rightarrow> (monitor \<times> 'e) go" where
  "sync_paths_workload L c g name s =
     go_bind (has_storage_defined c) (\<lambda>defined.
       let dc = get_data_config_of_workload name c in
       if \<not> defined then Ret s
       else if \<not> contains_data_paths dc then Ret s
       else
         (let hostPath = get_exported_host_path g name in
          go_bind (sync_data_paths L (dc_egress (the dc)) hostPath name Egress s) (\<lambda>(r1, s1).
            go_bind (sync_data_paths L (dc_ingress (the dc)) hostPath name Ingress s1) (\<lambda>(r2, s2).
              Ret (if r1 = None \<and> r2 = None then store_last_update_time L name s2 else s2)))))"

definition monitor_workload_removed ::
  "'e s3_lib \<Rightarrow> 'w manager \<Rightarrow> workload_manager \<Rightarrow> string \<Rightarrow> monitor \<times> 'e \<Rightarrow> (monitor \<times> 'e) go" where
  "monitor_workload_removed L c g name s =
     go_bind (sync_paths_workload L c g name s) (\<lambda>(mo, x).
       Ret (mo\<lparr>mo_last_sync := (mo_last_sync mo)(name := None)\<rparr>, x))"

fun sync_workloads ::
  "'e s3_lib \<Rightarrow> workload_manager \<Rightarrow> (string \<rightharpoonup> data_configuration) \<Rightarrow> workload_info list \<Rightarrow> merr \<Rightarrow> monitor \<times> 'e \<Rightarrow>
   (merr \<times> monitor \<times> 'e) go" where
  "sync_workloads L g data [] es s = Ret (es, s)"
| "sync_workloads L g data (wd # wds) es s =
     (case data (wi_name wd) of
        None \<Rightarrow> sync_workloads L g data wds es s
      | Some dc \<Rightarrow>
          go_bind (process_sync_data_paths L g (wi_name wd) dc s) (\<lambda>(r, s').
            sync_workloads L g data wds (append_err es (\<lambda>e. e) r) s'))"

definition workload_data_paths :: "workload list \<Rightarrow> (string \<rightharpoonup> data_configuration)" where
  "workload_data_paths ws =
     fold (\<lambda>w m. if contains_data_paths (wl_data w) then m(wl_name w := wl_data w) else m) ws Map.empty"

definition sync_paths ::
  "'e s3_lib \<Rightarrow> 'e manager_env \<Rightarrow> 'w manager \<Rightarrow> workload_manager \<Rightarrow> monitor \<times> 'e world \<Rightarrow>
   (gerror option \<times> monitor \<times> 'e world) go" where
  "sync_paths L E c g = (\<lambda>(mo, w).
     case list_workloads E w of
       (Inl e, w1) \<Rightarrow> Ret (Some e, mo, w1)
     | (Inr ws, w1) \<Rightarrow>
         if ws = [] then Ret (None, mo, w1)
         else
           go_bind (has_storage_defined c) (\<lambda>defined.
             if \<not> defined then Ret (None, mo, w1)
             else
               go_bind (sync_workloads L g (workload_data_paths (get_workloads c)) ws [] (mo, w_ext w1)) (\<lambda>(es, mo', x).
                 Ret (merr_result es, mo', w1\<lparr>w_ext := x\<rparr>))))"

subsection \<open>Between the operations\<close>

text \<open>No connection is open and the current one exists.\<close>

definition monitor_idle :: "monitor \<Rightarrow> bool" where
  "monitor_idle mo \<longleftrightarrow>
     (case mo_fs mo of None \<Rightarrow> True | Some i \<Rightarrow> i < length (mo_syncs mo)) \<and> list_all (\<lambda>s. \<not> sy_connected s) (mo_syncs mo)"

lemma idle_report [simp]: "monitor_idle (report_metrics name dir st t mo) = monitor_idle mo"
  by (simp add: monitor_idle_def report_metrics_def split: option.split)

lemma idle_last_sync [simp]: "monitor_idle (mo\<lparr>mo_last_sync := l\<rparr>) = monitor_idle mo"
  by (simp add: monitor_idle_def split: option.split)

lemma idle_put:
  "monitor_idle mo \<Longrightarrow> \<not> sy_connected s \<Longrightarrow> monitor_idle (put_sync i s mo)"
  by (auto simp: monitor_idle_def put_sync_def intro: list_all_upd split: option.splits)

lemma sync_each_path_returns:
  assumes "mo_fs mo = Some i" and "sy_connected (mo_syncs mo ! i)"
  shows "\<exists>es' x'. sync_each_path L mo hostPath dir ps (es, x) = Ret (es', x')"
proof (induction ps arbitrary: es x)
  case (Cons p ps)
  obtain src tgt where st: "resolve_paths (dp_source p) (dp_target p) hostPath dir = (src, tgt)" by (meson surj_pair)
  obtain r x1 where "s3_copy L src (''s3://'' @ sy_bucket (mo_syncs mo ! i) @ ''/'' @ tgt) x = (r, x1)" by (meson surj_pair)
  then have "sync_path L mo (src, tgt) x = Ret (map_option (Wrap ''error while synchronizing'') r, x1)"
    using assms by (simp add: sync_path_def s3_sync_path_def)
  then show ?case using Cons.IH st by simp
qed simp

lemma sync_data_paths_idle:
  assumes "monitor_idle mo"
  shows "\<exists>r mo' x'. sync_data_paths L paths hostPath name dir (mo, x) = Ret (r, mo', x') \<and> monitor_idle mo'"
proof (cases "mo_fs mo")
  case None
  then show ?thesis using assms by (simp add: sync_data_paths_def get_fs_sync_def)
next
  case (Some i)
  then have i: "i < length (mo_syncs mo)" "\<not> sy_connected (mo_syncs mo ! i)"
    using assms by (auto simp: monitor_idle_def list_all_length)
  obtain r s x1 where c: "sync_connect L (mo_syncs mo ! i) x = (r, s, x1)" by (rule prod_cases3)
  show ?thesis
  proof (cases r)
    case err: (Some e)
    then have "s = mo_syncs mo ! i"
      using c by (auto simp: sync_connect_def split: if_splits prod.splits option.splits)
    then show ?thesis
      using Some c err i assms by (simp add: sync_data_paths_def get_fs_sync_def idle_put)
  next
    case None
    then have s: "sy_connected s"
      using c by (auto simp: sync_connect_def split: if_splits prod.splits option.splits)
    let ?mo = "put_sync i s mo"
    have m: "mo_fs ?mo = Some i" "mo_syncs ?mo ! i = s" "mo_syncs ?mo = (mo_syncs mo)[i := s]"
      using Some i by (simp_all add: put_sync_def)
    have idle: "monitor_idle (put_sync i (sync_disconnect s) mo)"
      by (rule idle_put [OF assms]) (simp add: sync_disconnect_def)
    have again: "put_sync i t (put_sync i s mo) = put_sync i t mo" for t
      by (simp add: put_sync_def)
    show ?thesis
    proof (cases paths)
      case none: None
      then show ?thesis
        using Some c None m idle by (simp add: sync_data_paths_def get_fs_sync_def again)
    next
      case some: (Some ps)
      obtain es x2 where e: "sync_each_path L ?mo hostPath dir ps ([], x1) = Ret (es, x2)"
        using sync_each_path_returns [of ?mo i L hostPath dir ps "[]" x1] m s by auto
      let ?mo2 = "report_metrics name dir (s3_statistics L x2) (unix_milli (s3_now L x2) - unix_milli (s3_now L x1)) ?mo"
      have "mo_syncs ?mo2 ! i = s"
        using m by (simp add: report_metrics_def)
      moreover have "monitor_idle (put_sync i (sync_disconnect s) ?mo2)"
      proof -
        have "put_sync i (sync_disconnect s) ?mo2 =
            report_metrics name dir (s3_statistics L x2) (unix_milli (s3_now L x2) - unix_milli (s3_now L x1))
              (put_sync i (sync_disconnect s) mo)"
          by (simp add: put_sync_def report_metrics_def)
        then show ?thesis using idle by simp
      qed
      ultimately show ?thesis
        using Some c None m s some e by (simp add: sync_data_paths_def get_fs_sync_def get_statistics_def Let_def)
    qed
  qed
qed

lemma process_idle:
  assumes "monitor_idle mo"
  shows "\<exists>r mo' x'. process_sync_data_paths L g name dc (mo, x) = Ret (r, mo', x') \<and> monitor_idle mo'"
proof -
  let ?h = "get_exported_host_path g name"
  obtain r1 mo1 x1 where 1: "sync_data_paths L (dc_egress dc) ?h name Egress (mo, x) = Ret (r1, mo1, x1)" "monitor_idle mo1"
    using sync_data_paths_idle [OF assms, of L "dc_egress dc" ?h name Egress x] by blast
  obtain r2 mo2 x2 where 2: "sync_data_paths L (dc_ingress dc) ?h name Ingress (mo1, x1) = Ret (r2, mo2, x2)" "monitor_idle mo2"
    using sync_data_paths_idle [OF 1(2), of L "dc_ingress dc" ?h name Ingress x1] by blast
  show ?thesis
    using 1 2 by (simp add: process_sync_data_paths_def Let_def store_last_update_time_def)
qed

lemma sync_workloads_idle:
  "monitor_idle mo \<Longrightarrow> \<exists>es' mo' x'. sync_workloads L g data wds es (mo, x) = Ret (es', mo', x') \<and> monitor_idle mo'"
proof (induction wds arbitrary: es mo x)
  case (Cons wd wds)
  show ?case
  proof (cases "data (wi_name wd)")
    case None
    then show ?thesis using Cons by simp
  next
    case (Some dc)
    obtain r mo1 x1 where "process_sync_data_paths L g (wi_name wd) dc (mo, x) = Ret (r, mo1, x1)" "monitor_idle mo1"
      using process_idle [OF Cons.prems, of L g "wi_name wd" dc x] by blast
    then show ?thesis using Some Cons.IH by simp
  qed
qed simp

subsection \<open>Properties\<close>

text \<open>C12. As long as its operations do not overlap, the monitor never panics and closes every connection
  it opens: a round over the running workloads returns, whatever fails on the way, and leaves no
  connection open, for whatever storage is configured.\<close>

theorem sync_round_closes_connections:
  assumes "monitor_idle mo" and "get_device_configuration c = Some d"
  shows "\<exists>r mo' w'. sync_paths L E c g (mo, w) = Ret (r, mo', w') \<and> monitor_idle mo'"
proof -
  obtain ws w1 where l: "list_workloads E w = (ws, w1)" by (meson surj_pair)
  obtain defined where h: "has_storage_defined c = Ret defined"
    using assms(2) by (simp add: has_storage_defined_def)
  show ?thesis
  proof (cases ws)
    case (Inl e)
    then show ?thesis using l assms(1) by (simp add: sync_paths_def)
  next
    case (Inr infos)
    obtain es mo' x' where "sync_workloads L g (workload_data_paths (get_workloads c)) infos [] (mo, w_ext w1) = Ret (es, mo', x')"
        "monitor_idle mo'"
      using sync_workloads_idle [OF assms(1), of L g "workload_data_paths (get_workloads c)" infos "[]" "w_ext w1"] by blast
    then show ?thesis
      using l h Inr assms(1) by (simp add: sync_paths_def)
  qed
qed

lemma monitor_idle_update: "monitor_update L m mo = (r, mo') \<Longrightarrow> monitor_idle mo \<Longrightarrow> monitor_idle mo'"
  by (auto simp: monitor_update_def new_sync_def set_storage_def monitor_idle_def split: option.splits sum.splits)

text \<open>
  A configuration with storage that arrives while a job copies makes the job panic at its next path:
  the job has connected the connection it took, the copying goes through the monitor's new one,
  which nobody has connected.\<close>

theorem update_during_sync_panics:
  assumes "get_fs_sync mo = Inr i" and "sync_connect L (mo_syncs mo ! i) x = (None, s, x1)"
    and "msg_configuration m = Some c" and "cfg_storage c = Some (Some s3)"
    and "monitor_update L m (put_sync i s mo) = (None, mo')"
  shows "sync_path L mo' (source, target) x1 = Panic"
proof -
  obtain t where t: "new_sync L s3 = Inr t" "mo' = set_storage t (put_sync i s mo)"
    using assms(3-5) by (auto simp: monitor_update_def split: sum.splits)
  then have "\<not> sy_connected t"
    by (auto simp: new_sync_def split: sum.splits)
  then show ?thesis
    by (simp add: t(2) set_storage_def sync_path_def s3_sync_path_def nth_append)
qed

definition example_s3 :: "nat s3_lib" where
  "example_s3 = \<lparr>s3_decode = Inr, s3_session = \<lambda>r e a s c n. (None, Suc n), s3_copy = \<lambda>s t n. (None, Suc n),
     s3_statistics = \<lambda>n. \<lparr>st_files = int n, st_bytes = 0, st_deleted = 0\<rparr>, s3_now = int\<rparr>"

definition example_s3_configuration :: s3_configuration where
  "example_s3_configuration = \<lparr>s3_access_key_id = ''a'', s3_ca_bundle = ''c'', s3_secret_access_key = ''s'', s3_bucket_host = ''h'',
     s3_bucket_name = ''b'', s3_bucket_port = 443, s3_bucket_region = ''r''\<rparr>"

definition example_storage_message :: config_message where
  "example_storage_message = message_with (empty_device_configuration\<lparr>cfg_storage := Some (Some example_s3_configuration)\<rparr>)"

definition example_monitor :: monitor where
  "example_monitor = snd (monitor_update example_s3 example_storage_message new_monitor)"

theorem update_during_sync_panics_witness:
  "\<exists>s x1 mo'. sync_connect example_s3 (mo_syncs example_monitor ! 0) 0 = (None, s, x1) \<and>
     monitor_update example_s3 example_storage_message (put_sync 0 s example_monitor) = (None, mo') \<and>
     sync_path example_s3 mo' (''src'', ''dst'') x1 = Panic"
proof -
  have fs: "get_fs_sync example_monitor = Inr 0"
    by (simp add: example_monitor_def monitor_update_def example_storage_message_def message_with_def new_sync_def
        example_s3_def set_storage_def new_monitor_def get_fs_sync_def)
  have "\<exists>s x1. sync_connect example_s3 (mo_syncs example_monitor ! 0) 0 = (None, s, x1)"
    by (simp add: sync_connect_def example_s3_def)
  then obtain s x1 where c: "sync_connect example_s3 (mo_syncs example_monitor ! 0) 0 = (None, s, x1)" by blast
  have "\<exists>mo'. monitor_update example_s3 example_storage_message (put_sync 0 s example_monitor) = (None, mo')"
    by (simp add: monitor_update_def example_storage_message_def message_with_def new_sync_def example_s3_def)
  then obtain mo' where u: "monitor_update example_s3 example_storage_message (put_sync 0 s example_monitor) = (None, mo')" by blast
  have "sync_path example_s3 mo' (''src'', ''dst'') x1 = Panic"
    by (rule update_during_sync_panics [where ?s3.0 = example_s3_configuration and c = "empty_device_configuration\<lparr>cfg_storage := Some (Some example_s3_configuration)\<rparr>", OF fs c _ _ u]) (simp_all add: example_storage_message_def message_with_def)
  with c u show ?thesis by blast
qed


definition example_data_env :: "nat manager_env" where
  "example_data_env = \<lparr>en_runtime = \<lparr>rt_init = ok, rt_list = \<lambda>w. (Inr [\<lparr>wi_id = ''1'', wi_name = ''w'', wi_status = ''Running''\<rparr>], w),
       rt_remove = \<lambda>_. ok, rt_stop = \<lambda>_. ok, rt_run = \<lambda>_ _ _ _ w. Ret (None, w), rt_remove_table = ok,
       rt_remove_mapping_file = ok, rt_remove_services_file = ok, rt_list_secrets = \<lambda>w. (Inr [], w),
       rt_remove_secret = \<lambda>_. ok, rt_create_secret = \<lambda>_ _. ok, rt_update_secret = \<lambda>_ _. ok, rt_logs = \<lambda>p w. (Inl (Err p), w)\<rparr>,
     en_parse_spec = \<lambda>_. Inl (Err []), en_pod_yaml = \<lambda>_. Inr [], en_mounted = \<lambda>_ _. True\<rparr>"

definition example_data_manager :: "nat manager" where
  "example_data_manager = \<lparr>device_configuration = example_storage_message\<lparr>msg_workloads :=
       [(example_workload ''w'')\<lparr>wl_data := Some \<lparr>dc_egress = Some [\<lparr>dp_source = ''out'', dp_target = ''remote''\<rparr>], dc_ingress = None\<rparr>\<rparr>]\<rparr>,
     observers = [], device_config_file = [], initial_config = False\<rparr>"

theorem sync_round_closes_connections_witness:
  "\<exists>r mo' w'. sync_paths example_s3 example_data_env example_data_manager
       \<lparr>mgr_workloads_dir = ''/d/w'', mgr_volumes_dir = ''/d/v'', mgr_deregistered = False, mgr_events = [], mgr_device_id = ''dev''\<rparr>
       (example_monitor, \<lparr>w_fs = fs_with_dirs {}, w_ext = 0\<rparr>) = Ret (r, mo', w') \<and> monitor_idle mo'"
proof (rule sync_round_closes_connections)
  show "monitor_idle example_monitor"
    by (simp add: monitor_idle_def example_monitor_def monitor_update_def example_storage_message_def message_with_def new_sync_def
        example_s3_def set_storage_def new_monitor_def)
  show "get_device_configuration example_data_manager =
      Some (empty_device_configuration\<lparr>cfg_storage := Some (Some example_s3_configuration)\<rparr>)"
    by (simp add: get_device_configuration_def example_data_manager_def example_storage_message_def message_with_def)
qed

end
