(* ===== verification/Device_OS.thy ===== *)
theory Device_OS
  imports Models File_System
begin

text \<open>
  \<open>internal/os\<close>: the upgrade of the operating system (\<open>os.go\<close>) and the commands and files it works with
  (\<open>os_exec_commands.go\<close>). \<open>rpm-ostree\<close> and \<open>systemctl\<close> act on the external state; they, the JSON of
  the status, the text of a time and the graceful reboot (the goroutine of \<open>main\<close> that stops the
  other components, or its timeout) are the record \<open>os_commands\<close>.
\<close>

definition unknown_os_image_id :: string where
  "unknown_os_image_id = ''unknown''"

definition greenboot_health_check_file_name :: string where
  "greenboot_health_check_file_name = ''/etc/greenboot/check/required.d/greenboot-health-check.sh''"

definition greenboot_fail_file_name :: string where
  "greenboot_fail_file_name = ''/etc/greenboot/red.d/bootfail.sh''"

definition edge_conf_file_name :: string where
  "edge_conf_file_name = ''/etc/ostree/remotes.d/edge.conf''"

record deployment =
  dep_checksum :: string
  dep_timestamp :: int
  dep_booted :: bool

record 'x os_commands =
  oc_status :: "('x, string) op"
  oc_preview :: "('x, string) op"
  oc_upgrade :: "'x proc"
  oc_reboot :: "'x proc"
  oc_decode_status :: "string \<Rightarrow> gerror + deployment list"
  oc_show_time :: "int \<Rightarrow> string"
  oc_graceful_reboot :: "'x \<Rightarrow> 'x"
  oc_health_script :: string
  oc_fail_script :: string

text \<open>
  \<open>osExecCommands\<close>: the commands the worker runs. \<open>run\<close> is \<open>exec.Command(...).Output()\<close>.
\<close>

definition rpm_ostree_status :: "(string list \<Rightarrow> ('x, string) op) \<Rightarrow> ('x, string) op" where
  "rpm_ostree_status run = run [''rpm-ostree'', ''status'', ''--json'']"

definition rpm_ostree_update_preview :: "(string list \<Rightarrow> ('x, string) op) \<Rightarrow> ('x, string) op" where
  "rpm_ostree_update_preview run = run [''rpm-ostree'', ''update'', ''--preview'']"

definition rpm_ostree_upgrade :: "(string list \<Rightarrow> ('x, string) op) \<Rightarrow> 'x proc" where
  "rpm_ostree_upgrade run x = (case run [''rpm-ostree'', ''upgrade''] x of (Inl e, x') \<Rightarrow> (Some e, x') | (Inr _, x') \<Rightarrow> (None, x'))"

definition system_reboot :: "(string list \<Rightarrow> ('x, string) op) \<Rightarrow> 'x proc" where
  "system_reboot run x = (case run [''systemctl'', ''reboot''] x of (Inl e, x') \<Rightarrow> (Some e, x') | (Inr _, x') \<Rightarrow> (None, x'))"

definition new_os_exec_commands :: "(string list \<Rightarrow> ('x, string) op) \<Rightarrow> 'x os_commands \<Rightarrow> 'x os_commands" where
  "new_os_exec_commands run C = C\<lparr>oc_status := rpm_ostree_status run, oc_preview := rpm_ostree_update_preview run,
     oc_upgrade := rpm_ostree_upgrade run, oc_reboot := system_reboot run\<rparr>"

subsection \<open>Files\<close>

definition ensure_script_exists :: "string \<Rightarrow> string \<Rightarrow> fs proc" where
  "ensure_script_exists p script f =
     (if stat_ok p f then (None, f)
      else then_ok (write_file (path_clean p) []) (write_file (path_clean p) script) f)"

definition url_line :: "string \<Rightarrow> string \<Rightarrow> string" where
  "url_line newURL line = (if str_contains line ''url='' then ''url='' @ newURL else line)"

definition update_url_in_edge_remote :: "string \<Rightarrow> string \<Rightarrow> fs proc" where
  "update_url_in_edge_remote newURL p f =
     (case read_file (path_clean p) f of
        Inl e \<Rightarrow> (Some e, f)
      | Inr input \<Rightarrow>
          write_file p (join_with [CHR 0x0A] (map (url_line newURL) (split_on CHR 0x0A input))) f)"

definition is_rpm_ostree_available :: "'x os_commands \<Rightarrow> 'x \<Rightarrow> bool \<times> 'x" where
  "is_rpm_ostree_available C x = (case oc_status C x of (Inl e, x') \<Rightarrow> (False, x') | (Inr s, x') \<Rightarrow> (True, x'))"

subsection \<open>The operating system\<close>

record device_os =
  os_automatically_upgrade :: bool
  os_commit :: string
  os_requested_commit :: string
  os_hosted_objects_url :: string
  os_last_upgrade_status :: string
  os_last_upgrade_time :: string
  os_enabled :: bool

definition new_os :: "'x os_commands \<Rightarrow> 'x \<Rightarrow> device_os \<times> 'x" where
  "new_os C x =
     (case is_rpm_ostree_available C x of
        (available, x') \<Rightarrow>
          (\<lparr>os_automatically_upgrade = True, os_commit = unknown_os_image_id, os_requested_commit = unknown_os_image_id,
            os_hosted_objects_url = [], os_last_upgrade_status = [], os_last_upgrade_time = [],
            os_enabled = available\<rparr>, x'))"

text \<open>The loop of \<open>updateOsStatus\<close>.\<close>

definition see_deployment :: "'x os_commands \<Rightarrow> deployment \<Rightarrow> device_os \<Rightarrow> device_os" where
  "see_deployment C d s =
     (let s1 = (if dep_booted d then
                  (let s0 = s\<lparr>os_commit := dep_checksum d\<rparr> in
                   if os_requested_commit s0 = unknown_os_image_id
                   then s0\<lparr>os_last_upgrade_time := oc_show_time C (dep_timestamp d), os_last_upgrade_status := ''succeeded''\<rparr>
                   else s0)
                else s)
      in if dep_checksum d = os_requested_commit s1
         then s1\<lparr>os_last_upgrade_time := oc_show_time C (dep_timestamp d),
                 os_last_upgrade_status := (if \<not> dep_booted d then ''failed'' else ''succeeded'')\<rparr>
         else s1)"

definition update_os_status :: "'x os_commands \<Rightarrow> device_os \<times> 'x \<Rightarrow> device_os \<times> 'x" where
  "update_os_status C = (\<lambda>(s, x).
     case oc_status C x of
       (Inl e, x') \<Rightarrow> (s, x')
     | (Inr stdout, x') \<Rightarrow>
         (case oc_decode_status C stdout of
            Inl e \<Rightarrow> (s, x')
          | Inr ds \<Rightarrow> (if ds = [] then s else fold (see_deployment C) ds s, x')))"

record upgrade_status =
  us_current_commit_id :: string
  us_last_upgrade_status :: string
  us_last_upgrade_time :: string

definition get_upgrade_status :: "'x os_commands \<Rightarrow> device_os \<times> 'x \<Rightarrow> upgrade_status \<times> device_os \<times> 'x" where
  "get_upgrade_status C = (\<lambda>(s, x).
     case (if os_enabled s then update_os_status C (s, x) else (s, x)) of
       (s', x') \<Rightarrow>
         (\<lparr>us_current_commit_id = os_commit s', us_last_upgrade_status = os_last_upgrade_status s',
           us_last_upgrade_time = os_last_upgrade_time s'\<rparr>, s', x'))"

definition update_greenboot_scripts :: "'x os_commands \<Rightarrow> fs proc" where
  "update_greenboot_scripts C =
     then_ok (ensure_script_exists greenboot_health_check_file_name (oc_health_script C))
       (ensure_script_exists greenboot_fail_file_name (oc_fail_script C))"

text \<open>The part of \<open>Update\<close> from the preview on.\<close>

definition upgrade_to :: "'x os_commands \<Rightarrow> string \<Rightarrow> 'x world proc" where
  "upgrade_to C commit =
     bind_ok (call_ext (oc_preview C)) (\<lambda>stdout.
       if \<not> str_contains stdout commit then (\<lambda>w. (Some (Err (''cannot find the new commit ID. '' @ commit)), w))
       else then_ok (on_fs (update_greenboot_scripts C))
         (then_ok (on_ext (oc_upgrade C))
           (then_ok (on_ext (\<lambda>x. (None, oc_graceful_reboot C x)))
             (on_ext (oc_reboot C)))))"

definition os_update :: "'x os_commands \<Rightarrow> config_message \<Rightarrow> device_os \<times> 'x world \<Rightarrow> (gerror option \<times> device_os \<times> 'x world) go" where
  "os_update C m = (\<lambda>(s, w).
     go_bind (deref (msg_configuration m)) (\<lambda>c.
       case cfg_os c of
         None \<Rightarrow> Ret (None, s, w)
       | Some info \<Rightarrow>
           if \<not> os_enabled s then Ret (None, s, w)
           else
             (case (if osi_hosted_objects_url info \<noteq> os_hosted_objects_url s
                    then on_fs (update_url_in_edge_remote (osi_hosted_objects_url info) edge_conf_file_name) w
                    else (None, w)) of
                (Some e, w1) \<Rightarrow> Ret (Some e, s, w1)
              | (None, w1) \<Rightarrow>
                  (let s1 = s\<lparr>os_hosted_objects_url := osi_hosted_objects_url info\<rparr> in
                   if osi_commit_id info \<noteq> os_requested_commit s1 then
                     (let s2 = s1\<lparr>os_requested_commit := osi_commit_id info\<rparr> in
                      if \<not> os_automatically_upgrade s2 then Ret (None, s2, w1)
                      else (case upgrade_to C (osi_commit_id info) w1 of (r, w2) \<Rightarrow> Ret (r, s2, w2)))
                   else Ret (None, s1, w1)))))"

subsection \<open>Lemmas\<close>

lemma see_deployment_requested [simp]: "os_requested_commit (see_deployment C d s) = os_requested_commit s"
  by (simp add: see_deployment_def Let_def)

lemma fold_requested [simp]: "os_requested_commit (fold (see_deployment C) ds s) = os_requested_commit s"
  by (induction ds arbitrary: s) simp_all

text \<open>The status once the requested commit is known.\<close>

lemma fold_status:
  assumes "distinct (map dep_checksum ds)" and "os_requested_commit s \<noteq> unknown_os_image_id"
  shows "os_last_upgrade_status (fold (see_deployment C) ds s) =
    (case find (\<lambda>d. dep_checksum d = os_requested_commit s) ds of
       None \<Rightarrow> os_last_upgrade_status s
     | Some d \<Rightarrow> if dep_booted d then ''succeeded'' else ''failed'')"
  using assms
proof (induction ds arbitrary: s)
  case (Cons d ds)
  have ih: "os_last_upgrade_status (fold (see_deployment C) ds (see_deployment C d s)) =
    (case find (\<lambda>d. dep_checksum d = os_requested_commit s) ds of
       None \<Rightarrow> os_last_upgrade_status (see_deployment C d s)
     | Some d \<Rightarrow> if dep_booted d then ''succeeded'' else ''failed'')"
    using Cons.IH [of "see_deployment C d s"] Cons.prems by simp
  show ?case
  proof (cases "dep_checksum d = os_requested_commit s")
    case True
    then have "find (\<lambda>d. dep_checksum d = os_requested_commit s) ds = None"
      using Cons.prems(1) by (force simp: find_None_iff)
    moreover have "os_last_upgrade_status (see_deployment C d s) = (if dep_booted d then ''succeeded'' else ''failed'')"
      using True by (simp add: see_deployment_def Let_def)
    ultimately show ?thesis using True ih by simp
  next
    case False
    then have "os_last_upgrade_status (see_deployment C d s) = os_last_upgrade_status s"
      using Cons.prems(2) by (simp add: see_deployment_def Let_def)
    with False ih show ?thesis by (simp split: option.split)
  qed
qed simp

lemma url_line_idem: "url_line u (url_line u l) = url_line u l"
  by (auto simp: url_line_def)

subsection \<open>Properties\<close>


text \<open>
  An upgrade that fails is never tried again: the requested commit is remembered before anything is
  done, so the same message afterwards succeeds and does nothing.\<close>

theorem failed_upgrade_is_not_retried:
  assumes "os_update C m (s, w) = Ret (Some e, s', w')" and "os_requested_commit s' \<noteq> os_requested_commit s"
  shows "os_update C m (s', w2) = Ret (None, s', w2)"
proof -
  obtain c info where c: "msg_configuration m = Some c" "cfg_os c = Some info" "os_enabled s"
    using assms(1) by (auto simp: os_update_def go_bind_Ret_iff deref_def split: option.splits if_splits)
  obtain r w1 where u: "(if osi_hosted_objects_url info \<noteq> os_hosted_objects_url s
      then on_fs (update_url_in_edge_remote (osi_hosted_objects_url info) edge_conf_file_name) w else (None, w)) = (r, w1)"
    by (meson surj_pair)
  have "s' = s\<lparr>os_hosted_objects_url := osi_hosted_objects_url info, os_requested_commit := osi_commit_id info\<rparr>"
  proof (cases r)
    case None
    then show ?thesis
      using assms c u by (auto simp: os_update_def Let_def split: if_splits prod.splits)
  next
    case (Some err)
    then show ?thesis using assms c u by (simp add: os_update_def)
  qed
  then show ?thesis
    using c by (simp add: os_update_def Let_def)
qed

text \<open>A device whose preview fails, and one whose requested deployment is not booted.\<close>

definition example_os_commands :: "string list os_commands" where
  "example_os_commands = \<lparr>oc_status = \<lambda>x. (Inr ''{}'', x), oc_preview = \<lambda>x. (Inl (Err ''no network''), ''preview'' # x),
     oc_upgrade = ok, oc_reboot = ok,
     oc_decode_status = \<lambda>_. Inr [\<lparr>dep_checksum = ''new'', dep_timestamp = 2, dep_booted = False\<rparr>,
       \<lparr>dep_checksum = ''old'', dep_timestamp = 1, dep_booted = True\<rparr>],
     oc_show_time = \<lambda>_. [], oc_graceful_reboot = \<lambda>x. x, oc_health_script = [], oc_fail_script = []\<rparr>"

definition example_os :: device_os where
  "example_os = fst (new_os example_os_commands [])"

definition example_os_message :: config_message where
  "example_os_message = message_with (empty_device_configuration\<lparr>cfg_os :=
     Some \<lparr>osi_automatically_upgrade = True, osi_commit_id = ''new'', osi_hosted_objects_url = []\<rparr>\<rparr>)"


theorem failed_upgrade_is_not_retried_witness:
  "\<exists>e s' w'. os_update example_os_commands example_os_message (example_os, \<lparr>w_fs = fs_with_dirs {}, w_ext = []\<rparr>) = Ret (Some e, s', w') \<and>
     os_update example_os_commands example_os_message (s', w') = Ret (None, s', w')"
proof -
  have "\<exists>e w'. os_update example_os_commands example_os_message (example_os, \<lparr>w_fs = fs_with_dirs {}, w_ext = []\<rparr>) =
      Ret (Some e, example_os\<lparr>os_requested_commit := ''new'', os_hosted_objects_url := []\<rparr>, w')"
    by (simp add: os_update_def example_os_message_def message_with_def example_os_def new_os_def is_rpm_ostree_available_def
        example_os_commands_def unknown_os_image_id_def upgrade_to_def bind_ok_def call_ext_def)
  then obtain e w' where u: "os_update example_os_commands example_os_message (example_os, \<lparr>w_fs = fs_with_dirs {}, w_ext = []\<rparr>) =
      Ret (Some e, example_os\<lparr>os_requested_commit := ''new'', os_hosted_objects_url := []\<rparr>, w')"
    by blast
  have "os_update example_os_commands example_os_message (example_os\<lparr>os_requested_commit := ''new'', os_hosted_objects_url := []\<rparr>, w')
      = Ret (None, example_os\<lparr>os_requested_commit := ''new'', os_hosted_objects_url := []\<rparr>, w')"
    by (rule failed_upgrade_is_not_retried [OF u]) (simp add: example_os_def new_os_def is_rpm_ostree_available_def
        example_os_commands_def unknown_os_image_id_def)
  with u show ?thesis by blast
qed

end
