(* ===== verification/Hardware.thy ===== *)
theory Hardware
  imports Mounts
begin

text \<open>
  \<open>internal/hardware/hardware.go\<close>: the description of the device sent with the heartbeat. What
  \<open>assisted-installer-agent\<close> and \<open>runc\<close> read from the system is the record \<open>hw_lib\<close>; the mounts come
  from \<open>mount.GetMounts\<close>.
\<close>

record 'x hw_lib =
  hw_cpu :: "'x \<Rightarrow> string \<times> string"            \<comment> \<open>architecture and model name\<close>
  hw_vendor :: "'x \<Rightarrow> system_vendor option"
  hw_host_devices :: "'x \<Rightarrow> gerror + host_device list"
  hw_hostname :: "'x \<Rightarrow> string"
  hw_interfaces :: "'x \<Rightarrow> net_interface list"
  hw_mounts :: "'x mount_env"

text \<open>\<open>HardwareInfo\<close>: its dependencies, nil before \<open>Init\<close>.\<close>

type_synonym 'x hardware = "'x hw_lib option"

definition not_initialized :: gerror where
  "not_initialized = Err ''HardwareInfo object has not been initialized''"

definition get_host_devices :: "'x hw_lib \<Rightarrow> 'x \<Rightarrow> gerror + host_device list" where
  "get_host_devices L x = (case hw_host_devices L x of Inl e \<Rightarrow> Inl e | Inr ds \<Rightarrow> Inr (map (\<lambda>d. d) ds))"

text \<open>Host devices that cannot be listed are only logged.\<close>

definition get_hardware_immutable_information :: "'x hardware \<Rightarrow> 'x \<Rightarrow> hardware_info \<Rightarrow> gerror option \<times> hardware_info" where
  "get_hardware_immutable_information S x h =
     (case S of
        None \<Rightarrow> (Some not_initialized, h)
      | Some L \<Rightarrow>
          (let h1 = h\<lparr>hi_cpu := Some \<lparr>cpu_architecture = fst (hw_cpu L x), cpu_flags = [], cpu_model_name = snd (hw_cpu L x)\<rparr>,
                      hi_system_vendor := hw_vendor L x\<rparr> in
           (None, (case get_host_devices L x of Inl e \<Rightarrow> h1 | Inr ds \<Rightarrow> h1\<lparr>hi_host_devices := ds\<rparr>))))"

definition has_address :: "net_interface \<Rightarrow> bool" where
  "has_address i \<longleftrightarrow> \<not> (if_ipv4 i = [] \<and> if_ipv6 i = [])"

definition get_hardware_mutable_information :: "'x hardware \<Rightarrow> 'x \<Rightarrow> hardware_info \<Rightarrow> gerror option \<times> hardware_info" where
  "get_hardware_mutable_information S x h =
     (case S of
        None \<Rightarrow> (Some not_initialized, h)
      | Some L \<Rightarrow>
          (let h1 = h\<lparr>hi_hostname := hw_hostname L x,
                      hi_interfaces := hi_interfaces h @
                        map (\<lambda>i. i\<lparr>if_flags := []\<rparr>) (filter has_address (hw_interfaces L x))\<rparr> in
           (case get_mounts (hw_mounts L) x of
              Inl e \<Rightarrow> (Some (Wrap ''cannot list mounts'' e), h1)
            | Inr (ms, _) \<Rightarrow> (None, h1\<lparr>hi_mounts := ms\<rparr>))))"

text \<open>The information is also returned with the error of the second part.\<close>

definition get_hardware_information :: "'x hardware \<Rightarrow> 'x \<Rightarrow> hardware_info option \<times> gerror option" where
  "get_hardware_information S x =
     (case get_hardware_immutable_information S x empty_hardware_info of
        (Some e, h) \<Rightarrow> (None, Some e)
      | (None, h) \<Rightarrow> (case get_hardware_mutable_information S x h of (r, h') \<Rightarrow> (Some h', r)))"

definition create_hardware_mutable_information :: "'x hardware \<Rightarrow> 'x \<Rightarrow> gerror + hardware_info" where
  "create_hardware_mutable_information S x =
     (case get_hardware_mutable_information S x empty_hardware_info of
        (Some e, h) \<Rightarrow> Inl e
      | (None, h) \<Rightarrow> Inr h)"

definition get_mutable_hardware_info_delta :: "hardware_info \<Rightarrow> hardware_info \<Rightarrow> hardware_info" where
  "get_mutable_hardware_info_delta prev new =
     (let h = (if hi_hostname prev \<noteq> hi_hostname new then empty_hardware_info\<lparr>hi_hostname := hi_hostname new\<rparr>
               else empty_hardware_info)
      in if hi_interfaces prev \<noteq> hi_interfaces new then h\<lparr>hi_interfaces := hi_interfaces new\<rparr> else h)"

subsection \<open>Reading a delta\<close>

text \<open>How a receiver that keeps the last values reads a delta: a field left empty is unchanged.\<close>

definition apply_delta :: "hardware_info \<Rightarrow> hardware_info \<Rightarrow> hardware_info" where
  "apply_delta h d = h\<lparr>
     hi_hostname := (if hi_hostname d = [] then hi_hostname h else hi_hostname d),
     hi_interfaces := (if hi_interfaces d = [] then hi_interfaces h else hi_interfaces d),
     hi_mounts := (if hi_mounts d = [] then hi_mounts h else hi_mounts d)\<rparr>"

lemma mutable_information_fields:
  assumes "create_hardware_mutable_information (Some L) x = Inr h"
  shows "hi_cpu h = None" "hi_host_devices h = []" "hi_system_vendor h = None"
    "hi_hostname h = hw_hostname L x" "list_all has_address (hi_interfaces h)"
  using assms
  by (auto simp: create_hardware_mutable_information_def get_hardware_mutable_information_def empty_hardware_info_def
      Let_def list_all_iff has_address_def split: sum.splits prod.splits)

lemma full_information:
  assumes "create_hardware_mutable_information (Some L) x = Inr m"
  shows "\<exists>h. get_hardware_information (Some L) x = (Some h, None) \<and> hi_hostname h = hi_hostname m \<and>
    hi_interfaces h = hi_interfaces m \<and> hi_mounts h = hi_mounts m \<and> hi_cpu h \<noteq> None"
  using assms
  by (auto simp: create_hardware_mutable_information_def get_hardware_mutable_information_def get_hardware_information_def
      get_hardware_immutable_information_def empty_hardware_info_def Let_def split: sum.splits prod.splits)

subsection \<open>Properties\<close>



definition example_hardware :: "(string \<times> mount) list hw_lib" where
  "example_hardware = \<lparr>hw_cpu = (\<lambda>x. (''x86_64'', ''cpu'')), hw_vendor = (\<lambda>x. None), hw_host_devices = (\<lambda>x. Inr []),
     hw_hostname = (\<lambda>x. ''host''), hw_interfaces = (\<lambda>x. []), hw_mounts = example_host\<rparr>"

lemma example_hardware_information:
  "\<exists>h. get_hardware_information (Some example_hardware) [] = (Some h, None)"
  "\<exists>h. create_hardware_mutable_information (Some example_hardware) [] = Inr h"
  by (simp_all add: get_hardware_information_def create_hardware_mutable_information_def get_hardware_immutable_information_def
      get_hardware_mutable_information_def get_host_devices_def example_hardware_def get_mounts_def list_mounts_def
      example_host_def Let_def)

end
