(* ===== verification/Ansible_Mapping.thy ===== *)
theory Ansible_Mapping
  imports Models File_System
begin

text \<open>
  \<open>internal/ansible/mapping/mapping.go\<close>: the repository of playbooks. A playbook is stored in a file named
  after its SHA-256 (the parameter \<open>sha\<close>); the maps relate that path to the modification time and
  to the name of the execution, and the name to its status.
\<close>

subsection \<open>State and operations\<close>

record playbook_entry =
  pe_mod_time :: int
  pe_file_path :: string
  pe_name :: string
  pe_status :: string

record playbook_repository =
  pr_mapping_file :: string
  pr_mod_to_path :: "(int \<times> string) list"
  pr_path_to_mod :: "string \<rightharpoonup> int"
  pr_path_to_name :: "(string \<times> string) list"
  pr_name_status :: "(string \<times> string) list"
  pr_config_dir :: string
  pr_last_name :: string

definition playbook_mapping_file :: "string \<Rightarrow> string" where
  "playbook_mapping_file dir = path_join [dir, ''playbook-mapping.json'']"

definition load_entry :: "playbook_entry \<Rightarrow> playbook_repository \<Rightarrow> playbook_repository" where
  "load_entry e m = m\<lparr>
     pr_mod_to_path := AList.update (pe_mod_time e) (pe_file_path e) (pr_mod_to_path m),
     pr_path_to_mod := (pr_path_to_mod m)(pe_file_path e \<mapsto> pe_mod_time e),
     pr_path_to_name := AList.update (pe_file_path e) (pe_name e) (pr_path_to_name m),
     pr_name_status := AList.update (pe_name e) (pe_status e) (pr_name_status m)\<rparr>"

definition load_playbooks :: "string \<Rightarrow> playbook_entry list \<Rightarrow> playbook_repository" where
  "load_playbooks dir es = fold load_entry es
     \<lparr>pr_mapping_file = playbook_mapping_file dir, pr_mod_to_path = [], pr_path_to_mod = Map.empty,
      pr_path_to_name = [], pr_name_status = [], pr_config_dir = dir, pr_last_name = []\<rparr>"

text \<open>A mapping file that cannot be read counts as empty.\<close>

definition new_playbook_repository ::
  "playbook_entry list codec \<Rightarrow> string \<Rightarrow> fs \<Rightarrow> gerror + playbook_repository" where
  "new_playbook_repository J dir f =
     (case read_file (playbook_mapping_file dir) f of
        Inl _ \<Rightarrow> Inr (load_playbooks dir [])
      | Inr content \<Rightarrow>
          (case cd_unmarshal J content of
             Inl e \<Rightarrow> Inl e
           | Inr es \<Rightarrow> Inr (load_playbooks dir es)))"

definition entries_of :: "playbook_repository \<Rightarrow> playbook_entry list" where
  "entries_of m = map (\<lambda>(t, p).
     let n = map_get [] (map_of (pr_path_to_name m)) p in
     \<lparr>pe_mod_time = t, pe_file_path = p, pe_name = n, pe_status = map_get [] (map_of (pr_name_status m)) n\<rparr>)
     (pr_mod_to_path m)"

definition persist_playbooks ::
  "playbook_entry list codec \<Rightarrow> playbook_repository \<Rightarrow> fs \<Rightarrow> gerror option \<times> fs" where
  "persist_playbooks J m f =
     (case cd_marshal J (entries_of m) of
        Inl e \<Rightarrow> (Some e, f)
      | Inr json \<Rightarrow> write_file (pr_mapping_file m) json f)"

definition playbook_path :: "(string \<Rightarrow> string) \<Rightarrow> playbook_repository \<Rightarrow> string \<Rightarrow> string" where
  "playbook_path sha m content = path_join [pr_config_dir m, sha content]"

definition enter_playbook :: "string \<Rightarrow> string \<Rightarrow> int \<Rightarrow> string \<Rightarrow> playbook_repository \<Rightarrow> playbook_repository" where
  "enter_playbook p name t status m = m\<lparr>
     pr_last_name := name,
     pr_mod_to_path := AList.update t p (pr_mod_to_path m),
     pr_path_to_mod := (pr_path_to_mod m)(p \<mapsto> t),
     pr_path_to_name := AList.update p name (pr_path_to_name m),
     pr_name_status := AList.update name status (pr_name_status m)\<rparr>"

definition playbook_add ::
  "playbook_entry list codec \<Rightarrow> (string \<Rightarrow> string) \<Rightarrow> string \<Rightarrow> string \<Rightarrow> int \<Rightarrow> string \<Rightarrow> (playbook_repository \<times> fs) proc" where
  "playbook_add J sha name content t status = (\<lambda>(m, f).
     let p = playbook_path sha m content in
     case write_file p content f of
       (Some e, f1) \<Rightarrow> (Some e, m, f1)
     | (None, f1) \<Rightarrow>
         (let m' = enter_playbook p name t status m in
          case persist_playbooks J m' f1 of (r, f2) \<Rightarrow> (r, m', f2)))"

definition drop_playbook :: "string \<Rightarrow> playbook_repository \<Rightarrow> playbook_repository" where
  "drop_playbook p m = m\<lparr>
     pr_mod_to_path := AList.delete (map_get 0 (pr_path_to_mod m) p) (pr_mod_to_path m),
     pr_path_to_mod := (pr_path_to_mod m)(p := None),
     pr_path_to_name := AList.delete p (pr_path_to_name m)\<rparr>"

definition playbook_remove ::
  "playbook_entry list codec \<Rightarrow> (string \<Rightarrow> string) \<Rightarrow> string \<Rightarrow> (playbook_repository \<times> fs) proc" where
  "playbook_remove J sha content = (\<lambda>(m, f).
     let m' = drop_playbook (playbook_path sha m content) m in
     case persist_playbooks J m' f of (r, f') \<Rightarrow> (r, m', f'))"

definition remove_playbook_mapping_file :: "(playbook_repository \<times> fs) proc" where
  "remove_playbook_mapping_file = (\<lambda>(m, f). case remove_all (pr_mapping_file m) f of (r, f') \<Rightarrow> (r, m, f'))"

definition playbook_mod_time :: "playbook_repository \<Rightarrow> string \<Rightarrow> int" where
  "playbook_mod_time m p = map_get 0 (pr_path_to_mod m) p"

definition playbook_file_path :: "playbook_repository \<Rightarrow> int \<Rightarrow> string" where
  "playbook_file_path m t = map_get [] (map_of (pr_mod_to_path m)) t"

definition playbook_name :: "playbook_repository \<Rightarrow> string \<Rightarrow> string" where
  "playbook_name m p = map_get [] (map_of (pr_path_to_name m)) p"

definition all_playbook_names :: "playbook_repository \<Rightarrow> string list" where
  "all_playbook_names m = map snd (pr_path_to_name m)"

definition playbook_status :: "playbook_repository \<Rightarrow> string \<Rightarrow> string" where
  "playbook_status m name = map_get [] (map_of (pr_name_status m)) name"

definition playbook_exists :: "playbook_repository \<Rightarrow> string \<Rightarrow> bool" where
  "playbook_exists m name \<longleftrightarrow> map_of (pr_name_status m) name \<noteq> None"

definition playbook_size :: "playbook_repository \<Rightarrow> nat" where
  "playbook_size m = card (dom (pr_path_to_mod m))"

text \<open>\<open>GetAll\<close>: the paths by modification time, numbered from 0.\<close>

definition all_playbooks :: "playbook_repository \<Rightarrow> (nat \<times> string) list" where
  "all_playbooks m =
     enumerate 0 (map (\<lambda>t. map_get [] (map_of (pr_mod_to_path m)) t) (sort (map fst (pr_mod_to_path m))))"

text \<open>\<open>UpdateStatus\<close> does not write the mapping file.\<close>

definition update_playbook_status :: "string \<Rightarrow> string \<Rightarrow> playbook_repository \<Rightarrow> gerror option \<times> playbook_repository" where
  "update_playbook_status name status m =
     (if playbook_exists m name then (None, m\<lparr>pr_name_status := AList.update name status (pr_name_status m)\<rparr>)
      else (Some (Err (''cannot find playbook execution with name: '' @ name)), m))"

subsection \<open>Invariant\<close>

text \<open>The paths and the times are related one to one, and every path has a name with a status.\<close>

definition playbooks_ok :: "playbook_repository \<Rightarrow> bool" where
  "playbooks_ok m \<longleftrightarrow> wf_map (pr_mod_to_path m) \<and>
     (\<forall>t p. map_of (pr_mod_to_path m) t = Some p \<longleftrightarrow> pr_path_to_mod m p = Some t) \<and>
     dom (map_of (pr_path_to_name m)) = dom (pr_path_to_mod m) \<and>
     ran (map_of (pr_path_to_name m)) \<subseteq> dom (map_of (pr_name_status m))"

text \<open>A playbook that is new: neither its file nor its time is taken by another.\<close>

definition fresh_playbook :: "playbook_repository \<Rightarrow> string \<Rightarrow> int \<Rightarrow> bool" where
  "fresh_playbook m p t \<longleftrightarrow> pr_path_to_mod m p \<in> {None, Some t} \<and> map_of (pr_mod_to_path m) t \<in> {None, Some p}"

lemma playbooks_okD:
  assumes "playbooks_ok m"
  shows "map_of (pr_mod_to_path m) t = Some p \<longleftrightarrow> pr_path_to_mod m p = Some t" and "wf_map (pr_mod_to_path m)"
    and "dom (map_of (pr_path_to_name m)) = dom (pr_path_to_mod m)"
    and "ran (map_of (pr_path_to_name m)) \<subseteq> dom (map_of (pr_name_status m))"
  using assms unfolding playbooks_ok_def by blast+

lemma enter_ok:
  assumes "playbooks_ok m" and "fresh_playbook m p t"
  shows "playbooks_ok (enter_playbook p name t status m)"
proof -
  note ok = playbooks_okD [OF assms(1)]
  have "((map_of (pr_mod_to_path m))(t \<mapsto> p)) t' = Some p' \<longleftrightarrow> ((pr_path_to_mod m)(p \<mapsto> t)) p' = Some t'" for t' p'
    using assms(2) ok(1) [of t' p'] ok(1) [of t p'] ok(1) [of t' p]
    by (auto simp: fresh_playbook_def simp del: map_of_eq_Some_iff)
  moreover have "ran ((map_of (pr_path_to_name m))(p \<mapsto> name)) \<subseteq> insert name (dom (map_of (pr_name_status m)))"
    using ok(4) by (auto simp: ran_def)
  ultimately show ?thesis
    unfolding playbooks_ok_def using ok(2,3) by (auto simp: enter_playbook_def)
qed

lemma drop_ok:
  assumes "playbooks_ok m" and "pr_path_to_mod m p \<noteq> None"
  shows "playbooks_ok (drop_playbook p m)"
proof -
  note ok = playbooks_okD [OF assms(1)]
  obtain t where t: "pr_path_to_mod m p = Some t" using assms(2) by auto
  have "((map_of (pr_mod_to_path m))(t := None)) t' = Some p' \<longleftrightarrow> ((pr_path_to_mod m)(p := None)) p' = Some t'" for t' p'
    using t ok(1) [of t' p'] ok(1) [of t p] ok(1) [of t p'] ok(1) [of t' p]
    by (auto simp del: map_of_eq_Some_iff)
  moreover have "ran ((map_of (pr_path_to_name m))(p := None)) \<subseteq> dom (map_of (pr_name_status m))"
    using ok(4) by (auto simp: ran_def split: if_splits)
  ultimately show ?thesis
    unfolding playbooks_ok_def using t ok(2,3) by (auto simp: drop_playbook_def)
qed

subsection \<open>Reading the mapping file back\<close>

lemma index_by_snoc: "index_by f (xs @ [x]) = (index_by f xs)(f x \<mapsto> x)"
  by (simp add: index_by_def)

lemma index_by_iff: "distinct (map f xs) \<Longrightarrow> index_by f xs k = Some x \<longleftrightarrow> x \<in> set xs \<and> f x = k"
  using index_by_SomeD [of f xs k x] index_by_distinct [of f xs] by auto

lemma loaded:
  "map_of (pr_mod_to_path (load_playbooks d es)) t = map_option pe_file_path (index_by pe_mod_time es t)"
  "pr_path_to_mod (load_playbooks d es) p = map_option pe_mod_time (index_by pe_file_path es p)"
  "map_of (pr_path_to_name (load_playbooks d es)) p = map_option pe_name (index_by pe_file_path es p)"
  "wf_map (pr_mod_to_path (load_playbooks d es))"
proof (induction es arbitrary: t p rule: rev_induct)
  case Nil
  {
    case 1 then show ?case by (simp add: load_playbooks_def index_by_def)
  next
    case 2 then show ?case by (simp add: load_playbooks_def index_by_def)
  next
    case 3 then show ?case by (simp add: load_playbooks_def index_by_def)
  next
    case 4 then show ?case by (simp add: load_playbooks_def)
  }
next
  case (snoc e es)
  have l: "load_playbooks d (es @ [e]) = load_entry e (load_playbooks d es)"
    by (simp add: load_playbooks_def)
  {
    case 1 then show ?case by (simp add: l load_entry_def index_by_snoc snoc)
  next
    case 2 then show ?case by (simp add: l load_entry_def index_by_snoc snoc)
  next
    case 3 then show ?case by (simp add: l load_entry_def index_by_snoc snoc)
  next
    case 4 then show ?case by (simp add: l load_entry_def snoc)
  }
qed

lemma dom_map_update: "dom (map_of (AList.update k v m)) = insert k (dom (map_of m))"
  unfolding map_of_update by (rule dom_fun_upd [THEN trans]) simp

lemma loaded_status: "dom (map_of (pr_name_status (load_playbooks d es))) = pe_name ` set es"
proof (induction es rule: rev_induct)
  case (snoc e es)
  have "load_playbooks d (es @ [e]) = load_entry e (load_playbooks d es)"
    by (simp add: load_playbooks_def)
  then show ?case by (simp add: load_entry_def snoc dom_map_update del: map_of_update)
qed (simp add: load_playbooks_def)

lemma entries_keys:
  assumes "playbooks_ok m"
  shows "distinct (map pe_mod_time (entries_of m))" and "distinct (map pe_file_path (entries_of m))"
    and "e \<in> set (entries_of m) \<Longrightarrow> pr_path_to_mod m (pe_file_path e) = Some (pe_mod_time e) \<and>
      map_of (pr_path_to_name m) (pe_file_path e) = Some (pe_name e) \<and>
      map_of (pr_name_status m) (pe_name e) = Some (pe_status e)"
    and "pr_path_to_mod m p = Some t \<Longrightarrow> \<exists>e \<in> set (entries_of m). pe_mod_time e = t \<and> pe_file_path e = p"
proof -
  note ok = playbooks_okD [OF assms]
  have mods: "map pe_mod_time (entries_of m) = map fst (pr_mod_to_path m)"
    by (induction "pr_mod_to_path m") (auto simp: entries_of_def Let_def split: prod.splits)
  show "distinct (map pe_mod_time (entries_of m))" unfolding mods by (rule ok(2))
  have paths: "map pe_file_path (entries_of m) = map snd (pr_mod_to_path m)"
    by (auto simp: entries_of_def Let_def split: prod.splits)
  have inj: "inj_on snd (set (pr_mod_to_path m))"
  proof (rule inj_onI)
    fix a b assume "a \<in> set (pr_mod_to_path m)" "b \<in> set (pr_mod_to_path m)" "snd a = snd b"
    then have "map_of (pr_mod_to_path m) (fst a) = Some (snd a)" "map_of (pr_mod_to_path m) (fst b) = Some (snd a)"
      using ok(2) by (simp_all add: prod.collapse) (metis prod.collapse)
    then have "fst a = fst b" using ok(1) by (metis option.inject)
    then show "a = b" using \<open>snd a = snd b\<close> by (rule prod_eqI)
  qed
  have "distinct (pr_mod_to_path m)" using ok(2) by (rule distinct_map [THEN iffD1, THEN conjunct1])
  then show "distinct (map pe_file_path (entries_of m))"
    unfolding paths using inj by (simp add: distinct_map)
  show "pr_path_to_mod m (pe_file_path e) = Some (pe_mod_time e) \<and>
      map_of (pr_path_to_name m) (pe_file_path e) = Some (pe_name e) \<and>
      map_of (pr_name_status m) (pe_name e) = Some (pe_status e)" if e: "e \<in> set (entries_of m)"
  proof -
    obtain t p where tp: "(t, p) \<in> set (pr_mod_to_path m)" "pe_mod_time e = t" "pe_file_path e = p"
        "pe_name e = map_get [] (map_of (pr_path_to_name m)) p" "pe_status e = map_get [] (map_of (pr_name_status m)) (map_get [] (map_of (pr_path_to_name m)) p)"
      using e by (auto simp: entries_of_def Let_def)
    have pt: "pr_path_to_mod m p = Some t" using tp(1) ok(1,2) by simp
    then obtain n where n: "map_of (pr_path_to_name m) p = Some n" using ok(3) by (metis domD domI)
    then obtain s where "map_of (pr_name_status m) n = Some s" using ok(4) by (auto simp: ran_def dom_def)
    with tp pt n show ?thesis by (simp add: map_get_def)
  qed
  show "\<exists>e \<in> set (entries_of m). pe_mod_time e = t \<and> pe_file_path e = p" if "pr_path_to_mod m p = Some t"
  proof -
    have "(t, p) \<in> set (pr_mod_to_path m)" using that ok(1) map_of_SomeD by fast
    then show ?thesis by (force simp: entries_of_def Let_def)
  qed
qed


text \<open>What a repository tells of the playbooks it knows.\<close>

definition same_playbooks :: "playbook_repository \<Rightarrow> playbook_repository \<Rightarrow> bool" where
  "same_playbooks m m' \<longleftrightarrow>
     map_of (pr_mod_to_path m') = map_of (pr_mod_to_path m) \<and> pr_path_to_mod m' = pr_path_to_mod m \<and>
     map_of (pr_path_to_name m') = map_of (pr_path_to_name m)"

lemma reload_same:
  assumes "playbooks_ok m"
  shows "same_playbooks m (load_playbooks d (entries_of m)) \<and> playbooks_ok (load_playbooks d (entries_of m))"
proof -
  let ?m = "load_playbooks d (entries_of m)"
  note ok = playbooks_okD [OF assms]
  note keys = entries_keys [OF assms]
  note mod = index_by_iff [OF keys(1)] and path = index_by_iff [OF keys(2)]
  have mods: "map_of (pr_mod_to_path ?m) t = Some p \<longleftrightarrow> pr_path_to_mod m p = Some t" for t p
    using keys(3) keys(4) [of p t] by (auto simp: loaded(1) mod simp del: map_of_eq_Some_iff)
  have pm: "pr_path_to_mod ?m p = Some t \<longleftrightarrow> pr_path_to_mod m p = Some t" for p t
    using keys(3) keys(4) [of p t] by (auto simp: loaded(2) path simp del: map_of_eq_Some_iff)
  have "map_of (pr_path_to_name ?m) p = Some n \<longleftrightarrow> map_of (pr_path_to_name m) p = Some n" for p n
  proof
    assume "map_of (pr_path_to_name m) p = Some n"
    moreover from this obtain t where "pr_path_to_mod m p = Some t" using ok(3) by (metis domD domI)
    moreover from this obtain e where "e \<in> set (entries_of m)" "pe_file_path e = p" using keys(4) by blast
    ultimately show "map_of (pr_path_to_name ?m) p = Some n"
      using keys(3) [of e] by (auto simp: loaded(3) path simp del: map_of_eq_Some_iff)
  qed (use keys(3) in \<open>auto simp: loaded(3) path simp del: map_of_eq_Some_iff\<close>)
  then have pn: "map_of (pr_path_to_name ?m) = map_of (pr_path_to_name m)"
    by (intro ext) (metis not_Some_eq)
  have pm': "pr_path_to_mod ?m = pr_path_to_mod m"
    using pm by (intro ext) (metis not_Some_eq)
  have mp: "map_of (pr_mod_to_path ?m) = map_of (pr_mod_to_path m)"
    using mods ok(1) by (intro ext) (metis not_Some_eq)
  have "n \<in> pe_name ` set (entries_of m)" if n: "map_of (pr_path_to_name m) p = Some n" for p n
  proof -
    obtain t where "pr_path_to_mod m p = Some t" using n ok(3) by (metis domD domI)
    then obtain e where "e \<in> set (entries_of m)" "pe_file_path e = p" using keys(4) by blast
    with n keys(3) [of e] show ?thesis by (auto simp del: map_of_eq_Some_iff)
  qed
  then have "ran (map_of (pr_path_to_name m)) \<subseteq> dom (map_of (pr_name_status ?m))"
    by (auto simp: loaded_status ran_def simp del: map_of_eq_Some_iff)
  then have "playbooks_ok ?m"
    unfolding playbooks_ok_def pn pm' mp using ok loaded(4) [of d "entries_of m"] by blast
  then show ?thesis
    by (simp add: same_playbooks_def pn pm' mp)
qed

subsection \<open>Every use of the repository\<close>

text \<open>
  The calls of the repository, restarts of the worker and changes of other files. A hash is not the name of
  the mapping file; a playbook that is entered is new; and a playbook that is removed is known, or at least
  no playbook has the time 0, which \<open>Remove\<close> deletes when it does not know the path.
\<close>

inductive repository_step ::
  "playbook_entry list codec \<Rightarrow> (string \<Rightarrow> string) \<Rightarrow> playbook_repository \<times> fs \<Rightarrow> playbook_repository \<times> fs \<Rightarrow> bool"
  for J sha where
  enters: "fresh_playbook m (playbook_path sha m content) t \<Longrightarrow> playbook_path sha m content \<noteq> pr_mapping_file m \<Longrightarrow>
    playbook_add J sha name content t status (m, f) = (r, s') \<Longrightarrow> repository_step J sha (m, f) s'"
| removes: "pr_path_to_mod m (playbook_path sha m content) \<noteq> None \<or> map_of (pr_mod_to_path m) 0 = None \<Longrightarrow>
    playbook_remove J sha content (m, f) = (r, s') \<Longrightarrow> repository_step J sha (m, f) s'"
| updates: "update_playbook_status name status m = (r, m') \<Longrightarrow> repository_step J sha (m, f) (m', f)"
| deletes: "remove_playbook_mapping_file (m, f) = (r, s') \<Longrightarrow> repository_step J sha (m, f) s'"
| restarts: "new_playbook_repository J (pr_config_dir m) f = Inr m' \<Longrightarrow> repository_step J sha (m, f) (m', f)"
| others: "read_file (pr_mapping_file m) f' = read_file (pr_mapping_file m) f \<Longrightarrow> repository_step J sha (m, f) (m, f')"

text \<open>What the mapping file holds was written for a well-formed repository.\<close>

definition repository_inv :: "playbook_entry list codec \<Rightarrow> string \<Rightarrow> playbook_repository \<times> fs \<Rightarrow> bool" where
  "repository_inv J dir = (\<lambda>(m, f). playbooks_ok m \<and> pr_config_dir m = dir \<and> pr_mapping_file m = playbook_mapping_file dir \<and>
     (\<forall>c. read_file (playbook_mapping_file dir) f = Inr c \<longrightarrow>
       (\<exists>m0. playbooks_ok m0 \<and> cd_marshal J (entries_of m0) = Inr c)))"

lemma load_frame [simp]:
  "pr_config_dir (load_playbooks d es) = d" "pr_mapping_file (load_playbooks d es) = playbook_mapping_file d"
  by (induction es rule: rev_induct) (simp_all add: load_playbooks_def load_entry_def)

lemma load_nil_ok: "playbooks_ok (load_playbooks d [])"
  by (simp add: playbooks_ok_def load_playbooks_def)

lemma drop_any_ok:
  assumes "playbooks_ok m" and "pr_path_to_mod m p \<noteq> None \<or> map_of (pr_mod_to_path m) 0 = None"
  shows "playbooks_ok (drop_playbook p m)"
proof (cases "pr_path_to_mod m p")
  case None
  have "map_of (pr_path_to_name m) p = None"
    using None playbooks_okD(3) [OF assms(1)] by (metis domIff)
  then have "AList.delete (0 :: int) (pr_mod_to_path m) = pr_mod_to_path m" "AList.delete p (pr_path_to_name m) = pr_path_to_name m"
    using None assms(2) by (simp_all add: map_of_eq_None_iff)
  moreover have "(pr_path_to_mod m)(p := None) = pr_path_to_mod m" using None by auto
  ultimately have "drop_playbook p m = m" using None by (simp add: drop_playbook_def map_get_def)
  then show ?thesis using assms(1) by simp
qed (use drop_ok [OF assms(1)] in simp)

lemma persist_keeps_inv:
  assumes "playbooks_ok m" and "pr_config_dir m = dir" and "pr_mapping_file m = playbook_mapping_file dir"
    and "\<forall>c. read_file (playbook_mapping_file dir) f = Inr c \<longrightarrow> (\<exists>m0. playbooks_ok m0 \<and> cd_marshal J (entries_of m0) = Inr c)"
    and "persist_playbooks J m f = (r, f')"
  shows "repository_inv J dir (m, f')"
proof (cases "cd_marshal J (entries_of m)")
  case (Inl e)
  then show ?thesis using assms by (simp add: persist_playbooks_def repository_inv_def)
next
  case (Inr json)
  then have w: "write_file (playbook_mapping_file dir) json f = (r, f')"
    using assms(3,5) by (simp add: persist_playbooks_def)
  show ?thesis
  proof (cases r)
    case None
    then show ?thesis using read_write w assms(1-3) Inr by (auto simp: repository_inv_def)
  next
    case (Some e)
    then have "f' = f" using write_file_error_unchanged w by metis
    then show ?thesis using assms(1-4) by (simp add: repository_inv_def)
  qed
qed

lemma repository_step_inv:
  assumes faithful: "\<And>es c. cd_marshal J es = Inr c \<Longrightarrow> cd_unmarshal J c = Inr es"
    and "repository_step J sha s s'" and "repository_inv J dir s"
  shows "repository_inv J dir s'"
  using assms(2,3)
proof (cases rule: repository_step.cases)
  case (enters m content t name status f r)
  let ?p = "playbook_path sha m content"
  have inv: "playbooks_ok m" "pr_config_dir m = dir" "pr_mapping_file m = playbook_mapping_file dir"
    "\<forall>c. read_file (playbook_mapping_file dir) f = Inr c \<longrightarrow> (\<exists>m0. playbooks_ok m0 \<and> cd_marshal J (entries_of m0) = Inr c)"
    using assms(3) enters(1) by (simp_all add: repository_inv_def)
  obtain r1 f1 where w: "write_file ?p content f = (r1, f1)" by (meson surj_pair)
  have other: "read_file (playbook_mapping_file dir) f1 = read_file (playbook_mapping_file dir) f"
  proof (cases r1)
    case None
    then show ?thesis using w enters(3) inv(3) read_write_other by metis
  next
    case (Some e)
    then show ?thesis using w write_file_error_unchanged by metis
  qed
  show ?thesis
  proof (cases r1)
    case None
    obtain r2 f2 where p: "persist_playbooks J (enter_playbook ?p name t status m) f1 = (r2, f2)" by (meson surj_pair)
    have "s' = (enter_playbook ?p name t status m, f2)"
      using enters(4) w None p by (simp add: playbook_add_def Let_def)
    moreover have "repository_inv J dir (enter_playbook ?p name t status m, f2)"
    proof (rule persist_keeps_inv [OF enter_ok [OF inv(1) enters(2)] _ _ _ p])
      show "pr_config_dir (enter_playbook ?p name t status m) = dir" using inv(2) by (simp add: enter_playbook_def)
      show "pr_mapping_file (enter_playbook ?p name t status m) = playbook_mapping_file dir"
        using inv(3) by (simp add: enter_playbook_def)
    qed (simp add: other inv(4))
    ultimately show ?thesis by simp
  next
    case (Some e)
    then have "s' = (m, f1)" using enters(4) w by (simp add: playbook_add_def Let_def)
    then show ?thesis using inv other by (simp add: repository_inv_def)
  qed
next
  case (removes m content f r)
  let ?m = "drop_playbook (playbook_path sha m content) m"
  have inv: "playbooks_ok m" "pr_config_dir m = dir" "pr_mapping_file m = playbook_mapping_file dir"
    "\<forall>c. read_file (playbook_mapping_file dir) f = Inr c \<longrightarrow> (\<exists>m0. playbooks_ok m0 \<and> cd_marshal J (entries_of m0) = Inr c)"
    using assms(3) removes(1) by (simp_all add: repository_inv_def)
  obtain r2 f2 where p: "persist_playbooks J ?m f = (r2, f2)" by (meson surj_pair)
  have "s' = (?m, f2)" using removes(3) p by (simp add: playbook_remove_def Let_def)
  moreover have "repository_inv J dir (?m, f2)"
    using inv by (intro persist_keeps_inv [OF drop_any_ok [OF inv(1) removes(2)] _ _ inv(4) p]) (simp_all add: drop_playbook_def)
  ultimately show ?thesis by simp
next
  case (updates name status m r m' f)
  then have "m' = m \<or> m' = m\<lparr>pr_name_status := AList.update name status (pr_name_status m)\<rparr>"
    by (auto simp: update_playbook_status_def split: if_splits)
  moreover have "playbooks_ok m \<Longrightarrow> playbooks_ok (m\<lparr>pr_name_status := AList.update name status (pr_name_status m)\<rparr>)"
    unfolding playbooks_ok_def by (auto simp: dom_map_update simp del: map_of_update)
  ultimately show ?thesis using assms(3) updates(1,2) by (auto simp: repository_inv_def)
next
  case (deletes m f r)
  then obtain f' where "s' = (m, f')" and d: "remove_all (pr_mapping_file m) f = (r, f')"
    by (auto simp: remove_playbook_mapping_file_def split: prod.splits)
  moreover have "read_file (pr_mapping_file m) f' \<in> {Inl err_not_exist, read_file (pr_mapping_file m) f}"
    using d read_remove_all remove_all_error_unchanged below_refl by (cases r) (metis insertCI)+
  ultimately show ?thesis using assms(3) deletes(1) by (auto simp: repository_inv_def)
next
  case (restarts m f m')
  have inv: "playbooks_ok m" "pr_config_dir m = dir" "pr_mapping_file m = playbook_mapping_file dir"
    "\<forall>c. read_file (playbook_mapping_file dir) f = Inr c \<longrightarrow> (\<exists>m0. playbooks_ok m0 \<and> cd_marshal J (entries_of m0) = Inr c)"
    using assms(3) restarts(1) by (simp_all add: repository_inv_def)
  show ?thesis
  proof (cases "read_file (playbook_mapping_file dir) f")
    case (Inl e)
    then have "m' = load_playbooks dir []" using restarts(3) inv(2) by (simp add: new_playbook_repository_def)
    then show ?thesis using Inl load_nil_ok restarts(2) by (simp add: repository_inv_def)
  next
    case (Inr c)
    then obtain m0 where m0: "playbooks_ok m0" "cd_marshal J (entries_of m0) = Inr c" using inv(4) by blast
    then have "m' = load_playbooks dir (entries_of m0)"
      using restarts(3) inv(2) Inr faithful by (simp add: new_playbook_repository_def)
    then show ?thesis using reload_same [OF m0(1), of dir] inv(4) restarts(2) by (simp add: repository_inv_def)
  qed
next
  case (others m f' f)
  then show ?thesis using assms(3) by (simp add: repository_inv_def)
qed

subsection \<open>Properties\<close>

text \<open>
  A new playbook that is entered is there after a restart: when the file is written, a repository
  created over the same directory relates the same times, paths and names, and again one to one.\<close>

theorem playbook_survives_restart:
  assumes "playbooks_ok m" and "fresh_playbook m (playbook_path sha m content) t"
    and "playbook_add J sha name content t status (m, f) = (None, m', f')"
    and "pr_mapping_file m = playbook_mapping_file (pr_config_dir m)"
    and "codec_inverts J (entries_of m')"
  shows "\<exists>m2. new_playbook_repository J (pr_config_dir m) f' = Inr m2 \<and> same_playbooks m' m2 \<and> playbooks_ok m2 \<and>
    playbook_name m2 (playbook_path sha m content) = name"
proof -
  let ?p = "playbook_path sha m content"
  obtain f1 where w: "write_file ?p content f = (None, f1)"
    using assms(3) by (auto simp: playbook_add_def Let_def split: prod.splits option.splits)
  have m': "m' = enter_playbook ?p name t status m"
    using assms(3) w by (auto simp: playbook_add_def Let_def split: prod.splits)
  have ok: "playbooks_ok m'"
    unfolding m' by (rule enter_ok [OF assms(1,2)])
  obtain json where j: "cd_marshal J (entries_of m') = Inr json" "cd_unmarshal J json = Inr (entries_of m')"
    using assms(5) by (auto simp: codec_inverts_def)
  have "write_file (pr_mapping_file m') json f1 = (None, f')"
    using assms(3) w j m' by (auto simp: playbook_add_def Let_def persist_playbooks_def split: prod.splits)
  then have "read_file (playbook_mapping_file (pr_config_dir m)) f' = Inr json"
    using read_write assms(4) m' by (simp add: enter_playbook_def)
  then have "new_playbook_repository J (pr_config_dir m) f' = Inr (load_playbooks (pr_config_dir m) (entries_of m'))"
    using j by (simp add: new_playbook_repository_def)
  moreover have "map_of (pr_path_to_name m') ?p = Some name"
    by (simp add: m' enter_playbook_def)
  ultimately show ?thesis
    using reload_same [OF ok, of "pr_config_dir m"] by (auto simp: same_playbooks_def playbook_name_def map_get_def)
qed

text \<open>
  Removing a playbook by a content other than the one it was entered with takes nothing away.
\<close>

lemma remove_other_content:
  assumes "pr_path_to_mod m (playbook_path sha m content) = None" and "map_of (pr_mod_to_path m) 0 = None"
    and "map_of (pr_path_to_name m) (playbook_path sha m content) = None"
  shows "drop_playbook (playbook_path sha m content) m = m"
proof -
  have "AList.delete (0 :: int) (pr_mod_to_path m) = pr_mod_to_path m"
    using assms(2) by (simp add: map_of_eq_None_iff)
  moreover have "AList.delete (playbook_path sha m content) (pr_path_to_name m) = pr_path_to_name m"
    using assms(3) by (simp add: map_of_eq_None_iff)
  moreover have "(pr_path_to_mod m)(playbook_path sha m content := None) = pr_path_to_mod m"
    using assms(1) by auto
  ultimately show ?thesis
    using assms(1) by (simp add: drop_playbook_def map_get_def)
qed


definition example_entry :: playbook_entry where
  "example_entry = \<lparr>pe_mod_time = 5, pe_file_path = ''/d/abc'', pe_name = ''pb'', pe_status = ''Deploying''\<rparr>"

definition example_playbook_codec :: "playbook_entry list codec" where
  "example_playbook_codec = \<lparr>cd_marshal = \<lambda>_. Inr ''j'', cd_unmarshal = \<lambda>_. Inr [example_entry]\<rparr>"

definition example_sha :: "string \<Rightarrow> string" where
  "example_sha content = ''abc''"

abbreviation example_playbooks :: playbook_repository where
  "example_playbooks \<equiv> load_playbooks ''/d'' []"

lemma example_playbook_paths: "path_join [''/d'', ''abc''] = ''/d/abc''" "path_join [''/d'', ''playbook-mapping.json''] = ''/d/playbook-mapping.json''"
  by code_simp+

lemma example_playbooks_ok: "playbooks_ok example_playbooks"
  by (simp add: playbooks_ok_def load_playbooks_def)

theorem playbook_survives_restart_witness:
  "\<exists>m' f'. playbook_add example_playbook_codec example_sha ''pb'' ''- hosts: all'' 5 ''Deploying'' (example_playbooks, fs_with_dirs {''/d''})
       = (None, m', f') \<and>
     (\<exists>m2. new_playbook_repository example_playbook_codec (pr_config_dir example_playbooks) f' = Inr m2 \<and> same_playbooks m' m2 \<and>
        playbooks_ok m2 \<and> playbook_name m2 (playbook_path example_sha example_playbooks ''- hosts: all'') = ''pb'')"
proof -
  have p: "playbook_path example_sha example_playbooks ''- hosts: all'' = ''/d/abc''"
    by (simp add: playbook_path_def example_sha_def load_playbooks_def example_playbook_paths)
  let ?m = "enter_playbook ''/d/abc'' ''pb'' 5 ''Deploying'' example_playbooks"
  have "\<exists>f'. playbook_add example_playbook_codec example_sha ''pb'' ''- hosts: all'' 5 ''Deploying'' (example_playbooks, fs_with_dirs {''/d''})
       = (None, ?m, f')"
    by (simp add: playbook_add_def write_file_def fs_with_dirs_def parent_dir_def persist_playbooks_def example_playbook_codec_def
        enter_playbook_def load_playbooks_def playbook_mapping_file_def example_playbook_paths playbook_path_def example_sha_def Let_def)
  then obtain f' where add: "playbook_add example_playbook_codec example_sha ''pb'' ''- hosts: all'' 5 ''Deploying''
      (example_playbooks, fs_with_dirs {''/d''}) = (None, ?m, f')" by blast
  have "\<exists>m2. new_playbook_repository example_playbook_codec (pr_config_dir example_playbooks) f' = Inr m2 \<and> same_playbooks ?m m2 \<and>
        playbooks_ok m2 \<and> playbook_name m2 (playbook_path example_sha example_playbooks ''- hosts: all'') = ''pb''"
  proof (rule playbook_survives_restart [OF example_playbooks_ok _ add])
    show "fresh_playbook example_playbooks (playbook_path example_sha example_playbooks ''- hosts: all'') 5"
      by (simp add: fresh_playbook_def load_playbooks_def)
    show "pr_mapping_file example_playbooks = playbook_mapping_file (pr_config_dir example_playbooks)"
      by (simp add: load_playbooks_def)
    have "entries_of ?m = [example_entry]"
      by (simp add: entries_of_def enter_playbook_def load_playbooks_def example_entry_def map_get_def)
    then show "codec_inverts example_playbook_codec (entries_of ?m)"
      by (simp add: codec_inverts_def example_playbook_codec_def)
  qed
  with add show ?thesis by blast
qed


text \<open>A codec that only encodes one list.\<close>

definition single_codec :: "playbook_entry list codec" where
  "single_codec = \<lparr>cd_marshal = \<lambda>es. if es = [example_entry] then Inr ''j'' else Inl (Err ''other''), cd_unmarshal = \<lambda>_. Inr [example_entry]\<rparr>"


end
