(* ===== verification/Ansible_Dispatcher.thy ===== *)
theory Ansible_Dispatcher
  imports Numbers
begin

text \<open>
  \<open>internal/ansible/dispatcher/dispatcher_events.go\<close>: the job events made from the results of a playbook.
  The results are those of \<open>go-ansible\<close>, with the hosts of a task and the statistics in the order in
  which \<open>range\<close> enumerates them; the JSON of an event is the parameter \<open>marshal\<close>, a new UUID a
  parameter. The state of \<open>AnsibleDispatcher\<close> is the device's id and the list of events.
\<close>

subsection \<open>Results and events\<close>

record task_host =
  th_action :: string
  th_changed :: bool
  th_failed :: bool
  th_skipped :: bool
  th_stdout :: string
  th_stderr :: string

record play_task =
  ptk_id :: string
  ptk_name :: string
  ptk_start :: string
  ptk_hosts :: "(string \<times> task_host) list"

record play =
  pl_id :: string
  pl_start :: string
  pl_end :: string
  pl_tasks :: "play_task list"

record host_stats =
  hs_changed :: int
  hs_failures :: int
  hs_ok :: int

record playbook_results =
  pbr_plays :: "play list option"
  pbr_stats :: "(string \<times> host_stats) list"

record job_data =
  jd_correlation_id :: "string option"
  jd_error_code :: "string option"
  jd_error_details :: "string option"
  jd_host :: "string option"
  jd_playbook :: "string option"
  jd_playbook_uuid :: "string option"
  jd_res_changed :: "bool option"
  jd_stats :: "(string \<times> host_stats) list"
  jd_task :: "string option"
  jd_task_action :: "string option"
  jd_task_uuid :: "string option"
  jd_uuid :: "string option"

record job_event =
  je_counter :: int
  je_created :: "string option"
  je_data :: job_data
  je_event :: string
  je_runner :: "string option"
  je_stderr :: string
  je_stdout :: string
  je_uuid :: string

definition no_data :: job_data where
  "no_data = \<lparr>jd_correlation_id = None, jd_error_code = None, jd_error_details = None, jd_host = None, jd_playbook = None,
     jd_playbook_uuid = None, jd_res_changed = None, jd_stats = [], jd_task = None, jd_task_action = None,
     jd_task_uuid = None, jd_uuid = None\<rparr>"

record dispatcher =
  ad_device_id :: string
  ad_msg_list :: "job_event list"

definition new_ansible_dispatcher :: "string \<Rightarrow> dispatcher" where
  "new_ansible_dispatcher device = \<lparr>ad_device_id = device, ad_msg_list = []\<rparr>"

definition add_runner_job_event :: "job_event \<Rightarrow> dispatcher \<Rightarrow> dispatcher" where
  "add_runner_job_event e d = d\<lparr>ad_msg_list := ad_msg_list d @ [e]\<rparr>"

subsection \<open>Hosts and occurrences\<close>

text \<open>\<open>getHostsString\<close>: the hosts of the last task.\<close>

definition get_hosts_string :: "play_task list \<Rightarrow> string" where
  "get_hosts_string tasks = fold (\<lambda>t s. join_with '','' (map fst (ptk_hosts t))) tasks []"

definition count_occurrence :: "play_task list \<Rightarrow> (string \<rightharpoonup> int)" where
  "count_occurrence tasks = fold (\<lambda>t m. m(ptk_id t \<mapsto> map_get 0 m (ptk_id t) + 1)) tasks Map.empty"

subsection \<open>The events\<close>

definition playbook_on_start :: "string \<Rightarrow> string \<Rightarrow> string \<Rightarrow> int \<Rightarrow> play \<Rightarrow> job_event" where
  "playbook_on_start uuid device file counter p =
     \<lparr>je_counter = counter, je_created = Some (pl_start p),
      je_data = no_data\<lparr>jd_playbook_uuid := Some uuid, jd_playbook := Some file,
        jd_host := Some (get_hosts_string (pl_tasks p)), jd_uuid := Some (pl_id p)\<rparr>,
      je_event = ''playbook_on_start'', je_runner = Some device, je_stderr = [], je_stdout = [], je_uuid = uuid\<rparr>"

definition playbook_on_play_start :: "string \<Rightarrow> string \<Rightarrow> int \<Rightarrow> play \<Rightarrow> job_event" where
  "playbook_on_play_start device file counter p =
     \<lparr>je_counter = counter, je_created = Some (pl_start p),
      je_data = no_data\<lparr>jd_playbook_uuid := Some (pl_id p), jd_playbook := Some file,
        jd_host := Some (get_hosts_string (pl_tasks p)), jd_uuid := Some (pl_id p)\<rparr>,
      je_event = ''playbook_on_play_start'', je_runner = Some device, je_stderr = [], je_stdout = [], je_uuid = pl_id p\<rparr>"

definition playbook_on_stats :: "string \<Rightarrow> string \<Rightarrow> int \<Rightarrow> string \<Rightarrow> (string \<times> host_stats) list \<Rightarrow> job_event" where
  "playbook_on_stats device file counter time stats =
     \<lparr>je_counter = counter, je_created = Some time,
      je_data = no_data\<lparr>jd_playbook_uuid := Some file, jd_stats := fold (\<lambda>(h, s) m. AList.update h s m) stats []\<rparr>,
      je_event = ''playbook_on_stats'', je_runner = Some device, je_stderr = [], je_stdout = [], je_uuid = []\<rparr>"

text \<open>
  \<open>PlaybookOnTaskStart\<close> renames a task whose id occurs more than once in the play, also in the task
  itself, on which the events of all its hosts are built: \<open>rename_task\<close> is that step on the id of the
  task and \<open>duplicateTaskCount\<close>.
\<close>

definition rename_task :: "(string \<rightharpoonup> int) \<Rightarrow> string \<times> (string \<rightharpoonup> int) \<Rightarrow> string \<times> (string \<rightharpoonup> int)" where
  "rename_task occ = (\<lambda>(tid, dups).
     case occ tid of
       None \<Rightarrow> (tid, dups)
     | Some n \<Rightarrow>
         if n > 1 then
           (let k = map_get 0 dups tid + 1 in (tid @ ''_'' @ show_int k, dups(tid \<mapsto> k)))
         else (tid, dups))"

definition playbook_on_task_start ::
  "string \<Rightarrow> string \<Rightarrow> string \<Rightarrow> int \<Rightarrow> string option \<Rightarrow> play_task \<Rightarrow> task_host \<Rightarrow> string \<Rightarrow> job_event" where
  "playbook_on_task_start device file playUuid counter host t h tid =
     \<lparr>je_counter = counter, je_created = Some (ptk_start t),
      je_data = no_data\<lparr>jd_playbook := Some file, jd_playbook_uuid := Some playUuid, jd_host := host, jd_task_uuid := Some tid,
        jd_task := Some (ptk_name t), jd_task_action := Some (th_action h), jd_uuid := Some tid\<rparr>,
      je_event = ''playbook_on_task_start'', je_runner = Some device, je_stderr = [], je_stdout = th_stdout h, je_uuid = tid\<rparr>"

text \<open>
  \<open>RunnerOnOk\<close>, \<open>RunnerOnFailed\<close> and \<open>RunnerOnSkipped\<close>: their event data point to the id of the task, which
  is read when the events are encoded (\<open>ptr\<close>); the UUID is the id at the time of the call.
\<close>

definition runner_event ::
  "string \<Rightarrow> string \<Rightarrow> string \<Rightarrow> string \<Rightarrow> string \<Rightarrow> int \<Rightarrow> string option \<Rightarrow> play_task \<Rightarrow> task_host \<Rightarrow> string \<Rightarrow> string \<Rightarrow> job_event" where
  "runner_event event stderr device file playUuid counter host t h ptr tid =
     \<lparr>je_counter = counter, je_created = Some (ptk_start t),
      je_data = no_data\<lparr>jd_playbook := Some file, jd_playbook_uuid := Some playUuid, jd_host := host, jd_task_uuid := Some ptr,
        jd_task := Some (ptk_name t), jd_task_action := Some (th_action h), jd_res_changed := Some (th_changed h),
        jd_uuid := Some ptr\<rparr>,
      je_event = event, je_runner = Some device, je_stderr = stderr, je_stdout = th_stdout h, je_uuid = tid\<rparr>"

definition runner_on_ok where
  "runner_on_ok = runner_event ''v2_runner_on_ok'' []"

definition runner_on_failed where
  "runner_on_failed device file playUuid counter host t h =
     runner_event ''v2_runner_on_failed'' (th_stderr h) device file playUuid counter host t h"

definition runner_on_skipped where
  "runner_on_skipped device file playUuid counter host t h =
     runner_event ''v2_runner_on_skipped'' (th_stderr h) device file playUuid counter host t h"

text \<open>The variables of \<open>eventTransformer\<close>.\<close>

record transformer =
  tr_counter :: int
  tr_dups :: "string \<rightharpoonup> int"
  tr_events :: "job_event list"

definition emit :: "(int \<Rightarrow> job_event) \<Rightarrow> transformer \<Rightarrow> transformer" where
  "emit mk s = s\<lparr>tr_counter := tr_counter s + 1, tr_events := tr_events s @ [mk (tr_counter s + 1)]\<rparr>"

text \<open>The loop over the hosts of a task.\<close>

fun task_hosts ::
  "string \<Rightarrow> string \<Rightarrow> job_event \<Rightarrow> (string \<rightharpoonup> int) \<Rightarrow> play_task \<Rightarrow> string \<Rightarrow> task_host list \<Rightarrow> string \<Rightarrow> transformer \<Rightarrow> transformer" where
  "task_hosts device file start occ t ptr [] tid s = s"
| "task_hosts device file start occ t ptr (h # hs) tid s =
     (case rename_task occ (tid, tr_dups s) of
        (tid', dups) \<Rightarrow>
          (let host = jd_host (je_data start);
               s1 = emit (\<lambda>c. playbook_on_task_start device file (je_uuid start) c host t h tid') (s\<lparr>tr_dups := dups\<rparr>);
               s2 = emit (\<lambda>c.
                 if th_failed h then runner_on_failed device file tid' c host t h ptr tid'
                 else if th_skipped h then runner_on_skipped device file tid' c host t h ptr tid'
                 else runner_on_ok device file tid' c host t h ptr tid') s1
           in task_hosts device file start occ t ptr hs tid' s2))"

definition task_events :: "string \<Rightarrow> string \<Rightarrow> job_event \<Rightarrow> (string \<rightharpoonup> int) \<Rightarrow> play_task \<Rightarrow> transformer \<Rightarrow> transformer" where
  "task_events device file start occ t s =
     (let ptr = fst (fold (\<lambda>_. rename_task occ) (ptk_hosts t) (ptk_id t, tr_dups s)) in
      task_hosts device file start occ t ptr (map snd (ptk_hosts t)) (ptk_id t) s)"

definition play_events ::
  "string \<Rightarrow> string \<Rightarrow> string \<Rightarrow> (string \<times> host_stats) list \<Rightarrow> play \<Rightarrow> transformer \<Rightarrow> transformer" where
  "play_events uuid device file stats p s =
     (let s0 = (if tr_counter s = 1
                then s\<lparr>tr_events := tr_events s @ [playbook_on_start uuid device file (tr_counter s) p]\<rparr> else s);
          s1 = emit (\<lambda>c. playbook_on_play_start device file c p) s0;
          start = playbook_on_play_start device file (tr_counter s1) p;
          s2 = fold (task_events device file start (count_occurrence (pl_tasks p))) (pl_tasks p) s1
      in emit (\<lambda>c. playbook_on_stats device file c (pl_end p) stats) s2)"

definition event_transformer :: "string \<Rightarrow> string \<Rightarrow> string \<Rightarrow> playbook_results \<Rightarrow> job_event list" where
  "event_transformer uuid device file r =
     tr_events (fold (play_events uuid device file (pbr_stats r)) (case pbr_plays r of None \<Rightarrow> [] | Some ps \<Rightarrow> ps)
       \<lparr>tr_counter = 0, tr_dups = Map.empty, tr_events = []\<rparr>)"

definition add_event :: "string \<Rightarrow> string \<Rightarrow> playbook_results \<Rightarrow> dispatcher \<Rightarrow> dispatcher" where
  "add_event uuid file r d = d\<lparr>ad_msg_list := ad_msg_list d @ event_transformer uuid (ad_device_id d) file r\<rparr>"

definition executor_on_start :: "string \<Rightarrow> string \<Rightarrow> string \<Rightarrow> job_event" where
  "executor_on_start uuid correlation stdout =
     \<lparr>je_counter = - 1, je_created = None, je_data = no_data\<lparr>jd_correlation_id := Some correlation\<rparr>,
      je_event = ''executor_on_start'', je_runner = None, je_stderr = [], je_stdout = stdout, je_uuid = uuid\<rparr>"

definition executor_on_failed :: "string \<Rightarrow> string \<Rightarrow> string \<Rightarrow> string \<Rightarrow> string \<Rightarrow> job_event" where
  "executor_on_failed uuid correlation stdout code details =
     \<lparr>je_counter = - 1, je_created = None,
      je_data = no_data\<lparr>jd_correlation_id := Some correlation, jd_error_code := Some code, jd_error_details := Some details\<rparr>,
      je_event = ''executor_on_failed'', je_runner = None, je_stderr = [], je_stdout = stdout, je_uuid = uuid\<rparr>"

subsection \<open>The message\<close>

fun create_message :: "(job_event \<Rightarrow> gerror + string) \<Rightarrow> job_event list \<Rightarrow> gerror + string" where
  "create_message marshal [] = Inr []"
| "create_message marshal (e # es) =
     (case marshal e of
        Inl err \<Rightarrow> Inl err
      | Inr b \<Rightarrow>
          (case create_message marshal es of
             Inl err \<Rightarrow> Inl err
           | Inr rest \<Rightarrow> Inr (b @ (if es \<noteq> [] then [CHR 0x0A] else []) @ rest)))"

record dispatcher_message =
  dm_message_id :: string
  dm_directive :: string
  dm_response_to :: string
  dm_content :: string

definition compose_dispatcher_message ::
  "(job_event \<Rightarrow> gerror + string) \<Rightarrow> string \<Rightarrow> job_event list \<Rightarrow> string \<Rightarrow> string \<Rightarrow> gerror + dispatcher_message" where
  "compose_dispatcher_message marshal uuid events returnURL responseTo =
     (case create_message marshal events of
        Inl e \<Rightarrow> Inl e
      | Inr content \<Rightarrow>
          Inr \<lparr>dm_message_id = uuid, dm_directive = returnURL, dm_response_to = responseTo, dm_content = content\<rparr>)"

subsection \<open>Counters\<close>

text \<open>The events so far are numbered from 1, the counter being the number of the last one.\<close>

definition counted :: "transformer \<Rightarrow> bool" where
  "counted s \<longleftrightarrow> map je_counter (tr_events s) = [1..tr_counter s] \<and> 0 \<le> tr_counter s"

lemma counted_emit: "counted s \<Longrightarrow> (\<And>c. je_counter (mk c) = c) \<Longrightarrow> counted (emit mk s)"
  by (simp add: counted_def emit_def upto_rec2)

lemma counted_dups [simp]: "counted (s\<lparr>tr_dups := d\<rparr>) = counted s"
  by (simp add: counted_def)

lemma event_counters [simp]:
  "je_counter (playbook_on_task_start device file u c host t h tid) = c"
  "je_counter (playbook_on_play_start device file c p) = c"
  "je_counter (playbook_on_stats device file c tm stats) = c"
  "je_counter (runner_on_ok device file u c host t h ptr tid) = c"
  "je_counter (runner_on_failed device file u c host t h ptr tid) = c"
  "je_counter (runner_on_skipped device file u c host t h ptr tid) = c"
  by (simp_all add: playbook_on_task_start_def playbook_on_play_start_def playbook_on_stats_def runner_on_ok_def
      runner_on_failed_def runner_on_skipped_def runner_event_def)

lemma emit_counter [simp]: "tr_counter (emit mk s) = tr_counter s + 1"
  by (simp add: emit_def)

lemma counted_task_hosts:
  "counted s \<Longrightarrow> counted (task_hosts device file start occ t ptr hs tid s) \<and>
   tr_counter (task_hosts device file start occ t ptr hs tid s) = tr_counter s + 2 * int (length hs)"
proof (induction hs arbitrary: tid s)
  case (Cons h hs)
  obtain tid' dups where r: "rename_task occ (tid, tr_dups s) = (tid', dups)" by (meson surj_pair)
  let ?s1 = "emit (\<lambda>c. playbook_on_task_start device file (je_uuid start) c (jd_host (je_data start)) t h tid') (s\<lparr>tr_dups := dups\<rparr>)"
  let ?s2 = "emit (\<lambda>c.
      if th_failed h then runner_on_failed device file tid' c (jd_host (je_data start)) t h ptr tid'
      else if th_skipped h then runner_on_skipped device file tid' c (jd_host (je_data start)) t h ptr tid'
      else runner_on_ok device file tid' c (jd_host (je_data start)) t h ptr tid') ?s1"
  have "counted ?s2"
    using Cons.prems by (intro counted_emit) simp_all
  from Cons.IH [OF this, of tid'] show ?case
    by (simp add: r Let_def)
qed simp

lemma counted_tasks:
  "counted s \<Longrightarrow> counted (fold (task_events device file start occ) ts s) \<and>
   tr_counter (fold (task_events device file start occ) ts s) =
     tr_counter s + 2 * int (sum_list (map (\<lambda>t. length (ptk_hosts t)) ts))"
proof (induction ts arbitrary: s)
  case (Cons t ts)
  have "counted (task_events device file start occ t s)"
      "tr_counter (task_events device file start occ t s) = tr_counter s + 2 * int (length (ptk_hosts t))"
    using counted_task_hosts [OF Cons.prems] by (simp_all add: task_events_def Let_def)
  then show ?case using Cons.IH [of "task_events device file start occ t s"] by simp
qed simp

text \<open>How many events a play gives.\<close>

definition play_size :: "play \<Rightarrow> nat" where
  "play_size p = 2 + 2 * sum_list (map (\<lambda>t. length (ptk_hosts t)) (pl_tasks p))"

lemma counted_play:
  assumes "counted s" and "tr_counter s \<noteq> 1"
  shows "counted (play_events uuid device file stats p s) \<and>
    tr_counter (play_events uuid device file stats p s) = tr_counter s + int (play_size p)"
proof -
  let ?s1 = "emit (\<lambda>c. playbook_on_play_start device file c p) s"
  have "counted ?s1" using assms(1) by (rule counted_emit) simp
  from counted_tasks [OF this] show ?thesis
    using assms(2) by (simp add: play_events_def play_size_def Let_def counted_emit)
qed

lemma counted_plays:
  "counted s \<Longrightarrow> tr_counter s \<noteq> 1 \<Longrightarrow> counted (fold (play_events uuid device file stats) ps s) \<and>
   tr_counter (fold (play_events uuid device file stats) ps s) = tr_counter s + int (sum_list (map play_size ps))"
proof (induction ps arbitrary: s)
  case (Cons p ps)
  have "tr_counter s \<ge> 0" using Cons.prems(1) by (simp add: counted_def)
  moreover have "counted (play_events uuid device file stats p s) \<and>
      tr_counter (play_events uuid device file stats p s) = tr_counter s + int (play_size p)"
    by (rule counted_play [OF Cons.prems])
  ultimately show ?case
    using Cons.IH [of "play_events uuid device file stats p s"] by (simp add: play_size_def)
qed simp

subsection \<open>Names of the events\<close>

lemma emit_events [simp]: "tr_events (emit mk s) = tr_events s @ [mk (tr_counter s + 1)]"
  by (simp add: emit_def)

lemma event_names [simp]:
  "je_event (playbook_on_task_start device file u c host t h tid) = ''playbook_on_task_start''"
  "je_event (playbook_on_play_start device file c p) = ''playbook_on_play_start''"
  "je_event (playbook_on_stats device file c tm stats) = ''playbook_on_stats''"
  "je_event (runner_on_ok device file u c host t h ptr tid) = ''v2_runner_on_ok''"
  "je_event (runner_on_failed device file u c host t h ptr tid) = ''v2_runner_on_failed''"
  "je_event (runner_on_skipped device file u c host t h ptr tid) = ''v2_runner_on_skipped''"
  by (simp_all add: playbook_on_task_start_def playbook_on_play_start_def playbook_on_stats_def runner_on_ok_def
      runner_on_failed_def runner_on_skipped_def runner_event_def)

text \<open>The names of the events of a play, in order.\<close>

definition host_names :: "task_host \<Rightarrow> string list" where
  "host_names h = [''playbook_on_task_start'',
     if th_failed h then ''v2_runner_on_failed'' else if th_skipped h then ''v2_runner_on_skipped'' else ''v2_runner_on_ok'']"

definition play_names :: "play \<Rightarrow> string list" where
  "play_names p = ''playbook_on_play_start'' #
     concat (map (\<lambda>t. concat (map host_names (map snd (ptk_hosts t)))) (pl_tasks p)) @ [''playbook_on_stats'']"

lemma task_hosts_names:
  "map je_event (tr_events (task_hosts device file start occ t ptr hs tid s)) =
   map je_event (tr_events s) @ concat (map host_names hs)"
proof (induction hs arbitrary: tid s)
  case (Cons h hs)
  obtain tid' dups where "rename_task occ (tid, tr_dups s) = (tid', dups)" by (meson surj_pair)
  then show ?case using Cons.IH by (simp add: Let_def host_names_def)
qed simp

lemma tasks_names:
  "map je_event (tr_events (fold (task_events device file start occ) ts s)) =
   map je_event (tr_events s) @ concat (map (\<lambda>t. concat (map host_names (map snd (ptk_hosts t)))) ts)"
proof (induction ts arbitrary: s)
  case (Cons t ts)
  show ?case using Cons.IH by (simp add: task_events_def Let_def task_hosts_names)
qed simp

lemma play_events_names:
  "tr_counter s \<noteq> 1 \<Longrightarrow>
   map je_event (tr_events (play_events uuid device file stats p s)) = map je_event (tr_events s) @ play_names p"
  by (simp add: play_events_def Let_def tasks_names play_names_def)

lemma plays_names:
  "counted s \<Longrightarrow> tr_counter s \<noteq> 1 \<Longrightarrow>
   map je_event (tr_events (fold (play_events uuid device file stats) ps s)) =
   map je_event (tr_events s) @ concat (map play_names ps)"
proof (induction ps arbitrary: s)
  case (Cons p ps)
  have c: "counted (play_events uuid device file stats p s) \<and>
      tr_counter (play_events uuid device file stats p s) = tr_counter s + int (play_size p)"
    by (rule counted_play [OF Cons.prems])
  moreover have "0 \<le> tr_counter s" using Cons.prems(1) by (simp add: counted_def)
  ultimately show ?case
    using Cons.IH [of "play_events uuid device file stats p s"] play_events_names [OF Cons.prems(2)]
    by (simp add: play_size_def)
qed simp

subsection \<open>Properties\<close>


text \<open>The message of a list of events can be taken apart again when no encoded event contains a newline.\<close>

lemma create_message_join:
  assumes "\<And>e. e \<in> set es \<Longrightarrow> marshal e = Inr (enc e)"
  shows "create_message marshal es = Inr (join_with [CHR 0x0A] (map enc es))"
  using assms
proof (induction es)
  case (Cons e es)
  then show ?case by (cases es) simp_all
qed simp

theorem message_lines_are_events:
  assumes "events \<noteq> []" and "\<And>e. e \<in> set events \<Longrightarrow> marshal e = Inr (enc e) \<and> CHR 0x0A \<notin> set (enc e)"
  shows "\<exists>m. compose_dispatcher_message marshal uuid events returnURL responseTo = Inr m \<and>
    split_on CHR 0x0A (dm_content m) = map enc events"
proof -
  have "create_message marshal events = Inr (join_with [CHR 0x0A] (map enc events))"
    using assms(2) by (intro create_message_join) blast
  moreover have "split_on CHR 0x0A (join_with [CHR 0x0A] (map enc events)) = map enc events"
    using assms by (intro split_join) auto
  ultimately show ?thesis by (simp add: compose_dispatcher_message_def)
qed

theorem message_lines_are_events_witness:
  "\<exists>m. compose_dispatcher_message (\<lambda>e. Inr (je_event e)) ''u''
       [executor_on_start ''1'' ''c'' [], executor_on_failed ''2'' ''c'' [] ''UNDEFINED_ERROR'' []] ''url'' ''msg'' = Inr m \<and>
     split_on CHR 0x0A (dm_content m) =
       map je_event [executor_on_start ''1'' ''c'' [], executor_on_failed ''2'' ''c'' [] ''UNDEFINED_ERROR'' []]"
  by (rule message_lines_are_events) (auto simp: executor_on_start_def executor_on_failed_def)

end
