(* ===== verification/Periodic.thy ===== *)
theory Periodic
  imports Metrics_Store
begin

text \<open>
  The periodic tasks of \<open>internal/heartbeat/heartbeat.go\<close> and \<open>internal/ansible/ansible_manager.go\<close>:
  both keep a ticker that a goroutine follows, and replace it when the configured period changes.
  Tickers are numbered; the running ones are those that were made and not stopped, with their period
  in nanoseconds.
\<close>

record periodic =
  tk_current :: "nat option"          \<comment> \<open>the field \<open>ticker\<close>\<close>
  tk_running :: "(nat \<times> int) list"
  tk_made :: nat
  tk_previous :: int                  \<comment> \<open>\<open>previousPeriodSeconds\<close>\<close>

definition new_periodic :: "int \<Rightarrow> periodic" where
  "new_periodic previous = \<lparr>tk_current = None, tk_running = [], tk_made = 0, tk_previous = previous\<rparr>"

definition has_started :: "periodic \<Rightarrow> bool" where
  "has_started s \<longleftrightarrow> tk_current s \<noteq> None"

definition default_period :: int where
  "default_period = 60"

text \<open>\<open>getInterval\<close> on the period of the configuration's section, when there is one.\<close>

definition get_interval :: "int option \<Rightarrow> int" where
  "get_interval p =
     (let interval = (case p of None \<Rightarrow> default_period | Some n \<Rightarrow> n) in
      if interval \<le> 0 then default_period else interval)"

text \<open>\<open>time.Second * time.Duration(periodSeconds)\<close>, a 64-bit product; \<open>time.NewTicker\<close> panics unless it is positive.\<close>

definition period_nanos :: "int \<Rightarrow> int" where
  "period_nanos p = int64 (1000000000 * p)"

definition init_ticker :: "int \<Rightarrow> periodic \<Rightarrow> periodic go" where
  "init_ticker p s =
     (if period_nanos p \<le> 0 then Panic
      else Ret (s\<lparr>tk_current := Some (tk_made s), tk_running := (tk_made s, period_nanos p) # tk_running s,
                 tk_made := Suc (tk_made s)\<rparr>))"

definition stop_ticker :: "periodic \<Rightarrow> periodic" where
  "stop_ticker s =
     (if has_started s then s\<lparr>tk_running := filter (\<lambda>(i, _). tk_current s \<noteq> Some i) (tk_running s)\<rparr> else s)"

definition start_periodic :: "int \<Rightarrow> periodic \<Rightarrow> periodic go" where
  "start_periodic p s = init_ticker p (s\<lparr>tk_previous := p\<rparr>)"

definition update_periodic :: "int \<Rightarrow> periodic \<Rightarrow> periodic go" where
  "update_periodic p s =
     (if tk_previous s \<le> 0 \<or> tk_previous s \<noteq> p then init_ticker p ((stop_ticker s)\<lparr>tk_previous := p\<rparr>) else Ret s)"

subsection \<open>One ticker\<close>

text \<open>At most one ticker runs: the current one, with the period last configured.\<close>

definition one_ticker :: "periodic \<Rightarrow> bool" where
  "one_ticker s \<longleftrightarrow>
     (case tk_current s of
        None \<Rightarrow> tk_running s = []
      | Some i \<Rightarrow> i < tk_made s \<and> 0 < tk_previous s \<and>
          (tk_running s = [] \<or> tk_running s = [(i, period_nanos (tk_previous s))]))"

lemma one_ticker_new: "one_ticker (new_periodic p)"
  by (simp add: one_ticker_def new_periodic_def)

lemma one_ticker_stop: "one_ticker s \<Longrightarrow> one_ticker (stop_ticker s) \<and> tk_running (stop_ticker s) = []"
  by (auto simp: one_ticker_def stop_ticker_def has_started_def split: option.splits)

lemma get_interval_positive: "0 < get_interval p"
  by (simp add: get_interval_def default_period_def Let_def)

lemma init_ticker_running:
  "init_ticker p s = Ret s' \<Longrightarrow> tk_running s = [] \<Longrightarrow> tk_current s' = Some (tk_made s) \<and>
     tk_running s' = [(tk_made s, period_nanos p)] \<and> tk_made s' = Suc (tk_made s) \<and> tk_previous s' = tk_previous s"
  by (auto simp: init_ticker_def split: if_splits)

lemma update_one_ticker:
  assumes "one_ticker s" and "0 < p" and "update_periodic p s = Ret s'"
  shows "one_ticker s' \<and> tk_previous s' = p \<and>
    (tk_previous s \<noteq> p \<longrightarrow> (\<exists>i. tk_current s' = Some i \<and> tk_running s' = [(i, period_nanos p)]))"
proof (cases "tk_previous s \<le> 0 \<or> tk_previous s \<noteq> p")
  case True
  then have "init_ticker p ((stop_ticker s)\<lparr>tk_previous := p\<rparr>) = Ret s'"
    using assms(3) by (simp add: update_periodic_def)
  moreover have "tk_running ((stop_ticker s)\<lparr>tk_previous := p\<rparr>) = []"
    using one_ticker_stop [OF assms(1)] by simp
  ultimately show ?thesis
    using init_ticker_running assms(2) by (fastforce simp: one_ticker_def)
next
  case False
  then show ?thesis using assms by (auto simp: update_periodic_def)
qed

lemma start_one_ticker:
  "tk_running s = [] \<Longrightarrow> 0 < p \<Longrightarrow> start_periodic p s = Ret s' \<Longrightarrow> one_ticker s' \<and> tk_previous s' = p"
  using init_ticker_running [of p "s\<lparr>tk_previous := p\<rparr>" s'] by (auto simp: start_periodic_def one_ticker_def)

text \<open>The periods for which the product does not overflow.\<close>

lemma period_nanos_exact: "0 < p \<Longrightarrow> p \<le> 9223372036 \<Longrightarrow> period_nanos p = 1000000000 * p"
  unfolding period_nanos_def by (rule int64_id) (simp_all add: min_int64_def max_int64_def)

lemma update_periodic_returns: "0 < p \<Longrightarrow> p \<le> 9223372036 \<Longrightarrow> \<exists>s'. update_periodic p s = Ret s'"
  by (simp add: update_periodic_def init_ticker_def period_nanos_exact)

end
