(* ===== verification/Yggdrasil.thy ===== *)
theory Yggdrasil
  imports Models
begin

text \<open>
  What the worker receives from the operator through the dispatcher of yggdrasil: the response to a
  \<open>Send\<close> and the message in its body. \<open>registration.go\<close> and \<open>ansible_manager.go\<close> declare the same
  response type; decoding is a parameter of the components that use it.
\<close>

record yggd_response =
  yr_metadata :: "string \<rightharpoonup> string"
  yr_body :: string
  yr_status_code :: int

text \<open>A value of type \<open>interface{}\<close>: a string, a map, or something else.\<close>

datatype json = JString string | JMap "string \<rightharpoonup> json" | JOther

record message_response =
  ms_content :: json
  ms_message_id :: string
  ms_metadata :: json

end
