(* ===== verification/Ansible_Manager.thy ===== *)
theory Ansible_Manager
  imports Ansible_Mapping Ansible_Dispatcher Periodic Yggdrasil
begin

text \<open>
  \<open>internal/ansible/ansible_manager.go\<close>: receiving and executing playbooks. The dispatcher client, JSON,
  \<open>ansible-playbook\<close>, the modification time of a file and new UUIDs are the record \<open>ansible_lib\<close>; the
  rest of the world is the file system.

  \<open>HandlePlaybook\<close> and the goroutine \<open>execPlaybook\<close> meet at unbuffered channels, so that up to the timeout
  they act one after the other: the model runs the goroutine up to what it sends and lets the handler
  receive it. Whether the timeout of the handler comes before the end of the run is the parameter
  \<open>late\<close>; in that case the model stops where the handler returns.
\<close>

subsection \<open>Messages\<close>

record playbook_execution =
  px_name :: string
  px_playbook :: string

record 'x ansible_lib =
  al_send :: "string \<Rightarrow> string \<Rightarrow> ('x, string option) op"   \<comment> \<open>directive and content; the response may be nil\<close>
  al_decode_response :: "string \<Rightarrow> gerror + yggd_response"
  al_decode_message :: "string \<Rightarrow> gerror + message_response"
  al_decode_content :: "string \<Rightarrow> gerror + playbook_execution list"
  al_run :: "string \<Rightarrow> int \<Rightarrow> 'x \<Rightarrow> (gerror option \<times> string) \<times> 'x"   \<comment> \<open>file and timeout; error and output\<close>
  al_parse_results :: "string \<Rightarrow> gerror + playbook_results option"
  al_marshal_event :: "job_event \<Rightarrow> gerror + string"
  al_uuid :: "'x \<Rightarrow> string"
  al_sha :: "string \<Rightarrow> string"
  al_mapping_json :: "playbook_entry list codec"
  al_mod_time :: "string \<Rightarrow> fs \<Rightarrow> int"
  al_look_path :: "string \<Rightarrow> gerror option"

record ansible_manager =
  am_device_id :: string
  am_dispatcher :: dispatcher
  am_mapping :: playbook_repository
  am_events :: "event_info list"
  am_periodic :: periodic

type_synonym 'x ansible_world = "ansible_manager \<times> 'x world"

definition on_mapping :: "(playbook_repository \<times> fs) proc \<Rightarrow> 'x ansible_world proc" where
  "on_mapping p = (\<lambda>(am, w). case p (am_mapping am, w_fs w) of (r, m, f) \<Rightarrow> (r, am\<lparr>am_mapping := m\<rparr>, w\<lparr>w_fs := f\<rparr>))"

definition new_ansible_manager :: "'x ansible_lib \<Rightarrow> string \<Rightarrow> string \<Rightarrow> fs \<Rightarrow> gerror + ansible_manager" where
  "new_ansible_manager L configDir device f =
     (case new_playbook_repository (al_mapping_json L) configDir f of
        Inl e \<Rightarrow> Inl (Wrap ''ansible manager cannot initialize mapping repository'' e)
      | Inr m \<Rightarrow>
          (case al_look_path L ''ansible'' of
             Some e \<Rightarrow> Inl (Err ''flotta agent requires the ansible package to be installed'')
           | None \<Rightarrow> Inr \<lparr>am_device_id = device, am_dispatcher = new_ansible_dispatcher device, am_mapping = m,
                         am_events = [], am_periodic = new_periodic 0\<rparr>))"

subsection \<open>The ticker\<close>

definition ansible_interval :: "device_configuration \<Rightarrow> int" where
  "ansible_interval c = get_interval (cfg_ansible_manager c)"

definition ansible_update :: "config_message \<Rightarrow> ansible_manager \<Rightarrow> ansible_manager go" where
  "ansible_update m am =
     go_bind (deref (msg_configuration m)) (\<lambda>c.
       go_bind (update_periodic (ansible_interval c) (am_periodic am)) (\<lambda>p. Ret (am\<lparr>am_periodic := p\<rparr>)))"

definition ansible_start :: "device_configuration \<Rightarrow> ansible_manager \<Rightarrow> ansible_manager go" where
  "ansible_start c am = go_bind (start_periodic (ansible_interval c) (am_periodic am)) (\<lambda>p. Ret (am\<lparr>am_periodic := p\<rparr>))"

definition ansible_deregister :: "ansible_manager \<Rightarrow> ansible_manager" where
  "ansible_deregister am = am\<lparr>am_periodic := stop_ticker (am_periodic am)\<rparr>"

subsection \<open>Events and lists\<close>

definition add_to_event_queue :: "event_info \<Rightarrow> ansible_manager \<Rightarrow> ansible_manager" where
  "add_to_event_queue e am = am\<lparr>am_events := am_events am @ [e]\<rparr>"

definition pop_ansible_events :: "ansible_manager \<Rightarrow> event_info list \<times> ansible_manager" where
  "pop_ansible_events am = (am_events am, am\<lparr>am_events := []\<rparr>)"

definition list_playbooks :: "ansible_manager \<Rightarrow> (string \<times> string) list" where
  "list_playbooks am = pr_name_status (am_mapping am)"

text \<open>\<open>getTimeout\<close>, in nanoseconds; \<open>Atoi\<close> has the range of a 64-bit integer.\<close>

definition default_timeout :: int where
  "default_timeout = 300 * 1000000000"

definition get_timeout :: "(string \<rightharpoonup> string) \<Rightarrow> int" where
  "get_timeout metadata =
     (case metadata ''ansible-playbook-timeout'' of
        None \<Rightarrow> default_timeout
      | Some s \<Rightarrow> (case parse_int64 s of Inl e \<Rightarrow> default_timeout | Inr n \<Rightarrow> int64 (n * 1000000000)))"

definition parse_failure :: "job_event \<Rightarrow> string \<times> string" where
  "parse_failure e =
     (if str_contains (je_stdout e) ''The command was not found or was not executable: ansible-playbook''
      then ''ANSIBLE_NOT_INSTALLED'' else ''UNDEFINED_ERROR'', je_stdout e)"

subsection \<open>Sending the events\<close>

definition send_events ::
  "'x ansible_lib \<Rightarrow> playbook_results option \<Rightarrow> string \<Rightarrow> string \<Rightarrow> string \<Rightarrow> 'x ansible_world proc" where
  "send_events L results returnURL responseTo yaml = (\<lambda>(am, w).
     case results of
       None \<Rightarrow> (Some (Err (''cannot compose empty message for '' @ responseTo)), am, w)
     | Some r \<Rightarrow>
         if pbr_plays r = None then (Some (Err (''cannot compose empty message for '' @ responseTo)), am, w)
         else
           (let d = add_event (al_uuid L (w_ext w)) yaml r (am_dispatcher am);
                am1 = am\<lparr>am_dispatcher := d\<rparr> in
            case compose_dispatcher_message (al_marshal_event L) (al_uuid L (w_ext w)) (ad_msg_list d) returnURL responseTo of
              Inl e \<Rightarrow> (Some e, am1, w)
            | Inr m \<Rightarrow>
                (case call_ext (al_send L (dm_directive m) (dm_content m)) w of
                   (Inl e, w1) \<Rightarrow> (Some e, am1, w1)
                 | (Inr _, w1) \<Rightarrow> (None, am1, w1))))"

subsection \<open>Executing a playbook\<close>

text \<open>What the goroutine sends: possibly results, then the end with its error.\<close>

definition set_status :: "string \<Rightarrow> string \<Rightarrow> 'x ansible_world proc" where
  "set_status name status = (\<lambda>(am, w).
     case update_playbook_status name status (am_mapping am) of (r, m) \<Rightarrow> (r, am\<lparr>am_mapping := m\<rparr>, w))"

text \<open>
  \<open>execPlaybook\<close> before the run: an error ends it. An error of \<open>UpdateStatus\<close> is sent as the end; the
  execution has just been entered, so that it does not occur.
\<close>

definition exec_prepare :: "string \<Rightarrow> string \<Rightarrow> string \<Rightarrow> ('x ansible_world, string) op" where
  "exec_prepare name returnURL yaml = (\<lambda>(am, w).
     if playbook_exists (am_mapping am) name \<and> playbook_status (am_mapping am) name \<noteq> ''Deploying'' then
       (Inl (Err (''playbook of messageID '' @ returnURL @ '' is already in execution'')), am, w)
     else
       (case read_file (path_clean yaml) (w_fs w) of
          Inl e \<Rightarrow> (Inl e, am, w)
        | Inr content \<Rightarrow>
            (case set_status name ''Running'' (am, w) of
               (Some e, s) \<Rightarrow> (Inl e, s)
             | (None, s) \<Rightarrow> (Inr content, s))))"

text \<open>The run itself and the status it leaves; the result is its error and output.\<close>

definition exec_run ::
  "'x ansible_lib \<Rightarrow> string \<Rightarrow> string \<Rightarrow> int \<Rightarrow> 'x ansible_world \<Rightarrow> (gerror option \<times> string) \<times> gerror option \<times> 'x ansible_world" where
  "exec_run L name yaml timeout = (\<lambda>(am, w).
     case al_run L yaml timeout (w_ext w) of
       ((errRun, out), x) \<Rightarrow>
         (case set_status name (if errRun \<noteq> None then ''CompletedWithError'' else ''SuccessfullyCompleted'')
                 (am, w\<lparr>w_ext := x\<rparr>) of
            (r, s) \<Rightarrow> ((errRun, out), r, s)))"

text \<open>The handler's branch for the end of the execution.\<close>

definition on_completed :: "'x ansible_lib \<Rightarrow> string \<Rightarrow> gerror option \<Rightarrow> 'x ansible_world \<Rightarrow> 'x ansible_world go" where
  "on_completed L correlation err = (\<lambda>(am, w).
     case err of
       None \<Rightarrow> Ret (am, w)
     | Some e \<Rightarrow>
         if ad_msg_list (am_dispatcher am) = [] then Panic
         else
           (let (code, details) = parse_failure (last (ad_msg_list (am_dispatcher am))) in
            Ret (am\<lparr>am_dispatcher := add_runner_job_event
                   (executor_on_failed (al_uuid L (w_ext w)) correlation [] code details) (am_dispatcher am)\<rparr>, w)))"

definition exec_playbook ::
  "'x ansible_lib \<Rightarrow> bool \<Rightarrow> string \<Rightarrow> string \<Rightarrow> string \<Rightarrow> string \<Rightarrow> string \<Rightarrow> int \<Rightarrow> 'x ansible_world \<Rightarrow>
   (gerror option \<times> 'x ansible_world) go" where
  "exec_playbook L late name correlation returnURL messageId yaml timeout s =
     (let completed = (\<lambda>err s. go_bind (on_completed L correlation err s) (\<lambda>s. Ret (None, s))) in
      case exec_prepare name returnURL yaml s of
        (Inl e, s1) \<Rightarrow> completed (Some e) s1
      | (Inr content, s1) \<Rightarrow>
          if late then Ret (Some (Err (''execution timeout reached for playbook in messageID '' @ messageId)), s1)
          else
            (case exec_run L name yaml timeout s1 of
               ((errRun, out), Some e, s2) \<Rightarrow> completed (Some e) s2
             | ((errRun, out), None, s2) \<Rightarrow>
                 (case al_parse_results L out of
                    Inl e \<Rightarrow> completed (Some e) s2
                  | Inr results \<Rightarrow>
                      (let s3 = snd (send_events L results returnURL messageId yaml s2);
                           s4 = snd (on_mapping (playbook_remove (al_mapping_json L) (al_sha L) content) s3)
                       in completed errRun s4))))"

text \<open>The required fields of the metadata.\<close>

definition required_field :: "string \<Rightarrow> (string \<rightharpoonup> json) \<Rightarrow> gerror + string" where
  "required_field name metadata =
     (case metadata name of
        None \<Rightarrow> Inl (Err (''missing attribute '' @ name @ '' in message metadata''))
      | Some (JString s) \<Rightarrow> Inr s
      | Some _ \<Rightarrow> Inl (Err ''cannot assert type of crc id''))"

definition data_dir :: string where
  "data_dir = ''/tmp''"

definition yaml_path :: "string \<Rightarrow> string" where
  "yaml_path messageId = path_join [data_dir, ''ansible_playbook_'' @ messageId @ ''.yml'']"

text \<open>\<open>HandlePlaybook\<close> from the written file on, without the deferred removal of the file.\<close>

definition handle_written ::
  "'x ansible_lib \<Rightarrow> bool \<Rightarrow> string \<Rightarrow> string \<Rightarrow> string \<Rightarrow> string \<Rightarrow> string \<Rightarrow> int \<Rightarrow> 'x ansible_world \<Rightarrow>
   (gerror option \<times> 'x ansible_world) go" where
  "handle_written L late name correlation returnURL messageId yaml timeout = (\<lambda>(am, w).
     let am1 = am\<lparr>am_dispatcher := add_runner_job_event
           (executor_on_start (al_uuid L (w_ext w)) correlation []) (am_dispatcher am)\<rparr> in
     if \<not> stat_ok yaml (w_fs w) then Ret (Some (Err (''cannot stat file '' @ yaml)), am1, w)
     else
       (let t = al_mod_time L yaml (w_fs w) in
        if playbook_exists (am_mapping am1) name \<and>
           (playbook_status (am_mapping am1) name = ''CompletedWithError'' \<or>
            playbook_status (am_mapping am1) name = ''SuccessfullyCompleted'') then
          Ret (Some (Err (''playbook '' @ name @ '' has been already executed'')), am1, w)
        else
          (case on_mapping (playbook_add (al_mapping_json L) (al_sha L) name yaml t ''Deploying'') (am1, w) of
             (Some e, s) \<Rightarrow> Ret (Some (Wrap (''cannot add playbook '' @ yaml @ '' to repository'') e), s)
           | (None, s) \<Rightarrow> exec_playbook L late name correlation returnURL messageId yaml timeout s)))"

definition handle_playbook ::
  "'x ansible_lib \<Rightarrow> bool \<Rightarrow> string \<Rightarrow> (string \<rightharpoonup> json) \<Rightarrow> string \<Rightarrow> string \<Rightarrow> int \<Rightarrow> 'x ansible_world \<Rightarrow>
   (gerror option \<times> 'x ansible_world) go" where
  "handle_playbook L late messageId metadata name playbook timeout = (\<lambda>(am, w).
     if playbook = [] then Ret (Some (Err (''empty message. messageID: '' @ messageId)), am, w)
     else
       (case required_field ''crc_dispatcher_correlation_id'' metadata of
          Inl e \<Rightarrow> Ret (Some e, am, w)
        | Inr correlation \<Rightarrow>
            (case required_field ''return_url'' metadata of
               Inl e \<Rightarrow> Ret (Some e, am, w)
             | Inr returnURL \<Rightarrow>
                 (let yaml = yaml_path messageId in
                  case on_fs (write_file yaml playbook) w of
                    (Some e, w1) \<Rightarrow> Ret (Some (Wrap (''cannot create ansible playbook yaml file '' @ yaml) e), am, w1)
                  | (None, w1) \<Rightarrow>
                      go_bind (handle_written L late name correlation returnURL messageId yaml timeout (am, w1))
                        (\<lambda>(r, am2, w2). Ret (r, am2, snd (on_fs (remove_file yaml) w2)))))))"

subsection \<open>Receiving\<close>

text \<open>The loop of \<open>send\<close>; \<open>late\<close> says of each execution whether its timeout comes first.\<close>

fun handle_all ::
  "'x ansible_lib \<Rightarrow> (string \<Rightarrow> bool) \<Rightarrow> (string \<rightharpoonup> string) \<Rightarrow> message_response \<Rightarrow> playbook_execution list \<Rightarrow> merr \<Rightarrow>
   'x ansible_world \<Rightarrow> (merr \<times> 'x ansible_world) go" where
  "handle_all L late metadata m [] es s = Ret (es, s)"
| "handle_all L late metadata m (p # ps) es s =
     (case ms_metadata m of
        JMap mm \<Rightarrow>
          go_bind (handle_playbook L (late (px_name p)) (ms_message_id m) mm (px_name p) (px_playbook p) (get_timeout metadata) s)
            (\<lambda>(r, s'). handle_all L late metadata m ps (append_err es (\<lambda>e. e) r) s')
      | _ \<Rightarrow> Panic)"

definition ansible_send ::
  "'x ansible_lib \<Rightarrow> (string \<Rightarrow> bool) \<Rightarrow> string \<Rightarrow> string \<Rightarrow> 'x ansible_world \<Rightarrow> (gerror option \<times> 'x ansible_world) go" where
  "ansible_send L late directive content = (\<lambda>(am, w).
     case call_ext (al_send L directive content) w of
       (Inl e, w1) \<Rightarrow> Ret (Some e, am, w1)
     | (Inr response, w1) \<Rightarrow>
         \<comment> \<open>an empty response is reported with \<open>response.Response\<close>, which a nil response does not have\<close>
         go_bind (deref response) (\<lambda>bytes.
           if bytes = [] then Ret (Some (Err ''empty response received, host may not be reachable''), am, w1)
           else
             (case al_decode_response L bytes of
                Inl e \<Rightarrow> Ret (Some (Wrap ''cannot transform to NewYGGDResponse '' e), am, w1)
              | Inr resp \<Rightarrow>
                  if yr_status_code resp \<ge> 300 then
                    Ret (Some (Err ''cannot send ansible message to the operator''), am, w1)
                  else
                    (case al_decode_message L (yr_body resp) of
                       Inl e \<Rightarrow> Ret (Some (Wrap ''cannot unmarshal pe response content'' e), am, w1)
                     | Inr m \<Rightarrow>
                         (case ms_content m of
                            JString c \<Rightarrow>
                              (case al_decode_content L c of
                                 Inl e \<Rightarrow> Ret (Some (Wrap ''cannot parse message content'' e), am, w1)
                               | Inr ps \<Rightarrow>
                                   go_bind (handle_all L late (yr_metadata resp) m ps [] (am, w1)) (\<lambda>(es, s).
                                     Ret (merr_result es, s)))
                          | _ \<Rightarrow> Panic)))))"

definition push_information ::
  "'x ansible_lib \<Rightarrow> (string \<Rightarrow> bool) \<Rightarrow> 'x ansible_world \<Rightarrow> (gerror option \<times> 'x ansible_world) go" where
  "push_information L late = ansible_send L late ''ansible'' []"

subsection \<open>Pending playbooks\<close>

definition exec_playbook_sync ::
  "'x ansible_lib \<Rightarrow> string \<Rightarrow> int \<Rightarrow> 'x ansible_world \<Rightarrow> (playbook_results option option \<times> gerror option) \<times> 'x ansible_world" where
  "exec_playbook_sync L path timeout = (\<lambda>(am, w).
     case read_file path (w_fs w) of
       Inl e \<Rightarrow> ((None, Some e), am, w)
     | Inr content \<Rightarrow>
         (case al_run L path timeout (w_ext w) of
            ((errRun, out), x) \<Rightarrow>
              (case al_parse_results L out of
                 Inl e \<Rightarrow> ((None, Some e), am, w\<lparr>w_ext := x\<rparr>)
               | Inr results \<Rightarrow>
                   ((Some results, errRun),
                    snd (on_mapping (playbook_remove (al_mapping_json L) (al_sha L) content) (am, w\<lparr>w_ext := x\<rparr>))))))"

fun execute_each ::
  "'x ansible_lib \<Rightarrow> string list \<Rightarrow> merr \<Rightarrow> 'x ansible_world \<Rightarrow> (gerror option \<times> merr) \<times> 'x ansible_world" where
  "execute_each L [] es s = ((None, es), s)"
| "execute_each L (p # ps) es s =
     (case exec_playbook_sync L p default_timeout s of
        ((res, r), s') \<Rightarrow>
          (case (res, r) of
             (None, Some e) \<Rightarrow> ((Some e, append_err es (\<lambda>e. e) r), s')
           | _ \<Rightarrow> execute_each L ps (append_err es (\<lambda>e. e) r) s'))"

text \<open>
  \<open>ExecutePendingPlaybooks\<close> ranges over the map \<open>GetAll\<close> returns: \<open>paths\<close> are its values in the order of
  the iteration, which Go leaves open although \<open>GetAll\<close> sorts them.
\<close>

definition execute_pending_playbooks :: "'x ansible_lib \<Rightarrow> string list \<Rightarrow> 'x ansible_world proc" where
  "execute_pending_playbooks L paths s =
     (case execute_each L paths [] s of
        ((Some e, es), s') \<Rightarrow> (Some e, s')
      | ((None, es), (am, w)) \<Rightarrow>
          if es \<noteq> [] then
            (merr_result es, add_to_event_queue \<lparr>ev_message = error_text (Multi es), ev_reason = ''Failed'', ev_type = ''warn''\<rparr> am, w)
          else (None, am, w))"

subsection \<open>Lemmas\<close>

lemma set_status_keeps:
  assumes "set_status name status (am, w) = (r, am', w')"
  shows "am_dispatcher am' = am_dispatcher am" "w' = w" "pr_path_to_mod (am_mapping am') = pr_path_to_mod (am_mapping am)"
    "pr_mod_to_path (am_mapping am') = pr_mod_to_path (am_mapping am)"
    "pr_path_to_name (am_mapping am') = pr_path_to_name (am_mapping am)"
    "pr_config_dir (am_mapping am') = pr_config_dir (am_mapping am)"
    "pr_mapping_file (am_mapping am') = pr_mapping_file (am_mapping am)"
  using assms by (auto simp: set_status_def update_playbook_status_def split: if_splits)

lemma set_status_exists:
  assumes "playbook_exists (am_mapping am) name" and "set_status name status (am, w) = (r, am', w')"
  shows "r = None \<and> playbook_exists (am_mapping am') name \<and> playbook_status (am_mapping am') name = status"
proof -
  have "update_playbook_status name status (am_mapping am) =
      (None, (am_mapping am)\<lparr>pr_name_status := AList.update name status (pr_name_status (am_mapping am))\<rparr>)"
    using assms(1) by (simp add: update_playbook_status_def)
  then have "r = None" "am' = am\<lparr>am_mapping := (am_mapping am)\<lparr>pr_name_status := AList.update name status (pr_name_status (am_mapping am))\<rparr>\<rparr>"
    using assms(2) by (simp_all add: set_status_def)
  then show ?thesis
    by (simp add: playbook_exists_def playbook_status_def map_get_def)
qed

definition final_status :: "string \<Rightarrow> bool" where
  "final_status s \<longleftrightarrow> s = ''CompletedWithError'' \<or> s = ''SuccessfullyCompleted''"

lemma send_events_keeps:
  "send_events L results url msg yaml (am, w) = (r, am', w') \<Longrightarrow>
   am_mapping am' = am_mapping am \<and> w_fs w' = w_fs w \<and>
   (ad_msg_list (am_dispatcher am) \<noteq> [] \<longrightarrow> ad_msg_list (am_dispatcher am') \<noteq> [])"
  by (auto simp: send_events_def Let_def add_event_def call_ext_def split: option.splits if_splits sum.splits prod.splits)

lemma playbook_remove_status:
  "playbook_remove J sha content (m, f) = (r, m', f') \<Longrightarrow> pr_name_status m' = pr_name_status m"
  by (auto simp: playbook_remove_def drop_playbook_def Let_def split: prod.splits)

lemma on_mapping_remove:
  assumes "on_mapping (playbook_remove J sha content) (am, w) = (r, am', w')"
  shows "pr_name_status (am_mapping am') = pr_name_status (am_mapping am) \<and> am_dispatcher am' = am_dispatcher am \<and>
    am_mapping am' = drop_playbook (playbook_path sha (am_mapping am) content) (am_mapping am) \<and>
    (\<forall>q. q \<noteq> pr_mapping_file (am_mapping am) \<longrightarrow> read_file q (w_fs w') = read_file q (w_fs w))"
proof -
  let ?m = "drop_playbook (playbook_path sha (am_mapping am) content) (am_mapping am)"
  obtain r1 f1 where p: "persist_playbooks J ?m (w_fs w) = (r1, f1)" by (meson surj_pair)
  have a: "am' = am\<lparr>am_mapping := ?m\<rparr>" "w' = w\<lparr>w_fs := f1\<rparr>"
    using assms p by (simp_all add: on_mapping_def playbook_remove_def Let_def)
  have "pr_mapping_file ?m = pr_mapping_file (am_mapping am)" by (simp add: drop_playbook_def)
  then have "q \<noteq> pr_mapping_file (am_mapping am) \<Longrightarrow> read_file q f1 = read_file q (w_fs w)" for q
    using p read_write_other by (fastforce simp: persist_playbooks_def split: sum.splits)
  then show ?thesis by (simp add: a drop_playbook_def)
qed

lemma on_completed_returns:
  "ad_msg_list (am_dispatcher am) \<noteq> [] \<Longrightarrow>
   \<exists>d. on_completed L c err (am, w) = Ret (am\<lparr>am_dispatcher := d\<rparr>, w)"
  by (cases err) (auto simp: on_completed_def split: prod.splits intro: exI [of _ "am_dispatcher am"])

text \<open>A playbook that was entered for execution and ran in time has ended.\<close>

lemma exec_playbook_ends:
  assumes "playbook_exists (am_mapping am) name" and "playbook_status (am_mapping am) name = ''Deploying''"
    and "read_file (path_clean yaml) (w_fs w) = Inr content" and "ad_msg_list (am_dispatcher am) \<noteq> []"
  shows "\<exists>am' w'. exec_playbook L False name correlation url mid yaml timeout (am, w) = Ret (None, am', w') \<and>
    playbook_exists (am_mapping am') name \<and> final_status (playbook_status (am_mapping am') name) \<and>
    (\<forall>p. p \<noteq> playbook_path (al_sha L) (am_mapping am) content \<longrightarrow>
       pr_path_to_mod (am_mapping am') p = pr_path_to_mod (am_mapping am) p) \<and>
    (\<forall>q. q \<noteq> pr_mapping_file (am_mapping am) \<longrightarrow> read_file q (w_fs w') = read_file q (w_fs w))"
proof -
  obtain r1 am1 w1 where s1: "set_status name ''Running'' (am, w) = (r1, am1, w1)" by (rule prod_cases3)
  note k1 = set_status_keeps [OF s1] and e1 = set_status_exists [OF assms(1) s1]
  have prep: "exec_prepare name url yaml (am, w) = (Inr content, am1, w1)"
    using assms(1-3) s1 e1 by (simp add: exec_prepare_def)
  obtain errRun out x where run: "al_run L yaml timeout (w_ext w1) = ((errRun, out), x)" by (metis surj_pair)
  let ?st = "if errRun \<noteq> None then ''CompletedWithError'' else ''SuccessfullyCompleted''"
  obtain r2 am2 w2 where s2: "set_status name ?st (am1, w1\<lparr>w_ext := x\<rparr>) = (r2, am2, w2)" by (rule prod_cases3)
  note k2 = set_status_keeps [OF s2] and e2 = set_status_exists [OF e1 [THEN conjunct2, THEN conjunct1] s2]
  have rn: "exec_run L name yaml timeout (am1, w1) = ((errRun, out), None, am2, w2)"
    using run s2 e2 by (simp add: exec_run_def)
  have msgs: "ad_msg_list (am_dispatcher am2) \<noteq> []"
    using assms(4) k1(1) k2(1) by simp
  have fin: "final_status (playbook_status (am_mapping am2) name)" "playbook_exists (am_mapping am2) name"
    using e2 by (simp_all add: final_status_def)
  have same: "pr_path_to_mod (am_mapping am2) = pr_path_to_mod (am_mapping am)"
      "pr_config_dir (am_mapping am2) = pr_config_dir (am_mapping am)"
      "pr_mapping_file (am_mapping am2) = pr_mapping_file (am_mapping am)" "w_fs w2 = w_fs w"
    using k1 k2 by simp_all
  show ?thesis
  proof (cases "al_parse_results L out")
    case (Inl e)
    obtain d where "on_completed L correlation (Some e) (am2, w2) = Ret (am2\<lparr>am_dispatcher := d\<rparr>, w2)"
      using on_completed_returns [OF msgs] by blast
    then show ?thesis
      using prep rn Inl fin same by (simp add: exec_playbook_def Let_def)
  next
    case (Inr results)
    obtain r3 am3 w3 where s3: "send_events L results url mid yaml (am2, w2) = (r3, am3, w3)" by (rule prod_cases3)
    obtain r4 am4 w4 where s4: "on_mapping (playbook_remove (al_mapping_json L) (al_sha L) content) (am3, w3) = (r4, am4, w4)"
      by (rule prod_cases3)
    note k3 = send_events_keeps [OF s3] and k4 = on_mapping_remove [OF s4]
    have "ad_msg_list (am_dispatcher am4) \<noteq> []" using msgs k3 k4 by simp
    then obtain d where "on_completed L correlation errRun (am4, w4) = Ret (am4\<lparr>am_dispatcher := d\<rparr>, w4)"
      using on_completed_returns by blast
    moreover have "final_status (playbook_status (am_mapping am4) name)" "playbook_exists (am_mapping am4) name"
      using fin k3 k4 [THEN conjunct1] by (simp_all add: playbook_status_def playbook_exists_def)
    moreover have "pr_path_to_mod (am_mapping am4) p = pr_path_to_mod (am_mapping am) p"
      if "p \<noteq> playbook_path (al_sha L) (am_mapping am) content" for p
      using that k3 k4 same by (simp add: drop_playbook_def playbook_path_def)
    moreover have "read_file q (w_fs w4) = read_file q (w_fs w)" if "q \<noteq> pr_mapping_file (am_mapping am)" for q
      using that k3 k4 same by simp
    ultimately show ?thesis
      using prep rn Inr s3 s4 by (simp add: exec_playbook_def Let_def)
  qed
qed


lemma playbook_add_effect:
  assumes "playbook_add J sha name content t status (m, f) = (None, m', f')"
    and "playbook_path sha m content \<noteq> pr_mapping_file m"
  shows "m' = enter_playbook (playbook_path sha m content) name t status m"
    and "read_file (playbook_path sha m content) f' = Inr content"
    and "q \<noteq> playbook_path sha m content \<Longrightarrow> q \<noteq> pr_mapping_file m \<Longrightarrow> read_file q f' = read_file q f"
proof -
  let ?p = "playbook_path sha m content"
  obtain f1 where w: "write_file ?p content f = (None, f1)"
    using assms(1) by (auto simp: playbook_add_def Let_def split: prod.splits option.splits)
  show m': "m' = enter_playbook ?p name t status m"
    using assms(1) w by (auto simp: playbook_add_def Let_def split: prod.splits)
  have "persist_playbooks J m' f1 = (None, f')"
    using assms(1) w m' by (auto simp: playbook_add_def Let_def split: prod.splits)
  then have "q \<noteq> pr_mapping_file m \<Longrightarrow> read_file q f' = read_file q f1" for q
    using m' read_write_other by (fastforce simp: persist_playbooks_def enter_playbook_def split: sum.splits)
  then show "read_file ?p f' = Inr content"
      "q \<noteq> ?p \<Longrightarrow> q \<noteq> pr_mapping_file m \<Longrightarrow> read_file q f' = read_file q f"
    using w assms(2) read_write read_write_other by fastforce+
qed

text \<open>A playbook that has ended is not executed again, whatever the message.\<close>

lemma executed_playbook_refused:
  assumes "playbook_exists (am_mapping am) name" and "final_status (playbook_status (am_mapping am) name)"
  shows "\<exists>e am' w'. handle_playbook L late mid metadata name playbook timeout (am, w) = Ret (Some e, am', w') \<and> w_ext w' = w_ext w"
proof -
  have on_fs_ext: "w_ext (snd (on_fs p v)) = w_ext v" for p :: "fs proc" and v :: "'a world"
    by (simp add: on_fs_def split: prod.split)
  have wr: "\<exists>e am' w'. handle_written L late name c url mid (yaml_path mid) timeout (am, w1) = Ret (Some e, am', w') \<and> w_ext w' = w_ext w1"
    for c url w1
    using assms by (auto simp: handle_written_def Let_def final_status_def)
  obtain r w1 where w1: "on_fs (write_file (yaml_path mid) playbook) w = (r, w1)" by (meson surj_pair)
  have x1: "w_ext w1 = w_ext w" using on_fs_ext [of "write_file (yaml_path mid) playbook" w] w1 by simp
  show ?thesis
  proof (cases "playbook = []")
    case False
    show ?thesis
    proof (cases "required_field ''crc_dispatcher_correlation_id'' metadata")
      case (Inl e)
      then show ?thesis using False by (simp add: handle_playbook_def)
    next
      case c: (Inr c)
      show ?thesis
      proof (cases "required_field ''return_url'' metadata")
        case (Inl e)
        then show ?thesis using False c by (simp add: handle_playbook_def)
      next
        case url: (Inr url)
        obtain e am2 w2 where h: "handle_written L late name c url mid (yaml_path mid) timeout (am, w1) = Ret (Some e, am2, w2)"
            "w_ext w2 = w_ext w1"
          using wr by blast
        have "w_ext (snd (on_fs (remove_file (yaml_path mid)) w2)) = w_ext w2" by (rule on_fs_ext)
        then show ?thesis
          using False c url w1 x1 h by (cases r) (simp_all add: handle_playbook_def Let_def)
      qed
    qed
  qed (simp add: handle_playbook_def)
qed

lemma handle_playbook_runs:
  fixes am :: ansible_manager
  defines "m \<equiv> am_mapping am"
  assumes "playbook \<noteq> []" and "required_field ''crc_dispatcher_correlation_id'' metadata = Inr c"
    and "required_field ''return_url'' metadata = Inr url" and "\<not> playbook_exists m name"
    and "path_clean yaml = yaml" and "yaml = yaml_path mid"
    and "yaml \<noteq> playbook_path (al_sha L) m yaml" and "yaml \<noteq> pr_mapping_file m"
    and "playbook_path (al_sha L) m yaml \<noteq> pr_mapping_file m"
    and "on_fs (write_file yaml playbook) w = (None, w1)"
    and "playbook_add (al_mapping_json L) (al_sha L) name yaml (al_mod_time L yaml (w_fs w1)) ''Deploying'' (m, w_fs w1) = (None, m2, f2)"
  shows "\<exists>am' w'. handle_playbook L False mid metadata name playbook timeout (am, w) = Ret (None, am', w') \<and>
    playbook_exists (am_mapping am') name \<and> final_status (playbook_status (am_mapping am') name) \<and>
    (playbook_path (al_sha L) m playbook \<noteq> playbook_path (al_sha L) m yaml \<longrightarrow>
       pr_path_to_mod (am_mapping am') (playbook_path (al_sha L) m yaml) = Some (al_mod_time L yaml (w_fs w1)) \<and>
       read_file (playbook_path (al_sha L) m yaml) (w_fs w') = Inr yaml)"
proof -
  let ?p = "playbook_path (al_sha L) m yaml"
  note add = playbook_add_effect [OF assms(12,10)]
  have y1: "read_file yaml (w_fs w1) = Inr playbook"
    using assms(11) read_write by (auto simp: on_fs_def split: prod.splits)
  then have y2: "read_file yaml f2 = Inr playbook"
    using add(3) assms(8,9) by simp
  let ?am1 = "am\<lparr>am_dispatcher := add_runner_job_event (executor_on_start (al_uuid L (w_ext w1)) c []) (am_dispatcher am)\<rparr>"
  let ?am2 = "?am1\<lparr>am_mapping := m2\<rparr>" and ?w2 = "w1\<lparr>w_fs := f2\<rparr>"
  have "on_mapping (playbook_add (al_mapping_json L) (al_sha L) name yaml (al_mod_time L yaml (w_fs w1)) ''Deploying'') (?am1, w1)
      = (None, ?am2, ?w2)"
    using assms(12) by (simp add: on_mapping_def m_def)
  then have written: "handle_written L False name c url mid yaml timeout (am, w1) =
      exec_playbook L False name c url mid yaml timeout (?am2, ?w2)"
    using stat_ok_read [OF y1] assms(5) by (simp add: handle_written_def Let_def m_def)
  have "playbook_exists m2 name" "playbook_status m2 name = ''Deploying''"
    by (simp_all add: add(1) enter_playbook_def playbook_exists_def playbook_status_def map_get_def)
  moreover have "ad_msg_list (am_dispatcher ?am2) \<noteq> []" by (simp add: add_runner_job_event_def)
  moreover have paths: "playbook_path (al_sha L) m2 x = playbook_path (al_sha L) m x" "pr_mapping_file m2 = pr_mapping_file m" for x
    by (simp_all add: add(1) enter_playbook_def playbook_path_def)
  ultimately obtain am' w' where e: "exec_playbook L False name c url mid yaml timeout (?am2, ?w2) = Ret (None, am', w')"
      "playbook_exists (am_mapping am') name" "final_status (playbook_status (am_mapping am') name)"
      "\<And>p. p \<noteq> playbook_path (al_sha L) m playbook \<Longrightarrow> pr_path_to_mod (am_mapping am') p = pr_path_to_mod m2 p"
      "\<And>q. q \<noteq> pr_mapping_file m \<Longrightarrow> read_file q (w_fs w') = read_file q f2"
    using exec_playbook_ends [of ?am2 name yaml ?w2 playbook L c url mid timeout] y2 assms(6) by auto
  obtain r3 w3 where r3: "on_fs (remove_file yaml) w' = (r3, w3)" by (meson surj_pair)
  have keep: "q \<noteq> yaml \<Longrightarrow> read_file q (w_fs w3) = read_file q (w_fs w')" for q
    using r3 read_remove_other by (fastforce simp: on_fs_def split: prod.splits)
  have "handle_playbook L False mid metadata name playbook timeout (am, w) = Ret (None, am', w3)"
    using assms(2-4,7,11) written e(1) r3 by (simp add: handle_playbook_def Let_def)
  moreover have "pr_path_to_mod (am_mapping am') ?p = Some (al_mod_time L yaml (w_fs w1)) \<and> read_file ?p (w_fs w3) = Inr yaml"
    if "playbook_path (al_sha L) m playbook \<noteq> ?p"
    using that e(4) [of ?p] e(5) [of ?p] keep [of ?p] add(2) assms(8,10) by (auto simp: add(1) enter_playbook_def)
  ultimately show ?thesis using e(2,3) by blast
qed


subsection \<open>Properties\<close>

text \<open>
  A message that is accepted: it has a playbook and the required fields, its name is new, and the files
  it needs are different and can be written.
\<close>

definition playbook_accepted ::
  "'x ansible_lib \<Rightarrow> string \<Rightarrow> (string \<rightharpoonup> json) \<Rightarrow> string \<Rightarrow> string \<Rightarrow> 'x ansible_world \<Rightarrow> bool" where
  "playbook_accepted L mid metadata name playbook = (\<lambda>(am, w).
     let m = am_mapping am; yaml = yaml_path mid; f1 = snd (write_file yaml playbook (w_fs w)) in
     playbook \<noteq> [] \<and> (\<exists>c. required_field ''crc_dispatcher_correlation_id'' metadata = Inr c) \<and>
     (\<exists>u. required_field ''return_url'' metadata = Inr u) \<and> \<not> playbook_exists m name \<and>
     path_clean yaml = yaml \<and> distinct [yaml, playbook_path (al_sha L) m yaml, pr_mapping_file m] \<and>
     fst (write_file yaml playbook (w_fs w)) = None \<and>
     fst (playbook_add (al_mapping_json L) (al_sha L) name yaml (al_mod_time L yaml f1) ''Deploying'' (m, f1)) = None)"

lemma accepted_runs:
  assumes "playbook_accepted L mid metadata name playbook (am, w)"
  shows "\<exists>am' w'. handle_playbook L False mid metadata name playbook timeout (am, w) = Ret (None, am', w') \<and>
    playbook_exists (am_mapping am') name \<and> final_status (playbook_status (am_mapping am') name) \<and>
    (playbook_path (al_sha L) (am_mapping am) playbook \<noteq> playbook_path (al_sha L) (am_mapping am) (yaml_path mid) \<longrightarrow>
       pr_path_to_mod (am_mapping am') (playbook_path (al_sha L) (am_mapping am) (yaml_path mid)) \<noteq> None \<and>
       read_file (playbook_path (al_sha L) (am_mapping am) (yaml_path mid)) (w_fs w') = Inr (yaml_path mid))"
proof -
  let ?y = "yaml_path mid"
  obtain f1 where f1: "write_file ?y playbook (w_fs w) = (None, f1)"
    using assms by (auto simp: playbook_accepted_def Let_def) (metis prod.collapse)
  obtain m2 f2 where m2: "playbook_add (al_mapping_json L) (al_sha L) name ?y (al_mod_time L ?y f1) ''Deploying'' (am_mapping am, f1)
      = (None, m2, f2)"
    using assms f1 by (auto simp: playbook_accepted_def Let_def) (metis prod.collapse)
  obtain c u where cu: "required_field ''crc_dispatcher_correlation_id'' metadata = Inr c"
      "required_field ''return_url'' metadata = Inr u"
    using assms by (auto simp: playbook_accepted_def Let_def)
  have o: "on_fs (write_file ?y playbook) w = (None, w\<lparr>w_fs := f1\<rparr>)"
    using f1 by (simp add: on_fs_def)
  have a: "playbook \<noteq> []" "\<not> playbook_exists (am_mapping am) name" "path_clean ?y = ?y"
      "?y \<noteq> playbook_path (al_sha L) (am_mapping am) ?y" "?y \<noteq> pr_mapping_file (am_mapping am)"
      "playbook_path (al_sha L) (am_mapping am) ?y \<noteq> pr_mapping_file (am_mapping am)"
    using assms by (simp_all add: playbook_accepted_def Let_def)
  have m2': "playbook_add (al_mapping_json L) (al_sha L) name ?y (al_mod_time L ?y (w_fs (w\<lparr>w_fs := f1\<rparr>))) ''Deploying''
      (am_mapping am, w_fs (w\<lparr>w_fs := f1\<rparr>)) = (None, m2, f2)"
    using m2 by simp
  from handle_playbook_runs [OF a(1) cu a(2,3) refl a(4-6) o m2', of timeout] show ?thesis
    by fastforce
qed


text \<open>
  What is entered into the repository as the content of the playbook is the path of its temporary
  file, but what is removed after the run is the entry of the playbook's text: when the two have
  different hashes, the executed playbook stays among the pending ones, with a file that holds a path
  to a file that is gone.\<close>

theorem executed_playbook_stays_pending:
  assumes "playbook_accepted L mid metadata name playbook (am, w)"
    and "playbook_path (al_sha L) (am_mapping am) playbook \<noteq> playbook_path (al_sha L) (am_mapping am) (yaml_path mid)"
  shows "\<exists>am' w'. handle_playbook L False mid metadata name playbook timeout (am, w) = Ret (None, am', w') \<and>
    pr_path_to_mod (am_mapping am') (playbook_path (al_sha L) (am_mapping am) (yaml_path mid)) \<noteq> None \<and>
    read_file (playbook_path (al_sha L) (am_mapping am) (yaml_path mid)) (w_fs w') = Inr (yaml_path mid)"
  using accepted_runs [OF assms(1), of timeout] assms(2) by blast

definition example_ansible :: "nat ansible_lib" where
  "example_ansible = \<lparr>al_send = \<lambda>d c n. (Inr (Some ''ok''), n), al_decode_response = \<lambda>_. Inl (Err []), al_decode_message = \<lambda>_. Inl (Err []),
     al_decode_content = \<lambda>_. Inl (Err []), al_run = \<lambda>y t n. ((None, ''{}''), Suc n), al_parse_results = \<lambda>_. Inr None,
     al_marshal_event = \<lambda>e. Inr (je_event e), al_uuid = \<lambda>n. ''u'', al_sha = \<lambda>c. if c = ''pb'' then ''abc'' else ''def'',
     al_mapping_json = \<lparr>cd_marshal = \<lambda>_. Inr ''j'', cd_unmarshal = \<lambda>_. Inr []\<rparr>, al_mod_time = \<lambda>y f. 7, al_look_path = \<lambda>_. None\<rparr>"

definition example_ansible_manager :: ansible_manager where
  "example_ansible_manager = \<lparr>am_device_id = ''dev'', am_dispatcher = new_ansible_dispatcher ''dev'', am_mapping = load_playbooks ''/d'' [],
     am_events = [], am_periodic = new_periodic 0\<rparr>"

abbreviation example_ansible_world :: "nat world" where
  "example_ansible_world \<equiv> \<lparr>w_fs = fs_with_dirs {''/d'', ''/tmp''}, w_ext = 0\<rparr>"

abbreviation example_metadata :: "string \<rightharpoonup> json" where
  "example_metadata \<equiv> [''crc_dispatcher_correlation_id'' \<mapsto> JString ''c'', ''return_url'' \<mapsto> JString ''url'']"

lemma example_ansible_paths:
  "yaml_path ''m'' = ''/tmp/ansible_playbook_m.yml''" "path_clean ''/tmp/ansible_playbook_m.yml'' = ''/tmp/ansible_playbook_m.yml''"
  "path_join [''/d'', ''def''] = ''/d/def''" "path_join [''/d'', ''abc''] = ''/d/abc''"
  "path_join [''/d'', ''playbook-mapping.json''] = ''/d/playbook-mapping.json''"
  by code_simp+

lemma example_accepted:
  "playbook_accepted example_ansible ''m'' example_metadata ''n'' ''pb'' (example_ansible_manager, example_ansible_world)"
  by (simp add: playbook_accepted_def example_ansible_paths example_ansible_def example_ansible_manager_def required_field_def
      playbook_exists_def load_playbooks_def playbook_mapping_file_def playbook_path_def write_file_def fs_with_dirs_def parent_dir_def
      playbook_add_def enter_playbook_def persist_playbooks_def Let_def)


theorem executed_playbook_stays_pending_witness:
  "\<exists>am' w'. handle_playbook example_ansible False ''m'' example_metadata ''n'' ''pb'' 1 (example_ansible_manager, example_ansible_world)
      = Ret (None, am', w') \<and>
    pr_path_to_mod (am_mapping am') (playbook_path (al_sha example_ansible) (am_mapping example_ansible_manager) (yaml_path ''m'')) \<noteq> None \<and>
    read_file (playbook_path (al_sha example_ansible) (am_mapping example_ansible_manager) (yaml_path ''m'')) (w_fs w') = Inr (yaml_path ''m'')"
  by (rule executed_playbook_stays_pending [OF example_accepted])
    (simp add: playbook_path_def example_ansible_def example_ansible_manager_def load_playbooks_def example_ansible_paths)

end
