(* ===== verification/Registration.thy ===== *)
theory Registration
  imports Yggdrasil Numbers Hardware Periodic
begin

text \<open>
  \<open>internal/registration\<close>: enrolment and registration of the device (\<open>registration.go\<close>), its client
  certificate (\<open>certs.go\<close>) and the tags of yggdrasil (\<open>tags.go\<close>). Certificates and keys are their
  PEM texts; \<open>crypto/x509\<close>, the certificate groups of \<open>mtls\<close>, JSON, TOML and the dispatcher are the
  record \<open>reg_lib\<close>. Timeouts of a call are errors of the dispatcher.
\<close>

subsection \<open>Tags\<close>

text \<open>
  A value of the TOML file, as \<open>go-toml\<close> decodes it; numbers and dates with the text their format gives.
\<close>

datatype toml = TString string | TInt int | TFloat string | TBool bool | TLocal string | TTime string | TOther

definition tag_text :: "toml \<Rightarrow> string option" where
  "tag_text v =
     (case v of
        TString s \<Rightarrow> Some s
      | TInt n \<Rightarrow> Some (show_int n)
      | TFloat s \<Rightarrow> Some s
      | TBool b \<Rightarrow> Some (if b then ''true'' else ''false'')
      | TLocal s \<Rightarrow> Some s
      | TTime s \<Rightarrow> Some s
      | TOther \<Rightarrow> None)"

fun collect_tags :: "(string \<times> toml) list \<Rightarrow> (string \<rightharpoonup> string) \<Rightarrow> gerror + (string \<rightharpoonup> string)" where
  "collect_tags [] m = Inr m"
| "collect_tags ((k, v) # kvs) m =
     (case tag_text v of
        None \<Rightarrow> Inl (Err ''cannot parse value as string'')
      | Some s \<Rightarrow> collect_tags kvs (m(k \<mapsto> s)))"

definition read_tags :: "(string \<Rightarrow> gerror + (string \<times> toml) list) \<Rightarrow> string \<Rightarrow> gerror + (string \<rightharpoonup> string)" where
  "read_tags unmarshal data =
     (case unmarshal data of
        Inl e \<Rightarrow> Inl (Wrap ''cannot parse TOML'' e)
      | Inr raw \<Rightarrow> collect_tags raw Map.empty)"

definition read_tags_file :: "(string \<Rightarrow> gerror + (string \<times> toml) list) \<Rightarrow> string \<Rightarrow> fs \<Rightarrow> gerror + (string \<rightharpoonup> string)" where
  "read_tags_file unmarshal p f =
     (case read_file (path_clean p) f of
        Inl e \<Rightarrow> Inl (Wrap (''cannot open '' @ p @ '' for reading'') e)
      | Inr data \<Rightarrow>
          (case read_tags unmarshal data of
             Inl e \<Rightarrow> Inl (Wrap ''cannot read tags file'' e)
           | Inr tags \<Rightarrow> Inr tags))"

subsection \<open>The client certificate\<close>

text \<open>\<open>mtls.CertificateGroup\<close>: the texts, and the subject and key its import reads from them.\<close>

record certificate_group =
  cg_cert_pem :: string
  cg_key_pem :: string
  cg_subject :: "string option"
  cg_key :: "string option"

record client_cert =
  cc_key_path :: string
  cc_cert_path :: string
  cc_group :: "certificate_group option"

record 'x reg_lib =
  rl_import :: "string \<Rightarrow> string \<Rightarrow> gerror + (string \<times> string)"   \<comment> \<open>PEM texts; common name and private key\<close>
  rl_new_key :: "('x, string) op"
  rl_request :: "string \<Rightarrow> string \<Rightarrow> ('x, string) op"              \<comment> \<open>device and key; the CSR in PEM\<close>
  rl_key_pem :: "string \<Rightarrow> gerror + string"
  rl_send :: "string \<Rightarrow> string \<Rightarrow> ('x, string option) op"         \<comment> \<open>directive and content; the response may be nil\<close>
  rl_get_config :: "('x, string \<times> string) op"                   \<comment> \<open>certificate and key file\<close>
  rl_enrolment_json :: "hardware_info \<Rightarrow> string \<Rightarrow> gerror + string"
  rl_registration_json :: "hardware_info \<Rightarrow> string \<Rightarrow> gerror + string"
  rl_decode_response :: "string \<Rightarrow> gerror + yggd_response"
  rl_decode_message :: "string \<Rightarrow> gerror + message_response"
  rl_decode_toml :: "string \<Rightarrow> gerror + (string \<times> toml) list"
  rl_tags_file :: string
  rl_hardware :: "'x hardware"

definition cert_register_cn :: string where
  "cert_register_cn = ''register''"

definition import_from_pem :: "'x reg_lib \<Rightarrow> string \<Rightarrow> string \<Rightarrow> gerror option \<times> certificate_group" where
  "import_from_pem L cert key =
     (case rl_import L cert key of
        Inl e \<Rightarrow> (Some e, \<lparr>cg_cert_pem = cert, cg_key_pem = key, cg_subject = None, cg_key = None\<rparr>)
      | Inr (subject, k) \<Rightarrow> (None, \<lparr>cg_cert_pem = cert, cg_key_pem = key, cg_subject = Some subject, cg_key = Some k\<rparr>))"

definition client_cert_init :: "'x reg_lib \<Rightarrow> fs \<Rightarrow> client_cert \<Rightarrow> gerror option \<times> client_cert" where
  "client_cert_init L f c =
     (case read_file (cc_cert_path c) f of
        Inl e \<Rightarrow> (Some e, c)
      | Inr certPem \<Rightarrow>
          (case read_file (cc_key_path c) f of
             Inl e \<Rightarrow> (Some e, c)
           | Inr certKey \<Rightarrow>
               (case import_from_pem L certPem certKey of (r, g) \<Rightarrow> (r, c\<lparr>cc_group := Some g\<rparr>))))"

definition new_client_cert :: "'x reg_lib \<Rightarrow> string \<Rightarrow> string \<Rightarrow> fs \<Rightarrow> gerror option \<times> client_cert" where
  "new_client_cert L certPath keyPath f =
     client_cert_init L f \<lparr>cc_key_path = keyPath, cc_cert_path = certPath, cc_group = None\<rparr>"

definition is_register_cert :: "client_cert \<Rightarrow> gerror + bool" where
  "is_register_cert c =
     (case cc_group c of
        None \<Rightarrow> Inl (Err ''certificates are not imported'')
      | Some g \<Rightarrow>
          (case cg_subject g of
             None \<Rightarrow> Inl (Err ''no valid cert'')
           | Some subject \<Rightarrow> Inr (subject = cert_register_cn)))"

text \<open>A new CSR for the key, with the key in PEM.\<close>

definition renew :: "'x reg_lib \<Rightarrow> string \<Rightarrow> string \<Rightarrow> ('x, string \<times> string) op" where
  "renew L deviceID key x =
     (case rl_request L deviceID key x of
        (Inl e, x1) \<Rightarrow> (Inl e, x1)
      | (Inr csr, x1) \<Rightarrow>
          (case rl_key_pem L key of
             Inl e \<Rightarrow> (Inl (Wrap ''cannot encode new key'' e), x1)
           | Inr keyPem \<Rightarrow> (Inr (csr, keyPem), x1)))"

definition create_device_certs :: "'x reg_lib \<Rightarrow> string \<Rightarrow> ('x, string \<times> string) op" where
  "create_device_certs L deviceID x =
     (case rl_new_key L x of
        (Inl e, x1) \<Rightarrow> (Inl e, x1)
      | (Inr key, x1) \<Rightarrow> renew L deviceID key x1)"

text \<open>When the key cannot be written, the certificate is written back; a nil group would be dereferenced.\<close>

definition write_certificate :: "'x reg_lib \<Rightarrow> string \<Rightarrow> string \<Rightarrow> client_cert \<Rightarrow> fs \<Rightarrow> (gerror option \<times> client_cert \<times> fs) go" where
  "write_certificate L cert key c f =
     (case import_from_pem L cert key of
        (Some e, g) \<Rightarrow> Ret (Some (Wrap ''failing on importing certificate'' e), c, f)
      | (None, g) \<Rightarrow>
          (case write_file (cc_cert_path c) cert f of
             (Some e, f1) \<Rightarrow> Ret (Some e, c, f1)
           | (None, f1) \<Rightarrow>
               (case write_file (cc_key_path c) key f1 of
                  (Some e, f2) \<Rightarrow>
                    go_bind (deref (cc_group c)) (\<lambda>old.
                      Ret (Some e, c, snd (write_file (cc_cert_path c) (cg_cert_pem old) f2)))
                | (None, f2) \<Rightarrow> Ret (None, c\<lparr>cc_group := Some g\<rparr>, f2))))"

subsection \<open>Registration\<close>

definition retry_after :: int where
  "retry_after = 10"

definition default_target_namespace :: string where
  "default_target_namespace = ''default''"

definition target_namespace_tag :: string where
  "target_namespace_tag = ''namespace''"

text \<open>
  \<open>rg_retries\<close> are the goroutines of \<open>registerDeviceWithRetries\<close>, in the order they were started:
  whether the ticker of each still runs. The deregistrables are calls on a state \<open>'d\<close> of their own.
\<close>

type_synonym 'd deregistrable = "string \<times> ('d \<Rightarrow> (gerror option \<times> 'd) go)"

record 'd registration =
  rg_cert :: client_cert
  rg_target_namespace :: string
  rg_device_id :: string
  rg_deregistrables :: "'d deregistrable list"
  rg_retry_after :: int
  rg_registered :: bool
  rg_retries :: "bool list"

definition get_target_namespace :: "'x reg_lib \<Rightarrow> fs \<Rightarrow> string" where
  "get_target_namespace L f =
     (case read_tags_file (rl_decode_toml L) (rl_tags_file L) f of
        Inl e \<Rightarrow> default_target_namespace
      | Inr tags \<Rightarrow>
          (case tags target_namespace_tag of
             None \<Rightarrow> default_target_namespace
           | Some v \<Rightarrow> if v = [] then default_target_namespace else v))"

text \<open>A certificate that cannot be imported is discarded with the registration.\<close>

definition create_client_certs :: "'x reg_lib \<Rightarrow> ('x world, client_cert) op" where
  "create_client_certs L w =
     (case call_ext (rl_get_config L) w of
        (Inl e, w1) \<Rightarrow> (Inl e, w1)
      | (Inr (certFile, keyFile), w1) \<Rightarrow>
          (case new_client_cert L certFile keyFile (w_fs w1) of
             (Some e, c) \<Rightarrow> (Inl e, w1)
           | (None, c) \<Rightarrow> (Inr c, w1)))"

definition new_registration :: "'x reg_lib \<Rightarrow> string \<Rightarrow> ('x world, 'd registration) op" where
  "new_registration L deviceID w =
     (let namespace = get_target_namespace L (w_fs w) in
      case create_client_certs L w of
        (Inl e, w1) \<Rightarrow> (Inl e, w1)
      | (Inr c, w1) \<Rightarrow>
          (Inr \<lparr>rg_cert = c, rg_target_namespace = namespace, rg_device_id = deviceID, rg_deregistrables = [],
                rg_retry_after = retry_after, rg_registered = False, rg_retries = []\<rparr>, w1))"

definition deregister_later :: "'d deregistrable list \<Rightarrow> 'd registration \<Rightarrow> 'd registration" where
  "deregister_later ds rg = rg\<lparr>rg_deregistrables := rg_deregistrables rg @ ds\<rparr>"

text \<open>A response of status 208 says that the device is enrolled.\<close>

definition enrolment_status :: "'x reg_lib \<Rightarrow> string \<Rightarrow> gerror + bool" where
  "enrolment_status L bytes =
     (case rl_decode_response L bytes of Inl e \<Rightarrow> Inl e | Inr resp \<Rightarrow> Inr (yr_status_code resp = 208))"

definition enrol :: "'x reg_lib \<Rightarrow> string \<Rightarrow> 'x world \<Rightarrow> ((gerror + bool) \<times> 'x world) go" where
  "enrol L namespace w =
     (case get_hardware_information (rl_hardware L) (w_ext w) of
        (h, Some e) \<Rightarrow> Ret (Inl e, w)
      | (h, None) \<Rightarrow>
          (case rl_enrolment_json L (the h) namespace of
             Inl e \<Rightarrow> Ret (Inl e, w)
           | Inr content \<Rightarrow>
               (case call_ext (rl_send L ''enrolment'' content) w of
                  (Inl e, w1) \<Rightarrow> Ret (Inl e, w1)
                | (Inr response, w1) \<Rightarrow>
                    go_bind (deref response) (\<lambda>bytes. Ret (enrolment_status L bytes, w1)))))"

definition renew_certificate :: "'x reg_lib \<Rightarrow> 'd registration \<Rightarrow> 'x world \<Rightarrow> ((gerror + string \<times> string) \<times> 'x world) go" where
  "renew_certificate L rg w =
     (case is_register_cert (rg_cert rg) of
        Inl e \<Rightarrow> Ret (Inl e, w)
      | Inr True \<Rightarrow>
          (case call_ext (create_device_certs L (rg_device_id rg)) w of
             (Inl e, w1) \<Rightarrow> Ret (Inl (Wrap ''cannot create device certs'' e), w1)
           | (Inr (csr, key), w1) \<Rightarrow> Ret (Inr (key, csr), w1))
      | Inr False \<Rightarrow>
          go_bind (deref (cc_group (rg_cert rg))) (\<lambda>g.
            case cg_key g of
              None \<Rightarrow> Ret (Inl (Err ''cannot retrieve current key''), w)
            | Some buffer \<Rightarrow>
                (case call_ext (renew L (rg_device_id rg) buffer) w of
                   (Inl e, w1) \<Rightarrow> Ret (Inl e, w1)
                 | (Inr (csr, key), w1) \<Rightarrow> Ret (Inr (key, csr), w1))))"

definition send_registration_request :: "'x reg_lib \<Rightarrow> string \<Rightarrow> ('x world, string option) op" where
  "send_registration_request L csr w =
     (case get_hardware_information (rl_hardware L) (w_ext w) of
        (h, Some e) \<Rightarrow> (Inl e, w)
      | (h, None) \<Rightarrow>
          (case rl_registration_json L (the h) csr of
             Inl e \<Rightarrow> (Inl e, w)
           | Inr content \<Rightarrow> call_ext (rl_send L ''registration'' content) w))"

text \<open>The certificate in the body of the response.\<close>

definition certificate_of :: "'x reg_lib \<Rightarrow> string \<Rightarrow> gerror + string" where
  "certificate_of L bytes =
     (case rl_decode_response L bytes of
        Inl e \<Rightarrow> Inl e
      | Inr resp \<Rightarrow>
          if yr_status_code resp \<ge> 300 then Inl (Err ''cannot register to the operator'')
          else
            (case rl_decode_message L (yr_body resp) of
               Inl e \<Rightarrow> Inl (Wrap ''cannot unmarshal registration response content'' e)
             | Inr m \<Rightarrow>
                 (case ms_content m of
                    JMap content \<Rightarrow>
                      (case content ''certificate'' of
                         None \<Rightarrow> Inl (Err ''cannot retrieve certificate from parsedResponse'')
                       | Some (JString cert) \<Rightarrow> Inr cert
                       | Some _ \<Rightarrow> Inl (Err ''cannot parse certificate from response.Content''))
                  | _ \<Rightarrow> Inl (Err ''cannot parse message content''))))"

definition parse_registration_response ::
  "'x reg_lib \<Rightarrow> string option \<Rightarrow> string \<Rightarrow> client_cert \<Rightarrow> fs \<Rightarrow> (gerror option \<times> client_cert \<times> fs) go" where
  "parse_registration_response L response key c f =
     go_bind (deref response) (\<lambda>bytes.
       case certificate_of L bytes of
         Inl e \<Rightarrow> Ret (Some e, c, f)
       | Inr cert \<Rightarrow> write_certificate L cert key c f)"

definition register_device_once ::
  "'x reg_lib \<Rightarrow> 'd registration \<times> 'x world \<Rightarrow> (gerror option \<times> 'd registration \<times> 'x world) go" where
  "register_device_once L = (\<lambda>(rg, w).
     go_bind (enrol L (rg_target_namespace rg) w) (\<lambda>(r, w1).
       case r of
         Inl e \<Rightarrow> Ret (Some e, rg, w1)
       | Inr enrolled \<Rightarrow>
           if \<not> enrolled then Ret (Some (Err ''device is not enrolled yet''), rg, w1)
           else
             go_bind (renew_certificate L rg w1) (\<lambda>(r, w2).
               case r of
                 Inl e \<Rightarrow> Ret (Some e, rg, w2)
               | Inr (key, csr) \<Rightarrow>
                   (case send_registration_request L csr w2 of
                      (Inl e, w3) \<Rightarrow> Ret (Some e, rg, w3)
                    | (Inr response, w3) \<Rightarrow>
                        go_bind (parse_registration_response L response key (rg_cert rg) (w_fs w3)) (\<lambda>(r, c, f).
                          case r of
                            Some e \<Rightarrow> Ret (Some e, rg\<lparr>rg_cert := c\<rparr>, w3\<lparr>w_fs := f\<rparr>)
                          | None \<Rightarrow> Ret (None, rg\<lparr>rg_cert := c, rg_registered := True\<rparr>, w3\<lparr>w_fs := f\<rparr>))))))"

text \<open>The goroutine starts whatever the first attempt returned.\<close>

definition register_device ::
  "'x reg_lib \<Rightarrow> 'd registration \<times> 'x world \<Rightarrow> ('d registration \<times> 'x world) go" where
  "register_device L s =
     go_bind (register_device_once L s) (\<lambda>(r, rg, w).
       if period_nanos (rg_retry_after rg) \<le> 0 then Panic
       else Ret (rg\<lparr>rg_retries := rg_retries rg @ [True]\<rparr>, w))"

text \<open>One tick of goroutine \<open>i\<close>; after a success the ticker stops and the goroutine waits for ever.\<close>

definition retry_tick ::
  "'x reg_lib \<Rightarrow> nat \<Rightarrow> 'd registration \<times> 'x world \<Rightarrow> ('d registration \<times> 'x world) go" where
  "retry_tick L i = (\<lambda>(rg, w).
     if i < length (rg_retries rg) \<and> rg_retries rg ! i then
       go_bind (register_device_once L (rg, w)) (\<lambda>(r, rg1, w1).
         if r \<noteq> None then Ret (rg1, w1)
         else Ret (rg1\<lparr>rg_retries := (rg_retries rg1)[i := False]\<rparr>, w1))
     else Ret (rg, w))"

definition is_registered :: "'d registration \<Rightarrow> bool" where
  "is_registered rg = rg_registered rg"

fun deregister_each :: "'d deregistrable list \<Rightarrow> merr \<times> 'd \<Rightarrow> (merr \<times> 'd) go" where
  "deregister_each [] s = Ret s"
| "deregister_each ((name, p) # ds) (es, d) =
     go_bind (p d) (\<lambda>(r, d').
       deregister_each ds (append_err es (Wrap (''failed to deregister '' @ name)) r, d'))"

definition registration_deregister :: "'d registration \<Rightarrow> 'd \<Rightarrow> (gerror option \<times> 'd registration \<times> 'd) go" where
  "registration_deregister rg d =
     go_bind (deregister_each (rg_deregistrables rg) ([], d)) (\<lambda>(es, d').
       Ret (merr_result es, rg\<lparr>rg_registered := False\<rparr>, d'))"

subsection \<open>Lemmas\<close>

text \<open>The files hold what the group in memory was imported from.\<close>

definition cert_files_ok :: "'x reg_lib \<Rightarrow> client_cert \<Rightarrow> fs \<Rightarrow> bool" where
  "cert_files_ok L c f \<longleftrightarrow> cc_cert_path c \<noteq> cc_key_path c \<and>
     (case cc_group c of
        None \<Rightarrow> False
      | Some g \<Rightarrow> read_file (cc_cert_path c) f = Inr (cg_cert_pem g) \<and> read_file (cc_key_path c) f = Inr (cg_key_pem g) \<and>
          import_from_pem L (cg_cert_pem g) (cg_key_pem g) = (None, g))"

lemma import_from_pem_texts: "import_from_pem L cert key = (r, g) \<Longrightarrow> cg_cert_pem g = cert \<and> cg_key_pem g = key"
  by (auto simp: import_from_pem_def split: sum.splits)

lemma cert_files_ok_read:
  "cert_files_ok L c f \<Longrightarrow> read_file (cc_cert_path c) f' = read_file (cc_cert_path c) f \<Longrightarrow>
   read_file (cc_key_path c) f' = read_file (cc_key_path c) f \<Longrightarrow> cert_files_ok L c f'"
  by (auto simp: cert_files_ok_def split: option.splits)

lemma new_client_cert_ok:
  assumes "new_client_cert L certPath keyPath f = (None, c)" and "certPath \<noteq> keyPath"
  shows "cert_files_ok L c f"
  using assms import_from_pem_texts [of L]
  by (fastforce simp: new_client_cert_def client_cert_init_def cert_files_ok_def split: sum.splits prod.splits)

lemma new_client_cert_paths: "new_client_cert L cf kf f = (r, c) \<Longrightarrow> cc_cert_path c = cf \<and> cc_key_path c = kf"
  by (cases c) (auto simp: new_client_cert_def client_cert_init_def split: sum.splits prod.splits)

text \<open>
  Writing succeeds altogether, with the new certificate and key in the files and in memory, or leaves
  both as they were: the certificate that was written first is written back.
\<close>

lemma write_file_again:
  assumes "write_file p c f = (None, f1)"
  shows "write_file p d f1 = (None, f1\<lparr>fs_files := (fs_files f)(p \<mapsto> d)\<rparr>)"
  using assms by (auto simp: write_file_def split: if_splits)

lemma write_certificate_atomic:
  assumes ok: "cert_files_ok L c f"
  obtains (written) g f' where "write_certificate L cert key c f = Ret (None, c\<lparr>cc_group := Some g\<rparr>, f')"
      "import_from_pem L cert key = (None, g)" "cert_files_ok L (c\<lparr>cc_group := Some g\<rparr>) f'"
    | (refused) e f' where "write_certificate L cert key c f = Ret (Some e, c, f')" "cert_files_ok L c f'"
proof -
  obtain old where old: "cc_group c = Some old" "read_file (cc_cert_path c) f = Inr (cg_cert_pem old)"
    "cc_cert_path c \<noteq> cc_key_path c"
    using ok by (auto simp: cert_files_ok_def split: option.splits)
  obtain r g where imported: "import_from_pem L cert key = (r, g)" by (meson surj_pair)
  obtain r1 f1 where first: "write_file (cc_cert_path c) cert f = (r1, f1)" by (meson surj_pair)
  obtain r2 f2 where second: "write_file (cc_key_path c) key f1 = (r2, f2)" by (meson surj_pair)
  consider (bad) e where "r = Some e" | (cert) e where "r = None" "r1 = Some e"
    | (key) e where "r = None" "r1 = None" "r2 = Some e" | (ok) "r = None" "r1 = None" "r2 = None"
    by (cases r; cases r1; cases r2) auto
  then show ?thesis
  proof cases
    case bad
    then show ?thesis using imported ok by (intro refused) (simp_all add: write_certificate_def)
  next
    case cert
    then have "f1 = f" using first write_file_error_unchanged by blast
    then show ?thesis using cert imported first ok by (intro refused) (simp_all add: write_certificate_def)
  next
    case key
    then have "f2 = f1" using second write_file_error_unchanged by blast
    then have restored: "write_file (cc_cert_path c) (cg_cert_pem old) f2 =
        (None, f1\<lparr>fs_files := (fs_files f)(cc_cert_path c \<mapsto> cg_cert_pem old)\<rparr>)"
      using write_file_again [of "cc_cert_path c" cert f f1 "cg_cert_pem old"] first key by simp
    have "cert_files_ok L c (f1\<lparr>fs_files := (fs_files f)(cc_cert_path c \<mapsto> cg_cert_pem old)\<rparr>)"
      using ok old by (intro cert_files_ok_read [OF ok]) (simp_all add: read_file_def)
    then show ?thesis using key imported first second old restored by (intro refused) (simp_all add: write_certificate_def)
  next
    case ok
    have g: "cg_cert_pem g = cert" "cg_key_pem g = key" using import_from_pem_texts [OF imported] by simp_all
    have "read_file (cc_cert_path c) f2 = Inr cert"
      using ok first second old read_write read_write_other by metis
    moreover have "read_file (cc_key_path c) f2 = Inr key" using ok second read_write by metis
    ultimately have "cert_files_ok L (c\<lparr>cc_group := Some g\<rparr>) f2"
      using g old ok imported by (simp add: cert_files_ok_def)
    then show ?thesis using ok imported first second by (intro written) (simp_all add: write_certificate_def)
  qed
qed

text \<open>
  The key written for a certificate is the one its request was made for: a new one as long as the
  device holds the registration certificate, the current one afterwards.
\<close>

definition key_requested :: "'x reg_lib \<Rightarrow> 'd registration \<Rightarrow> string \<Rightarrow> string \<Rightarrow> bool" where
  "key_requested L rg csr keyPem \<longleftrightarrow>
     (\<exists>k x x1. rl_request L (rg_device_id rg) k x = (Inr csr, x1) \<and> rl_key_pem L k = Inr keyPem \<and>
        (if is_register_cert (rg_cert rg) = Inr True then \<exists>y y1. rl_new_key L y = (Inr k, y1)
         else \<exists>g. cc_group (rg_cert rg) = Some g \<and> cg_key g = Some k))"

lemma renew_key: "renew L deviceID key x = (Inr (csr, keyPem), x1) \<Longrightarrow>
    rl_request L deviceID key x = (Inr csr, x1) \<and> rl_key_pem L key = Inr keyPem"
  by (auto simp: renew_def split: prod.splits sum.splits)

lemma call_ext_ext: "call_ext p w = (r, w') \<Longrightarrow> p (w_ext w) = (r, w_ext w')"
  by (auto simp: call_ext_def split: prod.splits)

lemma renew_certificate_key:
  assumes "renew_certificate L rg w = Ret (Inr (keyPem, csr), w')"
  shows "key_requested L rg csr keyPem"
proof -
  consider (new) w1 where "is_register_cert (rg_cert rg) = Inr True"
      "call_ext (create_device_certs L (rg_device_id rg)) w = (Inr (csr, keyPem), w1)"
    | (current) g k w1 where "is_register_cert (rg_cert rg) = Inr False" "cc_group (rg_cert rg) = Some g"
      "cg_key g = Some k" "call_ext (renew L (rg_device_id rg) k) w = (Inr (csr, keyPem), w1)"
    using assms by (cases "cc_group (rg_cert rg)")
      (auto simp: renew_certificate_def split: sum.splits bool.splits prod.splits option.splits)
  then show ?thesis
  proof cases
    case new
    then have "create_device_certs L (rg_device_id rg) (w_ext w) = (Inr (csr, keyPem), w_ext w1)"
      using call_ext_ext by blast
    then obtain k x1 where "rl_new_key L (w_ext w) = (Inr k, x1)" "renew L (rg_device_id rg) k x1 = (Inr (csr, keyPem), w_ext w1)"
      by (auto simp: create_device_certs_def split: prod.splits sum.splits)
    then show ?thesis using new(1) renew_key unfolding key_requested_def by fastforce
  next
    case current
    then have "renew L (rg_device_id rg) k (w_ext w) = (Inr (csr, keyPem), w_ext w1)" using call_ext_ext by blast
    then show ?thesis using current(1-3) renew_key unfolding key_requested_def by fastforce
  qed
qed

lemma enrol_fs: "enrol L n w = Ret (r, w') \<Longrightarrow> w_fs w' = w_fs w"
  by (auto simp: enrol_def go_bind_Ret_iff deref_Ret_iff dest: call_ext_fsD
      split: prod.split_asm sum.split_asm option.split_asm)

lemma renew_certificate_fs: "renew_certificate L rg w = Ret (r, w') \<Longrightarrow> w_fs w' = w_fs w"
  by (cases "cc_group (rg_cert rg)")
    (auto simp: renew_certificate_def dest: call_ext_fsD split: prod.splits sum.splits option.splits bool.splits)

lemma send_registration_request_fs: "send_registration_request L csr w = (r, w') \<Longrightarrow> w_fs w' = w_fs w"
  by (auto simp: send_registration_request_def dest: call_ext_fsD split: prod.splits sum.splits option.splits)

text \<open>
  One attempt: it fails and leaves the registration as it was, or it stores the certificate of the
  operator's response with the key that was requested.
\<close>

definition stored_by_operator :: "'x reg_lib \<Rightarrow> client_cert \<Rightarrow> bool" where
  "stored_by_operator L c \<longleftrightarrow> (\<exists>g bytes. cc_group c = Some g \<and> certificate_of L bytes = Inr (cg_cert_pem g))"

lemma register_once_parts:
  assumes run: "register_device_once L (rg, w) = Ret (r, rg', w')"
  obtains (early) e where "r = Some e" "rg' = rg" "w_fs w' = w_fs w"
    | (answered) csr key response c f where "key_requested L rg csr key"
      "parse_registration_response L response key (rg_cert rg) (w_fs w) = Ret (r, c, f)" "w_fs w' = f"
      "rg' = rg\<lparr>rg_cert := c, rg_registered := rg_registered rg \<or> r = None\<rparr>"
proof -
  obtain r1 w1 where e1: "enrol L (rg_target_namespace rg) w = Ret (r1, w1)"
    using run by (cases "enrol L (rg_target_namespace rg) w") (auto simp: register_device_once_def)
  then have f1: "w_fs w1 = w_fs w" by (rule enrol_fs)
  show ?thesis
  proof (cases "r1 = Inr True")
    case False
    then show ?thesis using run e1 f1
      by (cases r1) (auto simp: register_device_once_def intro: early)
  next
    case True
    obtain r2 w2 where e2: "renew_certificate L rg w1 = Ret (r2, w2)"
      using run e1 True by (cases "renew_certificate L rg w1") (auto simp: register_device_once_def)
    then have f2: "w_fs w2 = w_fs w" using renew_certificate_fs f1 by metis
    show ?thesis
    proof (cases r2)
      case (Inl e)
      then show ?thesis using run e1 True e2 f2 by (auto simp: register_device_once_def intro: early)
    next
      case (Inr p)
      obtain key csr where p: "p = (key, csr)" by (meson surj_pair)
      obtain r3 w3 where e3: "send_registration_request L csr w2 = (r3, w3)" by (meson surj_pair)
      then have f3: "w_fs w3 = w_fs w" using send_registration_request_fs f2 by metis
      have key: "key_requested L rg csr key" using e2 Inr p renew_certificate_key by metis
      show ?thesis
      proof (cases r3)
        case (Inl e)
        then show ?thesis using run e1 True e2 Inr p e3 f3 by (auto simp: register_device_once_def intro: early)
      next
        case r3: (Inr response)
        obtain r4 c f where e4: "parse_registration_response L response key (rg_cert rg) (w_fs w3) = Ret (r4, c, f)"
          using run e1 True e2 Inr p e3 r3
          by (cases "parse_registration_response L response key (rg_cert rg) (w_fs w3)")
            (auto simp: register_device_once_def)
        then have "r = r4 \<and> w_fs w' = f \<and> rg' = rg\<lparr>rg_cert := c, rg_registered := rg_registered rg \<or> r = None\<rparr>"
          using run e1 True e2 Inr p e3 r3 by (cases r4) (auto simp: register_device_once_def)
        then show ?thesis using e4 f3 key by (intro answered) simp_all
      qed
    qed
  qed
qed

lemma same_cert_same_files:
  "cert_files_ok L c f \<Longrightarrow> cert_files_ok L c f' \<Longrightarrow>
   read_file (cc_cert_path c) f' = read_file (cc_cert_path c) f \<and> read_file (cc_key_path c) f' = read_file (cc_key_path c) f"
  by (auto simp: cert_files_ok_def split: option.splits)

lemma parse_registration_atomic:
  assumes ok: "cert_files_ok L c f" and run: "parse_registration_response L response key c f = Ret (r, c', f')"
  shows "(if r = None then cert_files_ok L c' f' \<and> stored_by_operator L c' \<and> map_option cg_key_pem (cc_group c') = Some key \<and>
            cc_cert_path c' = cc_cert_path c \<and> cc_key_path c' = cc_key_path c
          else c' = c \<and> cert_files_ok L c f')"
proof -
  obtain bytes where bytes: "response = Some bytes"
    using run by (cases response) (auto simp: parse_registration_response_def)
  show ?thesis
  proof (cases "certificate_of L bytes")
    case (Inl e)
    then show ?thesis using run ok bytes by (auto simp: parse_registration_response_def)
  next
    case (Inr cert)
    then have run': "write_certificate L cert key c f = Ret (r, c', f')"
      using run bytes by (simp add: parse_registration_response_def)
    from ok show ?thesis
    proof (cases rule: write_certificate_atomic [where cert = cert and key = key])
      case (written g f2)
      then have "cg_cert_pem g = cert" "cg_key_pem g = key" using import_from_pem_texts by blast+
      with written run' Inr show ?thesis by (auto simp: stored_by_operator_def)
    qed (use run' in simp)
  qed
qed

lemma register_once_atomic:
  assumes ok: "cert_files_ok L (rg_cert rg) (w_fs w)"
    and run: "register_device_once L (rg, w) = Ret (r, rg', w')"
  shows "cert_files_ok L (rg_cert rg') (w_fs w')"
    and "r \<noteq> None \<Longrightarrow> rg' = rg \<and> cert_files_ok L (rg_cert rg) (w_fs w')"
    and "r = None \<Longrightarrow> rg' = rg\<lparr>rg_cert := rg_cert rg', rg_registered := True\<rparr> \<and> stored_by_operator L (rg_cert rg') \<and>
          (\<exists>csr key. key_requested L rg csr key \<and> map_option cg_key_pem (cc_group (rg_cert rg')) = Some key)"
proof -
  from run have "cert_files_ok L (rg_cert rg') (w_fs w') \<and> (r \<noteq> None \<longrightarrow> rg' = rg \<and> cert_files_ok L (rg_cert rg) (w_fs w')) \<and>
      (r = None \<longrightarrow> rg' = rg\<lparr>rg_cert := rg_cert rg', rg_registered := True\<rparr> \<and> stored_by_operator L (rg_cert rg') \<and>
          (\<exists>csr key. key_requested L rg csr key \<and> map_option cg_key_pem (cc_group (rg_cert rg')) = Some key))"
  proof (cases rule: register_once_parts)
    case (early e)
    then show ?thesis using ok by simp
  next
    case (answered csr key response c f)
    have "if r = None then cert_files_ok L c f \<and> stored_by_operator L c \<and> map_option cg_key_pem (cc_group c) = Some key \<and>
            cc_cert_path c = cc_cert_path (rg_cert rg) \<and> cc_key_path c = cc_key_path (rg_cert rg)
          else c = rg_cert rg \<and> cert_files_ok L (rg_cert rg) f"
      using parse_registration_atomic [OF ok answered(2)] .
    then show ?thesis using answered by (cases "r = None") auto
  qed
  then show "cert_files_ok L (rg_cert rg') (w_fs w')"
    and "r \<noteq> None \<Longrightarrow> rg' = rg \<and> cert_files_ok L (rg_cert rg) (w_fs w')"
    and "r = None \<Longrightarrow> rg' = rg\<lparr>rg_cert := rg_cert rg', rg_registered := True\<rparr> \<and> stored_by_operator L (rg_cert rg') \<and>
          (\<exists>csr key. key_requested L rg csr key \<and> map_option cg_key_pem (cc_group (rg_cert rg')) = Some key)"
    by blast+
qed

subsection \<open>Runs\<close>

text \<open>
  What may happen to a registration: a request to register, a tick of a retrying goroutine, a
  deregistration, and anything outside that leaves the two files alone.
\<close>

inductive registration_run ::
  "'x reg_lib \<Rightarrow> 'd registration \<times> 'x world \<Rightarrow> 'd registration \<times> 'x world \<Rightarrow> bool" for L s0 where
  start: "registration_run L s0 s0"
| register: "registration_run L s0 s \<Longrightarrow> register_device L s = Ret s' \<Longrightarrow> registration_run L s0 s'"
| tick: "registration_run L s0 s \<Longrightarrow> retry_tick L i s = Ret s' \<Longrightarrow> registration_run L s0 s'"
| later: "registration_run L s0 (rg, w) \<Longrightarrow> registration_run L s0 (deregister_later ds rg, w)"
| deregister: "registration_run L s0 (rg, w) \<Longrightarrow> registration_deregister rg d = Ret (r, rg', d') \<Longrightarrow>
    registration_run L s0 (rg', w)"
| outside: "registration_run L s0 (rg, w) \<Longrightarrow>
    read_file (cc_cert_path (rg_cert rg)) (w_fs w') = read_file (cc_cert_path (rg_cert rg)) (w_fs w) \<Longrightarrow>
    read_file (cc_key_path (rg_cert rg)) (w_fs w') = read_file (cc_key_path (rg_cert rg)) (w_fs w) \<Longrightarrow>
    registration_run L s0 (rg, w')"

definition registration_ok :: "'x reg_lib \<Rightarrow> 'd registration \<times> 'x world \<Rightarrow> bool" where
  "registration_ok L = (\<lambda>(rg, w). cert_files_ok L (rg_cert rg) (w_fs w) \<and>
     (is_registered rg \<longrightarrow> stored_by_operator L (rg_cert rg)))"

lemma registration_ok_once:
  assumes "registration_ok L (rg, w)" and "register_device_once L (rg, w) = Ret (r, rg', w')"
  shows "registration_ok L (rg', w')"
proof -
  have ok: "cert_files_ok L (rg_cert rg) (w_fs w)" using assms(1) by (simp add: registration_ok_def)
  show ?thesis
  proof (cases "r = None")
    case True
    then show ?thesis using register_once_atomic(1,3) [OF ok assms(2)] by (simp add: registration_ok_def)
  next
    case False
    then show ?thesis using register_once_atomic(1,2) [OF ok assms(2)] assms(1) by (simp add: registration_ok_def)
  qed
qed

lemma registration_ok_retries: "registration_ok L (rg\<lparr>rg_retries := x\<rparr>, w) = registration_ok L (rg, w)"
  by (simp add: registration_ok_def is_registered_def)

lemma registration_run_ok: "registration_run L s0 s \<Longrightarrow> registration_ok L s0 \<Longrightarrow> registration_ok L s"
proof (induction rule: registration_run.induct)
  case start
  then show ?case .
next
  case (register s s')
  obtain rg w where s: "s = (rg, w)" by (meson surj_pair)
  obtain r rg1 w1 where once: "register_device_once L (rg, w) = Ret (r, rg1, w1)"
    using register(2) s by (cases "register_device_once L (rg, w)") (auto simp: register_device_def)
  then have "s' = (rg1\<lparr>rg_retries := rg_retries rg1 @ [True]\<rparr>, w1)"
    using register(2) s by (auto simp: register_device_def split: if_splits)
  then show ?case using registration_ok_once [OF _ once] register s by (simp add: registration_ok_retries)
next
  case (tick s i s')
  obtain rg w where s: "s = (rg, w)" by (meson surj_pair)
  show ?case
  proof (cases "i < length (rg_retries rg) \<and> rg_retries rg ! i")
    case True
    obtain r rg1 w1 where once: "register_device_once L (rg, w) = Ret (r, rg1, w1)"
      using tick(2) s True by (cases "register_device_once L (rg, w)") (auto simp: retry_tick_def)
    have ok: "registration_ok L (rg1, w1)" using registration_ok_once [OF _ once] tick s by simp
    have "s' = (rg1, w1) \<or> s' = (rg1\<lparr>rg_retries := (rg_retries rg1)[i := False]\<rparr>, w1)"
      using tick(2) s True once by (auto simp: retry_tick_def split: if_splits)
    then show ?thesis using ok by (auto simp: registration_ok_retries)
  next
    case False
    then have "s' = (rg, w)" using tick(2) s by (auto simp: retry_tick_def)
    then show ?thesis using tick s by simp
  qed
next
  case (later rg w ds)
  then show ?case by (simp add: registration_ok_def deregister_later_def is_registered_def)
next
  case (deregister rg w d r rg' d')
  then have "rg' = rg\<lparr>rg_registered := False\<rparr>"
    by (auto simp: registration_deregister_def go_bind_Ret_iff)
  then show ?case using deregister by (simp add: registration_ok_def is_registered_def)
next
  case (outside rg w w')
  then show ?case using cert_files_ok_read by (auto simp: registration_ok_def)
qed

subsection \<open>Properties\<close>



text \<open>\<open>RegisterDevice\<close> starts the retries even when its own attempt has succeeded: the first tick registers the
  device once more.\<close>

lemma registered_device_registers_again:
  assumes "register_device_once L (rg, w) = Ret (None, rg1, w1)" and "register_device L (rg, w) = Ret (rg2, w2)"
  shows "is_registered rg2 = is_registered rg1 \<and>
    retry_tick L (length (rg_retries rg1)) (rg2, w2) =
      go_bind (register_device_once L (rg2, w2)) (\<lambda>(r, rg3, w3).
        if r \<noteq> None then Ret (rg3, w3) else Ret (rg3\<lparr>rg_retries := (rg_retries rg3)[length (rg_retries rg1) := False]\<rparr>, w3))"
  using assms by (auto simp: register_device_def retry_tick_def is_registered_def nth_append split: if_splits)

text \<open>A device that holds the registration certificate, and an operator that enrols and registers it.\<close>

definition example_registrar :: "(string \<times> mount) list reg_lib" where
  "example_registrar = \<lparr>rl_import = (\<lambda>c k. Inr (c, k)), rl_new_key = (\<lambda>x. (Inr ''new key'', x)),
     rl_request = (\<lambda>d k x. (Inr (d @ k), x)), rl_key_pem = (\<lambda>k. Inr k),
     rl_send = (\<lambda>d c x. (Inr (Some d), x)), rl_get_config = (\<lambda>x. (Inr (''/pki/cert.pem'', ''/pki/key.pem''), x)),
     rl_enrolment_json = (\<lambda>h n. Inr n), rl_registration_json = (\<lambda>h csr. Inr csr),
     rl_decode_response = (\<lambda>b. Inr \<lparr>yr_metadata = Map.empty, yr_body = b,
        yr_status_code = (if b = ''enrolment'' then 208 else 200)\<rparr>),
     rl_decode_message = (\<lambda>b. Inr \<lparr>ms_content = JMap [''certificate'' \<mapsto> JString ''device cert''], ms_message_id = [], ms_metadata = JOther\<rparr>),
     rl_decode_toml = (\<lambda>s. Inr []), rl_tags_file = ''/etc/tags.toml'', rl_hardware = Some example_hardware\<rparr>"

definition example_pki :: "(string \<times> mount) list world" where
  "example_pki = \<lparr>w_fs = \<lparr>fs_files = [''/pki/cert.pem'' \<mapsto> ''register'', ''/pki/key.pem'' \<mapsto> ''old key''],
     fs_dirs = {''/pki''}, fs_denied = {}\<rparr>, w_ext = []\<rparr>"

definition example_registration :: "unit registration" where
  "example_registration = \<lparr>rg_cert = \<lparr>cc_key_path = ''/pki/key.pem'', cc_cert_path = ''/pki/cert.pem'',
       cc_group = Some \<lparr>cg_cert_pem = ''register'', cg_key_pem = ''old key'', cg_subject = Some ''register'', cg_key = Some ''old key''\<rparr>\<rparr>,
     rg_target_namespace = ''default'', rg_device_id = ''dev'', rg_deregistrables = [], rg_retry_after = 10,
     rg_registered = False, rg_retries = []\<rparr>"

definition example_registered :: "unit registration" where
  "example_registered = example_registration\<lparr>rg_cert := (rg_cert example_registration)\<lparr>cc_group :=
       Some \<lparr>cg_cert_pem = ''device cert'', cg_key_pem = ''new key'', cg_subject = Some ''device cert'', cg_key = Some ''new key''\<rparr>\<rparr>,
     rg_registered := True\<rparr>"

definition example_registered_pki :: "(string \<times> mount) list world" where
  "example_registered_pki = example_pki\<lparr>w_fs := (w_fs example_pki)\<lparr>fs_files := (fs_files (w_fs example_pki))
     (''/pki/cert.pem'' \<mapsto> ''device cert'', ''/pki/key.pem'' \<mapsto> ''new key'')\<rparr>\<rparr>"

lemma example_registration_created:
  "new_registration example_registrar ''dev'' example_pki = (Inr example_registration, example_pki)"
  by (simp add: new_registration_def create_client_certs_def new_client_cert_def client_cert_init_def call_ext_def
      get_target_namespace_def read_tags_file_def read_file_def read_tags_def import_from_pem_def
      example_registrar_def example_pki_def example_registration_def default_target_namespace_def retry_after_def
      path_clean_def)

lemma example_registration_attempt:
  "register_device_once example_registrar (example_registration, example_pki) = Ret (None, example_registered, example_registered_pki)"
proof -
  obtain h where h: "get_hardware_information (Some example_hardware) [] = (Some h, None)"
    using example_hardware_information(1) by blast
  have "enrol example_registrar ''default'' example_pki = Ret (Inr True, example_pki)"
    using h by (simp add: enrol_def call_ext_def enrolment_status_def example_registrar_def example_pki_def)
  moreover have "renew_certificate example_registrar example_registration example_pki =
      Ret (Inr (''new key'', ''devnew key''), example_pki)"
    by (simp add: renew_certificate_def is_register_cert_def cert_register_cn_def create_device_certs_def renew_def call_ext_def
        example_registrar_def example_pki_def example_registration_def)
  moreover have "send_registration_request example_registrar ''devnew key'' example_pki = (Inr (Some ''registration''), example_pki)"
    using h by (simp add: send_registration_request_def call_ext_def example_registrar_def example_pki_def)
  moreover have "parse_registration_response example_registrar (Some ''registration'') ''new key'' (rg_cert example_registration)
      (w_fs example_pki) = Ret (None, rg_cert example_registered, w_fs example_registered_pki)"
    by (simp add: parse_registration_response_def certificate_of_def write_certificate_def import_from_pem_def write_file_def
        parent_dir_def example_registrar_def example_pki_def example_registration_def example_registered_def example_registered_pki_def)
  ultimately show ?thesis
    by (simp add: register_device_once_def example_registration_def example_registered_def example_registered_pki_def example_pki_def)
qed

lemma example_cert_files: "cert_files_ok example_registrar (rg_cert example_registration) (w_fs example_pki)"
  by (simp add: cert_files_ok_def example_registration_def example_pki_def example_registrar_def read_file_def import_from_pem_def)



end
