(* ===== verification/Device_Server.thy ===== *)
theory Device_Server
  imports Configuration Registration "HOL-Library.Multiset"
begin

text \<open>
  \<open>internal/server/deviceserver.go\<close>: the gRPC service that receives configurations. \<open>Send\<close> decodes a
  message in a goroutine of its own, which then hands it to the one goroutine that updates the
  configuration manager. The goroutines that have not done so yet are the list \<open>sv_pending\<close>; the
  scheduler leaves it open which of them is next.
\<close>

record 'w device_server =
  sv_device_id :: string
  sv_pending :: "config_message list"
  sv_config :: "'w manager"

definition new_device_server :: "'w manager \<Rightarrow> 'w device_server" where
  "new_device_server c = \<lparr>sv_device_id = get_device_id c, sv_pending = [], sv_config = c\<rparr>"

text \<open>
  \<open>json.Unmarshal\<close> returns an error and what it has filled in up to it; the message is passed on in any
  case.
\<close>

definition decoded_message :: "(string \<Rightarrow> gerror option \<times> config_message) \<Rightarrow> string \<Rightarrow> config_message" where
  "decoded_message unmarshal content = snd (unmarshal content)"

definition server_send ::
  "(string \<Rightarrow> gerror option \<times> config_message) \<Rightarrow> string \<Rightarrow> 'w device_server \<Rightarrow> 'w device_server" where
  "server_send unmarshal content sv = sv\<lparr>sv_pending := sv_pending sv @ [decoded_message unmarshal content]\<rparr>"

text \<open>The updating goroutine receives from waiting goroutine \<open>i\<close>; an error of the update is only logged.\<close>

definition deliver ::
  "json_codec \<Rightarrow> nat \<Rightarrow> 'w device_server \<times> 'w config_world \<Rightarrow> ('w device_server \<times> 'w config_world) go" where
  "deliver J i = (\<lambda>(sv, w).
     go_bind (update_config J (sv_pending sv ! i) (sv_config sv) w) (\<lambda>(r, c, w').
       Ret (sv\<lparr>sv_pending := take i (sv_pending sv) @ drop (Suc i) (sv_pending sv), sv_config := c\<rparr>, w')))"

definition notify_event ::
  "bool \<Rightarrow> 'd registration \<Rightarrow> 'd \<Rightarrow> ('d registration \<times> 'd) go" where
  "notify_event disconnect rg d =
     (if disconnect then go_bind (registration_deregister rg d) (\<lambda>(r, rg', d'). Ret (rg', d')) else Ret (rg, d))"

subsection \<open>Runs\<close>

text \<open>A run of the server, with the contents it has received and the messages it has applied; an update that panics
  ends it.\<close>

inductive server_run ::
  "json_codec \<Rightarrow> (string \<Rightarrow> gerror option \<times> config_message) \<Rightarrow> 'w device_server \<times> 'w config_world \<Rightarrow>
   string list \<Rightarrow> config_message list \<Rightarrow> 'w device_server \<times> 'w config_world \<Rightarrow> bool" for J unmarshal s0 where
  start: "server_run J unmarshal s0 [] [] s0"
| receive: "server_run J unmarshal s0 rs ds (sv, w) \<Longrightarrow>
    server_run J unmarshal s0 (rs @ [r]) ds (server_send unmarshal r sv, w)"
| apply_one: "server_run J unmarshal s0 rs ds (sv, w) \<Longrightarrow> i < length (sv_pending sv) \<Longrightarrow> deliver J i (sv, w) = Ret s' \<Longrightarrow>
    server_run J unmarshal s0 rs (ds @ [sv_pending sv ! i]) s'"

text \<open>The configuration manager after a sequence of updates.\<close>

definition apply_config :: "json_codec \<Rightarrow> config_message \<Rightarrow> 'w manager \<times> 'w config_world \<Rightarrow> ('w manager \<times> 'w config_world) go" where
  "apply_config J m = (\<lambda>(c, w). go_bind (update_config J m c w) (\<lambda>(r, c', w'). Ret (c', w')))"

fun apply_configs :: "json_codec \<Rightarrow> config_message list \<Rightarrow> 'w manager \<times> 'w config_world \<Rightarrow> ('w manager \<times> 'w config_world) go" where
  "apply_configs J [] s = Ret s"
| "apply_configs J (m # ms) s = go_bind (apply_config J m s) (apply_configs J ms)"

lemma apply_configs_snoc: "apply_configs J (ms @ [m]) s = go_bind (apply_configs J ms s) (apply_config J m)"
proof (induction ms arbitrary: s)
  case Nil
  show ?case by (cases "apply_config J m s") simp_all
next
  case (Cons n ms)
  show ?case by (cases "apply_config J n s") (simp_all add: Cons)
qed

text \<open>Delivering a message applies it and takes it off the waiting ones; it panics when the update does.\<close>

lemma deliver_iff:
  "deliver J i (sv, w) = Ret (sv', w') \<longleftrightarrow>
     (\<exists>c. apply_config J (sv_pending sv ! i) (sv_config sv, w) = Ret (c, w') \<and>
        sv' = sv\<lparr>sv_pending := take i (sv_pending sv) @ drop (Suc i) (sv_pending sv), sv_config := c\<rparr>)"
  by (auto simp: deliver_def apply_config_def go_bind_Ret_iff)

lemma mset_without_nth: "i < length xs \<Longrightarrow> add_mset (xs ! i) (mset (take i xs @ drop (Suc i) xs)) = mset xs"
  by (subst (4) id_take_nth_drop [of i xs]) simp_all

lemma server_run_applied:
  assumes "server_run J unmarshal s0 rs ds s"
  shows "mset ds + mset (sv_pending (fst s)) = mset (sv_pending (fst s0)) + image_mset (decoded_message unmarshal) (mset rs) \<and>
    apply_configs J ds (sv_config (fst s0), snd s0) = Ret (sv_config (fst s), snd s)"
  using assms
proof (induction rule: server_run.induct)
  case start
  then show ?case by simp
next
  case (receive rs ds sv w r)
  then show ?case by (simp add: server_send_def)
next
  case (apply_one rs ds sv w i s')
  obtain sv' w' where s': "s' = (sv', w')" by (meson surj_pair)
  then obtain c where c: "apply_config J (sv_pending sv ! i) (sv_config sv, w) = Ret (c, w')"
      "sv' = sv\<lparr>sv_pending := take i (sv_pending sv) @ drop (Suc i) (sv_pending sv), sv_config := c\<rparr>"
    using apply_one.hyps(3) by (auto simp: deliver_iff)
  then have "mset (sv_pending sv) = add_mset (sv_pending sv ! i) (mset (sv_pending sv'))"
    using mset_without_nth [OF apply_one.hyps(2)] by simp
  then have "mset (ds @ [sv_pending sv ! i]) + mset (sv_pending sv') = mset ds + mset (sv_pending sv)" by simp
  also have "\<dots> = mset (sv_pending (fst s0)) + image_mset (decoded_message unmarshal) (mset rs)"
    using apply_one.IH by simp
  finally show ?case using apply_one.IH c s' by (simp add: apply_configs_snoc del: mset_append)
qed

lemma server_run_receives:
  "server_run J unmarshal s0 rs ds (sv, w) \<Longrightarrow>
   \<exists>sv'. server_run J unmarshal s0 (rs @ qs) ds (sv', w) \<and>
     sv_pending sv' = sv_pending sv @ map (decoded_message unmarshal) qs"
proof (induction qs arbitrary: rs sv)
  case Nil
  then show ?case by auto
next
  case (Cons q qs)
  have "server_run J unmarshal s0 (rs @ [q]) ds (server_send unmarshal q sv, w)"
    using Cons.prems by (rule server_run.receive)
  from Cons.IH [OF this] show ?case by (auto simp: server_send_def)
qed

lemma server_run_delivers:
  "server_run J unmarshal s0 rs ds (sv, w) \<Longrightarrow> mset ms = mset (sv_pending sv) \<Longrightarrow>
   apply_configs J ms (sv_config sv, w) = Ret s \<Longrightarrow>
   \<exists>sv' w'. server_run J unmarshal s0 rs (ds @ ms) (sv', w') \<and> sv_pending sv' = []"
proof (induction ms arbitrary: ds sv w)
  case Nil
  then show ?case by (intro exI [of _ sv] exI [of _ w]) simp
next
  case (Cons m ms)
  then have "m \<in> set (sv_pending sv)" by (metis list.set_intros(1) mset_eq_setD)
  then obtain i where i: "i < length (sv_pending sv)" "sv_pending sv ! i = m" by (auto simp: in_set_conv_nth)
  obtain c w' where c: "apply_config J m (sv_config sv, w) = Ret (c, w')" "apply_configs J ms (c, w') = Ret s"
    using Cons.prems(3) by (auto simp: go_bind_Ret_iff)
  let ?sv = "sv\<lparr>sv_pending := take i (sv_pending sv) @ drop (Suc i) (sv_pending sv), sv_config := c\<rparr>"
  have "deliver J i (sv, w) = Ret (?sv, w')" using c(1) i(2) by (simp add: deliver_iff)
  with server_run.apply_one [OF Cons.prems(1) i(1)] have run: "server_run J unmarshal s0 rs (ds @ [m]) (?sv, w')"
    using i(2) by simp
  have "add_mset m (mset (sv_pending ?sv)) = mset (sv_pending sv)" using mset_without_nth [OF i(1)] i(2) by simp
  then have "mset ms = mset (sv_pending ?sv)" using Cons.prems(2) by (metis add_mset_add_mset_same_iff mset.simps(2))
  from Cons.IH [OF run this] c(2) show ?case by simp
qed

subsection \<open>Properties\<close>

text \<open>C9. The server applies every configuration it receives exactly once, one after the other, but in any order:
  from its start, the sequences of messages it may have applied once nothing is waiting are precisely the
  permutations of those received during which no update panics, so an older configuration may replace a newer
  one.\<close>

theorem server_applies_permutations:
  "(\<exists>sv w. server_run J unmarshal (new_device_server c, w0) rs ds (sv, w) \<and> sv_pending sv = [] \<and>
      apply_configs J ds (c, w0) = Ret (sv_config sv, w)) =
   (mset ds = mset (map (decoded_message unmarshal) rs) \<and> apply_configs J ds (c, w0) \<noteq> Panic)"
proof
  assume "\<exists>sv w. server_run J unmarshal (new_device_server c, w0) rs ds (sv, w) \<and> sv_pending sv = [] \<and>
      apply_configs J ds (c, w0) = Ret (sv_config sv, w)"
  then obtain sv w where run: "server_run J unmarshal (new_device_server c, w0) rs ds (sv, w)" "sv_pending sv = []"
      "apply_configs J ds (c, w0) = Ret (sv_config sv, w)" by (elim exE conjE)
  then show "mset ds = mset (map (decoded_message unmarshal) rs) \<and> apply_configs J ds (c, w0) \<noteq> Panic"
    using server_run_applied [OF run(1)] by (simp add: new_device_server_def)
next
  assume perm: "mset ds = mset (map (decoded_message unmarshal) rs) \<and> apply_configs J ds (c, w0) \<noteq> Panic"
  then obtain s where s: "apply_configs J ds (c, w0) = Ret s" by (cases "apply_configs J ds (c, w0)") auto
  obtain sv where received: "server_run J unmarshal (new_device_server c, w0) rs [] (sv, w0)"
      "sv_pending sv = map (decoded_message unmarshal) rs"
    using server_run_receives [OF server_run.start, of J unmarshal "new_device_server c" w0 rs]
    by (auto simp: new_device_server_def)
  have "sv_config sv = c" using server_run_applied [OF received(1)] by (simp add: new_device_server_def)
  then have all: "mset ds = mset (sv_pending sv)" "apply_configs J ds (sv_config sv, w0) = Ret s"
    using perm s received(2) by simp_all
  from server_run_delivers [OF received(1) all] obtain sv' w'
    where run: "server_run J unmarshal (new_device_server c, w0) rs ds (sv', w')" "sv_pending sv' = []"
    by (auto simp del: apply_configs.simps)
  then show "\<exists>sv w. server_run J unmarshal (new_device_server c, w0) rs ds (sv, w) \<and> sv_pending sv = [] \<and>
      apply_configs J ds (c, w0) = Ret (sv_config sv, w)"
    using server_run_applied [OF run(1)] run by (intro exI [of _ sv'] exI [of _ w']) (simp add: new_device_server_def)
qed

end
