(* ===== verification/Heartbeat.thy ===== *)
theory Heartbeat
  imports Yggdrasil Workload_Manager Data_Transfer Device_OS Hardware Ansible_Manager
begin

text \<open>
  \<open>internal/heartbeat/heartbeat.go\<close>: collecting the state of the device and sending it. The heartbeat
  reads the configuration manager and asks the workload manager, the Ansible manager, the data monitor,
  the hardware and the operating system, each of which has its theory; its own state is the record
  \<open>heartbeat\<close>. The dispatcher and JSON are in the record \<open>heartbeat_env\<close>.
\<close>

subsection \<open>The message\<close>

definition scope_delta :: string where
  "scope_delta = ''delta''"

record status_report =
  sr_name :: string
  sr_status :: string
  sr_last_data_upload :: "gotime option"

record heartbeat_message =
  hm_status :: string
  hm_version :: string
  hm_workloads :: "status_report list"
  hm_playbooks :: "status_report list"
  hm_hardware :: "hardware_info option"
  hm_events :: "event_info list"
  hm_upgrade :: upgrade_status

subsection \<open>State\<close>

text \<open>
  The components a heartbeat reports on; the Ansible manager is nil when ansible is not installed.
\<close>

record components =
  co_workloads :: workload_manager
  co_ansible :: "ansible_manager option"
  co_monitor :: monitor
  co_os :: device_os

text \<open>\<open>hb_reg\<close> is the field \<open>reg\<close>: what \<open>RegisterDevice\<close> does, unless the field is nil.\<close>

record 'e heartbeat =
  hb_periodic :: periodic
  hb_previous :: "hardware_info option"
  hb_first :: bool
  hb_reg :: "('e world \<Rightarrow> 'e world go) option"

record 'e heartbeat_env =
  he_manager :: "'e manager_env"
  he_hardware :: "'e hardware"
  he_os :: "'e os_commands"
  he_send :: "string \<Rightarrow> string \<Rightarrow> ('e, string option) op"   \<comment> \<open>directive and content; the response may be nil\<close>
  he_marshal :: "heartbeat_message \<Rightarrow> gerror + string"
  he_decode :: "string \<Rightarrow> gerror + yggd_response"

type_synonym 'e hb_state = "'e heartbeat \<times> components \<times> 'e world"

text \<open>\<open>NewHeartbeatService\<close> does not store its argument \<open>reg\<close>.\<close>

definition new_heartbeat_service :: "('e world \<Rightarrow> 'e world go) \<Rightarrow> 'e heartbeat" where
  "new_heartbeat_service reg =
     \<lparr>hb_periodic = new_periodic (-1), hb_previous = None, hb_first = True, hb_reg = None\<rparr>"

subsection \<open>Hardware\<close>

definition get_previous_hardware_info :: "'e heartbeat \<Rightarrow> hardware_info option" where
  "get_previous_hardware_info hb = hb_previous hb"

definition set_previous_hardware_info :: "hardware_info option \<Rightarrow> 'e heartbeat \<Rightarrow> 'e heartbeat" where
  "set_previous_hardware_info h hb = hb\<lparr>hb_previous := h\<rparr>"

definition hardware_info_delta :: "hardware_profile \<Rightarrow> 'e heartbeat \<Rightarrow> hardware_info \<Rightarrow> hardware_info" where
  "hardware_info_delta profile hb current =
     (if hp_scope profile = scope_delta then
        (case get_previous_hardware_info hb of
           None \<Rightarrow> current
         | Some prev \<Rightarrow> get_mutable_hardware_info_delta prev current)
      else current)"

text \<open>
  The first time, the full information is sent, with what could be read of it; afterwards the mutable
  part, or the delta of it.
\<close>

definition build_hardware_info ::
  "'e hardware \<Rightarrow> hardware_profile \<Rightarrow> 'e \<Rightarrow> 'e heartbeat \<Rightarrow> hardware_info option \<times> 'e heartbeat" where
  "build_hardware_info H profile x hb =
     (case create_hardware_mutable_information H x of
        Inl e \<Rightarrow> (None, hb)
      | Inr current \<Rightarrow>
          (let info = (if get_previous_hardware_info hb = None then fst (get_hardware_information H x)
                       else Some (hardware_info_delta profile hb current))
           in (info, set_previous_hardware_info (Some current) hb)))"

subsection \<open>Collecting\<close>

definition workload_report :: "monitor \<Rightarrow> workload_info \<Rightarrow> status_report" where
  "workload_report mo i = \<lparr>sr_name = wi_name i, sr_status = wi_status i,
     sr_last_data_upload = get_last_successful_sync_time mo (wi_name i)\<rparr>"

definition playbook_report :: "monitor \<Rightarrow> string \<times> string \<Rightarrow> status_report" where
  "playbook_report mo p = \<lparr>sr_name = fst p, sr_status = snd p,
     sr_last_data_upload = get_last_successful_sync_time mo (fst p)\<rparr>"

text \<open>The profile in the configuration; both pointers on the way are dereferenced.\<close>

definition profile_of :: "'w manager \<Rightarrow> hardware_profile go" where
  "profile_of c =
     go_bind (deref (get_device_configuration c)) (\<lambda>d.
       go_bind (deref (cfg_heartbeat d)) (\<lambda>h. deref (hc_hardware_profile h)))"

text \<open>\<open>RetrieveInfo\<close>: the Ansible manager is asked for its list before it is compared with nil.\<close>

definition retrieve_info ::
  "'e heartbeat_env \<Rightarrow> 'w manager \<Rightarrow> 'e hb_state \<Rightarrow> (heartbeat_message \<times> 'e hb_state) go" where
  "retrieve_info V c = (\<lambda>(hb, co, w).
     case list_workloads (he_manager V) w of
       (listed, w1) \<Rightarrow>
         (let workloads = (case listed of Inl e \<Rightarrow> [] | Inr is \<Rightarrow> map (workload_report (co_monitor co)) is) in
          go_bind (deref (co_ansible co)) (\<lambda>am.
            let playbooks = map (playbook_report (co_monitor co)) (list_playbooks am) in
            go_bind (profile_of c) (\<lambda>profile.
              let (hw, hb1) = (if hp_include profile then build_hardware_info (he_hardware V) profile (w_ext w1) hb else (None, hb));
                  (ansibleEvents, am1) = pop_ansible_events am;
                  (events, g1) = pop_events (co_workloads co);
                  (upgrade, os1, x1) = get_upgrade_status (he_os V) (co_os co, w_ext w1)
              in Ret (\<lparr>hm_status = ''up'', hm_version = get_configuration_version c, hm_workloads = workloads,
                       hm_playbooks = playbooks, hm_hardware = hw, hm_events = events @ ansibleEvents, hm_upgrade = upgrade\<rparr>,
                     hb1, co\<lparr>co_workloads := g1, co_ansible := Some am1, co_os := os1\<rparr>, w1\<lparr>w_ext := x1\<rparr>)))))"

subsection \<open>Sending\<close>

text \<open>
  \<open>send\<close>: an empty response is reported with \<open>response.Response\<close>, which a nil response does not have;
  every status but 401 counts as delivered.
\<close>

definition heartbeat_send ::
  "'e heartbeat_env \<Rightarrow> 'e heartbeat \<Rightarrow> string \<Rightarrow> 'e world \<Rightarrow> (gerror option \<times> 'e world) go" where
  "heartbeat_send V hb content w =
     (case call_ext (he_send V ''heartbeat'' content) w of
        (Inl e, w1) \<Rightarrow> Ret (Some e, w1)
      | (Inr response, w1) \<Rightarrow>
          go_bind (deref response) (\<lambda>bytes.
            if bytes = [] then Ret (Some (Err ''empty response received, host may not be reachable''), w1)
            else
              (case he_decode V bytes of
                 Inl e \<Rightarrow> Ret (Some e, w1)
               | Inr resp \<Rightarrow>
                   if yr_status_code resp \<noteq> 401 then Ret (None, w1)
                   else
                     go_bind (deref (hb_reg hb)) (\<lambda>register.
                       go_bind (register w1) (\<lambda>w2.
                         (case call_ext (he_send V ''heartbeat'' content) w2 of
                            (Inl e, w3) \<Rightarrow> Ret (Some e, w3)
                          | (Inr _, w3) \<Rightarrow> Ret (None, w3)))))))"

definition push_heartbeat ::
  "'e heartbeat_env \<Rightarrow> 'w manager \<Rightarrow> 'e hb_state \<Rightarrow> (gerror option \<times> 'e hb_state) go" where
  "push_heartbeat V c s =
     go_bind (retrieve_info V c s) (\<lambda>(m, hb, co, w).
       case he_marshal V m of
         Inl e \<Rightarrow> Ret (Some e, hb, co, w)
       | Inr content \<Rightarrow>
           go_bind (heartbeat_send V hb content w) (\<lambda>(r, w1).
             case r of
               Some e \<Rightarrow> Ret (Some e, (if hb_first hb then set_previous_hardware_info None hb else hb), co, w1)
             | None \<Rightarrow> Ret (None, hb\<lparr>hb_first := False\<rparr>, co, w1)))"

subsection \<open>The ticker\<close>

definition heartbeat_interval :: "device_configuration \<Rightarrow> int" where
  "heartbeat_interval c = get_interval (map_option hc_period_seconds (cfg_heartbeat c))"

definition heartbeat_start :: "'w manager \<Rightarrow> 'e heartbeat \<Rightarrow> 'e heartbeat go" where
  "heartbeat_start c hb =
     go_bind (deref (get_device_configuration c)) (\<lambda>d.
       go_bind (start_periodic (heartbeat_interval d) (hb_periodic hb)) (\<lambda>p. Ret (hb\<lparr>hb_periodic := p\<rparr>)))"

definition heartbeat_update :: "config_message \<Rightarrow> 'e heartbeat \<Rightarrow> 'e heartbeat go" where
  "heartbeat_update m hb =
     go_bind (deref (msg_configuration m)) (\<lambda>d.
       go_bind (update_periodic (heartbeat_interval d) (hb_periodic hb)) (\<lambda>p. Ret (hb\<lparr>hb_periodic := p\<rparr>)))"

definition heartbeat_deregister :: "'e heartbeat \<Rightarrow> 'e heartbeat" where
  "heartbeat_deregister hb = hb\<lparr>hb_periodic := stop_ticker (hb_periodic hb)\<rparr>"

subsection \<open>Lemmas\<close>

lemma retrieve_info_Ret:
  assumes "retrieve_info V c (hb, co, w) = Ret (m, hb', co', w')"
  obtains am profile listed w1 where
    "co_ansible co = Some am" "profile_of c = Ret profile" "list_workloads (he_manager V) w = (listed, w1)"
    "(hm_hardware m, hb') = (if hp_include profile then build_hardware_info (he_hardware V) profile (w_ext w1) hb else (None, hb))"
    "hm_events m = mgr_events (co_workloads co) @ am_events am"
    "co_workloads co' = (co_workloads co)\<lparr>mgr_events := []\<rparr>" "co_ansible co' = Some (am\<lparr>am_events := []\<rparr>)"
    "co_monitor co' = co_monitor co"
    "hm_workloads m = (case listed of Inl e \<Rightarrow> [] | Inr is \<Rightarrow> map (workload_report (co_monitor co)) is)"
    "hm_playbooks m = map (playbook_report (co_monitor co)) (list_playbooks am)"
proof -
  obtain listed w1 where listed: "list_workloads (he_manager V) w = (listed, w1)" by (meson surj_pair)
  obtain am where am: "co_ansible co = Some am"
    using assms listed by (cases "co_ansible co") (simp_all add: retrieve_info_def Let_def)
  obtain profile where profile: "profile_of c = Ret profile"
    using assms listed am by (cases "profile_of c") (simp_all add: retrieve_info_def Let_def)
  obtain hw hb1 where hw: "(if hp_include profile then build_hardware_info (he_hardware V) profile (w_ext w1) hb else (None, hb)) = (hw, hb1)"
    by (meson surj_pair)
  obtain up os1 x1 where up: "get_upgrade_status (he_os V) (co_os co, w_ext w1) = (up, os1, x1)" by (meson prod_cases3)
  note eq = assms [unfolded retrieve_info_def Let_def, simplified listed am profile hw up prod.case deref_simps go_bind.simps
      pop_ansible_events_def pop_events_def]
  show thesis
    by (rule that [OF am profile listed]) (use eq hw in auto)
qed

lemma build_hardware_info_first:
  "create_hardware_mutable_information H x = Inr current \<Longrightarrow> get_previous_hardware_info hb = None \<Longrightarrow>
   fst (build_hardware_info H profile x hb) = fst (get_hardware_information H x)"
  by (simp add: build_hardware_info_def Let_def)

lemma build_hardware_info_frame:
  assumes "build_hardware_info H profile x hb = (info, hb')"
  shows "hb' = hb\<lparr>hb_previous := hb_previous hb'\<rparr>" "hb_previous hb \<noteq> None \<Longrightarrow> hb_previous hb' \<noteq> None"
  using assms by (auto simp: build_hardware_info_def Let_def set_previous_hardware_info_def split: sum.splits)

lemma later_information_mutable:
  assumes "build_hardware_info H profile x hb = (Some h, hb')" and "hb_previous hb \<noteq> None"
  shows "hi_cpu h = None"
proof -
  obtain current where current: "create_hardware_mutable_information H x = Inr current"
    using assms(1) by (auto simp: build_hardware_info_def split: sum.splits)
  then obtain L where "H = Some L"
    by (cases H) (auto simp: create_hardware_mutable_information_def get_hardware_mutable_information_def)
  then have "hi_cpu current = None" using current mutable_information_fields(1) [of L x current] by simp
  moreover have "h = hardware_info_delta profile hb current"
    using assms current by (auto simp: build_hardware_info_def get_previous_hardware_info_def)
  ultimately show ?thesis
    by (auto simp: hardware_info_delta_def get_mutable_hardware_info_delta_def empty_hardware_info_def Let_def split: option.splits)
qed

text \<open>What a push does to the heartbeat's own state.\<close>

lemma push_heartbeat_Ret:
  assumes "push_heartbeat V c (hb, co, w) = Ret (r, hb', co', w')" and "\<And>m. \<exists>j. he_marshal V m = Inr j"
  obtains m hb1 w1 where "retrieve_info V c (hb, co, w) = Ret (m, hb1, co', w1)"
    "hb' = (if r = None then hb1\<lparr>hb_first := False\<rparr> else if hb_first hb1 then hb1\<lparr>hb_previous := None\<rparr> else hb1)"
proof -
  obtain m hb1 co1 w1 where info: "retrieve_info V c (hb, co, w) = Ret (m, hb1, co1, w1)"
    using assms(1) by (cases "retrieve_info V c (hb, co, w)") (auto simp: push_heartbeat_def)
  obtain j where j: "he_marshal V m = Inr j" using assms(2) by blast
  obtain r1 w2 where sent: "heartbeat_send V hb1 j w1 = Ret (r1, w2)"
    using assms(1) info j by (cases "heartbeat_send V hb1 j w1") (auto simp: push_heartbeat_def)
  have "co1 = co' \<and> hb' = (if r = None then hb1\<lparr>hb_first := False\<rparr> else if hb_first hb1 then hb1\<lparr>hb_previous := None\<rparr> else hb1)"
    using assms(1) info j sent
    by (cases r1) (auto simp: push_heartbeat_def set_previous_hardware_info_def)
  then show thesis using that info by blast
qed

lemma retrieve_info_frame:
  assumes "retrieve_info V c (hb, co, w) = Ret (m, hb', co', w')"
  shows "hb' = hb\<lparr>hb_previous := hb_previous hb'\<rparr>" "hb_previous hb \<noteq> None \<Longrightarrow> hb_previous hb' \<noteq> None"
proof -
  have "hb' = hb\<lparr>hb_previous := hb_previous hb'\<rparr> \<and> (hb_previous hb \<noteq> None \<longrightarrow> hb_previous hb' \<noteq> None)"
    using assms
  proof (cases rule: retrieve_info_Ret)
    case (1 am profile listed w1)
    then show ?thesis
      using build_hardware_info_frame [of "he_hardware V" profile "w_ext w1" hb "hm_hardware m" hb']
      by (cases "hp_include profile") auto
  qed
  then show "hb' = hb\<lparr>hb_previous := hb_previous hb'\<rparr>" "hb_previous hb \<noteq> None \<Longrightarrow> hb_previous hb' \<noteq> None"
    by blast+
qed

subsection \<open>Runs\<close>

text \<open>
  A heartbeat with the configuration manager it reads: ticks, whose outcome depends on components and
  world that change in between, updates of the period, and changes of the configuration.
\<close>

inductive heartbeat_run ::
  "'e heartbeat_env \<Rightarrow> 'e heartbeat \<times> 'w manager \<Rightarrow> 'e heartbeat \<times> 'w manager \<Rightarrow> bool" for V s0 where
  start: "heartbeat_run V s0 s0"
| push: "heartbeat_run V s0 (hb, c) \<Longrightarrow> push_heartbeat V c (hb, co, w) = Ret (r, hb', co', w') \<Longrightarrow> heartbeat_run V s0 (hb', c)"
| launch: "heartbeat_run V s0 (hb, c) \<Longrightarrow> tk_running (hb_periodic hb) = [] \<Longrightarrow> heartbeat_start c hb = Ret hb' \<Longrightarrow>
    heartbeat_run V s0 (hb', c)"
| update: "heartbeat_run V s0 (hb, c) \<Longrightarrow> heartbeat_update m hb = Ret hb' \<Longrightarrow> heartbeat_run V s0 (hb', c)"
| deregister: "heartbeat_run V s0 (hb, c) \<Longrightarrow> heartbeat_run V s0 (heartbeat_deregister hb, c)"
| reconfigure: "heartbeat_run V s0 (hb, c) \<Longrightarrow> heartbeat_run V s0 (hb, c')"

lemmas heartbeat_run_induct = heartbeat_run.induct [split_format (complete)]

lemma heartbeat_start_frame: "heartbeat_start c hb = Ret hb' \<Longrightarrow>
    hb_previous hb' = hb_previous hb \<and> hb_first hb' = hb_first hb \<and> hb_reg hb' = hb_reg hb"
  by (auto simp: heartbeat_start_def go_bind_Ret_iff)

lemma heartbeat_update_frame: "heartbeat_update m hb = Ret hb' \<Longrightarrow>
    hb_previous hb' = hb_previous hb \<and> hb_first hb' = hb_first hb \<and> hb_reg hb' = hb_reg hb"
  by (auto simp: heartbeat_update_def go_bind_Ret_iff)

text \<open>
  A property of the fields that the ticker does not touch holds in a run when every push keeps it.
\<close>

lemma heartbeat_run_keeps:
  fixes c :: "'w manager"
  assumes "heartbeat_run V (hb0, c0) (hb, c)" and "P (hb_previous hb0) (hb_first hb0) (hb_reg hb0)"
    and "\<And>hb (c :: 'w manager) co w r hb' co' w'. push_heartbeat V c (hb, co, w) = Ret (r, hb', co', w') \<Longrightarrow>
      P (hb_previous hb) (hb_first hb) (hb_reg hb) \<Longrightarrow> P (hb_previous hb') (hb_first hb') (hb_reg hb')"
  shows "P (hb_previous hb) (hb_first hb) (hb_reg hb)"
  using assms(1,2)
proof (induction rule: heartbeat_run_induct)
  case (push hb c co w r hb' co' w')
  show ?case by (rule assms(3) [OF push.hyps(2) push.IH [OF push.prems]])
next
  case (launch hb c hb')
  then show ?case using heartbeat_start_frame [of c hb hb'] by simp
next
  case (update hb c m hb')
  then show ?case using heartbeat_update_frame [of m hb hb'] by simp
qed (simp_all add: heartbeat_deregister_def)

lemma push_keeps_reg:
  assumes "push_heartbeat V c (hb, co, w) = Ret (r, hb', co', w')"
  shows "hb_reg hb' = hb_reg hb"
proof -
  obtain m hb1 co1 w1 where info: "retrieve_info V c (hb, co, w) = Ret (m, hb1, co1, w1)"
    using assms by (cases "retrieve_info V c (hb, co, w)") (auto simp: push_heartbeat_def)
  then have reg: "hb_reg hb1 = hb_reg hb" by (subst retrieve_info_frame(1) [OF info]) simp
  show ?thesis
  proof (cases "he_marshal V m")
    case (Inl e)
    then show ?thesis using assms info reg by (simp add: push_heartbeat_def)
  next
    case (Inr j)
    obtain r1 w2 where sent: "heartbeat_send V hb1 j w1 = Ret (r1, w2)"
      using assms info Inr by (cases "heartbeat_send V hb1 j w1") (auto simp: push_heartbeat_def)
    show ?thesis
      using assms info Inr sent reg
      by (cases r1) (auto simp: push_heartbeat_def set_previous_hardware_info_def split: if_splits)
  qed
qed

subsection \<open>Properties\<close>

text \<open>C11. Until a heartbeat has been delivered, every heartbeat that includes the hardware carries all of it, also
  the processor and the vendor, however many attempts have failed and whatever else has happened.\<close>

theorem full_information_until_delivered:
  fixes c c0 :: "'w manager"
  assumes "\<And>m. \<exists>j. he_marshal V m = Inr j" and "heartbeat_run V (new_heartbeat_service reg, c0) (hb, c)" and "hb_first hb"
    and "profile_of c = Ret profile" and "hp_include profile" and "list_workloads (he_manager V) w = (listed, w1)"
    and "create_hardware_mutable_information (he_hardware V) (w_ext w1) = Inr current"
    and "retrieve_info V c (hb, co, w) = Ret (m, hb', co', w')"
  shows "\<exists>h. hm_hardware m = Some h \<and> get_hardware_information (he_hardware V) (w_ext w1) = (Some h, None) \<and>
    hi_cpu h \<noteq> None \<and> hi_hostname h = hi_hostname current \<and> hi_interfaces h = hi_interfaces current \<and>
    hi_mounts h = hi_mounts current"
proof -
  have "hb_first hb \<longrightarrow> hb_previous hb = None"
    using assms(2)
  proof (rule heartbeat_run_keeps [where P = "\<lambda>p f r. f \<longrightarrow> p = None"])
    fix hb and c :: "'w manager" and co w r hb' co' w'
    assume "push_heartbeat V c (hb, co, w) = Ret (r, hb', co', w')"
    then show "hb_first hb' \<longrightarrow> hb_previous hb' = None"
      by (rule push_heartbeat_Ret [OF _ assms(1)]) simp
  qed (simp add: new_heartbeat_service_def)
  then have prev: "get_previous_hardware_info hb = None" using assms(3) by (simp add: get_previous_hardware_info_def)
  obtain L where L: "he_hardware V = Some L"
    using assms(7) by (cases "he_hardware V") (auto simp: create_hardware_mutable_information_def get_hardware_mutable_information_def)
  then obtain h where h: "get_hardware_information (he_hardware V) (w_ext w1) = (Some h, None)" "hi_hostname h = hi_hostname current"
      "hi_interfaces h = hi_interfaces current" "hi_mounts h = hi_mounts current" "hi_cpu h \<noteq> None"
    using full_information [of L "w_ext w1" current] assms(7) by auto
  have "hm_hardware m = fst (build_hardware_info (he_hardware V) profile (w_ext w1) hb)"
    using assms(8)
  proof (cases rule: retrieve_info_Ret)
    case (1 am profile' listed' w1')
    then show ?thesis using assms(4-6) by (simp add: prod_eq_iff)
  qed
  then show ?thesis using build_hardware_info_first [OF assms(7) prev] h by simp
qed

text \<open>When the hardware is only included after a first heartbeat has been delivered, and the first one that
  includes it is lost, no later heartbeat carries the processor or the vendor: the full information
  is never sent.\<close>

theorem full_information_lost:
  fixes c c' :: "'w manager"
  assumes "\<And>m. \<exists>j. he_marshal V m = Inr j" and "\<not> hb_first hb" and "profile_of c = Ret profile" and "hp_include profile"
    and "list_workloads (he_manager V) w = (listed, w1)"
    and "create_hardware_mutable_information (he_hardware V) (w_ext w1) = Inr current"
    and "push_heartbeat V c (hb, co, w) = Ret (Some e, hb1, co1, w2)"
    and "heartbeat_run V (hb1, c) (hb', c')" and "retrieve_info V c' (hb', co', w') = Ret (m, hb'', co'', w'')"
    and "hm_hardware m = Some h"
  shows "hi_cpu h = None"
proof -
  from assms(7) have "\<not> hb_first hb1 \<and> hb_previous hb1 \<noteq> None"
  proof (rule push_heartbeat_Ret [OF _ assms(1)])
    fix m hb2 w3
    assume info: "retrieve_info V c (hb, co, w) = Ret (m, hb2, co1, w3)"
      and hb1: "hb1 = (if Some e = None then hb2\<lparr>hb_first := False\<rparr> else if hb_first hb2 then hb2\<lparr>hb_previous := None\<rparr> else hb2)"
    have first: "\<not> hb_first hb2" using assms(2) by (subst retrieve_info_frame(1) [OF info]) simp
    from info have "hb_previous hb2 = Some current"
    proof (cases rule: retrieve_info_Ret)
      case (1 am profile' listed' w1')
      then show ?thesis using assms(3-6)
        by (auto simp: build_hardware_info_def Let_def set_previous_hardware_info_def)
    qed
    then show ?thesis using first hb1 by simp
  qed
  then have "\<not> hb_first hb' \<and> hb_previous hb' \<noteq> None"
  proof (rule heartbeat_run_keeps [OF assms(8), where P = "\<lambda>p f r. \<not> f \<and> p \<noteq> None"])
    fix hb and c :: "'w manager" and co w r hb' co' w'
    assume "push_heartbeat V c (hb, co, w) = Ret (r, hb', co', w')" and old: "\<not> hb_first hb \<and> hb_previous hb \<noteq> None"
    then show "\<not> hb_first hb' \<and> hb_previous hb' \<noteq> None"
    proof (elim push_heartbeat_Ret [OF _ assms(1)])
      fix m hb1 w1
      assume info: "retrieve_info V c (hb, co, w) = Ret (m, hb1, co', w1)"
        and hb': "hb' = (if r = None then hb1\<lparr>hb_first := False\<rparr> else if hb_first hb1 then hb1\<lparr>hb_previous := None\<rparr> else hb1)"
      have "\<not> hb_first hb1" using old by (subst retrieve_info_frame(1) [OF info]) simp
      then show ?thesis using hb' retrieve_info_frame(2) [OF info] old by simp
    qed
  qed
  then have prev: "hb_previous hb' \<noteq> None" by simp
  from assms(9) show ?thesis
  proof (cases rule: retrieve_info_Ret)
    case (1 am profile' listed' w1')
    then have "build_hardware_info (he_hardware V) profile' (w_ext w1') hb' = (Some h, hb'')"
      using assms(10) by (cases "hp_include profile'") simp_all
    then show ?thesis using prev by (rule later_information_mutable)
  qed
qed

text \<open>A heartbeat takes the events out of the queues before it is sent, in order and each once; when it cannot
  be delivered, they are lost.\<close>

theorem undelivered_events_are_lost:
  assumes "co_ansible co = Some am" and "push_heartbeat V c (hb, co, w) = Ret (Some e, hb', co', w')"
  shows "mgr_events (co_workloads co') = [] \<and> map_option am_events (co_ansible co') = Some [] \<and>
    (\<exists>m hb1 w1. retrieve_info V c (hb, co, w) = Ret (m, hb1, co', w1) \<and>
       hm_events m = mgr_events (co_workloads co) @ am_events am)"
proof -
  obtain m hb1 co1 w1 where info: "retrieve_info V c (hb, co, w) = Ret (m, hb1, co1, w1)"
    using assms(2) by (cases "retrieve_info V c (hb, co, w)") (auto simp: push_heartbeat_def)
  have co: "co1 = co'"
  proof (cases "he_marshal V m")
    case (Inl e)
    then show ?thesis using assms(2) info by (simp add: push_heartbeat_def)
  next
    case (Inr j)
    then show ?thesis using assms(2) info
      by (cases "heartbeat_send V hb1 j w1") (auto simp: push_heartbeat_def split: option.splits)
  qed
  from info show ?thesis
  proof (cases rule: retrieve_info_Ret)
    case (1 am' profile listed w1')
    then show ?thesis using assms(1) co info by auto
  qed
qed

text \<open>An operator that answers a heartbeat with 401 stops the worker: the registration that the heartbeat then asks
  to renew the certificate is the field that its constructor has left nil.\<close>

theorem unauthorized_heartbeat_panics:
  fixes c c0 :: "'w manager"
  assumes "heartbeat_run V (new_heartbeat_service reg, c0) (hb, c)"
    and "retrieve_info V c (hb, co, w) = Ret (m, hb1, co1, w1)" and "he_marshal V m = Inr content"
    and "call_ext (he_send V ''heartbeat'' content) w1 = (Inr (Some bytes), w2)" and "bytes \<noteq> []"
    and "he_decode V bytes = Inr resp" and "yr_status_code resp = 401"
  shows "push_heartbeat V c (hb, co, w) = Panic"
proof -
  have "hb_reg hb = None"
    using assms(1)
    by (rule heartbeat_run_keeps [where P = "\<lambda>p f r. r = None"]) (simp_all add: new_heartbeat_service_def push_keeps_reg)
  then have "hb_reg hb1 = None" by (subst retrieve_info_frame(1) [OF assms(2)]) simp
  then show ?thesis using assms by (simp add: push_heartbeat_def heartbeat_send_def)
qed

text \<open>The tickers of a heartbeat: whatever updates and deregistrations there are, at most one runs.\<close>

lemma heartbeat_one_ticker: "heartbeat_run V (hb0, c0) (hb, c) \<Longrightarrow> one_ticker (hb_periodic hb0) \<Longrightarrow> one_ticker (hb_periodic hb)"
proof (induction rule: heartbeat_run_induct)
  case (push hb c co w r hb' co' w')
  obtain m hb1 co1 w1 where info: "retrieve_info V c (hb, co, w) = Ret (m, hb1, co1, w1)"
    using push.hyps(2) by (cases "retrieve_info V c (hb, co, w)") (auto simp: push_heartbeat_def)
  then have same: "hb_periodic hb1 = hb_periodic hb" by (subst retrieve_info_frame(1) [OF info]) simp
  have "hb_periodic hb' = hb_periodic hb"
  proof (cases "he_marshal V m")
    case (Inl e)
    then show ?thesis using push.hyps(2) info same by (simp add: push_heartbeat_def)
  next
    case (Inr j)
    then show ?thesis using push.hyps(2) info same
      by (cases "heartbeat_send V hb1 j w1")
        (auto simp: push_heartbeat_def set_previous_hardware_info_def split: option.splits if_splits)
  qed
  then show ?case using push by simp
next
  case (launch hb c hb')
  then obtain d where "start_periodic (heartbeat_interval d) (hb_periodic hb) = Ret (hb_periodic hb')"
    by (auto simp: heartbeat_start_def go_bind_Ret_iff)
  then show ?case using launch.hyps(2) start_one_ticker get_interval_positive by (metis heartbeat_interval_def)
next
  case (update hb c m hb')
  then obtain d where "update_periodic (heartbeat_interval d) (hb_periodic hb) = Ret (hb_periodic hb')"
    by (auto simp: heartbeat_update_def go_bind_Ret_iff)
  then show ?case using update update_one_ticker get_interval_positive by (metis heartbeat_interval_def)
qed (simp_all add: heartbeat_deregister_def one_ticker_stop)

subsection \<open>Examples\<close>

definition example_heartbeat_config :: "string \<Rightarrow> nat manager" where
  "example_heartbeat_config scope = \<lparr>device_configuration = message_with (empty_device_configuration\<lparr>cfg_heartbeat :=
       Some \<lparr>hc_hardware_profile = Some \<lparr>hp_include = True, hp_scope = scope\<rparr>, hc_period_seconds = 5\<rparr>\<rparr>),
     observers = [], device_config_file = [], initial_config = False\<rparr>"

text \<open>A device with one workload and a dispatcher that answers with the given response.\<close>

definition example_heartbeat_env :: "gerror + string option \<Rightarrow> (string \<times> mount) list heartbeat_env" where
  "example_heartbeat_env response =
     \<lparr>he_manager = \<lparr>en_runtime = \<lparr>rt_init = ok, rt_list = \<lambda>w. (Inr [\<lparr>wi_id = ''1'', wi_name = ''w'', wi_status = ''Running''\<rparr>], w),
         rt_remove = \<lambda>_. ok, rt_stop = \<lambda>_. ok, rt_run = \<lambda>_ _ _ _ w. Ret (None, w), rt_remove_table = ok,
         rt_remove_mapping_file = ok, rt_remove_services_file = ok, rt_list_secrets = \<lambda>w. (Inr [], w),
         rt_remove_secret = \<lambda>_. ok, rt_create_secret = \<lambda>_ _. ok, rt_update_secret = \<lambda>_ _. ok, rt_logs = \<lambda>p w. (Inl (Err p), w)\<rparr>,
       en_parse_spec = \<lambda>_. Inl (Err []), en_pod_yaml = \<lambda>_. Inr [], en_mounted = \<lambda>_ _. True\<rparr>,
      he_hardware = Some example_hardware,
      he_os = \<lparr>oc_status = \<lambda>x. (Inl (Err []), x), oc_preview = \<lambda>x. (Inl (Err []), x), oc_upgrade = ok, oc_reboot = ok,
         oc_decode_status = \<lambda>_. Inr [], oc_show_time = \<lambda>_. [], oc_graceful_reboot = \<lambda>x. x, oc_health_script = [],
         oc_fail_script = []\<rparr>,
      he_send = \<lambda>d j x. (response, x), he_marshal = \<lambda>m. Inr (hm_version m),
      he_decode = \<lambda>b. Inr \<lparr>yr_metadata = Map.empty, yr_body = [], yr_status_code = (if b = ''expired'' then 401 else 200)\<rparr>\<rparr>"

definition example_event :: event_info where
  "example_event = \<lparr>ev_message = ''m'', ev_reason = ''Failed'', ev_type = ''warn''\<rparr>"

definition example_components :: components where
  "example_components = \<lparr>co_workloads = \<lparr>mgr_workloads_dir = [], mgr_volumes_dir = [], mgr_deregistered = False,
       mgr_events = [example_event], mgr_device_id = ''dev''\<rparr>,
     co_ansible = Some example_ansible_manager, co_monitor = new_monitor,
     co_os = \<lparr>os_automatically_upgrade = True, os_commit = [], os_requested_commit = [], os_hosted_objects_url = [],
        os_last_upgrade_status = [], os_last_upgrade_time = [], os_enabled = False\<rparr>\<rparr>"

definition example_device :: "(string \<times> mount) list world" where
  "example_device = \<lparr>w_fs = fs_with_dirs {}, w_ext = []\<rparr>"

abbreviation example_heartbeat :: "(string \<times> mount) list heartbeat" where
  "example_heartbeat \<equiv> new_heartbeat_service (\<lambda>w. Ret w)"

lemma example_listed:
  "list_workloads (he_manager (example_heartbeat_env r)) w = (Inr [\<lparr>wi_id = ''1'', wi_name = ''w'', wi_status = ''Running''\<rparr>], w)"
  by (simp add: list_workloads_def example_heartbeat_env_def)

lemma example_profile: "profile_of (example_heartbeat_config s) = Ret \<lparr>hp_include = True, hp_scope = s\<rparr>"
  by (simp add: profile_of_def example_heartbeat_config_def get_device_configuration_def message_with_def)

lemma example_env_simps:
  "he_hardware (example_heartbeat_env r) = Some example_hardware" "\<exists>j. he_marshal (example_heartbeat_env r) m = Inr j"
  by (simp_all add: example_heartbeat_env_def)

lemma example_retrieved:
  "\<exists>m hb' co'. retrieve_info (example_heartbeat_env r) (example_heartbeat_config s) (hb, example_components, example_device) =
     Ret (m, hb', co', example_device) \<and> hb_first hb' = hb_first hb \<and>
     build_hardware_info (Some example_hardware) \<lparr>hp_include = True, hp_scope = s\<rparr> [] hb = (hm_hardware m, hb')"
proof -
  obtain hw hb1 where hw: "build_hardware_info (Some example_hardware) \<lparr>hp_include = True, hp_scope = s\<rparr> [] hb = (hw, hb1)"
    by (meson surj_pair)
  then have "hb_first hb1 = hb_first hb" using build_hardware_info_frame(1) [OF hw] by (metis heartbeat.select_convs(3) heartbeat.surjective heartbeat.update_convs(2))
  then show ?thesis
    by (simp add: retrieve_info_def example_listed example_profile example_env_simps hw example_components_def example_device_def
        pop_ansible_events_def pop_events_def get_upgrade_status_def)
qed

lemma example_push_fails:
  "\<exists>hb' co' w'. push_heartbeat (example_heartbeat_env (Inl (Err ''down''))) (example_heartbeat_config s)
     (hb, example_components, example_device) = Ret (Some (Err ''down''), hb', co', w')"
proof -
  let ?V = "example_heartbeat_env (Inl (Err ''down''))"
  obtain m hb' co' where info: "retrieve_info ?V (example_heartbeat_config s) (hb, example_components, example_device) =
      Ret (m, hb', co', example_device)" using example_retrieved by blast
  moreover obtain j where "he_marshal ?V m = Inr j" using example_env_simps(2) by blast
  ultimately show ?thesis
    by (simp add: push_heartbeat_def heartbeat_send_def call_ext_def example_device_def) (simp add: example_heartbeat_env_def)
qed

theorem full_information_until_delivered_witness:
  "\<exists>m hb' co' w' h. retrieve_info (example_heartbeat_env (Inr None)) (example_heartbeat_config scope_delta)
      (example_heartbeat, example_components, example_device) = Ret (m, hb', co', w') \<and>
    hm_hardware m = Some h \<and> hi_cpu h \<noteq> None"
proof -
  let ?V = "example_heartbeat_env (Inr None)" and ?c = "example_heartbeat_config scope_delta"
  obtain m hb' co' where info: "retrieve_info ?V ?c (example_heartbeat, example_components, example_device) =
      Ret (m, hb', co', example_device)" using example_retrieved by blast
  obtain current where current: "create_hardware_mutable_information (he_hardware ?V) (w_ext example_device) = Inr current"
    using example_hardware_information(2) by (auto simp: example_env_simps example_device_def)
  have "hb_first example_heartbeat" by (simp add: new_heartbeat_service_def)
  then obtain h where "hm_hardware m = Some h" "hi_cpu h \<noteq> None"
    using full_information_until_delivered [OF example_env_simps(2) heartbeat_run.start _ example_profile _ example_listed current info]
    by auto
  then show ?thesis using info by blast
qed

theorem full_information_lost_witness:
  "\<exists>e hb1 co1 w1 m hb2 co2 w2 h.
     push_heartbeat (example_heartbeat_env (Inl (Err ''down''))) (example_heartbeat_config [])
       (example_heartbeat\<lparr>hb_first := False\<rparr>, example_components, example_device) = Ret (Some e, hb1, co1, w1) \<and>
     retrieve_info (example_heartbeat_env (Inl (Err ''down''))) (example_heartbeat_config [])
       (hb1, example_components, example_device) = Ret (m, hb2, co2, w2) \<and>
     hm_hardware m = Some h \<and> hi_cpu h = None"
proof -
  let ?V = "example_heartbeat_env (Inl (Err ''down''))" and ?c = "example_heartbeat_config []"
  obtain hb1 co1 w1 where push: "push_heartbeat ?V ?c (example_heartbeat\<lparr>hb_first := False\<rparr>, example_components, example_device) =
      Ret (Some (Err ''down''), hb1, co1, w1)" using example_push_fails by blast
  obtain current where current: "create_hardware_mutable_information (he_hardware ?V) (w_ext example_device) = Inr current"
    using example_hardware_information(2) by (auto simp: example_env_simps example_device_def)
  obtain m hb2 co2 where info: "retrieve_info ?V ?c (hb1, example_components, example_device) = Ret (m, hb2, co2, example_device)"
      and hw: "build_hardware_info (Some example_hardware) \<lparr>hp_include = True, hp_scope = []\<rparr> [] hb1 = (hm_hardware m, hb2)"
    using example_retrieved by blast
  moreover obtain full where "get_hardware_information (Some example_hardware) [] = (Some full, None)"
    using example_hardware_information(1) by blast
  ultimately have "hm_hardware m \<noteq> None"
    using current by (auto simp: build_hardware_info_def Let_def example_env_simps example_device_def dest: sym split: if_splits)
  then obtain h where h: "hm_hardware m = Some h" by blast
  have "hi_cpu h = None"
    by (rule full_information_lost [OF example_env_simps(2) _ example_profile _ example_listed current push heartbeat_run.start info h])
      simp_all
  then show ?thesis using push info h by blast
qed

theorem undelivered_events_are_lost_witness:
  "\<exists>e hb' co' w'. push_heartbeat (example_heartbeat_env (Inl (Err ''down''))) (example_heartbeat_config [])
     (example_heartbeat, example_components, example_device) = Ret (Some e, hb', co', w') \<and>
   mgr_events (co_workloads example_components) = [example_event] \<and> mgr_events (co_workloads co') = []"
proof -
  obtain hb1 co1 w1 where push: "push_heartbeat (example_heartbeat_env (Inl (Err ''down''))) (example_heartbeat_config [])
      (example_heartbeat, example_components, example_device) = Ret (Some (Err ''down''), hb1, co1, w1)"
    using example_push_fails by blast
  have "co_ansible example_components = Some example_ansible_manager" by (simp add: example_components_def)
  from undelivered_events_are_lost [OF this push] push show ?thesis by (auto simp: example_components_def)
qed

theorem unauthorized_heartbeat_panics_witness:
  "push_heartbeat (example_heartbeat_env (Inr (Some ''expired''))) (example_heartbeat_config [])
     (example_heartbeat, example_components, example_device) = Panic"
proof -
  let ?V = "example_heartbeat_env (Inr (Some ''expired''))" and ?c = "example_heartbeat_config []"
  obtain m hb1 co1 where info: "retrieve_info ?V ?c (example_heartbeat, example_components, example_device) =
      Ret (m, hb1, co1, example_device)" using example_retrieved by blast
  obtain j where j: "he_marshal ?V m = Inr j" using example_env_simps(2) by blast
  show ?thesis
    by (rule unauthorized_heartbeat_panics [OF heartbeat_run.start info j, where bytes = "''expired''" and ?w2.0 = example_device
          and resp = "\<lparr>yr_metadata = Map.empty, yr_body = [], yr_status_code = 401\<rparr>"])
      (simp_all add: example_heartbeat_env_def call_ext_def)
qed

end
