(* ===== verification/Device_Life.thy ===== *)
theory Device_Life
  imports Heartbeat Metrics_Targets Registration
begin

text \<open>
  \<open>cmd/device-worker/main.go\<close>: how the components are put together, the deregistration of the device and
  the graceful reboot. The components that these act on are the record \<open>device\<close>, over the world of
  the workload manager.
\<close>

subsection \<open>Starting\<close>

datatype component =
    MetricsStore | WorkloadMetrics | SystemMetrics | DataTransferMetrics | LogsTarget | WorkloadManager
  | RemoteWrite | OperatingSystem | MountManager | DataMonitor | AnsibleManager | Heartbeat | ConfigManager

text \<open>What the environment and the calls of \<open>main\<close> answer, in the order in which it asks.\<close>

record startup =
  su_socket :: "string option"
  su_config_dir :: "string option"
  su_dial :: "gerror option"
  su_register :: "gerror + bool"
  su_listen :: "gerror option"
  su_make_data_dir :: "gerror option"
  su_client_id :: "string option"
  su_initial_config :: bool
  su_tsdb :: "gerror option"
  su_system_metrics :: "gerror option"
  su_workload_manager :: "gerror option"
  su_mount_manager :: "gerror option"
  su_registration :: "gerror option"
  su_make_playbook_dir :: "gerror option"
  su_ansible :: "gerror option"

text \<open>
  The directory of the user's units is made and given to the user: \<open>user\<close> is \<open>user.Lookup\<close> with the texts of
  the two ids, \<open>walked\<close> what \<open>filepath.Walk\<close> visits with the errors it meets, \<open>chown\<close> the system call. The
  errors of \<open>strconv.Atoi\<close> are dropped, so that an id that is no number counts as 0 (ids are 32-bit numbers and
  never out of its range). \<open>main\<close> only logs the result.
\<close>

definition id_number :: "string \<Rightarrow> int" where
  "id_number s = (case parse_int64 s of Inl e \<Rightarrow> 0 | Inr n \<Rightarrow> n)"

fun chown_each :: "(string \<Rightarrow> int \<Rightarrow> int \<Rightarrow> gerror option) \<Rightarrow> int \<Rightarrow> int \<Rightarrow> (string \<times> gerror option) list \<Rightarrow> gerror option" where
  "chown_each chown uid gid [] = None"
| "chown_each chown uid gid ((name, err) # ns) =
     (case (case err of Some e \<Rightarrow> Some e | None \<Rightarrow> chown name uid gid) of
        Some e \<Rightarrow> Some e
      | None \<Rightarrow> chown_each chown uid gid ns)"

definition init_systemd_directory ::
  "string \<Rightarrow> gerror + string \<times> string \<Rightarrow> (string \<times> gerror option) list \<Rightarrow> (string \<Rightarrow> int \<Rightarrow> int \<Rightarrow> gerror option) \<Rightarrow> fs proc" where
  "init_systemd_directory home user walked chown =
     then_ok (mkdir_all (path_join [home, ''.config/systemd/user/'']))
       (\<lambda>f. case user of
          Inl e \<Rightarrow> (Some e, f)
        | Inr (uid, gid) \<Rightarrow> (chown_each chown (id_number uid) (id_number gid) walked, f))"

text \<open>The runtime directory: set for the user \<open>flotta\<close>, when there is one, unless it is set already.\<close>

definition runtime_dir :: "string option \<Rightarrow> string \<Rightarrow> string" where
  "runtime_dir flottaUid env =
     (case flottaUid of Some uid \<Rightarrow> if env = [] then ''/run/user/'' @ uid else env | None \<Rightarrow> env)"

text \<open>
  The worker that serves: the observers of the configuration manager and of the workload manager in the
  order of their registration, what a deregistration calls, and which tasks have been started.
\<close>

record worker =
  wk_data_dir :: string
  wk_device_id :: string
  wk_config_observers :: "component list"
  wk_workload_observers :: "component list"
  wk_deregistrables :: "component list"
  wk_started :: "component list"
  wk_registering :: bool

definition default_data_dir :: string where
  "default_data_dir = ''/var/local/yggdrasil''"

text \<open>\<open>log.Fatal\<close> ends the process with a message.\<close>

type_synonym 'a boot = "gerror + 'a go"

definition or_fatal :: "gerror option \<Rightarrow> 'a boot \<Rightarrow> 'a boot" where
  "or_fatal r k = (case r of Some e \<Rightarrow> Inl e | None \<Rightarrow> k)"

text \<open>
  The end of \<open>main\<close>: with a stored configuration the tasks start, without one the device registers. A nil
  Ansible manager cannot be started.
\<close>

definition assembled :: "startup \<Rightarrow> worker go" where
  "assembled S =
     (let baseDataDir = (case su_config_dir S of None \<Rightarrow> default_data_dir | Some d \<Rightarrow> d);
          deviceId = (case su_client_id S of None \<Rightarrow> ''unknown'' | Some i \<Rightarrow> i);
          ansible = (su_ansible S = None);
          observers = [MetricsStore, WorkloadMetrics, SystemMetrics, DataTransferMetrics, LogsTarget, WorkloadManager,
              RemoteWrite, OperatingSystem, MountManager, DataMonitor] @ (if ansible then [AnsibleManager] else []) @ [Heartbeat]
      in if \<not> su_initial_config S \<and> \<not> ansible then Panic
         else Ret \<lparr>wk_data_dir = path_join [baseDataDir, ''device''], wk_device_id = deviceId, wk_config_observers = observers,
           wk_workload_observers = [LogsTarget, WorkloadMetrics, DataMonitor],
           wk_deregistrables = [WorkloadManager, ConfigManager, Heartbeat, AnsibleManager, DataMonitor, SystemMetrics, MetricsStore],
           wk_started = (if su_initial_config S then [DataMonitor] else [DataMonitor, Heartbeat, AnsibleManager]),
           wk_registering = su_initial_config S\<rparr>)"

text \<open>The calls whose failure ends the process, in their order.\<close>

definition fatal_calls :: "startup \<Rightarrow> gerror option list" where
  "fatal_calls S =
     [case su_socket S of None \<Rightarrow> Some (Err ''missing YGG_SOCKET_ADDR environment variable'') | Some _ \<Rightarrow> None,
      su_dial S,
      case su_register S of
        Inl e \<Rightarrow> Some e
      | Inr registered \<Rightarrow> if registered then None else Some (Err ''yggdrasil registration failed''),
      su_listen S, su_make_data_dir S, su_tsdb S, su_system_metrics S, su_workload_manager S, su_mount_manager S,
      su_registration S, su_make_playbook_dir S]"

definition main_boot :: "startup \<Rightarrow> worker boot" where
  "main_boot S = foldr or_fatal (fatal_calls S) (Inr (assembled S))"

subsection \<open>The device\<close>

text \<open>\<open>dv_monitoring\<close>: the ticker of the data monitor runs.\<close>

record 'e device =
  dv_world :: "'e world"
  dv_workloads :: workload_manager
  dv_daemon :: metrics_daemon
  dv_tsdb :: tsdb
  dv_heartbeat :: "'e heartbeat"
  dv_ansible :: "ansible_manager option"
  dv_monitoring :: bool

definition at_device_world :: "'e world proc \<Rightarrow> 'e device proc" where
  "at_device_world p d = (case p (dv_world d) of (r, w) \<Rightarrow> (r, d\<lparr>dv_world := w\<rparr>))"

definition monitor_deregister :: "'e device proc" where
  "monitor_deregister d = (None, d\<lparr>dv_monitoring := False\<rparr>)"

definition system_metrics_deregister :: "'e device proc" where
  "system_metrics_deregister d = (None, d\<lparr>dv_daemon := system_deregister (dv_daemon d)\<rparr>)"

definition heartbeat_service_deregister :: "'e device proc" where
  "heartbeat_service_deregister d = (None, d\<lparr>dv_heartbeat := heartbeat_deregister (dv_heartbeat d)\<rparr>)"

text \<open>
  On a signal the store is closed, whose error is only logged, and the playbooks still \<open>running\<close> are awaited:
  the second component tells whether the process may exit.
\<close>

definition close_components :: "'e tsdb_lib \<Rightarrow> nat \<Rightarrow> 'e device \<Rightarrow> bool \<times> 'e device" where
  "close_components L running d =
     (case at_device_world (tsdb_close L) d of
        (_, d') \<Rightarrow> (dv_ansible d' \<noteq> None \<longrightarrow> running = 0, d'))"

text \<open>
  \<open>Deregister\<close> of each component that has it; the configuration manager only stores its own file. The
  Ansible manager is called also when it is nil.
\<close>

fun component_deregister ::
  "'e manager_env \<Rightarrow> 'e tsdb_lib \<Rightarrow> unit manager \<Rightarrow> component \<Rightarrow> 'e device \<Rightarrow> (gerror option \<times> 'e device) go" where
  "component_deregister E L c WorkloadManager d =
     (case manager_deregister E (dv_workloads d, dv_world d) of
        (r, g, w) \<Rightarrow> Ret (r, d\<lparr>dv_workloads := g, dv_world := w\<rparr>))"
| "component_deregister E L c ConfigManager d =
     (case deregister_config c (w_fs (dv_world d), ()) of
        (r, f, u) \<Rightarrow> Ret (r, d\<lparr>dv_world := (dv_world d)\<lparr>w_fs := f\<rparr>\<rparr>))"
| "component_deregister E L c Heartbeat d = Ret (heartbeat_service_deregister d)"
| "component_deregister E L c AnsibleManager d =
     go_bind (deref (dv_ansible d)) (\<lambda>am. Ret (None, d\<lparr>dv_ansible := Some (ansible_deregister am)\<rparr>))"
| "component_deregister E L c DataMonitor d = Ret (monitor_deregister d)"
| "component_deregister E L c SystemMetrics d = Ret (system_metrics_deregister d)"
| "component_deregister E L c MetricsStore d = Ret (at_device_world (tsdb_deregister L (dv_tsdb d)) d)"
| "component_deregister E L c k d = Ret (None, d)"

definition component_name :: "component \<Rightarrow> string" where
  "component_name k =
     (case k of WorkloadManager \<Rightarrow> ''workload manager'' | ConfigManager \<Rightarrow> ''configuration manager''
      | Heartbeat \<Rightarrow> ''heartbeat'' | AnsibleManager \<Rightarrow> ''ansible-manager'' | DataMonitor \<Rightarrow> ''data transfer''
      | SystemMetrics \<Rightarrow> ''system metrics'' | MetricsStore \<Rightarrow> ''metrics storage'' | _ \<Rightarrow> [])"

definition deregistrables_of ::
  "'e manager_env \<Rightarrow> 'e tsdb_lib \<Rightarrow> unit manager \<Rightarrow> worker \<Rightarrow> 'e device deregistrable list" where
  "deregistrables_of E L c wk = map (\<lambda>k. (component_name k, component_deregister E L c k)) (wk_deregistrables wk)"

lemma or_fatal_Inr: "or_fatal r k = Inr x \<longleftrightarrow> r = None \<and> k = Inr x"
  by (cases r) (simp_all add: or_fatal_def)

lemma foldr_or_fatal: "foldr or_fatal rs k = Inr x \<longleftrightarrow> (\<forall>r \<in> set rs. r = None) \<and> k = Inr x"
  by (induction rs) (auto simp: or_fatal_Inr)

lemma boot_assembled: "main_boot S = Inr r \<longleftrightarrow> (\<forall>x \<in> set (fatal_calls S). x = None) \<and> r = assembled S"
  by (auto simp: main_boot_def foldr_or_fatal)

lemma deregister_all_returns:
  assumes "dv_ansible d = Some am"
  obtains r g w r2 f r3 w2 where
    "manager_deregister E (dv_workloads d, dv_world d) = (r, g, w)"
    "remove_file (device_config_file c) (w_fs w) = (r2, f)"
    "tsdb_deregister L (dv_tsdb d) (w\<lparr>w_fs := f\<rparr>) = (r3, w2)"
    "deregister_each (map (\<lambda>k. (component_name k, component_deregister E L c k))
        [WorkloadManager, ConfigManager, Heartbeat, AnsibleManager, DataMonitor, SystemMetrics, MetricsStore]) ([], d) =
      Ret (append_err (append_err (append_err [] (Wrap (''failed to deregister '' @ component_name WorkloadManager)) r)
               (Wrap (''failed to deregister '' @ component_name ConfigManager)) r2)
               (Wrap (''failed to deregister '' @ component_name MetricsStore)) r3,
        d\<lparr>dv_workloads := g, dv_world := w2, dv_heartbeat := heartbeat_deregister (dv_heartbeat d),
          dv_ansible := Some (ansible_deregister am), dv_monitoring := False, dv_daemon := system_deregister (dv_daemon d)\<rparr>)"
proof -
  obtain r g w where wl: "manager_deregister E (dv_workloads d, dv_world d) = (r, g, w)" by (meson prod_cases3)
  obtain r2 f where cf: "remove_file (device_config_file c) (w_fs w) = (r2, f)" by (meson surj_pair)
  obtain r3 w2 where ts: "tsdb_deregister L (dv_tsdb d) (w\<lparr>w_fs := f\<rparr>) = (r3, w2)" by (meson surj_pair)
  show thesis
    by (rule that [OF wl cf ts])
      (simp add: wl cf ts assms deregister_config_def heartbeat_service_deregister_def monitor_deregister_def
        system_metrics_deregister_def at_device_world_def)
qed

lemma tsdb_deregister_removes:
  assumes "tsdb_deregister L t w = (None, w')" and "below (td_dir t) p"
  shows "read_file p (w_fs w') = Inl err_not_exist"
  using assms read_remove_all [of "td_dir t" _ _ p]
  by (auto simp: tsdb_deregister_def then_ok_def on_fs_def split: prod.splits option.splits)

lemma tsdb_deregister_keeps_absent:
  assumes "tsdb_deregister L t w = (r, w')" and "read_file p (w_fs w) = Inl err_not_exist"
  shows "read_file p (w_fs w') = Inl err_not_exist"
proof -
  obtain r1 w1 where close: "tsdb_close L w = (r1, w1)" by (meson surj_pair)
  then have fs1: "w_fs w1 = w_fs w" unfolding tsdb_close_def by (rule on_ext_fsD)
  obtain r2 f where rm: "remove_all (td_dir t) (w_fs w1) = (r2, f)" by (meson surj_pair)
  then have "read_file p f = Inl err_not_exist"
    using assms(2) fs1 read_remove_all [of "td_dir t" "w_fs w1" f p] remove_all_error_unchanged [of "td_dir t" "w_fs w1"]
    by (cases r2) auto
  then show ?thesis using assms close rm fs1
    by (cases r1) (auto simp: tsdb_deregister_def then_ok_def on_fs_def)
qed

subsection \<open>Properties of starting and deregistering\<close>



text \<open>A start in which everything works, except perhaps ansible.\<close>

definition example_startup :: "bool \<Rightarrow> gerror option \<Rightarrow> startup" where
  "example_startup initial ansible = \<lparr>su_socket = Some ''sock'', su_config_dir = None, su_dial = None, su_register = Inr True,
     su_listen = None, su_make_data_dir = None, su_client_id = Some ''dev'', su_initial_config = initial, su_tsdb = None,
     su_system_metrics = None, su_workload_manager = None, su_mount_manager = None, su_registration = None,
     su_make_playbook_dir = None, su_ansible = ansible\<rparr>"

definition example_tsdb_lib :: "'x tsdb_lib" where
  "example_tsdb_lib = \<lparr>tl_open = (\<lambda>d r m. ok), tl_close = ok, tl_append = (\<lambda>l t v. ok), tl_rollback = ok, tl_commit = ok,
     tl_querier = (\<lambda>a b. ok), tl_close_querier = (\<lambda>x. x), tl_label_names = (\<lambda>x. (Inr [], x)), tl_select = (\<lambda>s ns x. (Inr [], x)),
     tl_start_time = (\<lambda>x. (Inr 0, x)), tl_head_min = (\<lambda>x. 0), tl_head_max = (\<lambda>x. 0), tl_blocks = (\<lambda>x. []), tl_now = (\<lambda>x. 0)\<rparr>"

definition example_running_device :: "ansible_manager option \<Rightarrow> (string \<times> mount) list device" where
  "example_running_device am = \<lparr>dv_world = example_device, dv_workloads = co_workloads example_components,
     dv_daemon = new_metrics_daemon, dv_tsdb = example_tsdb, dv_heartbeat = example_heartbeat, dv_ansible = am, dv_monitoring = True\<rparr>"

definition example_worker :: worker where
  "example_worker = (case assembled (example_startup True None) of Ret wk \<Rightarrow> wk)"

abbreviation example_disconnected :: "(string \<times> mount) list device registration" where
  "example_disconnected \<equiv> \<lparr>rg_cert = \<lparr>cc_key_path = [], cc_cert_path = [], cc_group = None\<rparr>, rg_target_namespace = [],
     rg_device_id = ''dev'', rg_deregistrables = deregistrables_of (he_manager (example_heartbeat_env (Inr None))) example_tsdb_lib
       (new_configuration_manager (example_codec example_message) ''/d'' (fs_with_dirs {})) example_worker,
     rg_retry_after = 10, rg_registered = True, rg_retries = []\<rparr>"

lemma example_boot: "main_boot (example_startup True None) = Inr (Ret example_worker)"
  by (simp add: main_boot_def fatal_calls_def example_startup_def or_fatal_def example_worker_def assembled_def Let_def)



end
