(* ===== verification/Device_Observers.thy ===== *)
theory Device_Observers
  imports Device_Server Device_Life Logs Remote_Config
begin

text \<open>
  The observers that \<open>main\<close> registers at the configuration manager, as calls on one state: the files, which all of
  them share, and the record \<open>observed\<close> of the components with the external state of the device. The workload manager
  calls the wrapper of \<open>Workload_Wrapper\<close>, whose part of the state is \<open>ov_ext\<close>; the others act on the external state
  inside of it.
\<close>

subsection \<open>State\<close>

record ('x, 'c) observed =
  ov_store :: tsdb
  ov_daemon :: metrics_daemon
  ov_workload_metrics :: workload_metrics_state
  ov_system :: system_metrics
  ov_data_transfer :: "component_metrics option"
  ov_logs :: "'c logs_target"
  ov_workloads :: workload_manager
  ov_remote :: remote_write
  ov_writers :: nat                     \<comment> \<open>the writing goroutines that have been started\<close>
  ov_os :: device_os
  ov_mounts :: mount_manager
  ov_monitor :: monitor
  ov_ansible :: "ansible_manager option"
  ov_heartbeat :: "'x wstate heartbeat"
  ov_ext :: "'x wstate"

text \<open>
  The libraries, \<open>net.Dial\<close>, the order in which a range over the log collections visits its keys, and whether
  \<open>WorkloadManager.Logs\<close> succeeds.
\<close>

record ('x, 'c) device_env =
  de_store :: "'x tsdb_lib"
  de_scrape :: "'x scrape_lib"
  de_dial :: "string \<Rightarrow> string \<Rightarrow> gerror + 'c"
  de_log_keys :: "config_message \<Rightarrow> string list"
  de_start_logs :: "string \<Rightarrow> bool"
  de_backends :: "'x backends"
  de_parse_spec :: "string \<Rightarrow> gerror + pod_spec"
  de_pod_yaml :: "pod \<Rightarrow> gerror + string"
  de_client :: client_lib
  de_os :: "'x os_commands"
  de_mount :: "'x mount_env"
  de_s3 :: "'x s3_lib"

type_synonym ('x, 'c) device_call = "('x, 'c) observed config_call"

text \<open>The workload manager works with the wrapper, and looks paths up where the mounts are.\<close>

definition device_manager_env :: "('x, 'c) device_env \<Rightarrow> 'x wstate manager_env" where
  "device_manager_env V =
     \<lparr>en_runtime = wrapper_runtime (de_backends V), en_parse_spec = de_parse_spec V, en_pod_yaml = de_pod_yaml V,
      en_mounted = (\<lambda>d w. is_path_mounted (de_mount V) d (ws_ext (w_ext w)))\<rparr>"

definition outside :: "('x, 'c) observed \<Rightarrow> 'x" where
  "outside s = ws_ext (ov_ext s)"

definition set_outside :: "'x \<Rightarrow> ('x, 'c) observed \<Rightarrow> ('x, 'c) observed" where
  "set_outside x s = s\<lparr>ov_ext := (ov_ext s)\<lparr>ws_ext := x\<rparr>\<rparr>"

subsection \<open>Calls that do nothing but update\<close>

definition no_call :: "('x, 'c) device_call" where
  "no_call msg w = Ret (None, msg, w)"

definition store_call :: "('x, 'c) device_env \<Rightarrow> ('x, 'c) device_call" where
  "store_call V msg = (\<lambda>(f, s).
     go_bind (tsdb_update (de_store V) msg (ov_store s, outside s)) (\<lambda>(r, t, x).
       Ret (r, msg, f, set_outside x (s\<lparr>ov_store := t\<rparr>))))"

definition workload_metrics_call :: "('x, 'c) device_call" where
  "workload_metrics_call msg = (\<lambda>(f, s). Ret (None, msg, f, s\<lparr>ov_workload_metrics := workload_metrics_update msg\<rparr>))"

definition system_call :: "('x, 'c) device_env \<Rightarrow> ('x, 'c) device_call" where
  "system_call V msg = (\<lambda>(f, s).
     go_bind (system_update (be_bus (de_backends V)) (de_scrape V) msg (ov_system s, ov_daemon s, \<lparr>w_fs = f, w_ext = outside s\<rparr>))
       (\<lambda>(r, sm, d, w). Ret (r, msg, w_fs w, set_outside (w_ext w) (s\<lparr>ov_system := sm, ov_daemon := d\<rparr>))))"

definition data_transfer_call :: "('x, 'c) device_call" where
  "data_transfer_call msg = (\<lambda>(f, s).
     go_bind (data_transfer_update msg (ov_data_transfer s, ov_daemon s)) (\<lambda>(latest, d).
       Ret (None, msg, f, s\<lparr>ov_data_transfer := latest, ov_daemon := d\<rparr>)))"

definition logs_call :: "('x, 'c) device_env \<Rightarrow> ('x, 'c) device_call" where
  "logs_call V msg = (\<lambda>(f, s).
     go_bind (logs_update (de_dial V) (de_log_keys V msg) msg (ov_logs s)) (\<lambda>t. Ret (None, msg, f, s\<lparr>ov_logs := t\<rparr>)))"

definition logs_init_call :: "('x, 'c) device_env \<Rightarrow> ('x, 'c) device_call" where
  "logs_init_call V msg = (\<lambda>(f, s).
     case list_workloads (device_manager_env V) \<lparr>w_fs = f, w_ext = ov_ext s\<rparr> of (listed, w) \<Rightarrow>
       go_bind (logs_init (de_dial V) (de_start_logs V) listed (de_log_keys V msg) msg (ov_logs s)) (\<lambda>(r, t).
         Ret (r, msg, w_fs w, s\<lparr>ov_logs := t, ov_ext := w_ext w\<rparr>)))"

definition workloads_call :: "('x, 'c) device_env \<Rightarrow> ('x, 'c) device_call" where
  "workloads_call V msg = (\<lambda>(f, s).
     go_bind (manager_update (device_manager_env V) msg (ov_workloads s, \<lparr>w_fs = f, w_ext = ov_ext s\<rparr>)) (\<lambda>(r, msg', g, w).
       Ret (r, msg', w_fs w, s\<lparr>ov_workloads := g, ov_ext := w_ext w\<rparr>)))"

definition remote_call ::
  "(client_lib \<Rightarrow> config_message \<Rightarrow> remote_write \<times> fs \<Rightarrow> (gerror option \<times> bool) \<times> remote_write \<times> fs) \<Rightarrow>
   ('x, 'c) device_env \<Rightarrow> ('x, 'c) device_call" where
  "remote_call call V msg = (\<lambda>(f, s).
     case call (de_client V) msg (ov_remote s, f) of ((r, started), rw, f1) \<Rightarrow>
       Ret (r, msg, f1, s\<lparr>ov_remote := rw, ov_writers := (if started then Suc (ov_writers s) else ov_writers s)\<rparr>))"

definition os_call :: "('x, 'c) device_env \<Rightarrow> ('x, 'c) device_call" where
  "os_call V msg = (\<lambda>(f, s).
     go_bind (os_update (de_os V) msg (ov_os s, \<lparr>w_fs = f, w_ext = outside s\<rparr>)) (\<lambda>(r, os, w).
       Ret (r, msg, w_fs w, set_outside (w_ext w) (s\<lparr>ov_os := os\<rparr>))))"

definition mounts_call :: "('x, 'c) device_env \<Rightarrow> ('x, 'c) device_call" where
  "mounts_call V msg = (\<lambda>(f, s).
     go_bind (mount_update (de_mount V) (ov_mounts s) msg (outside s)) (\<lambda>(r, x). Ret (r, msg, f, set_outside x s)))"

definition monitor_call :: "('x, 'c) device_env \<Rightarrow> ('x, 'c) device_call" where
  "monitor_call V msg = (\<lambda>(f, s).
     case monitor_update (de_s3 V) msg (ov_monitor s) of (r, mo) \<Rightarrow> Ret (r, msg, f, s\<lparr>ov_monitor := mo\<rparr>))"

definition ansible_call :: "('x, 'c) device_call" where
  "ansible_call msg = (\<lambda>(f, s).
     go_bind (deref (ov_ansible s)) (\<lambda>am. go_bind (ansible_update msg am) (\<lambda>am'.
       Ret (None, msg, f, s\<lparr>ov_ansible := Some am'\<rparr>))))"

definition heartbeat_call :: "('x, 'c) device_call" where
  "heartbeat_call msg = (\<lambda>(f, s).
     go_bind (heartbeat_update msg (ov_heartbeat s)) (\<lambda>hb. Ret (None, msg, f, s\<lparr>ov_heartbeat := hb\<rparr>)))"

subsection \<open>The observers\<close>

type_synonym ('x, 'c) device_observer = "('x, 'c) observed observer"

definition observe_store :: "('x, 'c) device_env \<Rightarrow> ('x, 'c) device_observer" where
  "observe_store V = \<lparr>ob_type = ''*metrics.TSDB'', ob_init = store_call V, ob_update = store_call V\<rparr>"

definition observe_workload_metrics :: "('x, 'c) device_observer" where
  "observe_workload_metrics =
     \<lparr>ob_type = ''*metrics.WorkloadMetrics'', ob_init = workload_metrics_call, ob_update = workload_metrics_call\<rparr>"

definition observe_system :: "('x, 'c) device_env \<Rightarrow> ('x, 'c) device_observer" where
  "observe_system V = \<lparr>ob_type = ''*metrics.SystemMetrics'', ob_init = system_call V, ob_update = system_call V\<rparr>"

definition observe_data_transfer :: "('x, 'c) device_observer" where
  "observe_data_transfer =
     \<lparr>ob_type = ''*metrics.DataTransferMetrics'', ob_init = data_transfer_call, ob_update = data_transfer_call\<rparr>"

definition observe_logs :: "('x, 'c) device_env \<Rightarrow> ('x, 'c) device_observer" where
  "observe_logs V = \<lparr>ob_type = ''*logs.WorkloadsLogsTarget'', ob_init = logs_init_call V, ob_update = logs_call V\<rparr>"

definition observe_workloads :: "('x, 'c) device_env \<Rightarrow> ('x, 'c) device_observer" where
  "observe_workloads V = \<lparr>ob_type = ''*workload.WorkloadManager'', ob_init = workloads_call V, ob_update = workloads_call V\<rparr>"

definition observe_remote :: "('x, 'c) device_env \<Rightarrow> ('x, 'c) device_observer" where
  "observe_remote V =
     \<lparr>ob_type = ''*metrics.RemoteWrite'', ob_init = remote_call init_remote V, ob_update = remote_call update_remote V\<rparr>"

definition observe_os :: "('x, 'c) device_env \<Rightarrow> ('x, 'c) device_observer" where
  "observe_os V = \<lparr>ob_type = ''*os.OS'', ob_init = os_call V, ob_update = os_call V\<rparr>"

definition observe_mounts :: "('x, 'c) device_env \<Rightarrow> ('x, 'c) device_observer" where
  "observe_mounts V = \<lparr>ob_type = ''*mount.Manager'', ob_init = mounts_call V, ob_update = mounts_call V\<rparr>"

definition observe_monitor :: "('x, 'c) device_env \<Rightarrow> ('x, 'c) device_observer" where
  "observe_monitor V = \<lparr>ob_type = ''*datatransfer.Monitor'', ob_init = monitor_call V, ob_update = monitor_call V\<rparr>"

definition observe_ansible :: "('x, 'c) device_observer" where
  "observe_ansible = \<lparr>ob_type = ''*ansible.Manager'', ob_init = no_call, ob_update = ansible_call\<rparr>"

definition observe_heartbeat :: "('x, 'c) device_observer" where
  "observe_heartbeat = \<lparr>ob_type = ''*heartbeat.Heartbeat'', ob_init = no_call, ob_update = heartbeat_call\<rparr>"

text \<open>Which component \<open>main\<close> hands to \<open>RegisterObserver\<close>; the configuration manager observes nothing.\<close>

definition observer_of :: "('x, 'c) device_env \<Rightarrow> component \<Rightarrow> ('x, 'c) device_observer" where
  "observer_of V k =
     (case k of
        MetricsStore \<Rightarrow> observe_store V
      | WorkloadMetrics \<Rightarrow> observe_workload_metrics
      | SystemMetrics \<Rightarrow> observe_system V
      | DataTransferMetrics \<Rightarrow> observe_data_transfer
      | LogsTarget \<Rightarrow> observe_logs V
      | WorkloadManager \<Rightarrow> observe_workloads V
      | RemoteWrite \<Rightarrow> observe_remote V
      | OperatingSystem \<Rightarrow> observe_os V
      | MountManager \<Rightarrow> observe_mounts V
      | DataMonitor \<Rightarrow> observe_monitor V
      | AnsibleManager \<Rightarrow> observe_ansible
      | Heartbeat \<Rightarrow> observe_heartbeat
      | ConfigManager \<Rightarrow> \<lparr>ob_type = ''*configuration.Manager'', ob_init = no_call, ob_update = no_call\<rparr>)"

definition device_observers :: "('x, 'c) device_env \<Rightarrow> worker \<Rightarrow> ('x, 'c) device_observer list" where
  "device_observers V wk = map (observer_of V) (wk_config_observers wk)"

lemma device_observers_boot:
  assumes "main_boot S = Inr (Ret wk)"
  shows "device_observers V wk =
    [observe_store V, observe_workload_metrics, observe_system V, observe_data_transfer, observe_logs V, observe_workloads V,
     observe_remote V, observe_os V, observe_mounts V, observe_monitor V] @
    (if su_ansible S = None then [observe_ansible] else []) @ [observe_heartbeat]"
  using assms by (auto simp: boot_assembled assembled_def Let_def device_observers_def observer_of_def split: if_splits)

subsection \<open>What each call changes\<close>

lemmas observe_defs = observe_store_def observe_workload_metrics_def observe_system_def observe_data_transfer_def
  observe_logs_def observe_workloads_def observe_remote_def observe_os_def observe_mounts_def observe_monitor_def
  observe_ansible_def observe_heartbeat_def

lemmas device_call_defs = store_call_def workload_metrics_call_def system_call_def data_transfer_call_def logs_call_def
  workloads_call_def remote_call_def os_call_def mounts_call_def monitor_call_def ansible_call_def heartbeat_call_def

lemma manager_update_message:
  assumes "manager_update E msg s = Ret (r, msg', s')"
  shows "\<exists>wls. msg' = msg\<lparr>msg_workloads := wls\<rparr>"
proof -
  obtain g w where s: "s = (g, w)" by (meson surj_pair)
  obtain es w1 where sec: "update_secrets (en_runtime E) (msg_secrets msg) w = (es, w1)" by (meson surj_pair)
  show ?thesis
  proof (cases "mgr_deregistered g")
    case True
    then have "msg' = msg\<lparr>msg_workloads := msg_workloads msg\<rparr>" using assms by (simp add: manager_update_def s)
    then show ?thesis by blast
  next
    case False
    then show ?thesis
      using assms by (auto simp: manager_update_def s sec go_bind_Ret_iff split_beta)
  qed
qed

lemma workloads_frame:
  assumes "ob_update (observe_workloads V) msg (f, s) = Ret (r, msg', f', s')"
  shows "msg_configuration msg' = msg_configuration msg \<and> (\<exists>g e. s' = s\<lparr>ov_workloads := g, ov_ext := e\<rparr>)"
  using assms manager_update_message [of "device_manager_env V" msg "(ov_workloads s, \<lparr>w_fs = f, w_ext = ov_ext s\<rparr>)"]
  by (fastforce simp: observe_workloads_def workloads_call_def go_bind_Ret_iff)

lemma remote_frame:
  assumes "ob_update (observe_remote V) msg (f, s) = Ret (r, msg', f', s')"
  shows "msg' = msg \<and> (\<exists>rw n. s' = s\<lparr>ov_remote := rw, ov_writers := n\<rparr>)"
proof -
  obtain r1 started rw f1 where "update_remote (de_client V) msg (ov_remote s, f) = ((r1, started), rw, f1)" by (metis prod.exhaust)
  then show ?thesis using assms by (auto simp: observe_remote_def remote_call_def intro!: exI)
qed

lemma device_frames:
  "ob_update (observe_store V) msg (f, s) = Ret (r, msg', f', s') \<Longrightarrow> msg' = msg \<and> (\<exists>t e. s' = s\<lparr>ov_store := t, ov_ext := e\<rparr>)"
  "ob_update observe_workload_metrics msg (f, s) = Ret (r, msg', f', s') \<Longrightarrow>
     msg' = msg \<and> s' = s\<lparr>ov_workload_metrics := workload_metrics_update msg\<rparr>"
  "ob_update (observe_system V) msg (f, s) = Ret (r, msg', f', s') \<Longrightarrow>
     msg' = msg \<and> (\<exists>m d e. s' = s\<lparr>ov_system := m, ov_daemon := d, ov_ext := e\<rparr>)"
  "ob_update observe_data_transfer msg (f, s) = Ret (r, msg', f', s') \<Longrightarrow>
     msg' = msg \<and> (\<exists>t d. data_transfer_update msg (ov_data_transfer s, ov_daemon s) = Ret (t, d) \<and>
       s' = s\<lparr>ov_data_transfer := t, ov_daemon := d\<rparr>)"
  "ob_update (observe_logs V) msg (f, s) = Ret (r, msg', f', s') \<Longrightarrow>
     msg' = msg \<and> (\<exists>t. logs_update (de_dial V) (de_log_keys V msg) msg (ov_logs s) = Ret t \<and> s' = s\<lparr>ov_logs := t\<rparr>)"
  "ob_update (observe_os V) msg (f, s) = Ret (r, msg', f', s') \<Longrightarrow> msg' = msg \<and> (\<exists>os e. s' = s\<lparr>ov_os := os, ov_ext := e\<rparr>)"
  "ob_update (observe_mounts V) msg (f, s) = Ret (r, msg', f', s') \<Longrightarrow> msg' = msg \<and> (\<exists>e. s' = s\<lparr>ov_ext := e\<rparr>)"
  "ob_update (observe_monitor V) msg (f, s) = Ret (r, msg', f', s') \<Longrightarrow> msg' = msg \<and> (\<exists>mo. s' = s\<lparr>ov_monitor := mo\<rparr>)"
  "ob_update observe_ansible msg (f, s) = Ret (r, msg', f', s') \<Longrightarrow>
     msg' = msg \<and> (\<exists>am am'. ov_ansible s = Some am \<and> ansible_update msg am = Ret am' \<and> s' = s\<lparr>ov_ansible := Some am'\<rparr>)"
  "ob_update observe_heartbeat msg (f, s) = Ret (r, msg', f', s') \<Longrightarrow>
     msg' = msg \<and> (\<exists>hb. heartbeat_update msg (ov_heartbeat s) = Ret hb \<and> s' = s\<lparr>ov_heartbeat := hb\<rparr>)"
  by (auto simp: observe_defs device_call_defs set_outside_def go_bind_Ret_iff deref_Ret_iff split: prod.splits)

lemmas device_frame = device_frames workloads_frame remote_frame

subsection \<open>Parts of the state\<close>

definition keeps_part :: "('w \<Rightarrow> 'p) \<Rightarrow> 'w observer \<Rightarrow> bool" where
  "keeps_part part ob \<longleftrightarrow>
     (\<forall>msg f s r msg' f' s'. ob_update ob msg (f, s) = Ret (r, msg', f', s') \<longrightarrow> part s' = part s)"

definition keeps_read :: "(config_message \<Rightarrow> 'q) \<Rightarrow> 'w observer \<Rightarrow> bool" where
  "keeps_read reads ob \<longleftrightarrow>
     (\<forall>msg f s r msg' f' s'. ob_update ob msg (f, s) = Ret (r, msg', f', s') \<longrightarrow> reads msg' = reads msg)"

lemma keeps_message_read: "keeps_message ob \<Longrightarrow> keeps_read reads ob"
  by (fastforce simp: keeps_message_def keeps_read_def)

lemma call_observers_keep_part:
  "\<forall>ob \<in> set obs. keeps_part part ob \<Longrightarrow> call_observers msg obs (f, s) = Ret (rs, msg', f', s') \<Longrightarrow> part s' = part s"
proof (induction obs arbitrary: msg f s rs)
  case (Cons ob obs)
  obtain r msg1 f1 s1 rs1 where u: "ob_update ob msg (f, s) = Ret (r, msg1, f1, s1)"
      "call_observers msg1 obs (f1, s1) = Ret (rs1, msg', f', s')"
    using Cons.prems(2) by (auto simp: go_bind_Ret_iff)
  have "part s1 = part s"
    using Cons.prems(1) u(1) unfolding keeps_part_def by (metis list.set_intros(1))
  then show ?case using Cons.IH [OF _ u(2)] Cons.prems(1) by simp
qed simp

lemma call_observers_keep_read:
  "\<forall>ob \<in> set obs. keeps_read reads ob \<Longrightarrow> call_observers msg obs (f, s) = Ret (rs, msg', f', s') \<Longrightarrow> reads msg' = reads msg"
proof (induction obs arbitrary: msg f s rs)
  case (Cons ob obs)
  obtain r msg1 f1 s1 rs1 where u: "ob_update ob msg (f, s) = Ret (r, msg1, f1, s1)"
      "call_observers msg1 obs (f1, s1) = Ret (rs1, msg', f', s')"
    using Cons.prems(2) by (auto simp: go_bind_Ret_iff)
  have "reads msg1 = reads msg"
    using Cons.prems(1) u(1) unfolding keeps_read_def by (metis list.set_intros(1))
  then show ?case using Cons.IH [OF _ u(2)] Cons.prems(1) by simp
qed simp

lemma call_observers_append:
  "call_observers msg (as @ bs) w = Ret (rs, msg', w') \<Longrightarrow>
   \<exists>rs1 m1 w1 rs2. call_observers msg as w = Ret (rs1, m1, w1) \<and> call_observers m1 bs w1 = Ret (rs2, msg', w')"
proof (induction as arbitrary: msg w rs)
  case (Cons a as)
  obtain r m0 w0 rs0 where a: "ob_update a msg w = Ret (r, m0, w0)" "call_observers m0 (as @ bs) w0 = Ret (rs0, msg', w')"
    using Cons.prems by (auto simp: go_bind_Ret_iff)
  from Cons.IH [OF a(2)] obtain rs1 m1 w1 rs2
    where "call_observers m0 as w0 = Ret (rs1, m1, w1)" "call_observers m1 bs w1 = Ret (rs2, msg', w')" by blast
  then show ?case using a(1) by simp
qed simp

lemma call_observers_join:
  "call_observers msg as w = Ret (rs1, m1, w1) \<Longrightarrow> call_observers m1 bs w1 = Ret (rs2, msg', w') \<Longrightarrow>
   call_observers msg (as @ bs) w = Ret (rs1 @ rs2, msg', w')"
  by (induction as arbitrary: msg w rs1) (cases w', auto simp: go_bind_Ret_iff)+

text \<open>
  The contract of an observer that owns a part of the state: when its update returns, the part has the value that what it reads of the
  message asks for, whether the update failed or not. What holds of the observer alone then holds of the
  notification of all, when the others leave its part alone and the earlier ones what it reads.
\<close>

locale part_owner =
  fixes ob :: "'w observer"
    and part :: "'w \<Rightarrow> 'p"
    and reads :: "config_message \<Rightarrow> 'q"
    and wanted :: "'q \<Rightarrow> 'p \<Rightarrow> 'p"
  assumes owner_sets: "ob_update ob msg (f, s) = Ret (r, msg', f', s') \<Longrightarrow> part s' = wanted (reads msg) (part s)"
begin

lemma notified:
  assumes "call_observers msg (as @ ob # bs) (f, s) = Ret (rs, msg', f', s')"
    and "\<forall>a \<in> set as. keeps_read reads a \<and> keeps_part part a" and "\<forall>b \<in> set bs. keeps_part part b"
  shows "part s' = wanted (reads msg) (part s)"
proof -
  obtain rs1 m1 f1 s1 rs2 where a: "call_observers msg as (f, s) = Ret (rs1, m1, f1, s1)"
      and b: "call_observers m1 (ob # bs) (f1, s1) = Ret (rs2, msg', f', s')"
    using call_observers_append [OF assms(1)] by (metis surj_pair)
  then obtain r m2 f2 s2 rs3 where o: "ob_update ob m1 (f1, s1) = Ret (r, m2, f2, s2)"
      and c: "call_observers m2 bs (f2, s2) = Ret (rs3, msg', f', s')"
    by (auto simp: go_bind_Ret_iff)
  have "part s' = part s2" using call_observers_keep_part [OF assms(3) c] .
  also have "\<dots> = wanted (reads m1) (part s1)" using owner_sets [OF o] .
  finally show ?thesis
    using call_observers_keep_part [OF _ a, of part] call_observers_keep_read [OF _ a, of reads] assms(2) by simp
qed

lemma notified_at:
  assumes "call_observers msg obs (f, s) = Ret (rs, msg', f', s')" and "i < length obs" and "obs ! i = ob"
    and "\<forall>a \<in> set (take i obs). keeps_read reads a \<and> keeps_part part a" and "\<forall>b \<in> set (drop (Suc i) obs). keeps_part part b"
  shows "part s' = wanted (reads msg) (part s)"
  using notified [of msg "take i obs" "drop (Suc i) obs"] assms id_take_nth_drop [OF assms(2)] by metis

end

subsection \<open>What the observers leave alone\<close>

lemma keeps_part_rules:
  "(\<And>s t e. part (s\<lparr>ov_store := t, ov_ext := e\<rparr>) = part s) \<Longrightarrow> keeps_part part (observe_store V)"
  "(\<And>s c. part (s\<lparr>ov_workload_metrics := c\<rparr>) = part s) \<Longrightarrow> keeps_part part observe_workload_metrics"
  "(\<And>s m d e. part (s\<lparr>ov_system := m, ov_daemon := d, ov_ext := e\<rparr>) = part s) \<Longrightarrow> keeps_part part (observe_system V)"
  "(\<And>s t d. part (s\<lparr>ov_data_transfer := t, ov_daemon := d\<rparr>) = part s) \<Longrightarrow> keeps_part part observe_data_transfer"
  "(\<And>s t. part (s\<lparr>ov_logs := t\<rparr>) = part s) \<Longrightarrow> keeps_part part (observe_logs V)"
  "(\<And>s g e. part (s\<lparr>ov_workloads := g, ov_ext := e\<rparr>) = part s) \<Longrightarrow> keeps_part part (observe_workloads V)"
  "(\<And>s rw n. part (s\<lparr>ov_remote := rw, ov_writers := n\<rparr>) = part s) \<Longrightarrow> keeps_part part (observe_remote V)"
  "(\<And>s os e. part (s\<lparr>ov_os := os, ov_ext := e\<rparr>) = part s) \<Longrightarrow> keeps_part part (observe_os V)"
  "(\<And>s e. part (s\<lparr>ov_ext := e\<rparr>) = part s) \<Longrightarrow> keeps_part part (observe_mounts V)"
  "(\<And>s mo. part (s\<lparr>ov_monitor := mo\<rparr>) = part s) \<Longrightarrow> keeps_part part (observe_monitor V)"
  "(\<And>s am. part (s\<lparr>ov_ansible := Some am\<rparr>) = part s) \<Longrightarrow> keeps_part part observe_ansible"
  "(\<And>s hb. part (s\<lparr>ov_heartbeat := hb\<rparr>) = part s) \<Longrightarrow> keeps_part part observe_heartbeat"
  unfolding keeps_part_def by (auto dest!: device_frame)

lemma keeps_message_rules:
  "keeps_message (observe_store V)" "keeps_message observe_workload_metrics" "keeps_message (observe_system V)"
  "keeps_message observe_data_transfer" "keeps_message (observe_logs V)" "keeps_message (observe_remote V)"
  "keeps_message (observe_os V)" "keeps_message (observe_mounts V)" "keeps_message (observe_monitor V)"
  "keeps_message observe_ansible" "keeps_message observe_heartbeat"
  unfolding keeps_message_def by (auto dest!: device_frame)

lemma workloads_keep_configuration: "keeps_read msg_configuration (observe_workloads V)"
  unfolding keeps_read_def by (auto dest!: device_frame)

end
