(* ===== verification/Configured_Device.thy ===== *)
theory Configured_Device
  imports Device_Observers
begin

text \<open>
  The configuration manager with all observers of \<open>main\<close>: what a message makes of the components, which
  messages are safe to send to the worker, and two that are not.
\<close>

subsection \<open>The parts that the observers own\<close>

interpretation workload_metrics: part_owner observe_workload_metrics ov_workload_metrics "\<lambda>m. m" "\<lambda>m _. workload_metrics_update m"
  by unfold_locales (auto dest: device_frame)

interpretation logged: part_owner "observe_logs V" "\<lambda>s. lt_workloads_config (ov_logs s)" msg_workloads "\<lambda>wls _. logged_workloads wls"
  for V
  by unfold_locales (auto dest!: device_frame simp: logs_update_def go_bind_Ret_iff Let_def)

interpretation data_transfer: part_owner observe_data_transfer ov_data_transfer msg_configuration
    "\<lambda>conf p. case retrieve_configuration_or_default conf of Panic \<Rightarrow> p | Ret c \<Rightarrow> Some c"
  by unfold_locales
    (auto dest!: device_frame simp: data_transfer_update_def go_bind_Ret_iff update_target_def check_for_updates_def
      split: if_splits option.splits)

lemma update_periodic_previous: "update_periodic p t = Ret t' \<Longrightarrow> tk_previous t' = p"
  by (auto simp: update_periodic_def init_ticker_def split: if_splits)

interpretation heartbeat_period: part_owner observe_heartbeat "\<lambda>s. tk_previous (hb_periodic (ov_heartbeat s))" msg_configuration
    "\<lambda>conf p. case conf of None \<Rightarrow> p | Some c \<Rightarrow> heartbeat_interval c"
  by unfold_locales
    (auto dest!: device_frame update_periodic_previous simp: heartbeat_update_def go_bind_Ret_iff deref_Ret_iff)

interpretation ansible_period: part_owner observe_ansible "\<lambda>s. map_option (tk_previous \<circ> am_periodic) (ov_ansible s)" msg_configuration
    "\<lambda>conf p. case conf of None \<Rightarrow> p | Some c \<Rightarrow> Some (ansible_interval c)"
  by unfold_locales
    (auto dest!: device_frame update_periodic_previous simp: ansible_update_def go_bind_Ret_iff deref_Ret_iff)

subsection \<open>Calls that return\<close>

text \<open>A syslog target has an address, and the periods do not overflow when they are counted in nanoseconds.\<close>

definition safe_configuration :: "device_configuration \<Rightarrow> bool" where
  "safe_configuration c \<longleftrightarrow>
     (\<forall>lc \<in> ran (entries (cfg_log_collection c)). lc_kind lc = ''syslog'' \<longrightarrow> lc_syslog lc \<noteq> None) \<and>
     heartbeat_interval c \<le> 9223372036 \<and> ansible_interval c \<le> 9223372036"

text \<open>What a successful \<open>play kube\<close> of podman reports: at least the pod of the manifest.\<close>

definition plays_pods :: "'x podman_api \<Rightarrow> bool" where
  "plays_pods P \<longleftrightarrow> (\<forall>manifest auth labels x. fst (podman_run P manifest auth labels x) \<noteq> Inr [])"

lemma go_bind_Panic_iff: "go_bind p f = Panic \<longleftrightarrow> p = Panic \<or> (\<exists>x. p = Ret x \<and> f x = Panic)"
  by (cases p) simp_all

lemma start_transports_returns:
  "\<forall>lc \<in> ran cs. lc_kind lc = ''syslog'' \<longrightarrow> lc_syslog lc \<noteq> None \<Longrightarrow> start_transports dial cs ks ts t \<noteq> Panic"
proof (induction dial cs ks ts t rule: start_transports.induct)
  case (2 dial cs k ks ts t)
  then show ?case by (auto simp: Let_def ranI split: option.splits sum.splits dest: ranI)
qed simp

lemma logs_update_returns: "safe_configuration c \<Longrightarrow> msg_configuration msg = Some c \<Longrightarrow> logs_update dial ks msg t \<noteq> Panic"
  by (auto simp: logs_update_def Let_def safe_configuration_def go_bind_Panic_iff start_transports_returns)

lemma wrapper_run_returns: "plays_pods (be_podman K) \<Longrightarrow> wrapper_run K p m a l w \<noteq> Panic"
  by (auto simp: wrapper_run_def at_ext_def plays_pods_def split: prod.splits option.splits sum.splits list.splits)
    (metis fst_conv)

lemma redeploy_returns:
  "plays_pods (be_podman (de_backends V)) \<Longrightarrow> redeploy (device_manager_env V) wl p yaml s \<noteq> Panic"
  by (auto simp: redeploy_def Let_def device_manager_env_def wrapper_runtime_def go_bind_Panic_iff wrapper_run_returns split_beta split: option.splits sum.splits)

lemma update_workload_returns:
  "plays_pods (be_podman (de_backends V)) \<Longrightarrow> update_workload (device_manager_env V) conf wl s \<noteq> Panic"
  by (auto simp: update_workload_def deploy_def Let_def go_bind_Panic_iff redeploy_returns split_beta split: option.splits sum.splits)

lemma update_workloads_returns:
  "plays_pods (be_podman (de_backends V)) \<Longrightarrow> update_workloads (device_manager_env V) conf wls s \<noteq> Panic"
  by (induction wls arbitrary: s) (auto simp: go_bind_Panic_iff update_workload_returns split_beta)

lemma manager_update_returns:
  "plays_pods (be_podman (de_backends V)) \<Longrightarrow> manager_update (device_manager_env V) msg s \<noteq> Panic"
  by (auto simp: manager_update_def go_bind_Panic_iff update_workloads_returns split_beta)

lemma period_returns: "0 < p \<Longrightarrow> p \<le> 9223372036 \<Longrightarrow> update_periodic p t \<noteq> Panic"
  using update_periodic_returns [of p t] by auto

lemma observers_return:
  assumes "msg_configuration msg = Some c" and "safe_configuration c"
  shows "ob_update (observe_store V) msg (f, s) \<noteq> Panic"
    and "ob_update observe_workload_metrics msg (f, s) \<noteq> Panic"
    and "ob_update (observe_system V) msg (f, s) \<noteq> Panic"
    and "ob_update observe_data_transfer msg (f, s) \<noteq> Panic"
    and "ob_update (observe_logs V) msg (f, s) \<noteq> Panic"
    and "plays_pods (be_podman (de_backends V)) \<Longrightarrow> ob_update (observe_workloads V) msg (f, s) \<noteq> Panic"
    and "ob_update (observe_remote V) msg (f, s) \<noteq> Panic"
    and "ob_update (observe_os V) msg (f, s) \<noteq> Panic"
    and "ob_update (observe_mounts V) msg (f, s) \<noteq> Panic"
    and "ob_update (observe_monitor V) msg (f, s) \<noteq> Panic"
    and "ov_ansible s \<noteq> None \<Longrightarrow> ob_update observe_ansible msg (f, s) \<noteq> Panic"
    and "ob_update observe_heartbeat msg (f, s) \<noteq> Panic"
  subgoal using assms by (auto simp: observe_store_def store_call_def tsdb_update_def Let_def go_bind_Panic_iff split_beta split: option.splits)
  subgoal by (simp add: observe_workload_metrics_def workload_metrics_call_def)
  subgoal using assms by (auto simp: observe_system_def system_call_def system_update_def expected_configuration_def go_bind_Panic_iff split_beta)
  subgoal using assms by (auto simp: observe_data_transfer_def data_transfer_call_def data_transfer_update_def retrieve_configuration_or_default_def go_bind_Panic_iff split_beta)
  subgoal using assms by (auto simp: observe_logs_def logs_call_def go_bind_Panic_iff logs_update_returns)
  subgoal by (auto simp: observe_workloads_def workloads_call_def go_bind_Panic_iff manager_update_returns split_beta)
  subgoal by (simp add: observe_remote_def remote_call_def split_beta)
  subgoal using assms by (auto simp: observe_os_def os_call_def os_update_def Let_def go_bind_Panic_iff split_beta split: option.splits)
  subgoal using assms by (auto simp: observe_mounts_def mounts_call_def mount_update_def go_bind_Panic_iff split_beta split: sum.splits)
  subgoal by (simp add: observe_monitor_def monitor_call_def split_beta)
  subgoal using assms by (auto simp: observe_ansible_def ansible_call_def ansible_update_def safe_configuration_def ansible_interval_def get_interval_positive go_bind_Panic_iff period_returns)
  subgoal using assms by (auto simp: observe_heartbeat_def heartbeat_call_def heartbeat_update_def safe_configuration_def heartbeat_interval_def get_interval_positive go_bind_Panic_iff period_returns)
  done

text \<open>Observers that return in every state of an invariant that they keep.\<close>

lemma call_observers_returns:
  assumes "\<And>ob msg f s. ob \<in> set obs \<Longrightarrow> I msg s \<Longrightarrow> ob_update ob msg (f, s) \<noteq> Panic"
    and "\<And>ob msg f s r msg' f' s'. ob \<in> set obs \<Longrightarrow> I msg s \<Longrightarrow> ob_update ob msg (f, s) = Ret (r, msg', f', s') \<Longrightarrow> I msg' s'"
    and "I msg s"
  shows "call_observers msg obs (f, s) \<noteq> Panic"
  using assms
proof (induction obs arbitrary: msg f s)
  case (Cons ob obs)
  obtain r msg1 f1 s1 where u: "ob_update ob msg (f, s) = Ret (r, msg1, f1, s1)"
    using Cons.prems(1) [of ob msg s f] Cons.prems(3) by (cases "ob_update ob msg (f, s)") auto
  then have "I msg1 s1" using Cons.prems(2,3) by (metis list.set_intros(1))
  moreover have "ob_update b m (g, t) \<noteq> Panic" if "b \<in> set obs" "I m t" for b m g t
    using Cons.prems(1) [of b m t g] that by simp
  moreover have "I m' t'" if "b \<in> set obs" "I m t" "ob_update b m (g, t) = Ret (q, m', g', t')" for b m g t q m' g' t'
    using Cons.prems(2) [of b m t g q m' g' t'] that by simp
  ultimately have "call_observers msg1 obs (f1, s1) \<noteq> Panic" by (intro Cons.IH) blast+
  then show ?case using u by (simp add: go_bind_Panic_iff split_beta)
qed simp

subsection \<open>What the workload manager writes into the message\<close>

text \<open>A workload that asks for the update of its images and does not carry the label of its unit yet.\<close>

definition asks_for_auto_update :: "'e manager_env \<Rightarrow> workload \<Rightarrow> bool" where
  "asks_for_auto_update E wl \<longleftrightarrow>
     (\<exists>spec. en_parse_spec E (wl_specification wl) = Inr spec) \<and>
     (\<exists>l. wl_labels wl = Some l \<and> (\<exists>k \<in> Mapping.keys l. str_contains k ''io.containers.autoupdate'') \<and>
        Mapping.lookup l ''PODMAN_SYSTEMD_UNIT'' = None)"

lemma auto_update_label_written:
  assumes "asks_for_auto_update E wl" and "to_pod E g wl = Inr (p, wl')"
  shows "wl' \<noteq> wl"
proof -
  obtain l k where l: "wl_labels wl = Some l" "k \<in> Mapping.keys l" "str_contains k ''io.containers.autoupdate''"
      "Mapping.lookup l ''PODMAN_SYSTEMD_UNIT'' = None"
    using assms(1) by (auto simp: asks_for_auto_update_def)
  have "Mapping.lookup (pod_labels_for g wl) ''PODMAN_SYSTEMD_UNIT'' \<noteq> None"
    using l(1-3) by (auto simp: pod_labels_for_def label_map_def Let_def lookup_update)
  moreover have "wl_labels wl' = Some (pod_labels_for g wl)"
    using assms(2) l(1) by (auto simp: to_pod_def Let_def split: sum.splits)
  ultimately show ?thesis using l(1,4) by auto
qed

lemma update_workload_written:
  assumes "update_workload E conf wl s = Ret (s', wl')"
  shows "wl_name wl' = wl_name wl" and "asks_for_auto_update E wl \<Longrightarrow> wl' \<noteq> wl"
proof -
  obtain g es w where s: "s = (g, es, w)" by (rule prod_cases3)
  show "wl_name wl' = wl_name wl"
    using assms s to_pod_name [of E g wl] by (auto simp: update_workload_def go_bind_Ret_iff split: sum.splits)
  assume a: "asks_for_auto_update E wl"
  then obtain p v where "to_pod E g wl = Inr (p, v)"
    by (auto simp: asks_for_auto_update_def to_pod_def Let_def)
  then show "wl' \<noteq> wl"
    using assms s auto_update_label_written [OF a] by (auto simp: update_workload_def go_bind_Ret_iff)
qed

lemma update_workloads_written:
  assumes "update_workloads E conf wls s = Ret (s', wls')"
  shows "map wl_name wls' = map wl_name wls \<and>
    (distinct (map wl_name wls) \<longrightarrow> (\<forall>wl \<in> set wls. asks_for_auto_update E wl \<longrightarrow> wl \<notin> set wls'))"
  using assms
proof (induction wls arbitrary: s s' wls')
  case (Cons v wls)
  obtain s1 v' s2 vs where u: "update_workload E conf v s = Ret (s1, v')" "update_workloads E conf wls s1 = Ret (s2, vs)"
      "wls' = v' # vs"
    using Cons.prems by (auto simp: go_bind_Ret_iff)
  note ih = Cons.IH [OF u(2)] and v = update_workload_written [OF u(1)]
  show ?case
  proof (intro conjI impI ballI)
    show "map wl_name wls' = map wl_name (v # wls)" using ih v u(3) by simp
    fix wl
    assume d: "distinct (map wl_name (v # wls))" and wl: "wl \<in> set (v # wls)" "asks_for_auto_update E wl"
    have names: "wl_name ` set vs = wl_name ` set wls" using ih by (metis set_map)
    show "wl \<notin> set wls'"
    proof (cases "wl = v")
      case True
      then have "wl \<noteq> v'" using v(2) wl(2) by metis
      moreover have "wl \<notin> set vs" using True d names by auto
      ultimately show ?thesis using u(3) by simp
    next
      case False
      then have in_wls: "wl \<in> set wls" using wl(1) by simp
      then have "wl_name wl \<noteq> wl_name v" using d by (metis distinct.simps(2) image_eqI list.simps(9) set_map)
      then have "wl \<noteq> v'" "wl \<notin> set vs" using in_wls d ih v(1) wl(2) by auto
      then show ?thesis using u(3) by simp
    qed
  qed
qed simp

lemma workloads_call_written:
  assumes "ob_update (observe_workloads V) msg (f, s) = Ret (r, msg', f', s')" and "\<not> mgr_deregistered (ov_workloads s)"
  shows "msg_secrets msg' = msg_secrets msg \<and> map wl_name (msg_workloads msg') = map wl_name (msg_workloads msg) \<and>
    (distinct (map wl_name (msg_workloads msg)) \<longrightarrow>
      (\<forall>wl \<in> set (msg_workloads msg). asks_for_auto_update (device_manager_env V) wl \<longrightarrow> wl \<notin> set (msg_workloads msg')))"
proof -
  let ?E = "device_manager_env V"
  obtain g1 w1 where u: "manager_update ?E msg (ov_workloads s, \<lparr>w_fs = f, w_ext = ov_ext s\<rparr>) = Ret (r, msg', g1, w1)"
    using assms(1) by (auto simp: observe_workloads_def workloads_call_def go_bind_Ret_iff)
  obtain es w2 where sec: "update_secrets (en_runtime ?E) (msg_secrets msg) \<lparr>w_fs = f, w_ext = ov_ext s\<rparr> = (es, w2)"
    by (meson surj_pair)
  obtain st wls where ws: "update_workloads ?E (msg_configuration msg) (msg_workloads msg) (ov_workloads s, es, w2) = Ret (st, wls)"
      "msg' = msg\<lparr>msg_workloads := wls\<rparr>"
    using u assms(2) by (auto simp: manager_update_def sec go_bind_Ret_iff split_beta)
  then show ?thesis using update_workloads_written [OF ws(1)] by simp
qed

subsection \<open>Properties\<close>

text \<open>The observers before and after the workload manager.\<close>

lemma device_observers_split:
  assumes "main_boot S = Inr (Ret wk)"
  obtains bs where "device_observers V wk =
      [observe_store V, observe_workload_metrics, observe_system V, observe_data_transfer, observe_logs V] @ observe_workloads V # bs"
    "\<forall>ob \<in> set bs. keeps_message ob"
  by (rule that [of "[observe_remote V, observe_os V, observe_mounts V, observe_monitor V] @
      (if su_ansible S = None then [observe_ansible] else []) @ [observe_heartbeat]"])
    (simp_all add: device_observers_boot [OF assms] keeps_message_rules)

text \<open>An update that is not skipped has called the observers.\<close>

lemma update_config_notified:
  assumes "update_config J msg m (f, s) = Ret (r, m', f', s')" and "should_update msg m"
    and "js_marshal J msg = Inr j" and "js_marshal J (device_configuration m) = Inr j0"
  obtains rs msg' f1 where "call_observers msg (observers m) (f, s) = Ret (rs, msg', f1, s')"
proof -
  obtain rs msg' w1 where c: "call_observers msg (observers m) (f, s) = Ret (rs, msg', w1)"
      and st: "store_config J j m (observer_errors (observers m) rs) msg' w1 = (r, m', f', s')"
    using update_config_calls [OF assms] .
  have "snd w1 = s'" using store_config_frame(3) [of J j m "observer_errors (observers m) rs" msg' w1] st by simp
  then show ?thesis using c that by (cases w1) simp
qed

lemma safe_notification_returns:
  assumes "main_boot S = Inr (Ret wk)" and "msg_configuration msg = Some c" and "safe_configuration c" and "plays_pods (be_podman (de_backends V))"
    and "su_ansible S = None \<Longrightarrow> ov_ansible s \<noteq> None"
  shows "call_observers msg (device_observers V wk) (f, s) \<noteq> Panic"
proof -
  define I where "I = (\<lambda>(msg :: config_message) (s :: ('a, 'b) observed). msg_configuration msg = Some c \<and> (su_ansible S = None \<longrightarrow> ov_ansible s \<noteq> None))"
  note boot = device_observers_boot [OF assms(1), of V]
  show ?thesis
  proof (rule call_observers_returns [where I = I])
    show "I msg s" using assms(2,5) by (simp add: I_def)
  next
    fix ob msg f s
    assume "ob \<in> set (device_observers V wk)" "I msg s"
    then show "ob_update ob msg (f, s) \<noteq> Panic"
      by (auto simp: boot I_def observers_return [OF _ assms(3)] assms(4) split: if_splits)
  next
    fix ob msg f s r msg' f' s'
    assume "ob \<in> set (device_observers V wk)" "I msg s" "ob_update ob msg (f, s) = Ret (r, msg', f', s')"
    then show "I msg' s'"
      by (auto simp: boot I_def split: if_splits dest!: device_frame)
  qed
qed

definition safe_message :: "config_message \<Rightarrow> bool" where
  "safe_message msg \<longleftrightarrow> (case msg_configuration msg of None \<Rightarrow> False | Some c \<Rightarrow> safe_configuration c)"

lemma update_config_Panic: "update_config J msg m w = Panic \<Longrightarrow> call_observers msg (observers m) w = Panic"
  by (auto simp: update_config_def notify_observers_eq go_bind_Panic_iff split: if_splits sum.splits)

lemma safe_update_returns:
  assumes "main_boot S = Inr (Ret wk)" and "observers m = device_observers V wk" and "safe_message msg"
    and "plays_pods (be_podman (de_backends V))" and "su_ansible S = None \<Longrightarrow> ov_ansible s \<noteq> None"
  shows "update_config J msg m (f, s) \<noteq> Panic"
proof -
  obtain c where "msg_configuration msg = Some c" "safe_configuration c"
    using assms(3) by (auto simp: safe_message_def split: option.splits)
  then show ?thesis
    using safe_notification_returns [OF assms(1) _ _ assms(4,5)] update_config_Panic [of J msg m "(f, s)"] assms(2) by auto
qed

lemma update_config_keeps_part:
  assumes "\<forall>ob \<in> set (observers m). keeps_part part ob" and "update_config J msg m (f, s) = Ret (r, m', f', s')"
  shows "part s' = part s"
proof (cases "should_update msg m")
  case True
  show ?thesis
  proof (cases "js_marshal J msg")
    case (Inr j)
    show ?thesis
    proof (cases "js_marshal J (device_configuration m)")
      case Inr0: (Inr j0)
      obtain rs msg' f1 where "call_observers msg (observers m) (f, s) = Ret (rs, msg', f1, s')"
        using update_config_notified [OF assms(2) True Inr Inr0] .
      then show ?thesis by (rule call_observers_keep_part [OF assms(1)])
    qed (use assms(2) True Inr in \<open>simp add: update_config_def\<close>)
  qed (use assms(2) True in \<open>simp add: update_config_def\<close>)
qed (use assms(2) in \<open>simp add: update_config_def\<close>)

text \<open>What holds of the server while it runs.\<close>

lemma server_run_safe:
  assumes "server_run J unmarshal (new_device_server m, f, s) received applied (sv, w)"
    and "main_boot S = Inr (Ret wk)" and "observers m = device_observers V wk" and "plays_pods (be_podman (de_backends V))"
  shows "observers (sv_config sv) = device_observers V wk \<and> (ov_ansible (snd w) = None \<longleftrightarrow> ov_ansible s = None) \<and>
    ((\<forall>r \<in> set received. safe_message (decoded_message unmarshal r)) \<longrightarrow> (\<forall>msg \<in> set (sv_pending sv). safe_message msg))"
  using assms(1)
proof (induction received applied "(sv, w)" arbitrary: sv w rule: server_run.induct)
  case start
  then show ?case using assms(3) by (simp add: new_device_server_def)
next
  case (receive rs ds sv w r)
  then show ?case by (simp add: server_send_def)
next
  case (apply_one rs ds sv0 w0 i)
  obtain c where c: "Device_Server.apply_config J (sv_pending sv0 ! i) (sv_config sv0, w0) = Ret (c, w)"
      and sv: "sv = sv0\<lparr>sv_pending := take i (sv_pending sv0) @ drop (Suc i) (sv_pending sv0), sv_config := c\<rparr>"
    using apply_one.hyps by (auto simp: deliver_iff)
  obtain f0 s0 f1 s1 where ws: "w0 = (f0, s0)" "w = (f1, s1)" by (meson surj_pair)
  obtain r where u: "update_config J (sv_pending sv0 ! i) (sv_config sv0) (f0, s0) = Ret (r, c, f1, s1)"
    using c by (auto simp: Device_Server.apply_config_def go_bind_Ret_iff ws)
  have obs: "observers (sv_config sv0) = device_observers V wk" using apply_one by simp
  have "\<forall>ob \<in> set (device_observers V wk). keeps_part (\<lambda>s. ov_ansible s = None) ob"
    by (auto simp: device_observers_boot [OF assms(2)] keeps_part_def dest!: device_frame)
  then have "ov_ansible s1 = None \<longleftrightarrow> ov_ansible s0 = None"
    using update_config_keeps_part [OF _ u, of "\<lambda>s. ov_ansible s = None"] obs by simp
  then show ?case
    using apply_one update_config_observers [OF u] obs set_take_subset [of i "sv_pending sv0"] set_drop_subset [of "Suc i" "sv_pending sv0"]
    by (auto simp: sv ws)
qed



text \<open>C26. A workload that asks for the update of its images keeps every configuration from being recognised: the
  workload manager writes the label of the unit into the message, so that the message that has just been
  applied counts as changed when it is sent again, and every observer is called again.\<close>

theorem auto_update_label_defeats_recognition:
  assumes "main_boot S = Inr (Ret wk)" and "observers m = device_observers V wk"
    and "update_config J msg m (f, s) = Ret (r, m', w')" and "device_configuration m' \<noteq> device_configuration m"
    and "\<not> mgr_deregistered (ov_workloads s)"
    and "unique_names msg" and "wl \<in> set (msg_workloads msg)" and "asks_for_auto_update (device_manager_env V) wl"
  shows "should_update msg m'"
proof -
  let ?as = "[observe_store V, observe_workload_metrics, observe_system V, observe_data_transfer, observe_logs V]"
  obtain bs where obs: "observers m = ?as @ observe_workloads V # bs" and bs: "\<forall>ob \<in> set bs. keeps_message ob"
    using device_observers_split [OF assms(1), of V] assms(2) by metis
  have as: "\<forall>ob \<in> set ?as. keeps_message ob" "\<forall>ob \<in> set ?as. keeps_part ov_workloads ob"
    by (simp_all add: keeps_message_rules keeps_part_rules)
  obtain rs w1 where c: "call_observers msg (?as @ observe_workloads V # bs) (f, s) = Ret (rs, device_configuration m', w1)"
    using update_config_stored [OF assms(3,4)] unfolding obs by blast
  obtain rs1 m1 fa sa rs2 where a: "call_observers msg ?as (f, s) = Ret (rs1, m1, fa, sa)"
      and b: "call_observers m1 (observe_workloads V # bs) (fa, sa) = Ret (rs2, device_configuration m', w1)"
    using call_observers_append [OF c] by (metis surj_pair)
  have "m1 = msg" using call_observers_keep [OF as(1) a] .
  then obtain r2 msg2 fb sb rs3 where o: "ob_update (observe_workloads V) msg (fa, sa) = Ret (r2, msg2, fb, sb)"
      and d: "call_observers msg2 bs (fb, sb) = Ret (rs3, device_configuration m', w1)"
    using b by (auto simp: go_bind_Ret_iff)
  have final: "device_configuration m' = msg2" using call_observers_keep [OF bs d] .
  have "\<not> mgr_deregistered (ov_workloads sa)"
    using call_observers_keep_part [OF as(2) a] assms(5) by simp
  note wr = workloads_call_written [OF o this]
  have "unique_names msg2" "wl \<notin> set (msg_workloads msg2)"
    using wr assms(6-8) by (auto simp: unique_names_def)
  moreover from this have "\<not> same_contents msg msg2" using assms(7) by (auto simp: same_contents_def)
  ultimately show ?thesis
    using written_message_not_recognised [OF assms(3,4,6)] final by simp
qed

text \<open>C27. A message that cannot be decoded stops the worker: \<open>Send\<close> passes it on without a configuration, which the
  first observer dereferences in the goroutine that applies it.\<close>

theorem undecodable_message_stops_worker:
  assumes "main_boot S = Inr (Ret wk)" and "observers (sv_config sv) = device_observers V wk"
    and "unmarshal content = (Some e, zero_message)" and "msg_configuration (device_configuration (sv_config sv)) \<noteq> None"
    and "js_marshal J zero_message = Inr j" and "js_marshal J (device_configuration (sv_config sv)) = Inr j0"
  shows "deliver J (length (sv_pending sv)) (server_send unmarshal content sv, w) = Panic"
proof -
  have "should_update zero_message (sv_config sv)"
    using assms(4) by (auto simp: should_update_def Let_def zero_message_def)
  then have "update_config J zero_message (sv_config sv) w = Panic"
    using assms(2,5,6)
    by (cases w) (simp add: update_config_called device_observers_boot [OF assms(1)] observe_store_def store_call_def
        tsdb_update_def zero_message_def deref_def)
  then show ?thesis
    by (simp add: deliver_def server_send_def decoded_message_def assms(3))
qed

subsection \<open>Examples\<close>

text \<open>A device with an idle runtime, on which no pod can be written as YAML, so that nothing is deployed.\<close>

definition idle_env :: "(string list, unit) device_env" where
  "idle_env = \<lparr>de_store = example_tsdb_lib,
     de_scrape = \<lparr>sc_new_request = \<lambda>_. None, sc_get = \<lambda>u x. (Inl (Err u), x), sc_gunzip = Inr, sc_decode = \<lambda>_ _. [],
       sc_gather = \<lambda>x. (Inr [], x)\<rparr>,
     de_dial = \<lambda>_ _. Inr (), de_log_keys = \<lambda>_. [], de_start_logs = \<lambda>_. True, de_backends = example_backends,
     de_parse_spec = \<lambda>s. Inr \<lparr>ps_containers = [], ps_volumes = [], ps_rest = s\<rparr>, de_pod_yaml = \<lambda>p. Inl (Err ''yaml''),
     de_client = example_client, de_os = example_os_commands,
     de_mount = \<lparr>me_execute_mount = \<lambda>_. ([], [], 0), me_stat = \<lambda>_ _. None, me_lstat = \<lambda>p _. Inl (Err p), me_not_exist = \<lambda>_. False,
       me_mount = \<lambda>_ _ _ _. ok, me_unmount = \<lambda>_. ok, me_group_id = \<lambda>_. None, me_user_id = \<lambda>_. None\<rparr>,
     de_s3 = \<lparr>s3_decode = Inr, s3_session = \<lambda>_ _ _ _ _. ok, s3_copy = \<lambda>_ _. ok,
       s3_statistics = \<lambda>_. \<lparr>st_files = 0, st_bytes = 0, st_deleted = 0\<rparr>, s3_now = \<lambda>_. 0\<rparr>\<rparr>"

definition idle_observed :: "(string list, unit) observed" where
  "idle_observed = \<lparr>ov_store = example_tsdb, ov_daemon = new_metrics_daemon, ov_workload_metrics = Map.empty,
     ov_system = example_system, ov_data_transfer = None, ov_logs = new_workloads_logs_target,
     ov_workloads = example_workload_manager, ov_remote = new_remote_write ''/d'' ''dev'' (fs_with_dirs {}), ov_writers = 0,
     ov_os = example_os, ov_mounts = example_mount_manager, ov_monitor = new_monitor,
     ov_ansible = Some example_ansible_manager, ov_heartbeat = new_heartbeat_service Ret,
     ov_ext = \<lparr>ws_mapping = example_mapping, ws_services = Systemd.example_manager, ws_events = [], ws_ext = []\<rparr>\<rparr>"

definition idle_files :: fs where
  "idle_files = fs_with_dirs {''/d'', ''/etc/worker/workloads/w''}"

definition labelled_workload :: workload where
  "labelled_workload = (example_workload ''w'')\<lparr>wl_labels := Some (Mapping.update ''io.containers.autoupdate'' ''registry'' Mapping.empty)\<rparr>"

definition labelled_message :: config_message where
  "labelled_message = example_message\<lparr>msg_workloads := [labelled_workload]\<rparr>"

definition idle_manager :: "(string list, unit) observed manager" where
  "idle_manager = \<lparr>device_configuration = example_message, observers = device_observers idle_env example_worker,
     device_config_file = ''/d/device-config.json'', initial_config = False\<rparr>"

lemma example_worker_boots: "main_boot (example_startup True None) = Inr (Ret example_worker)"
  by (simp add: main_boot_def fatal_calls_def or_fatal_def example_worker_def assembled_def example_startup_def Let_def)

lemma idle_plays_pods: "plays_pods (be_podman (de_backends idle_env))"
  by (simp add: plays_pods_def podman_run_def idle_env_def example_backends_def example_podman_def split: prod.splits)

lemma empty_configuration_safe: "safe_configuration empty_device_configuration"
  by (simp add: safe_configuration_def empty_device_configuration_def heartbeat_interval_def ansible_interval_def
      get_interval_def default_period_def)

lemma idle_should_update: "should_update labelled_message idle_manager"
  by (simp add: should_update_def labelled_message_def idle_manager_def example_message_def message_with_def
      zero_message_def is_equal_unordered_workload_lists_def is_initial_config_def Let_def)

text \<open>Calls that change no file, for a message with an empty configuration.\<close>

definition idle :: "(string list, unit) observed \<Rightarrow> bool" where
  "idle s \<longleftrightarrow> rw_config (ov_remote s) = None \<and> ov_system s \<in> {example_system, example_system\<lparr>sys_latest := Some default_component_metrics\<rparr>} \<and>
     ov_workloads s = example_workload_manager \<and> ov_ext s = ov_ext idle_observed \<and> ov_ansible s \<noteq> None"

definition changes_no_file :: "(string list, unit) device_observer \<Rightarrow> bool" where
  "changes_no_file ob \<longleftrightarrow> (\<forall>msg f s. msg_configuration msg = Some empty_device_configuration \<longrightarrow> idle s \<longrightarrow>
     (\<exists>r s'. ob_update ob msg (f, s) = Ret (r, msg, f, s') \<and> idle s'))"

lemma notify_changes_no_file:
  assumes "\<forall>ob \<in> set obs. changes_no_file ob" and "msg_configuration msg = Some empty_device_configuration" and "idle s"
  shows "\<exists>rs s'. call_observers msg obs (f, s) = Ret (rs, msg, f, s') \<and> idle s'"
  using assms(1,3)
proof (induction obs arbitrary: s)
  case (Cons ob obs)
  obtain r s1 where u: "ob_update ob msg (f, s) = Ret (r, msg, f, s1)" "idle s1"
    using Cons.prems assms(2) unfolding changes_no_file_def by (metis list.set_intros(1))
  obtain rs s2 where "call_observers msg obs (f, s1) = Ret (rs, msg, f, s2)" "idle s2"
    using Cons.IH [OF _ u(2)] Cons.prems(1) by auto
  then show ?case using u by simp
qed simp

lemma idle_outside: "idle s \<Longrightarrow> set_outside (outside s) s = s"
  by (simp add: set_outside_def outside_def)

lemma quiet_store: "changes_no_file (observe_store idle_env)"
  by (auto simp: changes_no_file_def observe_store_def store_call_def tsdb_update_def idle_env_def example_tsdb_lib_def
      idle_def outside_def set_outside_def Let_def split_beta)

lemma quiet_workload_metrics: "changes_no_file observe_workload_metrics"
  by (simp add: changes_no_file_def observe_workload_metrics_def workload_metrics_call_def idle_def)

lemma exporter_enabled: "ensure_node_exporter_state (be_bus example_backends) (sys_exporter example_system) default_component_metrics w = (None, w)"
  by (simp add: ensure_node_exporter_state_def default_component_metrics_def ensure_node_exporter_enabled_def example_backends_def
      example_system_def service_enable_def service_start_def succeeding_bus_def then_ok_def on_ext_def
      with_connection_def new_dbus_connection_def bind_ok_def ok_def)

lemma quiet_system: "changes_no_file (observe_system idle_env)"
  by (auto simp: changes_no_file_def observe_system_def system_call_def system_update_def idle_env_def idle_def outside_def set_outside_def
      expected_configuration_def empty_device_configuration_def exporter_enabled)

lemma quiet_data_transfer: "changes_no_file observe_data_transfer"
  by (auto simp: changes_no_file_def observe_data_transfer_def data_transfer_call_def data_transfer_update_def idle_def
      retrieve_configuration_or_default_def empty_device_configuration_def split_beta)

lemma quiet_logs: "changes_no_file (observe_logs idle_env)"
  by (auto simp: changes_no_file_def observe_logs_def logs_call_def logs_update_def idle_def idle_env_def
      empty_device_configuration_def Let_def)

lemma quiet_remote: "changes_no_file (observe_remote idle_env)"
  by (auto simp: changes_no_file_def observe_remote_def remote_call_def update_remote_def idle_def receiver_of_def
      empty_device_configuration_def Let_def)

lemma quiet_os: "changes_no_file (observe_os idle_env)"
  by (auto simp: changes_no_file_def observe_os_def os_call_def os_update_def idle_def outside_def set_outside_def
      empty_device_configuration_def)

lemma quiet_mounts: "changes_no_file (observe_mounts idle_env)"
  by (auto simp: changes_no_file_def observe_mounts_def mounts_call_def mount_update_def idle_def outside_def set_outside_def
      empty_device_configuration_def merr_result_def split_beta split: sum.splits)

lemma quiet_monitor: "changes_no_file (observe_monitor idle_env)"
  by (auto simp: changes_no_file_def observe_monitor_def monitor_call_def monitor_update_def idle_def
      empty_device_configuration_def)

lemma default_ticker:
  "\<exists>t'. update_periodic (ansible_interval empty_device_configuration) t = Ret t'"
  "\<exists>t'. update_periodic (heartbeat_interval empty_device_configuration) t = Ret t'"
  by (simp_all add: ansible_interval_def heartbeat_interval_def empty_device_configuration_def get_interval_def default_period_def
      update_periodic_returns)

lemma quiet_ansible: "changes_no_file observe_ansible"
proof -
  have "\<exists>r s'. ob_update observe_ansible msg (f, s) = Ret (r, msg, f, s') \<and> idle s'"
    if m: "msg_configuration msg = Some empty_device_configuration" and s: "idle s" for msg f and s :: "(string list, unit) observed"
  proof -
    obtain am where am: "ov_ansible s = Some am" using s by (auto simp: idle_def)
    obtain t where "update_periodic (ansible_interval empty_device_configuration) (am_periodic am) = Ret t"
      using default_ticker(1) by blast
    then show ?thesis using m s am by (simp add: observe_ansible_def ansible_call_def ansible_update_def idle_def)
  qed
  then show ?thesis by (simp add: changes_no_file_def)
qed

lemma quiet_heartbeat: "changes_no_file observe_heartbeat"
proof -
  have "\<exists>r s'. ob_update observe_heartbeat msg (f, s) = Ret (r, msg, f, s') \<and> idle s'"
    if m: "msg_configuration msg = Some empty_device_configuration" and s: "idle s" for msg f and s :: "(string list, unit) observed"
  proof -
    obtain t where "update_periodic (heartbeat_interval empty_device_configuration) (hb_periodic (ov_heartbeat s)) = Ret t"
      using default_ticker(2) by blast
    then show ?thesis using m s by (simp add: observe_heartbeat_def heartbeat_call_def heartbeat_update_def idle_def)
  qed
  then show ?thesis by (simp add: changes_no_file_def)
qed

text \<open>The workload manager changes no file either, but the message.\<close>

definition written_workload :: workload where
  "written_workload = labelled_workload\<lparr>wl_labels := Some (pod_labels_for example_workload_manager labelled_workload)\<rparr>"

lemma idle_workloads_call:
  assumes "idle s"
  shows "\<exists>r s'. ob_update (observe_workloads idle_env) labelled_message (idle_files, s) =
      Ret (r, labelled_message\<lparr>msg_workloads := [written_workload]\<rparr>, idle_files, s') \<and> idle s'"
proof -
  let ?E = "device_manager_env idle_env" and ?w = "\<lparr>w_fs = idle_files, w_ext = ov_ext idle_observed\<rparr>"
  have dir: "workload_dir_path example_workload_manager ''w'' = ''/etc/worker/workloads/w''" by code_simp
  obtain p where p: "to_pod ?E example_workload_manager labelled_workload = Inr (p, written_workload)" "pod_name p = ''w''"
    "ps_volumes (pod_spec_of p) = [host_path_volume ''/etc/worker/volumes'' ''w'']"
    by (simp add: to_pod_def device_manager_env_def idle_env_def written_workload_def labelled_workload_def example_workload_def
        example_workload_manager_def Let_def)
  have dep: "deploy ?E (msg_configuration labelled_message) labelled_workload p (example_workload_manager, [], ?w) =
      Ret (example_workload_manager, [Wrap ''cannot create the Yaml of the pod'' (Err ''yaml'')], ?w)"
    by (simp add: deploy_def Let_def p pod_should_wait_for_mount_def labelled_message_def example_message_def message_with_def
        empty_device_configuration_def waits_for_def host_path_volume_def on_fs_def ensure_workload_dir_exists_def dir stat_ok_def
        fs_with_dirs_def to_pod_yaml_def device_manager_env_def idle_env_def idle_files_def)
  have sec: "update_secrets (en_runtime ?E) (msg_secrets labelled_message) ?w = ([], ?w)"
    by (simp add: update_secrets_def labelled_message_def example_message_def message_with_def zero_message_def
        device_manager_env_def idle_env_def wrapper_runtime_def wrapper_list_secrets_def at_ext_def list_secrets_def
        example_backends_def example_podman_def idle_observed_def)
  have stale: "remove_stale_workloads ?E names (g, es, ?w) = (g, es, ?w)" for names g es
    by (simp add: remove_stale_workloads_def index_workloads_def list_workloads_def device_manager_env_def idle_env_def
        wrapper_runtime_def wrapper_list_def at_ext_def podman_list_def example_backends_def example_podman_def idle_observed_def)
  have ws: "msg_workloads labelled_message = [labelled_workload]" by (simp add: labelled_message_def)
  have "manager_update ?E labelled_message (example_workload_manager, ?w) =
      Ret (merr_result [Wrap ''cannot create the Yaml of the pod'' (Err ''yaml'')],
        labelled_message\<lparr>msg_workloads := [written_workload]\<rparr>, example_workload_manager, ?w)"
    using dep p(1)
    by (simp add: manager_update_def example_workload_manager_def [THEN arg_cong [of _ _ mgr_deregistered]] sec ws
        update_workload_def stale)
  then show ?thesis using assms by (simp add: observe_workloads_def workloads_call_def idle_def)
qed

lemma idle_update:
  "\<exists>r m' f' s'. update_config (example_codec example_message) labelled_message idle_manager (idle_files, idle_observed) = Ret (r, m', f', s') \<and>
     device_configuration m' \<noteq> device_configuration idle_manager"
proof -
  let ?as = "[observe_store idle_env, observe_workload_metrics, observe_system idle_env, observe_data_transfer, observe_logs idle_env]"
  let ?bs = "[observe_remote idle_env, observe_os idle_env, observe_mounts idle_env, observe_monitor idle_env, observe_ansible, observe_heartbeat]"
  let ?msg = "labelled_message\<lparr>msg_workloads := [written_workload]\<rparr>"
  have obs: "observers idle_manager = ?as @ observe_workloads idle_env # ?bs"
    by (simp add: idle_manager_def device_observers_boot [OF example_worker_boots] example_startup_def)
  have conf: "msg_configuration labelled_message = Some empty_device_configuration"
    by (simp add: labelled_message_def example_message_def message_with_def)
  have "idle idle_observed" by (simp add: idle_def idle_observed_def new_remote_write_def)
  moreover have "\<forall>ob \<in> set ?as. changes_no_file ob"
    by (simp add: quiet_store quiet_workload_metrics quiet_system quiet_data_transfer quiet_logs)
  ultimately obtain rs1 s1 where a: "call_observers labelled_message ?as (idle_files, idle_observed) = Ret (rs1, labelled_message, idle_files, s1)" "idle s1"
    using notify_changes_no_file [OF _ conf] by blast
  obtain r s2 where b: "ob_update (observe_workloads idle_env) labelled_message (idle_files, s1) = Ret (r, ?msg, idle_files, s2)" "idle s2"
    using idle_workloads_call [OF a(2)] by blast
  have "\<forall>ob \<in> set ?bs. changes_no_file ob"
    by (simp add: quiet_remote quiet_os quiet_mounts quiet_monitor quiet_ansible quiet_heartbeat)
  then obtain rs2 s3 where c: "call_observers ?msg ?bs (idle_files, s2) = Ret (rs2, ?msg, idle_files, s3)"
    using notify_changes_no_file [of ?bs ?msg s2 idle_files] conf b(2) by auto
  have "call_observers labelled_message (observers idle_manager) (idle_files, idle_observed) =
      Ret (rs1 @ r # rs2, ?msg, idle_files, s3)"
    using call_observers_join [OF a(1), of "observe_workloads idle_env # ?bs" "r # rs2"] b(1) c by (simp add: obs)
  moreover have "write_file ''/d/device-config.json'' ''json'' idle_files =
      (None, idle_files\<lparr>fs_files := [''/d/device-config.json'' \<mapsto> ''json'']\<rparr>)"
    by (simp add: write_file_def idle_files_def fs_with_dirs_def parent_dir_def)
  moreover have "device_configuration idle_manager \<noteq> ?msg"
    by (auto simp: idle_manager_def example_message_def message_with_def zero_message_def dest: arg_cong [of _ _ msg_workloads])
  ultimately show ?thesis
    by (subst update_config_called [OF idle_should_update, where j = "''json''" and j0 = "''json''"])
      (simp_all add: store_config_def idle_manager_def)
qed



theorem auto_update_label_defeats_recognition_witness:
  "\<exists>r m' w'. update_config (example_codec example_message) labelled_message idle_manager (idle_files, idle_observed) = Ret (r, m', w') \<and>
     should_update labelled_message m'"
proof -
  obtain r m' w' where u: "update_config (example_codec example_message) labelled_message idle_manager (idle_files, idle_observed) = Ret (r, m', w')"
      "device_configuration m' \<noteq> device_configuration idle_manager"
    using idle_update by blast
  have "asks_for_auto_update (device_manager_env idle_env) labelled_workload"
    by (simp add: asks_for_auto_update_def device_manager_env_def idle_env_def labelled_workload_def str_contains_iff_sublist lookup_update')
  then have "should_update labelled_message m'"
    by (intro auto_update_label_defeats_recognition [OF example_worker_boots _ u, of idle_env labelled_workload])
      (simp_all add: idle_manager_def idle_observed_def example_workload_manager_def unique_names_def labelled_message_def
        example_message_def message_with_def zero_message_def)
  with u show ?thesis by blast
qed

theorem undecodable_message_stops_worker_witness:
  "deliver (example_codec example_message) 0
     (server_send (\<lambda>c. (Some (Err ''syntax''), zero_message)) ''?'' (new_device_server idle_manager), (idle_files, idle_observed)) = Panic"
  using undecodable_message_stops_worker [OF example_worker_boots, of "new_device_server idle_manager" idle_env
      "\<lambda>c. (Some (Err ''syntax''), zero_message)" "''?''" "Err ''syntax''" "example_codec example_message" "''json''" "''json''"
      "(idle_files, idle_observed)"]
  by (simp add: new_device_server_def idle_manager_def example_message_def message_with_def)

end
