(* ===== verification/Graceful_Reboot.thy ===== *)
theory Graceful_Reboot
  imports Device_Life
begin

text \<open>
  The graceful reboot: \<open>gracefulRebootFlow\<close> of \<open>internal/os/os.go\<close> asks for it over an unbuffered channel and
  waits for the completion or for ten seconds; \<open>listenStartGracefulRebootChannel\<close> of
  \<open>cmd/device-worker/main.go\<close> stops the components and answers over a second one. The two goroutines and
  the running playbooks are a step relation in which a channel is a step of both sides, and in which a
  side that cannot take part in one waits.
\<close>

subsection \<open>Stopping the components\<close>

definition reboot_stops :: "'e manager_env \<Rightarrow> 'e tsdb_lib \<Rightarrow> (string \<times> 'e device proc) list" where
  "reboot_stops E L =
     [(''cannot graceful reboot the workloads'', at_device_world (stop_workloads E)),
      (''cannot graceful reboot dataMonitor'', monitor_deregister),
      (''cannot graceful reboot systemMetricsWatcher'', system_metrics_deregister),
      (''cannot graceful reboot metricsStore'', \<lambda>d. at_device_world (tsdb_deregister L (dv_tsdb d)) d),
      (''cannot graceful reboot the heartbeat service'', heartbeat_service_deregister)]"

text \<open>All of them without an error.\<close>

fun stop_all :: "(string \<times> 's proc) list \<Rightarrow> 's \<Rightarrow> 's option" where
  "stop_all [] d = Some d"
| "stop_all ((msg, p) # ps) d = (case p d of (None, d') \<Rightarrow> stop_all ps d' | (Some e, d') \<Rightarrow> None)"

lemma stop_all_append: "stop_all (ps @ qs) d = (case stop_all ps d of None \<Rightarrow> None | Some d' \<Rightarrow> stop_all qs d')"
  by (induction ps arbitrary: d) (auto split: prod.split option.split)

subsection \<open>The protocol\<close>

text \<open>
  The requester is the goroutine that runs the updates of the configuration, the listener the one started
  at the end of \<open>main\<close>. \<open>log.Fatalf\<close> in the listener ends the process.
\<close>

datatype requester = Idle | Requesting | Awaiting | Rebooting

datatype listener = NotStarted | Listening | Stopping nat | Draining | Completing

record 's reboot =
  rb_requester :: requester
  rb_listener :: listener
  rb_playbooks :: nat
  rb_device :: 's
  rb_requested :: 's        \<comment> \<open>the device when the request was received\<close>
  rb_timed_out :: bool
  rb_exited :: bool

definition new_reboot :: "'s \<Rightarrow> 's reboot" where
  "new_reboot d = \<lparr>rb_requester = Idle, rb_listener = NotStarted, rb_playbooks = 0, rb_device = d, rb_requested = d,
     rb_timed_out = False, rb_exited = False\<rparr>"

inductive reboot_step :: "(string \<times> 's proc) list \<Rightarrow> 's reboot \<Rightarrow> 's reboot \<Rightarrow> bool" for ps where
  upgrade: "\<not> rb_exited s \<Longrightarrow> rb_requester s = Idle \<Longrightarrow> reboot_step ps s (s\<lparr>rb_requester := Requesting\<rparr>)"
| serve: "\<not> rb_exited s \<Longrightarrow> rb_requester s = Idle \<Longrightarrow> rb_listener s = NotStarted \<Longrightarrow>
    reboot_step ps s (s\<lparr>rb_listener := Listening\<rparr>)"
| request: "\<not> rb_exited s \<Longrightarrow> rb_requester s = Requesting \<Longrightarrow> rb_listener s = Listening \<Longrightarrow>
    reboot_step ps s (s\<lparr>rb_requester := Awaiting, rb_listener := Stopping 0, rb_requested := rb_device s, rb_timed_out := False\<rparr>)"
| stop: "\<not> rb_exited s \<Longrightarrow> rb_listener s = Stopping i \<Longrightarrow> i < length ps \<Longrightarrow> snd (ps ! i) (rb_device s) = (None, d) \<Longrightarrow>
    reboot_step ps s (s\<lparr>rb_listener := Stopping (Suc i), rb_device := d\<rparr>)"
| fatal: "\<not> rb_exited s \<Longrightarrow> rb_listener s = Stopping i \<Longrightarrow> i < length ps \<Longrightarrow> snd (ps ! i) (rb_device s) = (Some e, d) \<Longrightarrow>
    reboot_step ps s (s\<lparr>rb_exited := True, rb_device := d\<rparr>)"
| stopped: "\<not> rb_exited s \<Longrightarrow> rb_listener s = Stopping (length ps) \<Longrightarrow> reboot_step ps s (s\<lparr>rb_listener := Draining\<rparr>)"
| drained: "\<not> rb_exited s \<Longrightarrow> rb_listener s = Draining \<Longrightarrow> rb_playbooks s = 0 \<Longrightarrow>
    reboot_step ps s (s\<lparr>rb_listener := Completing\<rparr>)"
| complete: "\<not> rb_exited s \<Longrightarrow> rb_requester s = Awaiting \<Longrightarrow> rb_listener s = Completing \<Longrightarrow>
    reboot_step ps s (s\<lparr>rb_requester := Rebooting, rb_listener := Listening\<rparr>)"
| timeout: "\<not> rb_exited s \<Longrightarrow> rb_requester s = Awaiting \<Longrightarrow>
    reboot_step ps s (s\<lparr>rb_requester := Rebooting, rb_timed_out := True\<rparr>)"
| reboot_called: "\<not> rb_exited s \<Longrightarrow> rb_requester s = Rebooting \<Longrightarrow> reboot_step ps s (s\<lparr>rb_requester := Idle\<rparr>)"
| playbook_starts: "\<not> rb_exited s \<Longrightarrow> reboot_step ps s (s\<lparr>rb_playbooks := Suc (rb_playbooks s)\<rparr>)"
| playbook_ends: "\<not> rb_exited s \<Longrightarrow> rb_playbooks s = Suc n \<Longrightarrow> reboot_step ps s (s\<lparr>rb_playbooks := n\<rparr>)"

text \<open>
  What has been stopped since the request. After a timeout a later request is never received, so the
  listener's work is always the one of the last request.
\<close>

definition reboot_inv :: "(string \<times> 's proc) list \<Rightarrow> 's reboot \<Rightarrow> bool" where
  "reboot_inv ps s \<longleftrightarrow> rb_exited s \<or>
     (case rb_listener s of
        NotStarted \<Rightarrow> rb_requester s \<in> {Idle, Requesting}
      | Listening \<Rightarrow> rb_requester s \<noteq> Awaiting \<and>
          (rb_requester s = Rebooting \<longrightarrow> stop_all ps (rb_requested s) = Some (rb_device s))
      | Stopping i \<Rightarrow> i \<le> length ps \<and> stop_all (take i ps) (rb_requested s) = Some (rb_device s)
      | Draining \<Rightarrow> stop_all ps (rb_requested s) = Some (rb_device s)
      | Completing \<Rightarrow> stop_all ps (rb_requested s) = Some (rb_device s)) \<and>
     (rb_requester s = Awaiting \<longrightarrow> \<not> rb_timed_out s) \<and>
     (rb_requester s = Rebooting \<longrightarrow> rb_timed_out s = (rb_listener s \<noteq> Listening))"

lemma reboot_step_inv: "reboot_step ps s s' \<Longrightarrow> reboot_inv ps s \<Longrightarrow> reboot_inv ps s'"
proof (induction rule: reboot_step.induct)
  case (stop s i d)
  obtain msg p where p: "ps ! i = (msg, p)" by (meson surj_pair)
  have "stop_all (take (Suc i) ps) (rb_requested s) = Some d"
    using stop p by (simp add: reboot_inv_def take_Suc_conv_app_nth stop_all_append)
  then show ?case using stop by (simp add: reboot_inv_def)
qed (auto simp: reboot_inv_def split: listener.splits)

lemma reboot_reach_inv: "reach (reboot_step ps) s0 s \<Longrightarrow> reboot_inv ps s0 \<Longrightarrow> reboot_inv ps s"
  by (erule reach_keeps, assumption) (rule reboot_step_inv)

lemma new_reboot_inv: "reboot_inv ps (new_reboot d)"
  by (simp add: reboot_inv_def new_reboot_def)

text \<open>The listener stops the components one after the other.\<close>

lemma listener_stops:
  "i \<le> length ps \<Longrightarrow> rb_listener s = Stopping i \<Longrightarrow> \<not> rb_exited s \<Longrightarrow> stop_all (drop i ps) (rb_device s) = Some d \<Longrightarrow>
   reach (reboot_step ps) s (s\<lparr>rb_listener := Stopping (length ps), rb_device := d\<rparr>)"
proof (induction "length ps - i" arbitrary: i s)
  case 0
  then have "i = length ps" "d = rb_device s" by simp_all
  then have "s\<lparr>rb_listener := Stopping (length ps), rb_device := d\<rparr> = s" using 0 by simp
  then show ?case using reach.here by simp
next
  case (Suc n)
  then have i: "i < length ps" by simp
  obtain msg p where p: "ps ! i = (msg, p)" by (meson surj_pair)
  obtain d1 where d1: "p (rb_device s) = (None, d1)" "stop_all (drop (Suc i) ps) d1 = Some d"
    using Suc.prems(4) i p by (simp add: Cons_nth_drop_Suc [symmetric] split: prod.split_asm option.split_asm)
  let ?s = "s\<lparr>rb_listener := Stopping (Suc i), rb_device := d1\<rparr>"
  have "reboot_step ps s ?s" using Suc.prems i p d1 by (intro reboot_step.stop) simp_all
  then have step: "reach (reboot_step ps) s ?s" by (rule reach_one)
  have "reach (reboot_step ps) ?s (?s\<lparr>rb_listener := Stopping (length ps), rb_device := d\<rparr>)"
    using Suc.hyps(2) Suc.prems i d1 by (intro Suc.hyps(1)) simp_all
  then show ?case using reach_trans [OF _ step] by simp
qed

subsection \<open>Properties\<close>

text \<open>When all components can be stopped, no playbook runs and the listener has time, a request leads to the
  reboot, with every component stopped.\<close>

lemma graceful_reboot_completes:
  assumes "rb_requester s = Requesting" and "rb_listener s = Listening" and "\<not> rb_exited s" and "rb_playbooks s = 0"
    and "stop_all ps (rb_device s) = Some d"
  obtains s' where "reach (reboot_step ps) s s'" "rb_requester s' = Rebooting" "\<not> rb_timed_out s'" "\<not> rb_exited s'"
    "rb_requested s' = rb_device s" "rb_device s' = d"
proof -
  let ?a = "s\<lparr>rb_requester := Awaiting, rb_listener := Stopping 0, rb_requested := rb_device s, rb_timed_out := False\<rparr>"
  let ?b = "?a\<lparr>rb_listener := Stopping (length ps), rb_device := d\<rparr>"
  let ?c = "?b\<lparr>rb_listener := Draining\<rparr>" and ?d = "?b\<lparr>rb_listener := Completing\<rparr>"
  let ?e = "?b\<lparr>rb_requester := Rebooting, rb_listener := Listening\<rparr>"
  have "reboot_step ps s ?a" using assms by (intro reboot_step.request) simp_all
  then have a: "reach (reboot_step ps) s ?a" by (rule reach_one)
  have "reach (reboot_step ps) ?a ?b" using assms listener_stops [of 0 ps ?a d] by simp
  then have b: "reach (reboot_step ps) s ?b" by (rule reach_trans [OF _ a])
  have "reboot_step ps ?b ?c" using reboot_step.stopped [of ?b ps] assms by simp
  then have c: "reach (reboot_step ps) s ?c" by (rule reach.further [OF b])
  have "reboot_step ps ?c ?d" using reboot_step.drained [of ?c ps] assms by simp
  then have d: "reach (reboot_step ps) s ?d" by (rule reach.further [OF c])
  have "reboot_step ps ?d ?e" using reboot_step.complete [of ?d ps] assms by simp
  then have "reach (reboot_step ps) s ?e" by (rule reach.further [OF d])
  then show thesis by (rule that) (use assms in simp_all)
qed

text \<open>C19. A reboot that has not run into the timeout is called when all components have been stopped without an error
  since the request: the workloads, the copying of data, the collection of the system's metrics and the
  heartbeat. The files of the metrics store have been deleted by then, also what was not sent yet.\<close>

theorem graceful_reboot_stops_components:
  assumes "reach (reboot_step (reboot_stops E L)) (new_reboot d0) s" and "\<not> rb_exited s" and "rb_requester s = Rebooting"
    and "\<not> rb_timed_out s" and "one_ticker (hb_periodic (dv_heartbeat (rb_requested s)))"
  shows "stop_all (reboot_stops E L) (rb_requested s) = Some (rb_device s) \<and> \<not> dv_monitoring (rb_device s) \<and>
    tk_running (hb_periodic (dv_heartbeat (rb_device s))) = [] \<and>
    find_target (dv_daemon (rb_device s)) system_target_name = None \<and>
    (\<exists>w. stop_workloads E (dv_world (rb_requested s)) = (None, w)) \<and>
    (\<forall>p. below (td_dir (dv_tsdb (rb_requested s))) p \<longrightarrow>
       read_file p (w_fs (dv_world (rb_device s))) = Inl err_not_exist)"
proof -
  let ?d = "rb_requested s" and ?d' = "rb_device s"
  have "reboot_inv (reboot_stops E L) s" using reboot_reach_inv [OF assms(1) new_reboot_inv] .
  then have stopped: "stop_all (reboot_stops E L) ?d = Some ?d'"
    using assms(2-4) by (auto simp: reboot_inv_def)
  obtain r w where wl: "stop_workloads E (dv_world ?d) = (r, w)" by (meson surj_pair)
  then have r: "r = None" using stopped by (cases r) (auto simp: reboot_stops_def at_device_world_def)
  obtain r2 w2 where ts: "tsdb_deregister L (dv_tsdb ?d) w = (r2, w2)" by (meson surj_pair)
  have r2: "r2 = None"
    using stopped wl r ts
    by (cases r2) (auto simp: reboot_stops_def at_device_world_def monitor_deregister_def system_metrics_deregister_def)
  have d': "?d' = ?d\<lparr>dv_monitoring := False, dv_daemon := system_deregister (dv_daemon ?d), dv_world := w2,
      dv_heartbeat := heartbeat_deregister (dv_heartbeat ?d)\<rparr>"
    using stopped wl r ts r2
    by (auto dest: sym simp: reboot_stops_def at_device_world_def monitor_deregister_def system_metrics_deregister_def
        heartbeat_service_deregister_def)
  have "tk_running (hb_periodic (heartbeat_deregister (dv_heartbeat ?d))) = []"
    using one_ticker_stop [OF assms(5)] by (simp add: heartbeat_deregister_def)
  moreover have "find_target (system_deregister (dv_daemon ?d)) system_target_name = None"
    by (simp add: find_delete system_deregister_def system_target_name_def)
  moreover have "\<forall>p. below (td_dir (dv_tsdb ?d)) p \<longrightarrow> read_file p (w_fs w2) = Inl err_not_exist"
    using tsdb_deregister_removes [OF ts [unfolded r2]] by blast
  ultimately show ?thesis using stopped wl r by (simp add: d')
qed

text \<open>C40. After a timeout the handshake is lost: the listener waits to deliver a completion that nobody receives, so
  no later request is ever received, and an update that asks for another reboot waits for ever, and
  with it every later configuration.\<close>

theorem timed_out_reboot_blocks_the_next:
  assumes "reach (reboot_step ps) (new_reboot d0) s" and "rb_requester s = Rebooting" and "rb_timed_out s" and "\<not> rb_exited s"
    and "reach (reboot_step ps) s s'"
  shows "rb_requester s' \<noteq> Awaiting \<and> rb_listener s' \<noteq> Listening \<and>
    (rb_requester s' = Requesting \<longrightarrow> (\<forall>s''. reach (reboot_step ps) s' s'' \<longrightarrow> rb_requester s'' = Requesting))"
proof -
  let ?lost = "\<lambda>s. rb_requester s \<noteq> Awaiting \<and> rb_listener s \<noteq> Listening \<and> rb_listener s \<noteq> NotStarted"
  have keeps: "?lost u" if "reboot_step ps t u" "?lost t" for t u
    using that by (induction rule: reboot_step.induct) auto
  have "reboot_inv ps s" using reboot_reach_inv [OF assms(1) new_reboot_inv] .
  then have "?lost s" using assms(2-4) by (auto simp: reboot_inv_def)
  then have lost: "?lost s'" using keeps by (rule reach_keeps [OF assms(5)])
  have "rb_requester u = Requesting \<and> ?lost u" if "reboot_step ps t u" "rb_requester t = Requesting \<and> ?lost t" for t u
    using that by (induction rule: reboot_step.induct) auto
  then have "\<forall>s''. reach (reboot_step ps) s' s'' \<longrightarrow> rb_requester s' = Requesting \<longrightarrow> rb_requester s'' = Requesting"
    using reach_keeps [of "reboot_step ps" s' _ "\<lambda>s. rb_requester s = Requesting \<and> ?lost s"] lost by blast
  then show ?thesis using lost by blast
qed

text \<open>The stored configuration is applied to the operating system before the listener exists: when it asks for an
  upgrade then, \<open>main\<close> waits for ever for a listener that it would start itself, and never serves.\<close>

theorem upgrade_at_start_never_serves:
  assumes "rb_requester s = Requesting" and "rb_listener s = NotStarted" and "reach (reboot_step ps) s s'"
  shows "rb_requester s' = Requesting \<and> rb_listener s' = NotStarted"
proof -
  have "rb_requester u = Requesting \<and> rb_listener u = NotStarted"
    if "reboot_step ps t u" "rb_requester t = Requesting \<and> rb_listener t = NotStarted" for t u
    using that by (induction rule: reboot_step.induct) auto
  then show ?thesis
    using reach_keeps [OF assms(3), of "\<lambda>s. rb_requester s = Requesting \<and> rb_listener s = NotStarted"] assms(1,2) by blast
qed

subsection \<open>Examples\<close>

abbreviation example_stops :: "(string \<times> (string \<times> mount) list device proc) list" where
  "example_stops \<equiv> reboot_stops (he_manager (example_heartbeat_env (Inr None))) example_tsdb_lib"

abbreviation example_idle :: "(string \<times> mount) list device reboot" where
  "example_idle \<equiv> new_reboot (example_running_device None)"

lemma example_stops_all: "\<exists>d. stop_all example_stops (example_running_device None) = Some d"
  by (simp add: reboot_stops_def at_device_world_def monitor_deregister_def system_metrics_deregister_def
      heartbeat_service_deregister_def stop_workloads_def stop_all_workloads_def for_all_workloads_def tsdb_deregister_def
      tsdb_close_def on_ext_def on_fs_def then_ok_def remove_all_def append_error_def example_heartbeat_env_def example_tsdb_lib_def
      example_running_device_def example_device_def fs_with_dirs_def merr_result_def)

lemma example_requesting:
  "\<exists>s. reach (reboot_step example_stops) example_idle s \<and> rb_requester s = Requesting \<and> rb_listener s = Listening \<and>
     \<not> rb_exited s \<and> rb_playbooks s = 0 \<and> rb_device s = example_running_device None"
proof -
  let ?a = "example_idle\<lparr>rb_listener := Listening\<rparr>"
  have "reboot_step example_stops example_idle ?a" by (rule reboot_step.serve) (simp_all add: new_reboot_def)
  then have a: "reach (reboot_step example_stops) example_idle ?a" by (rule reach_one)
  have "reboot_step example_stops ?a (?a\<lparr>rb_requester := Requesting\<rparr>)" by (rule reboot_step.upgrade) (simp_all add: new_reboot_def)
  then have "reach (reboot_step example_stops) example_idle (?a\<lparr>rb_requester := Requesting\<rparr>)" by (rule reach.further [OF a])
  then show ?thesis by (intro exI [of _ "?a\<lparr>rb_requester := Requesting\<rparr>"] conjI) (simp_all add: new_reboot_def)
qed

theorem graceful_reboot_stops_components_witness:
  "\<exists>s. reach (reboot_step example_stops) example_idle s \<and> rb_requester s = Rebooting \<and> \<not> rb_timed_out s \<and>
     \<not> dv_monitoring (rb_device s) \<and> tk_running (hb_periodic (dv_heartbeat (rb_device s))) = []"
proof -
  obtain s where s: "reach (reboot_step example_stops) example_idle s" "rb_requester s = Requesting" "rb_listener s = Listening"
    "\<not> rb_exited s" "rb_playbooks s = 0" "rb_device s = example_running_device None" using example_requesting by blast
  obtain d where "stop_all example_stops (rb_device s) = Some d" using example_stops_all s(6) by metis
  then obtain s' where s': "reach (reboot_step example_stops) s s'" "rb_requester s' = Rebooting" "\<not> rb_timed_out s'" "\<not> rb_exited s'"
      "rb_requested s' = rb_device s"
    using graceful_reboot_completes [OF s(2-5)] by metis
  have reach: "reach (reboot_step example_stops) example_idle s'" using reach_trans [OF s'(1) s(1)] .
  have "one_ticker (hb_periodic (dv_heartbeat (rb_requested s')))"
    using s(6) s'(5) by (simp add: example_running_device_def new_heartbeat_service_def one_ticker_new)
  note stopped = graceful_reboot_stops_components [OF reach s'(4,2,3) this, THEN conjunct2]
  show ?thesis
    by (intro exI [of _ s'] conjI reach s'(2,3) stopped [THEN conjunct1] stopped [THEN conjunct2, THEN conjunct1])
qed

theorem timed_out_reboot_blocks_the_next_witness:
  "\<exists>s s'. reach (reboot_step example_stops) example_idle s \<and> rb_requester s = Rebooting \<and> rb_timed_out s \<and>
     reach (reboot_step example_stops) s s' \<and> rb_requester s' = Requesting \<and>
     (\<forall>s''. reach (reboot_step example_stops) s' s'' \<longrightarrow> rb_requester s'' = Requesting)"
proof -
  obtain s where s: "reach (reboot_step example_stops) example_idle s" "rb_requester s = Requesting" "rb_listener s = Listening"
    "\<not> rb_exited s" using example_requesting by blast
  let ?a = "s\<lparr>rb_requester := Awaiting, rb_listener := Stopping 0, rb_requested := rb_device s, rb_timed_out := False\<rparr>"
  let ?t = "?a\<lparr>rb_requester := Rebooting, rb_timed_out := True\<rparr>" and ?i = "?a\<lparr>rb_requester := Idle, rb_timed_out := True\<rparr>"
  have "reboot_step example_stops s ?a" by (rule reboot_step.request [OF s(4,2,3)])
  then have a: "reach (reboot_step example_stops) example_idle ?a" by (rule reach.further [OF s(1)])
  have "reboot_step example_stops ?a ?t" using reboot_step.timeout [of ?a] s(4) by simp
  then have t: "reach (reboot_step example_stops) example_idle ?t" by (rule reach.further [OF a])
  have "reboot_step example_stops ?t (?t\<lparr>rb_requester := Idle\<rparr>)" using s(4) by (intro reboot_step.reboot_called) simp_all
  then have i: "reach (reboot_step example_stops) ?t (?t\<lparr>rb_requester := Idle\<rparr>)" by (rule reach_one)
  have "reboot_step example_stops (?t\<lparr>rb_requester := Idle\<rparr>) (?t\<lparr>rb_requester := Idle, rb_requester := Requesting\<rparr>)"
    using reboot_step.upgrade [of "?t\<lparr>rb_requester := Idle\<rparr>" example_stops] s(4) by simp
  then have u: "reach (reboot_step example_stops) ?t (?t\<lparr>rb_requester := Idle, rb_requester := Requesting\<rparr>)"
    by (rule reach.further [OF i])
  have t_state: "rb_requester ?t = Rebooting" "rb_timed_out ?t" "\<not> rb_exited ?t" using s(4) by simp_all
  have u_state: "rb_requester (?t\<lparr>rb_requester := Idle, rb_requester := Requesting\<rparr>) = Requesting" by simp
  show ?thesis
    by (intro exI [of _ ?t] exI [of _ "?t\<lparr>rb_requester := Idle, rb_requester := Requesting\<rparr>"] conjI t t_state u u_state
        timed_out_reboot_blocks_the_next [OF t t_state u, THEN conjunct2, THEN conjunct2, THEN mp, OF u_state])
qed

theorem upgrade_at_start_never_serves_witness:
  "\<exists>s. reach (reboot_step example_stops) example_idle s \<and> rb_requester s = Requesting \<and> rb_listener s = NotStarted \<and>
     (\<forall>s'. reach (reboot_step example_stops) s s' \<longrightarrow> rb_requester s' = Requesting \<and> rb_listener s' = NotStarted)"
proof -
  let ?s = "example_idle\<lparr>rb_requester := Requesting\<rparr>"
  have "reboot_step example_stops example_idle ?s" by (rule reboot_step.upgrade) (simp_all add: new_reboot_def)
  then have reach: "reach (reboot_step example_stops) example_idle ?s" by (rule reach_one)
  have state: "rb_requester ?s = Requesting" "rb_listener ?s = NotStarted" by (simp_all add: new_reboot_def)
  then show ?thesis using upgrade_at_start_never_serves [OF state] reach by blast
qed

end
